(* ===== verification/Prelude.thy ===== *)
theory Prelude
  imports Main
begin

text \<open>
  Shared vocabulary of the development: the Go values the components use (byte strings,
  instants, durations, errors as values), the string functions of the Go standard library
  the sources call, and the generic list and option lemmas the component proofs rest on.

  A Go string is a sequence of bytes, which is what the HOL type \<open>string\<close> is. An instant is
  the number of nanoseconds since Go's zero time, so that \<open>time.Time.IsZero\<close> is equality
  with \<open>0\<close>; a \<open>time.Duration\<close> is a number of nanoseconds. A Go map that is \<open>nil\<close> reads like
  an empty one, and both are the empty HOL map.
\<close>

named_theorems go_strings \<open>unfolding rules of the Go string functions\<close>

type_synonym time = int
type_synonym duration = int
type_synonym 'a ptr = "'a option"
type_synonym strmap = "string \<rightharpoonup> string"

section \<open>Errors\<close>

text \<open>
  The error values the components tell apart: the status errors of the Kubernetes API with
  their message, an error made from a text, and an error wrapped by \<open>fmt.Errorf\<close> with
  \<open>%w\<close>. \<open>errors.IsNotFound\<close> and its siblings look through the wrapping.
\<close>

datatype goerr =
    ENotFound string
  | EConflict string
  | EForbidden string
  | EMsg string
  | EWrap string goerr

primrec err_text :: "goerr \<Rightarrow> string" where
  "err_text (ENotFound m) = m"
| "err_text (EConflict m) = m"
| "err_text (EForbidden m) = m"
| "err_text (EMsg m) = m"
| "err_text (EWrap p e) = p @ '': '' @ err_text e"

primrec isNotFound :: "goerr \<Rightarrow> bool" where
  "isNotFound (ENotFound m) = True"
| "isNotFound (EConflict m) = False"
| "isNotFound (EForbidden m) = False"
| "isNotFound (EMsg m) = False"
| "isNotFound (EWrap p e) = isNotFound e"

primrec isForbidden :: "goerr \<Rightarrow> bool" where
  "isForbidden (ENotFound m) = False"
| "isForbidden (EConflict m) = False"
| "isForbidden (EForbidden m) = True"
| "isForbidden (EMsg m) = False"
| "isForbidden (EWrap p e) = isForbidden e"

lemma isNotFound_not_isForbidden: "isNotFound e \<Longrightarrow> \<not> isForbidden e"
  by (induction e) auto

type_synonym 'a result = "goerr + 'a"

section \<open>Maps\<close>

text \<open>Reading a Go map at a key that is absent gives the zero value, for strings the empty one.\<close>

definition mget :: "strmap \<Rightarrow> string \<Rightarrow> string" where
  "mget m k = (case m k of None \<Rightarrow> [] | Some v \<Rightarrow> v)"

lemma mget_empty [simp]: "mget Map.empty k = []"
  by (simp add: mget_def)

lemma mget_upd [simp]: "mget (m(k \<mapsto> v)) k' = (if k' = k then v else mget m k')"
  by (simp add: mget_def)

lemma mget_del [simp]: "mget (m(k := None)) k' = (if k' = k then [] else mget m k')"
  by (simp add: mget_def)

lemma mget_nonempty_dom: "mget m k \<noteq> [] \<Longrightarrow> \<exists>v. m k = Some v \<and> v \<noteq> []"
  by (auto simp: mget_def split: option.splits)

section \<open>Strings\<close>

definition hasPrefix :: "string \<Rightarrow> string \<Rightarrow> bool" where
  "hasPrefix s p \<longleftrightarrow> take (length p) s = p"

definition hasSuffix :: "string \<Rightarrow> string \<Rightarrow> bool" where
  "hasSuffix s p \<longleftrightarrow> length p \<le> length s \<and> drop (length s - length p) s = p"

definition trimPrefix :: "string \<Rightarrow> string \<Rightarrow> string" where
  "trimPrefix s p = (if hasPrefix s p then drop (length p) s else s)"

definition trimSuffix :: "string \<Rightarrow> string \<Rightarrow> string" where
  "trimSuffix s p = (if hasSuffix s p then take (length s - length p) s else s)"

text \<open>\<open>strings.TrimSpace\<close> on the ASCII white space characters.\<close>

definition isSpace :: "char \<Rightarrow> bool" where
  "isSpace c \<longleftrightarrow> c \<in> {CHR '' '', CHR 0x09, CHR 0x0A, CHR 0x0B, CHR 0x0C, CHR 0x0D}"

definition trimSpace :: "string \<Rightarrow> string" where
  "trimSpace s = rev (dropWhile isSpace (rev (dropWhile isSpace s)))"

fun joinStrings :: "string list \<Rightarrow> string \<Rightarrow> string" where
  "joinStrings [] sep = []"
| "joinStrings [x] sep = x"
| "joinStrings (x # y # xs) sep = x @ sep @ joinStrings (y # xs) sep"

definition quoteString :: "string \<Rightarrow> string" where
  \<comment> \<open>the verb \<open>%q\<close> on text with nothing to escape, such as Kubernetes object names\<close>
  "quoteString s = CHR 0x22 # s @ [CHR 0x22]"

fun natString :: "nat \<Rightarrow> string" where
  "natString n =
     (if n < 10 then [char_of (48 + n)]
      else natString (n div 10) @ [char_of (48 + n mod 10)])"

declare natString.simps [simp del]

text \<open>\<open>hex.EncodeToString\<close> and the verb \<open>%08x\<close>.\<close>

definition hexDigit :: "nat \<Rightarrow> char" where
  "hexDigit n = char_of (if n < 10 then 48 + n else 87 + n)"

definition hexEncode :: "string \<Rightarrow> string" where
  "hexEncode bs =
     concat (map (\<lambda>c. [hexDigit (of_char c div 16), hexDigit (of_char c mod 16)]) bs)"

fun hexPad :: "nat \<Rightarrow> nat \<Rightarrow> string" where
  "hexPad 0 n = []"
| "hexPad (Suc w) n = hexPad w (n div 16) @ [hexDigit (n mod 16)]"

text \<open>The lines of a text, line ends removed.\<close>

function scanLines :: "string \<Rightarrow> string list" where
  "scanLines data =
     (if data = [] then []
      else takeWhile (\<lambda>c. c \<noteq> CHR 0x0A) data
             # scanLines (drop 1 (dropWhile (\<lambda>c. c \<noteq> CHR 0x0A) data)))"
  by pat_completeness auto
termination
proof (relation "measure length")
  fix data :: string
  assume "data \<noteq> []"
  then have "0 < length data" by simp
  moreover have "length (dropWhile (\<lambda>c. c \<noteq> CHR 0x0A) data) \<le> length data"
    by (rule length_dropWhile_le)
  ultimately have "length (dropWhile (\<lambda>c. c \<noteq> CHR 0x0A) data) - 1 < length data" by linarith
  then show "(drop 1 (dropWhile (\<lambda>c. c \<noteq> CHR 0x0A) data), data) \<in> measure length"
    by (simp only: in_measure length_drop)
qed simp

declare scanLines.simps [simp del]

text \<open>\<open>strings.Fields\<close>: the maximal runs of characters that are not white space.\<close>

function stringFields :: "string \<Rightarrow> string list" where
  "stringFields s =
     (let t = dropWhile isSpace s in
      if t = [] then []
      else takeWhile (\<lambda>c. \<not> isSpace c) t # stringFields (dropWhile (\<lambda>c. \<not> isSpace c) t))"
  by pat_completeness auto
termination
proof (relation "measure length")
  fix s x :: string
  assume x: "x = dropWhile isSpace s" "x \<noteq> []"
  have "\<not> isSpace (hd x)" using x hd_dropWhile by metis
  then have "dropWhile (\<lambda>c. \<not> isSpace c) x = dropWhile (\<lambda>c. \<not> isSpace c) (tl x)"
    using x(2) by (cases x) auto
  also have "length \<dots> \<le> length (tl x)" by (rule length_dropWhile_le)
  also have "length (tl x) < length x" using x(2) by (cases x) auto
  also have "length x \<le> length s" unfolding x by (rule length_dropWhile_le)
  finally show "(dropWhile (\<lambda>c. \<not> isSpace c) x, s) \<in> measure length" by simp
qed simp

declare stringFields.simps [simp del]

definition toLowerChar :: "char \<Rightarrow> char" where
  "toLowerChar c = (if 65 \<le> (of_char c :: nat) \<and> (of_char c :: nat) \<le> 90 then char_of ((of_char c :: nat) + 32) else c)"

definition toLower :: "string \<Rightarrow> string" where
  "toLower s = map toLowerChar s"

text \<open>\<open>strings.Split\<close> at a character, \<open>strings.Trim\<close> and \<open>strings.TrimRight\<close> of a character.\<close>

fun splitOn :: "char \<Rightarrow> string \<Rightarrow> string list" where
  "splitOn d [] = [[]]"
| "splitOn d (c # s) =
     (if c = d then [] # splitOn d s
      else case splitOn d s of part # parts \<Rightarrow> (c # part) # parts | [] \<Rightarrow> [[c]])"

definition trimRight :: "char \<Rightarrow> string \<Rightarrow> string" where
  "trimRight d s = rev (dropWhile (\<lambda>c. c = d) (rev s))"

definition trimChar :: "char \<Rightarrow> string \<Rightarrow> string" where
  "trimChar d s = trimRight d (dropWhile (\<lambda>c. c = d) s)"

definition isDigit :: "char \<Rightarrow> bool" where
  "isDigit c \<longleftrightarrow> 48 \<le> (of_char c :: nat) \<and> (of_char c :: nat) \<le> 57"

lemma splitOn_plain: "d \<notin> set s \<Longrightarrow> splitOn d s = [s]"
  by (induction s) auto

lemma splitOn_append: "d \<notin> set s \<Longrightarrow> splitOn d (s @ d # t) = s # splitOn d t"
  by (induction s) auto

lemma natString_nonempty: "natString n \<noteq> []"
  by (subst natString.simps) simp

lemma hasSuffix_append [simp]: "hasSuffix (s @ p) p"
  by (simp add: hasSuffix_def)

lemma hasSuffix_iff: "hasSuffix s p \<longleftrightarrow> (\<exists>t. s = t @ p)"
proof
  assume "hasSuffix s p"
  then have "s = take (length s - length p) s @ p"
    unfolding hasSuffix_def by (metis append_take_drop_id)
  then show "\<exists>t. s = t @ p" ..
qed auto

lemma trimSuffix_append [simp]: "trimSuffix (s @ p) p = s"
  by (simp add: trimSuffix_def)

lemma trimSuffix_other: "\<not> hasSuffix s p \<Longrightarrow> trimSuffix s p = s"
  by (simp add: trimSuffix_def)

lemma hasPrefix_iff: "hasPrefix s p \<longleftrightarrow> (\<exists>t. s = p @ t)"
proof
  assume "hasPrefix s p"
  then have "s = p @ drop (length p) s"
    unfolding hasPrefix_def by (metis append_take_drop_id)
  then show "\<exists>t. s = p @ t" ..
qed (auto simp: hasPrefix_def)

lemma trimPrefix_append [simp]: "trimPrefix (p @ s) p = s"
  by (simp add: trimPrefix_def hasPrefix_def)

lemma trimSpace_id:
  assumes "s = [] \<or> (\<not> isSpace (hd s) \<and> \<not> isSpace (last s))"
  shows "trimSpace s = s"
proof (cases s)
  case (Cons c cs)
  with assms have c: "\<not> isSpace c" and l: "\<not> isSpace (last s)" by auto
  from c Cons have "dropWhile isSpace s = s" by simp
  moreover from l Cons have "dropWhile isSpace (rev s) = rev s"
    by (cases "rev s") (auto simp: hd_rev [symmetric])
  ultimately show ?thesis by (simp add: trimSpace_def)
qed (simp add: trimSpace_def)

lemma dropWhile_head: "dropWhile P xs = [] \<or> \<not> P (hd (dropWhile P xs))"
  by (metis hd_dropWhile)

lemma trimSpace_ends:
  "trimSpace s = [] \<or> (\<not> isSpace (hd (trimSpace s)) \<and> \<not> isSpace (last (trimSpace s)))"
proof (cases "trimSpace s = []")
  case False
  let ?t = "dropWhile isSpace s" and ?u = "dropWhile isSpace (rev (dropWhile isSpace s))"
  have ne: "?u \<noteq> []" using False by (simp add: trimSpace_def)
  then have last: "\<not> isSpace (last (trimSpace s))"
    using dropWhile_head [of isSpace "rev ?t"] by (auto simp: trimSpace_def last_rev)
  obtain v where v: "rev ?t = v @ ?u"
    by (metis takeWhile_dropWhile_id)
  then have "?t = rev ?u @ rev v" by (metis rev_append rev_rev_ident)
  then have "hd ?t = hd (rev ?u)" and "?t \<noteq> []"
    using ne by (metis hd_append2 rev_is_Nil_conv, metis append_is_Nil_conv rev_is_Nil_conv)
  moreover have "\<not> isSpace (hd ?t)"
    using dropWhile_head [of isSpace s] \<open>?t \<noteq> []\<close> by blast
  ultimately show ?thesis using last by (simp add: trimSpace_def)
qed simp

lemma trimSpace_idem [simp]: "trimSpace (trimSpace s) = trimSpace s"
  by (rule trimSpace_id [OF trimSpace_ends])

section \<open>Lists\<close>

lemma find_Some_split:
  assumes "List.find P xs = Some x"
  shows "\<exists>ys zs. xs = ys @ x # zs \<and> (\<forall>y \<in> set ys. \<not> P y) \<and> P x"
  using assms
proof (induction xs)
  case (Cons a xs)
  show ?case
  proof (cases "P a")
    case True
    with Cons.prems show ?thesis by fastforce
  next
    case False
    with Cons obtain ys zs where "xs = ys @ x # zs" "\<forall>y \<in> set ys. \<not> P y" "P x" by auto
    with False have "a # xs = (a # ys) @ x # zs" "\<forall>y \<in> set (a # ys). \<not> P y" by auto
    with \<open>P x\<close> show ?thesis by blast
  qed
qed simp

end
