(* ===== verification/API_Types.thy ===== *)
theory API_Types
  imports Prelude
begin

text \<open>
  The custom resources of the repository (\<open>src/types/magosproject/v1alpha1\<close>) and the parts
  of the Kubernetes objects the controllers read and write (object metadata, Jobs, claims,
  Secrets, ConfigMaps, Pods).

  A pointer field is an \<open>option\<close>; a string enumeration is a datatype with one more
  constructor for the empty string; a map that is nil is the empty map. The fields of the
  Kubernetes types are those the sources use.
\<close>

section \<open>Metadata and conditions\<close>

record nsname =
  nn_namespace :: string
  nn_name :: string

record object_meta =
  om_name :: string
  om_namespace :: string
  om_uid :: string
  om_resourceVersion :: string
  om_generation :: int
  om_deletionTimestamp :: "time ptr"
  om_finalizers :: "string list"
  om_labels :: strmap
  om_annotations :: strmap
  om_ownerUIDs :: "string list"

definition meta_key :: "object_meta \<Rightarrow> nsname" where
  "meta_key m = \<lparr>nn_namespace = om_namespace m, nn_name = om_name m\<rparr>"

definition timeIsZero :: "time ptr \<Rightarrow> bool" where
  "timeIsZero t = (case t of None \<Rightarrow> True | Some i \<Rightarrow> i = 0)"

datatype cond_status = ConditionTrue | ConditionFalse | ConditionUnknown

record condition =
  co_type :: string
  co_status :: cond_status
  co_reason :: string
  co_message :: string
  co_lastTransitionTime :: time

definition ConditionTypeReady :: string where
  "ConditionTypeReady = ''Ready''"

section \<open>Phases and triggers\<close>

datatype phase =
    PhaseEmpty
  | PhasePending
  | PhaseReconciling
  | PhaseReady
  | PhaseIdle
  | PhasePlanning
  | PhasePlanned
  | PhaseApplying
  | PhaseApplied
  | PhaseFailed
  | PhaseValidationFailed
  | PhaseRejected
  | PhaseDeleting

fun phaseString :: "phase \<Rightarrow> string" where
  "phaseString PhaseEmpty = ''''"
| "phaseString PhasePending = ''Pending''"
| "phaseString PhaseReconciling = ''Reconciling''"
| "phaseString PhaseReady = ''Ready''"
| "phaseString PhaseIdle = ''Idle''"
| "phaseString PhasePlanning = ''Planning''"
| "phaseString PhasePlanned = ''Planned''"
| "phaseString PhaseApplying = ''Applying''"
| "phaseString PhaseApplied = ''Applied''"
| "phaseString PhaseFailed = ''Failed''"
| "phaseString PhaseValidationFailed = ''ValidationFailed''"
| "phaseString PhaseRejected = ''Rejected''"
| "phaseString PhaseDeleting = ''Deleting''"

datatype run_trigger =
    RunTriggerNone
  | RunTriggerUnknown
  | RunTriggerConfig
  | RunTriggerManual
  | RunTriggerScheduled
  | RunTriggerRevision
  | RunTriggerRetry

fun triggerString :: "run_trigger \<Rightarrow> string" where
  "triggerString RunTriggerNone = ''''"
| "triggerString RunTriggerUnknown = ''unknown''"
| "triggerString RunTriggerConfig = ''configuration''"
| "triggerString RunTriggerManual = ''manual''"
| "triggerString RunTriggerScheduled = ''scheduled''"
| "triggerString RunTriggerRevision = ''revision''"
| "triggerString RunTriggerRetry = ''retry''"

datatype run_phase = RunPhasePlan | RunPhaseApply | RunPhaseOther string

fun runPhaseString :: "run_phase \<Rightarrow> string" where
  "runPhaseString RunPhasePlan = ''plan''"
| "runPhaseString RunPhaseApply = ''apply''"
| "runPhaseString (RunPhaseOther s) = s"

datatype run_result = RunLogResultNone | RunLogResultSucceeded | RunLogResultFailed

section \<open>Annotation keys and values\<close>

definition AnnotationValueTrue :: string where
  "AnnotationValueTrue = ''true''"

definition FinalizerName :: string where
  \<comment> \<open>the same text for Workspace, Project and VariableSet\<close>
  "FinalizerName = ''magosproject.io/finalizer''"

definition ApprovalDecisionAnnotation :: string where
  "ApprovalDecisionAnnotation = ''magosproject.io/approval-decision''"

definition ApprovalDecisionApproved :: string where
  "ApprovalDecisionApproved = ''approved''"

definition ApprovalDecisionRejected :: string where
  "ApprovalDecisionRejected = ''rejected''"

definition ExecutionAllowedAnnotation :: string where
  "ExecutionAllowedAnnotation = ''magosproject.io/execution-allowed''"

definition ReconcileRequestAnnotation :: string where
  "ReconcileRequestAnnotation = ''magosproject.io/reconcile-request''"

definition ReconcileIntervalAnnotation :: string where
  "ReconcileIntervalAnnotation = ''magosproject.io/reconcile-interval''"

definition DetectedRevisionAnnotation :: string where
  "DetectedRevisionAnnotation = ''magosproject.io/detected-revision''"

definition GitPollIntervalAnnotation :: string where
  "GitPollIntervalAnnotation = ''magosproject.io/git-poll-interval''"

definition TFLogLevelAnnotation :: string where
  "TFLogLevelAnnotation = ''magosproject.io/tf-log-level''"

lemmas annotation_keys =
  ApprovalDecisionAnnotation_def ExecutionAllowedAnnotation_def ReconcileRequestAnnotation_def
  ReconcileIntervalAnnotation_def DetectedRevisionAnnotation_def GitPollIntervalAnnotation_def
  TFLogLevelAnnotation_def

lemma annotation_keys_distinct [simp]:
  "ApprovalDecisionAnnotation \<noteq> ExecutionAllowedAnnotation"
  "ExecutionAllowedAnnotation \<noteq> ApprovalDecisionAnnotation"
  "ApprovalDecisionAnnotation \<noteq> ReconcileRequestAnnotation"
  "ReconcileRequestAnnotation \<noteq> ApprovalDecisionAnnotation"
  "ApprovalDecisionAnnotation \<noteq> DetectedRevisionAnnotation"
  "DetectedRevisionAnnotation \<noteq> ApprovalDecisionAnnotation"
  "ExecutionAllowedAnnotation \<noteq> ReconcileRequestAnnotation"
  "ReconcileRequestAnnotation \<noteq> ExecutionAllowedAnnotation"
  "ExecutionAllowedAnnotation \<noteq> DetectedRevisionAnnotation"
  "DetectedRevisionAnnotation \<noteq> ExecutionAllowedAnnotation"
  "ReconcileRequestAnnotation \<noteq> DetectedRevisionAnnotation"
  "DetectedRevisionAnnotation \<noteq> ReconcileRequestAnnotation"
  by (simp_all add: annotation_keys)

lemma approval_decisions_distinct [simp]:
  "ApprovalDecisionApproved \<noteq> ApprovalDecisionRejected"
  "ApprovalDecisionRejected \<noteq> ApprovalDecisionApproved"
  "ApprovalDecisionApproved \<noteq> []" "ApprovalDecisionRejected \<noteq> []" "AnnotationValueTrue \<noteq> []"
  "[] \<noteq> ApprovalDecisionApproved" "[] \<noteq> ApprovalDecisionRejected" "[] \<noteq> AnnotationValueTrue"
  by (simp_all add: ApprovalDecisionApproved_def ApprovalDecisionRejected_def
      AnnotationValueTrue_def)

section \<open>Workspaces\<close>

record label_selector =
  ls_matchLabels :: "(string \<times> string) list"
  ls_matchExpressions :: "(string \<times> string \<times> string list) list"

record validation_spec =
  vl_policySelector :: "label_selector ptr"

record source_spec =
  ss_repoURL :: string
  ss_targetRevision :: string
  ss_path :: string

record terraform_spec =
  tf_version :: string
  tf_tfvarsPath :: string

record job_overrides =
  jo_annotations :: strmap
  jo_timeoutSeconds :: "int ptr"

record workspace_spec =
  wsp_projectRef :: string
  wsp_autoApply :: bool
  wsp_annotations :: strmap
  wsp_plan :: "job_overrides ptr"
  wsp_apply :: "job_overrides ptr"
  wsp_source :: source_spec
  wsp_terraform :: terraform_spec
  wsp_validation :: "validation_spec ptr"
  wsp_variableSetRef :: "string list"
  wsp_serviceAccountName :: string
  wsp_pvcSize :: string

record policy_violation =
  pv_policy :: string
  pv_message :: string

record workspace_status =
  wst_phase :: phase
  wst_reason :: string
  wst_message :: string
  wst_observedRevision :: string
  wst_lastReconcileTime :: "time ptr"
  wst_nextReconcileTime :: "time ptr"
  wst_observedReconcileInterval :: string
  wst_policyViolations :: "policy_violation list"
  wst_currentRunID :: string
  wst_currentRunTrigger :: run_trigger
  wst_lastRunStartedAt :: "time ptr"
  wst_variablesHash :: string
  wst_conditions :: "condition list"

record workspace =
  ws_meta :: object_meta
  ws_spec :: workspace_spec
  ws_status :: workspace_status

abbreviation ws_name :: "workspace \<Rightarrow> string" where
  "ws_name ws \<equiv> om_name (ws_meta ws)"

abbreviation ws_namespace :: "workspace \<Rightarrow> string" where
  "ws_namespace ws \<equiv> om_namespace (ws_meta ws)"

abbreviation ws_key :: "workspace \<Rightarrow> nsname" where
  "ws_key ws \<equiv> meta_key (ws_meta ws)"

abbreviation ws_phase :: "workspace \<Rightarrow> phase" where
  "ws_phase ws \<equiv> wst_phase (ws_status ws)"

abbreviation ws_annots :: "workspace \<Rightarrow> strmap" where
  "ws_annots ws \<equiv> om_annotations (ws_meta ws)"

definition set_annots :: "strmap \<Rightarrow> workspace \<Rightarrow> workspace" where
  "set_annots a ws = ws\<lparr>ws_meta := (ws_meta ws)\<lparr>om_annotations := a\<rparr>\<rparr>"

lemma set_annots_sel [simp]:
  "ws_annots (set_annots a ws) = a"
  "ws_spec (set_annots a ws) = ws_spec ws"
  "ws_status (set_annots a ws) = ws_status ws"
  "ws_name (set_annots a ws) = ws_name ws"
  "ws_namespace (set_annots a ws) = ws_namespace ws"
  "om_uid (ws_meta (set_annots a ws)) = om_uid (ws_meta ws)"
  "om_ownerUIDs (ws_meta (set_annots a ws)) = om_ownerUIDs (ws_meta ws)"
  by (simp_all add: set_annots_def)

definition IsApprovalPending :: "workspace ptr \<Rightarrow> bool" where
  "IsApprovalPending p =
     (case p of
        None \<Rightarrow> False
      | Some ws \<Rightarrow>
          (if wsp_autoApply (ws_spec ws) then False
           else if ws_phase ws \<noteq> PhasePlanned then False
           else if ws_annots ws ApprovalDecisionAnnotation \<noteq> None then False
           else True))"

section \<open>Runs\<close>

record run_phase_summary =
  rps_jobName :: string
  rps_podName :: string
  rps_startedAt :: "time ptr"
  rps_finishedAt :: "time ptr"
  rps_result :: run_result
  rps_logKey :: string
  rps_logSizeBytes :: int

record run_approval =
  ra_decision :: string
  ra_reason :: string
  ra_decidedAt :: time

record run =
  run_id :: string
  run_trigger_of :: run_trigger
  run_targetRevision :: string
  run_observedRevision :: string
  run_plan :: "run_phase_summary ptr"
  run_apply :: "run_phase_summary ptr"
  run_startedAt :: "time ptr"
  run_finishedAt :: "time ptr"
  run_scheduledAt :: "time ptr"
  run_approval_of :: "run_approval ptr"

section \<open>Projects and rollouts\<close>

record project_spec =
  psp_description :: string
  psp_variableSetRef :: "string list"
  psp_validation :: "validation_spec ptr"

record project_status =
  pst_phase :: phase
  pst_reason :: string
  pst_message :: string
  pst_lastReconcileTime :: "time ptr"
  pst_conditions :: "condition list"

record project =
  pr_meta :: object_meta
  pr_spec :: project_spec
  pr_status :: project_status

record rollout_step =
  rs_name :: string
  rs_selector :: label_selector

record rollout_spec =
  rsp_projectRef :: string
  rsp_steps :: "rollout_step list"

record rollout_status =
  rst_phase :: phase
  rst_currentStep :: int
  rst_reason :: string
  rst_message :: string
  rst_lastReconcileTime :: "time ptr"
  rst_conditions :: "condition list"

record rollout =
  ro_meta :: object_meta
  ro_spec :: rollout_spec
  ro_status :: rollout_status

section \<open>Variable sets\<close>

record key_selector =
  ks_name :: string
  ks_key :: string
  ks_optional :: bool

record variable_source =
  vsrc_secretKeyRef :: "key_selector ptr"
  vsrc_configMapKeyRef :: "key_selector ptr"

record variable =
  va_name :: string
  va_value :: "string ptr"
  va_valueFrom :: "variable_source ptr"

record unresolved_reference =
  ur_variable :: string
  ur_kind :: string
  ur_name :: string
  ur_key :: string
  ur_reason :: string

record variable_set_status =
  vst_phase :: phase
  vst_reason :: string
  vst_message :: string
  vst_observedGeneration :: int
  vst_resolvedVariables :: int
  vst_unresolvedReferences :: "unresolved_reference list"
  vst_lastReconcileTime :: "time ptr"
  vst_conditions :: "condition list"

record variable_set =
  vs_meta :: object_meta
  vs_variables :: "variable list"
  vs_status :: variable_set_status

definition VariableSourceKindSecret :: string where
  "VariableSourceKindSecret = ''Secret''"

definition VariableSourceKindConfigMap :: string where
  "VariableSourceKindConfigMap = ''ConfigMap''"

definition ReasonResourceNotFound :: string where
  "ReasonResourceNotFound = ''ResourceNotFound''"

definition ReasonKeyNotFound :: string where
  "ReasonKeyNotFound = ''KeyNotFound''"

definition ReasonForbidden :: string where
  "ReasonForbidden = ''Forbidden''"

section \<open>Kubernetes objects\<close>

record secret =
  se_meta :: object_meta
  se_data :: strmap

record config_map =
  cm_meta :: object_meta
  cm_data :: strmap
  cm_binaryData :: strmap

record job_condition =
  jc_type :: string
  jc_status :: cond_status
  jc_lastTransitionTime :: time

definition JobFailedCondition :: string where
  "JobFailedCondition = ''Failed''"

datatype env_source =
    SecretKeyRef string string "bool option"
  | ConfigMapKeyRef string string "bool option"

record env_var =
  env_name :: string
  env_value :: string
  env_valueFrom :: "env_source option"

record job_spec =
  jsp_backoffLimit :: int
  jsp_activeDeadlineSeconds :: int
  jsp_podAnnotations :: strmap
  jsp_podLabels :: strmap
  jsp_restartPolicy :: string
  jsp_serviceAccountName :: string
  jsp_volumeClaim :: string
  jsp_image :: string
  jsp_env :: "env_var list"
  jsp_resources :: "(string \<times> string) list"
  jsp_mountPath :: string
  jsp_runAsNonRoot :: bool
  jsp_allowPrivilegeEscalation :: bool
  jsp_dropCapabilities :: "string list"
  jsp_runAsUser :: int
  jsp_runAsGroup :: int
  jsp_fsGroup :: int

record job_status =
  jst_active :: int
  jst_succeeded :: int
  jst_failed :: int
  jst_startTime :: "time ptr"
  jst_completionTime :: "time ptr"
  jst_conditions :: "job_condition list"

record job =
  job_meta :: object_meta
  job_spec_of :: job_spec
  job_status_of :: job_status

abbreviation job_name :: "job \<Rightarrow> string" where
  "job_name j \<equiv> om_name (job_meta j)"

record pvc =
  pvc_meta :: object_meta
  pvc_accessModes :: "string list"
  pvc_storage :: string

record pod =
  pod_meta :: object_meta

end
