(* ===== verification/Effects.thy ===== *)
theory Effects
  imports Prelude "HOL-Library.State_Monad"
begin

text \<open>
  Effects. The controllers talk to services that are not part of the repository: the
  Kubernetes API server, the object store, the metadata API, the clock and the random
  source. A component is a program in the state monad whose state is the history of the
  calls it has made so far, oldest first. What a call returns is a function of the history
  and of the call, and these functions are parameters of every definition; nothing is
  assumed of them unless a theorem says so. Any server, with any failures and any writes
  by other actors between two calls, is one such function.

  Two ways to reason about such a program:
  \<^item> \<open>wp m Q h\<close>, the weakest precondition, which the rules \<open>wp_simps\<close> compute by symbolic
    execution;
  \<^item> \<open>emits P m\<close>, every call the program makes satisfies \<open>P\<close>, whatever the answers are,
    with one introduction rule per construct (\<open>emits_intros\<close>).
\<close>

named_theorems wp_simps \<open>symbolic execution of effectful programs\<close>
named_theorems emits_intros \<open>rules for the calls a program can make\<close>
named_theorems emits_ops \<open>definitions of single calls\<close>

type_synonym ('c, 'a) io = "('c list, 'a) state"

definition ret :: "'a \<Rightarrow> ('c, 'a) io" where
  "ret a = State_Monad.return a"

definition perform :: "('c list \<Rightarrow> 'a) \<Rightarrow> 'c \<Rightarrow> ('c, 'a) io" where
  "perform f c = State (\<lambda>h. (f h, h @ [c]))"

fun for_each :: "('a \<Rightarrow> ('c, unit) io) \<Rightarrow> 'a list \<Rightarrow> ('c, unit) io" where
  "for_each f [] = ret ()"
| "for_each f (x # xs) = do { f x; for_each f xs }"

definition wp :: "('c, 'a) io \<Rightarrow> ('a \<Rightarrow> 'c list \<Rightarrow> bool) \<Rightarrow> 'c list \<Rightarrow> bool" where
  "wp m Q h = (case run_state m h of (a, h') \<Rightarrow> Q a h')"

definition emits :: "('c \<Rightarrow> bool) \<Rightarrow> ('c, 'a) io \<Rightarrow> bool" where
  "emits P m \<longleftrightarrow> (\<forall>h. \<exists>cs. snd (run_state m h) = h @ cs \<and> list_all P cs)"

definition result_of :: "('c, 'a) io \<Rightarrow> 'c list \<Rightarrow> 'a" where
  "result_of m h = fst (run_state m h)"

definition calls_of :: "('c, 'a) io \<Rightarrow> 'c list \<Rightarrow> 'c list" where
  "calls_of m h = drop (length h) (snd (run_state m h))"

section \<open>Weakest preconditions\<close>

lemma wp_ret [wp_simps]: "wp (ret a) Q h = Q a h"
  by (simp add: wp_def ret_def)

lemma wp_perform [wp_simps]: "wp (perform f c) Q h = Q (f h) (h @ [c])"
  by (simp add: wp_def perform_def)

lemma wp_bind [wp_simps]: "wp (State_Monad.bind m f) Q h = wp m (\<lambda>a. wp (f a) Q) h"
  by (simp add: wp_def split: prod.splits)

lemma wp_if [wp_simps]: "wp (if b then m else n) Q h = (if b then wp m Q h else wp n Q h)"
  by simp

lemma wp_let [wp_simps]: "wp (Let x f) Q h = (let y = x in wp (f y) Q h)"
  by (simp add: Let_def)

lemma wp_case_sum [wp_simps]:
  "wp (case x of Inl e \<Rightarrow> f e | Inr a \<Rightarrow> g a) Q h =
     (case x of Inl e \<Rightarrow> wp (f e) Q h | Inr a \<Rightarrow> wp (g a) Q h)"
  by (cases x) auto

lemma wp_case_option [wp_simps]:
  "wp (case x of None \<Rightarrow> f | Some a \<Rightarrow> g a) Q h =
     (case x of None \<Rightarrow> wp f Q h | Some a \<Rightarrow> wp (g a) Q h)"
  by (cases x) auto

lemma wp_case_prod [wp_simps]:
  "wp (case x of (a, b) \<Rightarrow> f a b) Q h = (case x of (a, b) \<Rightarrow> wp (f a b) Q h)"
  by (cases x) auto

lemma wp_mono: "wp m Q h \<Longrightarrow> (\<And>a h'. Q a h' \<Longrightarrow> R a h') \<Longrightarrow> wp m R h"
  by (auto simp: wp_def split: prod.splits)

lemma wp_any: "wp m (\<lambda>a h'. True) h"
  by (simp add: wp_def)

lemma wp_all: "(\<And>a h'. Q a h') \<Longrightarrow> wp m Q h"
  by (rule wp_mono [OF wp_any])

lemma wp_conj: "wp m Q h \<Longrightarrow> wp m R h \<Longrightarrow> wp m (\<lambda>a h'. Q a h' \<and> R a h') h"
  by (auto simp: wp_def split: prod.splits)

lemma wp_skip: "(\<And>a h'. wp (g a) Q h') \<Longrightarrow> wp (State_Monad.bind m g) Q h"
  unfolding wp_bind by (rule wp_all)

lemma wp_step: "(\<And>h'. wp (g (f h)) Q h') \<Longrightarrow> wp (State_Monad.bind (perform f c) g) Q h"
  by (simp add: wp_bind wp_perform)

lemma wp_then: "wp m R h \<Longrightarrow> (\<And>a h'. R a h' \<Longrightarrow> wp (g a) Q h') \<Longrightarrow> wp (State_Monad.bind m g) Q h"
  unfolding wp_bind by (rule wp_mono)

lemma wp_err:
  assumes "\<And>h'. f h = None \<Longrightarrow> wp g Q h'" and "\<And>err h'. f h = Some err \<Longrightarrow> wp (e err) Q h'"
  shows "wp (State_Monad.bind (perform f c) (\<lambda>x. case x of None \<Rightarrow> g | Some err \<Rightarrow> e err)) Q h"
  using assms by (cases "f h") (simp_all add: wp_bind wp_perform)

lemma wp_res:
  assumes "\<And>a h'. f h = Inr a \<Longrightarrow> wp (g a) Q h'" and "\<And>err h'. f h = Inl err \<Longrightarrow> wp (e err) Q h'"
  shows "wp (State_Monad.bind (perform f c) (\<lambda>x. case x of Inl err \<Rightarrow> e err | Inr a \<Rightarrow> g a)) Q h"
  using assms by (cases "f h") (simp_all add: wp_bind wp_perform)

lemma wp_branch: "(b \<Longrightarrow> wp m Q h) \<Longrightarrow> (\<not> b \<Longrightarrow> wp n Q h) \<Longrightarrow> wp (if b then m else n) Q h"
  by simp

lemma wp_option: "(x = None \<Longrightarrow> wp f Q h) \<Longrightarrow> (\<And>a. x = Some a \<Longrightarrow> wp (g a) Q h) \<Longrightarrow>
   wp (case x of None \<Rightarrow> f | Some a \<Rightarrow> g a) Q h"
  by (cases x) simp_all

lemma wp_sum: "(\<And>e. x = Inl e \<Longrightarrow> wp (f e) Q h) \<Longrightarrow> (\<And>a. x = Inr a \<Longrightarrow> wp (g a) Q h) \<Longrightarrow>
   wp (case x of Inl e \<Rightarrow> f e | Inr a \<Rightarrow> g a) Q h"
  by (cases x) simp_all

lemma wp_result: "wp m (\<lambda>a h'. Q a) h \<longleftrightarrow> Q (result_of m h)"
  by (simp add: wp_def result_of_def split: prod.splits)

lemma result_ofI: "wp m (\<lambda>a h'. a = x) h \<Longrightarrow> result_of m h = x"
  by (simp add: wp_result)

lemma calls_ofI: "wp m (\<lambda>a h'. h' = h @ cs) h \<Longrightarrow> calls_of m h = cs"
  by (auto simp: wp_def calls_of_def split: prod.splits)

lemma run_state_wp: "run_state m h = (a, h') \<Longrightarrow> wp m Q h \<Longrightarrow> Q a h'"
  by (simp add: wp_def)

section \<open>The calls a program makes\<close>

lemma emits_wp: "emits P m \<Longrightarrow> wp m (\<lambda>a h'. \<exists>cs. h' = h @ cs \<and> list_all P cs) h"
  unfolding emits_def wp_def by (auto split: prod.splits) (metis snd_conv)

lemma emits_calls_of: "emits P m \<Longrightarrow> list_all P (calls_of m h)"
proof -
  assume "emits P m"
  then obtain cs where "snd (run_state m h) = h @ cs" and "list_all P cs"
    unfolding emits_def by blast
  then show ?thesis by (simp add: calls_of_def)
qed

lemma emits_call: "emits P m \<Longrightarrow> c \<in> set (calls_of m h) \<Longrightarrow> P c"
  by (drule emits_calls_of [where h = h]) (simp add: list_all_iff)

lemma emits_ret [emits_intros]: "emits P (ret a)"
  by (simp add: emits_def ret_def)

lemma emits_perform [emits_intros]: "P c \<Longrightarrow> emits P (perform f c)"
  by (simp add: emits_def perform_def)

lemma emits_bind [emits_intros]:
  assumes "emits P m" and "\<And>a. emits P (f a)"
  shows "emits P (State_Monad.bind m f)"
  unfolding emits_def
proof
  fix h
  obtain a h' where m: "run_state m h = (a, h')" by (cases "run_state m h")
  with assms(1) obtain cs where h': "h' = h @ cs" and cs: "list_all P cs"
    unfolding emits_def by (metis snd_conv)
  from assms(2) obtain ds where "snd (run_state (f a) h') = h' @ ds" and "list_all P ds"
    unfolding emits_def by metis
  with m h' cs have "snd (run_state (State_Monad.bind m f) h) = h @ (cs @ ds)
      \<and> list_all P (cs @ ds)"
    by simp
  then show "\<exists>es. snd (run_state (State_Monad.bind m f) h) = h @ es \<and> list_all P es" by blast
qed

lemma emits_if [emits_intros]:
  "(b \<Longrightarrow> emits P m) \<Longrightarrow> (\<not> b \<Longrightarrow> emits P n) \<Longrightarrow> emits P (if b then m else n)"
  by simp

lemma emits_let [emits_intros]: "(\<And>y. y = x \<Longrightarrow> emits P (f y)) \<Longrightarrow> emits P (Let x f)"
  by (simp add: Let_def)

lemma emits_case_sum [emits_intros]:
  "(\<And>e. x = Inl e \<Longrightarrow> emits P (f e)) \<Longrightarrow> (\<And>a. x = Inr a \<Longrightarrow> emits P (g a)) \<Longrightarrow>
   emits P (case x of Inl e \<Rightarrow> f e | Inr a \<Rightarrow> g a)"
  by (cases x) auto

lemma emits_case_option [emits_intros]:
  "(x = None \<Longrightarrow> emits P f) \<Longrightarrow> (\<And>a. x = Some a \<Longrightarrow> emits P (g a)) \<Longrightarrow>
   emits P (case x of None \<Rightarrow> f | Some a \<Rightarrow> g a)"
  by (cases x) auto

lemma emits_case_prod [emits_intros]:
  "(\<And>a b. x = (a, b) \<Longrightarrow> emits P (f a b)) \<Longrightarrow> emits P (case x of (a, b) \<Rightarrow> f a b)"
  by (cases x) auto

lemma emits_for_each [emits_intros]:
  "(\<And>x. x \<in> set xs \<Longrightarrow> emits P (f x)) \<Longrightarrow> emits P (for_each f xs)"
  by (induction xs) (auto intro!: emits_intros)

lemma emits_mono: "emits P m \<Longrightarrow> (\<And>c. P c \<Longrightarrow> Q c) \<Longrightarrow> emits Q m"
  unfolding emits_def by (meson list.pred_mono_strong)

lemma emits_conj: "emits P m \<Longrightarrow> emits Q m \<Longrightarrow> emits (\<lambda>c. P c \<and> Q c) m"
  unfolding emits_def list_all_iff by (metis same_append_eq)

lemma emits_append: "emits (\<lambda>c. True) m \<Longrightarrow> snd (run_state m h) = h @ calls_of m h"
  unfolding emits_def calls_of_def by (metis append_eq_conv_conj)

section \<open>Calls of composed programs\<close>

lemma calls_of_ret [simp]: "calls_of (ret a) h = []"
  by (simp add: calls_of_def ret_def)

lemma calls_of_perform [simp]: "calls_of (perform f c) h = [c]"
  by (simp add: calls_of_def perform_def)

lemma calls_of_bind:
  assumes "emits (\<lambda>c. True) m" and "\<And>a. emits (\<lambda>c. True) (f a)"
  shows "calls_of (State_Monad.bind m f) h =
    calls_of m h @ calls_of (f (result_of m h)) (h @ calls_of m h)"
proof -
  obtain a h' where m: "run_state m h = (a, h')" by (cases "run_state m h")
  then have h': "h' = h @ calls_of m h" and a: "result_of m h = a"
    using emits_append [OF assms(1), of h] by (auto simp: result_of_def)
  have "snd (run_state (f a) h') = h' @ calls_of (f a) h'"
    by (rule emits_append [OF assms(2)])
  then have "snd (run_state (State_Monad.bind m f) h) = h @ calls_of m h @ calls_of (f a) h'"
    using m h' by simp
  then show ?thesis using a h' by (simp add: calls_of_def)
qed

lemma emits_bind_wp:
  assumes "emits P m" and "\<And>h. wp m (\<lambda>a h'. emits P (f a)) h"
  shows "emits P (State_Monad.bind m f)"
  unfolding emits_def
proof
  fix h
  obtain a h' where m: "run_state m h = (a, h')" by (cases "run_state m h")
  with assms(1) obtain cs where h': "h' = h @ cs" and cs: "list_all P cs"
    unfolding emits_def by (metis snd_conv)
  from assms(2) [of h] m have "emits P (f a)" by (simp add: wp_def)
  then obtain ds where "snd (run_state (f a) h') = h' @ ds" and "list_all P ds"
    unfolding emits_def by metis
  with m h' cs have "snd (run_state (State_Monad.bind m f) h) = h @ (cs @ ds)
      \<and> list_all P (cs @ ds)"
    by simp
  then show "\<exists>es. snd (run_state (State_Monad.bind m f) h) = h @ es \<and> list_all P es" by blast
qed

lemma first_call:
  assumes "c \<in> set (calls_of (State_Monad.bind (perform f c0) g) h)" and "emits P (g (f h))"
  shows "c = c0 \<or> P c"
proof -
  from assms(2) obtain cs where "snd (run_state (g (f h)) (h @ [c0])) = (h @ [c0]) @ cs"
    and "list_all P cs" unfolding emits_def by blast
  with assms(1) show ?thesis by (auto simp: calls_of_def perform_def list_all_iff)
qed

lemma calls_of_start: "wp m (\<lambda>a h. Q h) [] \<Longrightarrow> Q (calls_of m [])"
  by (simp add: wp_def calls_of_def split: prod.splits)

lemma wp_result_pair:
  "wp m (\<lambda>(a, b) h'. Q a b) h \<longleftrightarrow> Q (fst (result_of m h)) (snd (result_of m h))"
  by (simp add: wp_def result_of_def case_prod_beta)

lemma calls_of_wp: "wp m (\<lambda>a h'. \<exists>cs. h' = h @ cs \<and> P cs) h \<Longrightarrow> P (calls_of m h)"
  by (auto simp: wp_def calls_of_def split: prod.splits)

section \<open>Calls from a given history\<close>

definition emitsAt :: "('c \<Rightarrow> bool) \<Rightarrow> ('c, 'a) io \<Rightarrow> 'c list \<Rightarrow> bool" where
  "emitsAt P m h \<longleftrightarrow> wp m (\<lambda>a h'. \<exists>cs. h' = h @ cs \<and> list_all P cs) h"

lemma emitsAt_emits: "emits P m \<Longrightarrow> emitsAt P m h"
  unfolding emitsAt_def by (rule emits_wp)

lemma emitsAt_bind:
  assumes "emitsAt P m h" and "\<And>h'. emitsAt P (f (result_of m h)) h'"
  shows "emitsAt P (State_Monad.bind m f) h"
proof -
  obtain a h' where m: "run_state m h = (a, h')" by (cases "run_state m h")
  with assms(1) obtain cs where cs: "h' = h @ cs" "list_all P cs"
    unfolding emitsAt_def wp_def by auto
  from m have "result_of m h = a" by (simp add: result_of_def)
  with assms(2) [of h'] cs show ?thesis
    unfolding emitsAt_def wp_bind using m by (auto simp: wp_def split: prod.splits)
qed

lemma first_call_at:
  assumes "c \<in> set (calls_of (State_Monad.bind (perform f c0) g) h)" and "emitsAt P (g (f h)) (h @ [c0])"
  shows "c = c0 \<or> P c"
proof -
  from assms(2) obtain cs where "snd (run_state (g (f h)) (h @ [c0])) = (h @ [c0]) @ cs"
    and "list_all P cs" unfolding emitsAt_def wp_def by (auto split: prod.splits)
  with assms(1) show ?thesis by (auto simp: calls_of_def perform_def list_all_iff)
qed

section \<open>Calls a program is sure to make\<close>

definition reaches :: "('c \<Rightarrow> bool) \<Rightarrow> ('c, 'a) io \<Rightarrow> bool" where
  "reaches Q m \<longleftrightarrow> (\<forall>h. wp m (\<lambda>a h'. \<exists>cs. h' = h @ cs \<and> list_ex Q cs) h)"

lemma reaches_calls_of: "reaches Q m \<Longrightarrow> list_ex Q (calls_of m h)"
  unfolding reaches_def by (rule calls_of_wp) blast

lemma reaches_perform: "Q c \<Longrightarrow> reaches Q (perform f c)"
  by (simp add: reaches_def wp_simps)

lemma reaches_first:
  assumes "reaches Q m" and "\<And>a. emits (\<lambda>c. True) (f a)"
  shows "reaches Q (State_Monad.bind m f)"
  unfolding reaches_def wp_bind
proof
  fix h
  have m: "wp m (\<lambda>a h'. \<exists>cs. h' = h @ cs \<and> list_ex Q cs) h"
    using assms(1) by (simp add: reaches_def)
  show "wp m (\<lambda>a. wp (f a) (\<lambda>a h'. \<exists>cs. h' = h @ cs \<and> list_ex Q cs)) h"
    by (rule wp_mono [OF m], clarify, rule wp_mono [OF emits_wp [OF assms(2)]], auto)
qed

lemma reaches_then:
  assumes "emits (\<lambda>c. True) m" and "\<And>h. wp m (\<lambda>a h'. reaches Q (f a)) h"
  shows "reaches Q (State_Monad.bind m f)"
  unfolding reaches_def wp_bind
proof
  fix h
  have m: "wp m (\<lambda>a h'. (\<exists>cs. h' = h @ cs \<and> list_all (\<lambda>c. True) cs) \<and> reaches Q (f a)) h"
    by (rule wp_conj [OF emits_wp [OF assms(1)] assms(2)])
  have step: "wp (f a) (\<lambda>a h'. \<exists>ds. h' = h @ ds \<and> list_ex Q ds) (h @ cs)" if "reaches Q (f a)" for a cs
  proof (rule wp_mono)
    show "wp (f a) (\<lambda>a h'. \<exists>ds. h' = (h @ cs) @ ds \<and> list_ex Q ds) (h @ cs)"
      using that by (simp only: reaches_def)
  qed auto
  show "wp m (\<lambda>a. wp (f a) (\<lambda>a h'. \<exists>cs. h' = h @ cs \<and> list_ex Q cs)) h"
    by (rule wp_mono [OF m]) (use step in auto)
qed

lemma reaches_for_each:
  assumes "x \<in> set xs" and "reaches Q (f x)" and "\<And>y. emits (\<lambda>c. True) (f y)"
  shows "reaches Q (for_each f xs)"
  using assms(1)
proof (induction xs)
  case (Cons y ys)
  show ?case
  proof (cases "x = y")
    case True
    with assms(2,3) show ?thesis by (auto intro!: reaches_first emits_intros)
  next
    case False
    with Cons have "reaches Q (for_each f ys)" by simp
    then show ?thesis using assms(3) by (auto intro!: reaches_then wp_all)
  qed
qed simp

lemma reaches_after:
  "emits (\<lambda>c. True) m \<Longrightarrow> (\<And>a. reaches Q (f a)) \<Longrightarrow> reaches Q (State_Monad.bind m f)"
  by (auto intro: reaches_then wp_all)

lemma first_call_reaches:
  assumes "reaches Q (g (f h))"
  shows "list_ex Q (calls_of (State_Monad.bind (perform f c0) g) h)"
proof -
  have "wp (g (f h)) (\<lambda>a h'. \<exists>cs. h' = (h @ [c0]) @ cs \<and> list_ex Q cs) (h @ [c0])"
    using assms by (simp only: reaches_def)
  then have "wp (State_Monad.bind (perform f c0) g) (\<lambda>a h'. \<exists>cs. h' = h @ cs \<and> list_ex Q cs) h"
    unfolding wp_bind wp_perform by (rule wp_mono) auto
  then show ?thesis by (rule calls_of_wp)
qed

definition reachesAt :: "('c \<Rightarrow> bool) \<Rightarrow> ('c, 'a) io \<Rightarrow> 'c list \<Rightarrow> bool" where
  "reachesAt Q m h \<longleftrightarrow> wp m (\<lambda>a h'. \<exists>cs. h' = h @ cs \<and> list_ex Q cs) h"

lemma reachesAt_calls_of: "reachesAt Q m h \<Longrightarrow> list_ex Q (calls_of m h)"
  unfolding reachesAt_def by (rule calls_of_wp)

lemma reachesAt_first:
  assumes "reachesAt Q m h" and "\<And>a. emits (\<lambda>c. True) (f a)"
  shows "reachesAt Q (State_Monad.bind m f) h"
  unfolding reachesAt_def wp_bind
  by (rule wp_mono [OF assms(1) [unfolded reachesAt_def]], clarify,
      rule wp_mono [OF emits_wp [OF assms(2)]], auto)

lemma reachesAt_then:
  assumes "emits (\<lambda>c. True) m" and "\<And>cs. reachesAt Q (f (result_of m h)) (h @ cs)"
  shows "reachesAt Q (State_Monad.bind m f) h"
proof -
  obtain a h' where m: "run_state m h = (a, h')" by (cases "run_state m h")
  then have h': "h' = h @ calls_of m h" using emits_append [OF assms(1), of h] by simp
  have "wp (f a) (\<lambda>b g. \<exists>cs. g = h' @ cs \<and> list_ex Q cs) h'"
    using assms(2) [of "calls_of m h"] m h' by (simp add: reachesAt_def result_of_def)
  then have "wp (f a) (\<lambda>b g. \<exists>cs. g = h @ cs \<and> list_ex Q cs) h'"
    by (rule wp_mono) (auto simp: h')
  then show ?thesis using m by (simp add: reachesAt_def wp_def)
qed

lemma reachesAt_perform:
  assumes "reachesAt Q (g (f h)) (h @ [c])"
  shows "reachesAt Q (State_Monad.bind (perform f c) g) h"
  using assms unfolding reachesAt_def wp_bind wp_perform by (rule wp_mono) auto

lemma reachesAt_reaches: "reaches Q m \<Longrightarrow> reachesAt Q m h"
  by (simp add: reaches_def reachesAt_def)

lemma wp_after:
  assumes "emits P m" and "list_all P h" and "\<And>a h'. list_all P h' \<Longrightarrow> wp (g a) Q h'"
  shows "wp (State_Monad.bind m g) Q h"
  by (rule wp_then [OF emits_wp [OF assms(1)]]) (use assms(2,3) in auto)

section \<open>A program as part of another\<close>

text \<open>
  A program with calls of its own runs inside a program with more kinds of calls: it sees the
  part of the history that consists of its calls, and its calls are added under a constructor.
\<close>

definition within :: "('c \<Rightarrow> 'd) \<Rightarrow> ('d \<Rightarrow> 'c option) \<Rightarrow> ('c, 'a) io \<Rightarrow> ('d, 'a) io" where
  "within into own m = State (\<lambda>h.
     let h0 = List.map_filter own h; (a, h1) = run_state m h0
     in (a, h @ map into (drop (length h0) h1)))"

lemma wp_within: "wp (within into own m) Q h =
   wp m (\<lambda>a h1. Q a (h @ map into (drop (length (List.map_filter own h)) h1))) (List.map_filter own h)"
  by (simp add: wp_def within_def Let_def split: prod.splits)

lemma emits_within [emits_intros]:
  assumes "emits (\<lambda>c. True) m" and "\<And>c. P (into c)"
  shows "emits P (within into own m)"
  unfolding emits_def
proof
  fix h
  let ?h0 = "List.map_filter own h"
  obtain cs where "snd (run_state m ?h0) = ?h0 @ cs" using assms(1) unfolding emits_def by blast
  then have "snd (run_state (within into own m) h) = h @ map into cs"
    by (cases "run_state m ?h0") (simp add: within_def)
  then show "\<exists>cs. snd (run_state (within into own m) h) = h @ cs \<and> list_all P cs"
    using assms(2) by (auto simp: list_all_iff)
qed

lemma wp_emits: "emits P m \<Longrightarrow> wp m Q h \<Longrightarrow> wp m (\<lambda>a h'. Q a h' \<and> (\<exists>cs. h' = h @ cs \<and> list_all P cs)) h"
  by (rule wp_conj [OF _ emits_wp])

end
