(* ===== verification/Cluster.thy ===== *)
theory Cluster
  imports API_Types Effects
begin

text \<open>
  The services the components talk to, as the parameter \<open>E\<close> of every definition that uses
  them. Record \<open>golib\<close> holds functions of packages outside the repository and of the
  hashing, compression and JSON packages whose results the sources only compare and pass
  on; record \<open>env\<close> adds the answers of the Kubernetes API server, of the object store, of
  the metadata API, of Git remotes, of the clock and of the random source, each a function
  of the history of calls made so far. A call is logged in the history with its arguments,
  so that theorems can speak about what was asked for, in which order.

  \<open>retryOnConflict\<close> follows the documented behaviour of \<open>retry.RetryOnConflict\<close>: the body
  runs again while it answers with a conflict, at most \<open>retrySteps\<close> times in all.
\<close>

datatype call =
    C_Now
  | C_RandBytes
  | C_RandInt int
  | C_GetWorkspace nsname
  | C_ListWorkspaces string "string option" "string option"
  | C_ListAllWorkspaces
  | C_UpdateWorkspace workspace
  | C_StatusUpdateWorkspace workspace
  | C_PatchWorkspace workspace workspace
  | C_GetProject nsname
  | C_UpdateProject project
  | C_StatusUpdateProject project
  | C_GetRollout nsname
  | C_ListRollouts "string option"
  | C_StatusUpdateRollout rollout
  | C_GetVariableSet nsname
  | C_ListVariableSets string
  | C_UpdateVariableSet variable_set
  | C_StatusUpdateVariableSet variable_set
  | C_GetSecret nsname
  | C_ListRepoSecrets string
  | C_GetConfigMap nsname
  | C_GetJob nsname
  | C_ListJobs string string
  | C_CreateJob job
  | C_DeleteJob job
  | C_GetPVC nsname
  | C_CreatePVC pvc
  | C_ListPods string string
  | C_ReadLogs string string
  | C_PutLog string string string run_phase string
  | C_RecordRunPhase string string string run_phase run
  | C_RecordRun string string run
  | C_ListRemote string
  | C_RunGit "string list"
  | C_Metric string "string list" int

type_synonym hist = "call list"
type_synonym 'a prog = "(call, 'a) io"

record golib =
  retrySteps :: nat
  parseDuration :: "string \<Rightarrow> duration option"
  durationString :: "duration \<Rightarrow> string"
  marshalSpec :: "workspace_spec \<Rightarrow> string"
  sha256hex :: "string \<Rightarrow> string"
  gzipBytes :: "string \<Rightarrow> string result"
  unmarshalPolicyResult :: "string \<Rightarrow> policy_violation list result"
  runIDTime :: "time \<Rightarrow> string"
  osGetenv :: "string \<Rightarrow> string"
  parseQuantity :: "string \<Rightarrow> string result"
  setStatusCondition :: "condition list \<Rightarrow> condition \<Rightarrow> condition list \<times> bool"
  addFinalizer :: "object_meta \<Rightarrow> string \<Rightarrow> object_meta \<times> bool"
  containsFinalizer :: "object_meta \<Rightarrow> string \<Rightarrow> bool"
  removeFinalizer :: "object_meta \<Rightarrow> string \<Rightarrow> object_meta"
  setControllerReference :: "object_meta \<Rightarrow> object_meta \<Rightarrow> object_meta result"
  labelSelectorAsSelector :: "label_selector \<Rightarrow> string result"
  urlScheme :: "string \<Rightarrow> string result"

text \<open>A finished command: what it printed on its two streams and the error of \<open>cmd.Run\<close>.\<close>

record exec_result =
  ex_stdout :: string
  ex_stderr :: string
  ex_err :: "goerr option"

record env = golib +
  ev_now :: "hist \<Rightarrow> time"
  ev_randBytes :: "hist \<Rightarrow> string result"
  ev_randInt :: "hist \<Rightarrow> int \<Rightarrow> int"
  ev_getWorkspace :: "hist \<Rightarrow> nsname \<Rightarrow> workspace result"
  ev_listWorkspaces :: "hist \<Rightarrow> string \<Rightarrow> string option \<Rightarrow> string option \<Rightarrow> workspace list result"
  ev_listAllWorkspaces :: "hist \<Rightarrow> workspace list result"
  ev_updateWorkspace :: "hist \<Rightarrow> workspace \<Rightarrow> workspace result"
  ev_statusUpdateWorkspace :: "hist \<Rightarrow> workspace \<Rightarrow> workspace result"
  ev_patchWorkspace :: "hist \<Rightarrow> workspace \<Rightarrow> workspace \<Rightarrow> workspace result"
  ev_getProject :: "hist \<Rightarrow> nsname \<Rightarrow> project result"
  ev_updateProject :: "hist \<Rightarrow> project \<Rightarrow> project result"
  ev_statusUpdateProject :: "hist \<Rightarrow> project \<Rightarrow> project result"
  ev_getRollout :: "hist \<Rightarrow> nsname \<Rightarrow> rollout result"
  ev_listRollouts :: "hist \<Rightarrow> string option \<Rightarrow> rollout list result"
  ev_statusUpdateRollout :: "hist \<Rightarrow> rollout \<Rightarrow> rollout result"
  ev_getVariableSet :: "hist \<Rightarrow> nsname \<Rightarrow> variable_set result"
  ev_listVariableSets :: "hist \<Rightarrow> string \<Rightarrow> variable_set list result"
  ev_updateVariableSet :: "hist \<Rightarrow> variable_set \<Rightarrow> variable_set result"
  ev_statusUpdateVariableSet :: "hist \<Rightarrow> variable_set \<Rightarrow> variable_set result"
  ev_getSecret :: "hist \<Rightarrow> nsname \<Rightarrow> secret result"
  ev_listRepoSecrets :: "hist \<Rightarrow> string \<Rightarrow> secret list result"
  ev_getConfigMap :: "hist \<Rightarrow> nsname \<Rightarrow> config_map result"
  ev_getJob :: "hist \<Rightarrow> nsname \<Rightarrow> job result"
  ev_listJobs :: "hist \<Rightarrow> string \<Rightarrow> string \<Rightarrow> job list result"
  ev_createJob :: "hist \<Rightarrow> job \<Rightarrow> goerr option"
  ev_deleteJob :: "hist \<Rightarrow> job \<Rightarrow> goerr option"
  ev_getPVC :: "hist \<Rightarrow> nsname \<Rightarrow> pvc result"
  ev_createPVC :: "hist \<Rightarrow> pvc \<Rightarrow> goerr option"
  ev_listPods :: "hist \<Rightarrow> string \<Rightarrow> string \<Rightarrow> pod list result"
  ev_readLogs :: "hist \<Rightarrow> string \<Rightarrow> string \<Rightarrow> (string \<times> goerr option) result"
  ev_putLog :: "hist \<Rightarrow> string \<Rightarrow> string \<Rightarrow> string \<Rightarrow> run_phase \<Rightarrow> string \<Rightarrow> string result"
  ev_recordRunPhase :: "hist \<Rightarrow> string \<Rightarrow> string \<Rightarrow> string \<Rightarrow> run_phase \<Rightarrow> run \<Rightarrow> goerr option"
  ev_recordRun :: "hist \<Rightarrow> string \<Rightarrow> string \<Rightarrow> run \<Rightarrow> goerr option"
  ev_listRemote :: "hist \<Rightarrow> string \<Rightarrow> (string \<times> string) list result"
  ev_runGit :: "hist \<Rightarrow> string list \<Rightarrow> exec_result"

section \<open>Single calls\<close>

definition now :: "env \<Rightarrow> time prog" where
  "now E = perform (ev_now E) C_Now"

definition randBytes :: "env \<Rightarrow> string result prog" where
  "randBytes E = perform (ev_randBytes E) C_RandBytes"

definition randInt :: "env \<Rightarrow> int \<Rightarrow> int prog" where
  "randInt E n = perform (\<lambda>h. ev_randInt E h n) (C_RandInt n)"

definition getWorkspace :: "env \<Rightarrow> nsname \<Rightarrow> workspace result prog" where
  "getWorkspace E k = perform (\<lambda>h. ev_getWorkspace E h k) (C_GetWorkspace k)"

definition listWorkspaces :: "env \<Rightarrow> string \<Rightarrow> string option \<Rightarrow> string option \<Rightarrow> workspace list result prog" where
  "listWorkspaces E ns sel pref =
     perform (\<lambda>h. ev_listWorkspaces E h ns sel pref) (C_ListWorkspaces ns sel pref)"

definition listAllWorkspaces :: "env \<Rightarrow> workspace list result prog" where
  "listAllWorkspaces E = perform (ev_listAllWorkspaces E) C_ListAllWorkspaces"

definition updateWorkspace :: "env \<Rightarrow> workspace \<Rightarrow> workspace result prog" where
  "updateWorkspace E w = perform (\<lambda>h. ev_updateWorkspace E h w) (C_UpdateWorkspace w)"

definition statusUpdateWorkspace :: "env \<Rightarrow> workspace \<Rightarrow> workspace result prog" where
  "statusUpdateWorkspace E w =
     perform (\<lambda>h. ev_statusUpdateWorkspace E h w) (C_StatusUpdateWorkspace w)"

definition patchWorkspace :: "env \<Rightarrow> workspace \<Rightarrow> workspace \<Rightarrow> workspace result prog" where
  "patchWorkspace E base w =
     perform (\<lambda>h. ev_patchWorkspace E h base w) (C_PatchWorkspace base w)"

definition getProject :: "env \<Rightarrow> nsname \<Rightarrow> project result prog" where
  "getProject E k = perform (\<lambda>h. ev_getProject E h k) (C_GetProject k)"

definition updateProject :: "env \<Rightarrow> project \<Rightarrow> project result prog" where
  "updateProject E p = perform (\<lambda>h. ev_updateProject E h p) (C_UpdateProject p)"

definition statusUpdateProject :: "env \<Rightarrow> project \<Rightarrow> project result prog" where
  "statusUpdateProject E p =
     perform (\<lambda>h. ev_statusUpdateProject E h p) (C_StatusUpdateProject p)"

definition getRollout :: "env \<Rightarrow> nsname \<Rightarrow> rollout result prog" where
  "getRollout E k = perform (\<lambda>h. ev_getRollout E h k) (C_GetRollout k)"

definition listRollouts :: "env \<Rightarrow> string option \<Rightarrow> rollout list result prog" where
  "listRollouts E ns = perform (\<lambda>h. ev_listRollouts E h ns) (C_ListRollouts ns)"

definition statusUpdateRollout :: "env \<Rightarrow> rollout \<Rightarrow> rollout result prog" where
  "statusUpdateRollout E r =
     perform (\<lambda>h. ev_statusUpdateRollout E h r) (C_StatusUpdateRollout r)"

definition getVariableSet :: "env \<Rightarrow> nsname \<Rightarrow> variable_set result prog" where
  "getVariableSet E k = perform (\<lambda>h. ev_getVariableSet E h k) (C_GetVariableSet k)"

definition listVariableSets :: "env \<Rightarrow> string \<Rightarrow> variable_set list result prog" where
  "listVariableSets E ns = perform (\<lambda>h. ev_listVariableSets E h ns) (C_ListVariableSets ns)"

definition updateVariableSet :: "env \<Rightarrow> variable_set \<Rightarrow> variable_set result prog" where
  "updateVariableSet E v = perform (\<lambda>h. ev_updateVariableSet E h v) (C_UpdateVariableSet v)"

definition statusUpdateVariableSet :: "env \<Rightarrow> variable_set \<Rightarrow> variable_set result prog" where
  "statusUpdateVariableSet E v =
     perform (\<lambda>h. ev_statusUpdateVariableSet E h v) (C_StatusUpdateVariableSet v)"

definition getSecret :: "env \<Rightarrow> nsname \<Rightarrow> secret result prog" where
  "getSecret E k = perform (\<lambda>h. ev_getSecret E h k) (C_GetSecret k)"

definition listRepoSecrets :: "env \<Rightarrow> string \<Rightarrow> secret list result prog" where
  "listRepoSecrets E ns = perform (\<lambda>h. ev_listRepoSecrets E h ns) (C_ListRepoSecrets ns)"

definition getConfigMap :: "env \<Rightarrow> nsname \<Rightarrow> config_map result prog" where
  "getConfigMap E k = perform (\<lambda>h. ev_getConfigMap E h k) (C_GetConfigMap k)"

definition getJob :: "env \<Rightarrow> nsname \<Rightarrow> job result prog" where
  "getJob E k = perform (\<lambda>h. ev_getJob E h k) (C_GetJob k)"

definition listJobs :: "env \<Rightarrow> string \<Rightarrow> string \<Rightarrow> job list result prog" where
  "listJobs E ns w = perform (\<lambda>h. ev_listJobs E h ns w) (C_ListJobs ns w)"

definition createJob :: "env \<Rightarrow> job \<Rightarrow> goerr option prog" where
  "createJob E j = perform (\<lambda>h. ev_createJob E h j) (C_CreateJob j)"

definition deleteJob :: "env \<Rightarrow> job \<Rightarrow> goerr option prog" where
  "deleteJob E j = perform (\<lambda>h. ev_deleteJob E h j) (C_DeleteJob j)"

definition getPVC :: "env \<Rightarrow> nsname \<Rightarrow> pvc result prog" where
  "getPVC E k = perform (\<lambda>h. ev_getPVC E h k) (C_GetPVC k)"

definition createPVC :: "env \<Rightarrow> pvc \<Rightarrow> goerr option prog" where
  "createPVC E p = perform (\<lambda>h. ev_createPVC E h p) (C_CreatePVC p)"

definition listPods :: "env \<Rightarrow> string \<Rightarrow> string \<Rightarrow> pod list result prog" where
  "listPods E ns j = perform (\<lambda>h. ev_listPods E h ns j) (C_ListPods ns j)"

definition readLogs :: "env \<Rightarrow> string \<Rightarrow> string \<Rightarrow> (string \<times> goerr option) result prog" where
  "readLogs E ns p = perform (\<lambda>h. ev_readLogs E h ns p) (C_ReadLogs ns p)"

definition putLog :: "env \<Rightarrow> string \<Rightarrow> string \<Rightarrow> string \<Rightarrow> run_phase \<Rightarrow> string \<Rightarrow> string result prog" where
  "putLog E ns w rid ph b = perform (\<lambda>h. ev_putLog E h ns w rid ph b) (C_PutLog ns w rid ph b)"

definition recordRunPhase :: "env \<Rightarrow> string \<Rightarrow> string \<Rightarrow> string \<Rightarrow> run_phase \<Rightarrow> run \<Rightarrow> goerr option prog" where
  "recordRunPhase E ns w rid ph r =
     perform (\<lambda>h. ev_recordRunPhase E h ns w rid ph r) (C_RecordRunPhase ns w rid ph r)"

definition recordRun :: "env \<Rightarrow> string \<Rightarrow> string \<Rightarrow> run \<Rightarrow> goerr option prog" where
  "recordRun E ns w r = perform (\<lambda>h. ev_recordRun E h ns w r) (C_RecordRun ns w r)"

definition listRemote :: "env \<Rightarrow> string \<Rightarrow> (string \<times> string) list result prog" where
  "listRemote E url = perform (\<lambda>h. ev_listRemote E h url) (C_ListRemote url)"

definition runGit :: "env \<Rightarrow> string list \<Rightarrow> exec_result prog" where
  "runGit E args = perform (\<lambda>h. ev_runGit E h args) (C_RunGit args)"

definition metric :: "string \<Rightarrow> string list \<Rightarrow> int \<Rightarrow> unit prog" where
  "metric n ls v = perform (\<lambda>h. ()) (C_Metric n ls v)"

lemmas call_defs =
  now_def randBytes_def randInt_def getWorkspace_def listWorkspaces_def listAllWorkspaces_def
  updateWorkspace_def statusUpdateWorkspace_def patchWorkspace_def getProject_def
  updateProject_def statusUpdateProject_def getRollout_def listRollouts_def
  statusUpdateRollout_def getVariableSet_def listVariableSets_def updateVariableSet_def
  statusUpdateVariableSet_def getSecret_def listRepoSecrets_def getConfigMap_def getJob_def
  listJobs_def createJob_def deleteJob_def getPVC_def createPVC_def listPods_def readLogs_def
  putLog_def recordRunPhase_def recordRun_def listRemote_def runGit_def metric_def

section \<open>Retry on conflict\<close>

primrec isConflict :: "goerr \<Rightarrow> bool" where
  "isConflict (ENotFound m) = False"
| "isConflict (EConflict m) = True"
| "isConflict (EForbidden m) = False"
| "isConflict (EMsg m) = False"
| "isConflict (EWrap p e) = isConflict e"

fun retryOnConflict :: "nat \<Rightarrow> ('s \<Rightarrow> (goerr option \<times> 's) prog) \<Rightarrow> 's \<Rightarrow> (goerr option \<times> 's) prog" where
  "retryOnConflict 0 body s = ret (Some (EMsg ''timed out waiting for the condition''), s)"
| "retryOnConflict (Suc n) body s = do {
     (e, s') \<leftarrow> body s;
     case e of
       None \<Rightarrow> ret (None, s')
     | Some err \<Rightarrow>
         (if isConflict err \<and> n > 0 then retryOnConflict n body s' else ret (e, s'))
   }"

lemma emits_retryOnConflict [emits_intros]:
  "(\<And>s. emits P (body s)) \<Longrightarrow> emits P (retryOnConflict n body s)"
  by (induction n arbitrary: s) (auto intro!: emits_intros)

text \<open>
  A rule for loops: an invariant of the carried state that every attempt keeps, together
  with what a successful attempt establishes.
\<close>

lemma wp_retryOnConflict:
  assumes body: "\<And>s h. I s h \<Longrightarrow>
      wp (body s) (\<lambda>(e, s') h'. I s' h' \<and> (e = None \<longrightarrow> Q s' h')) h"
    and init: "I s h"
  shows "wp (retryOnConflict n body s) (\<lambda>(e, s') h'. I s' h' \<and> (e = None \<longrightarrow> Q s' h')) h"
  using init
proof (induction n arbitrary: s h)
  case 0
  then show ?case by (simp add: wp_simps)
next
  case (Suc n)
  from body [OF Suc.prems] show ?case
    by (auto simp: wp_simps intro: Suc.IH elim!: wp_mono split: option.splits)
qed

section \<open>Results of a reconcile\<close>

text \<open>A \<open>ctrl.Result\<close> is its \<open>RequeueAfter\<close> duration, zero when none is asked for, beside the error.\<close>

record ctrl_result =
  cr_requeueAfter :: duration
  cr_err :: "goerr option"

definition requeue :: "duration \<Rightarrow> ctrl_result" where
  "requeue d = \<lparr>cr_requeueAfter = d, cr_err = None\<rparr>"

definition failWith :: "goerr option \<Rightarrow> ctrl_result" where
  "failWith e = \<lparr>cr_requeueAfter = 0, cr_err = e\<rparr>"

lemma ctrl_result_sel [simp]:
  "cr_requeueAfter (requeue d) = d" "cr_err (requeue d) = None"
  "cr_requeueAfter (failWith e) = 0" "cr_err (failWith e) = e"
  by (simp_all add: requeue_def failWith_def)

fun jobNeutral :: "call \<Rightarrow> bool" where
  "jobNeutral (C_CreateJob j) = False"
| "jobNeutral (C_DeleteJob j) = False"
| "jobNeutral (C_CreatePVC p) = False"
| "jobNeutral c = True"

lemma retryOnConflict_numeral:
  "retryOnConflict (numeral k) body s = do {
     (e, s') \<leftarrow> body s;
     case e of
       None \<Rightarrow> ret (None, s')
     | Some err \<Rightarrow>
         (if isConflict err \<and> pred_numeral k > 0 then retryOnConflict (pred_numeral k) body s'
          else ret (e, s'))
   }"
  by (simp add: numeral_eq_Suc)

lemma emits_retryUnchanged:
  assumes "\<And>h. wp (body s) (\<lambda>(e, s') h'. e \<noteq> None \<longrightarrow> s' = s) h" and "emits P (body s)"
  shows "emits P (retryOnConflict n body s)"
proof (induction n)
  case 0
  then show ?case by (simp add: emits_intros)
next
  case (Suc n)
  have "wp (body s) (\<lambda>a h'. emits P (case a of (e, s') \<Rightarrow> case e of None \<Rightarrow> ret (None, s')
      | Some err \<Rightarrow> if isConflict err \<and> n > 0 then retryOnConflict n body s' else ret (e, s'))) h" for h
    by (rule wp_mono [OF assms(1)]) (auto simp: Suc.IH intro!: emits_ret split: option.splits)
  then show ?case by (auto intro: emits_bind_wp assms(2))
qed


end
