(* ===== verification/Samples.thy ===== *)
theory Samples
  imports Cluster
begin

text \<open>
  Concrete values at which the witnesses of the development evaluate: a workspace, a job and
  an environment whose server knows no object, accepts every write and answers it with the
  object written. Witnesses override the answers they need. No theorem about the components
  depends on these definitions.
\<close>

definition sampleMeta :: "string \<Rightarrow> object_meta" where
  "sampleMeta n = \<lparr>om_name = n, om_namespace = ''default'', om_uid = n @ ''-uid'',
     om_resourceVersion = ''1'', om_generation = 1, om_deletionTimestamp = None,
     om_finalizers = [FinalizerName], om_labels = Map.empty, om_annotations = Map.empty,
     om_ownerUIDs = []\<rparr>"

definition sampleSpec :: workspace_spec where
  "sampleSpec = \<lparr>wsp_projectRef = ''platform'', wsp_autoApply = False,
     wsp_annotations = Map.empty, wsp_plan = None, wsp_apply = None,
     wsp_source = \<lparr>ss_repoURL = ''https://git.example/infra'', ss_targetRevision = ''main'',
       ss_path = ''.''\<rparr>,
     wsp_terraform = \<lparr>tf_version = ''1.9.0'', tf_tfvarsPath = []\<rparr>,
     wsp_validation = None, wsp_variableSetRef = [], wsp_serviceAccountName = ''magos-job'',
     wsp_pvcSize = []\<rparr>"

definition emptyStatus :: workspace_status where
  "emptyStatus = \<lparr>wst_phase = PhaseEmpty, wst_reason = [], wst_message = [],
     wst_observedRevision = [], wst_lastReconcileTime = None, wst_nextReconcileTime = None,
     wst_observedReconcileInterval = [], wst_policyViolations = [], wst_currentRunID = [],
     wst_currentRunTrigger = RunTriggerNone, wst_lastRunStartedAt = None,
     wst_variablesHash = [], wst_conditions = []\<rparr>"

definition sampleWorkspace :: workspace where
  "sampleWorkspace =
     \<lparr>ws_meta = sampleMeta ''ws'', ws_spec = sampleSpec, ws_status = emptyStatus\<rparr>"

definition withPhase :: "phase \<Rightarrow> workspace \<Rightarrow> workspace" where
  "withPhase p ws = ws\<lparr>ws_status := (ws_status ws)\<lparr>wst_phase := p\<rparr>\<rparr>"

definition withAnnot :: "string \<Rightarrow> string \<Rightarrow> workspace \<Rightarrow> workspace" where
  "withAnnot k v ws = set_annots ((ws_annots ws)(k \<mapsto> v)) ws"

definition emptyJobSpec :: job_spec where
  "emptyJobSpec = \<lparr>jsp_backoffLimit = 0, jsp_activeDeadlineSeconds = 0,
     jsp_podAnnotations = Map.empty, jsp_podLabels = Map.empty, jsp_restartPolicy = [],
     jsp_serviceAccountName = [], jsp_volumeClaim = [], jsp_image = [], jsp_env = [],
     jsp_resources = [], jsp_mountPath = [], jsp_runAsNonRoot = False,
     jsp_allowPrivilegeEscalation = False, jsp_dropCapabilities = [], jsp_runAsUser = 0,
     jsp_runAsGroup = 0, jsp_fsGroup = 0\<rparr>"

definition emptyJobStatus :: job_status where
  "emptyJobStatus = \<lparr>jst_active = 0, jst_succeeded = 0, jst_failed = 0, jst_startTime = None,
     jst_completionTime = None, jst_conditions = []\<rparr>"

definition sampleJob :: "string \<Rightarrow> job" where
  "sampleJob n = \<lparr>job_meta = (sampleMeta n)\<lparr>om_ownerUIDs := [''ws-uid'']\<rparr>,
     job_spec_of = emptyJobSpec, job_status_of = emptyJobStatus\<rparr>"

definition succeededJob :: "string \<Rightarrow> job" where
  "succeededJob n = (sampleJob n)
     \<lparr>job_status_of := emptyJobStatus\<lparr>jst_succeeded := 1, jst_startTime := Some 10,
        jst_completionTime := Some 20\<rparr>\<rparr>"

definition failedJob :: "string \<Rightarrow> job" where
  "failedJob n = (sampleJob n)
     \<lparr>job_status_of := emptyJobStatus\<lparr>jst_failed := 1, jst_startTime := Some 10,
        jst_conditions := [\<lparr>jc_type = JobFailedCondition, jc_status = ConditionTrue,
          jc_lastTransitionTime = 20\<rparr>]\<rparr>\<rparr>"

definition sampleEnv :: env where
  "sampleEnv = \<lparr>
     retrySteps = 5,
     parseDuration = (\<lambda>s. if s = ''1m'' then Some 60000000000 else None),
     durationString = (\<lambda>d. if d = 180000000000 then ''3m0s'' else ''1m''),
     marshalSpec = (\<lambda>s. ''0a1b2c3d''),
     sha256hex = (\<lambda>s. s),
     gzipBytes = Inr,
     unmarshalPolicyResult = (\<lambda>s. Inr []),
     runIDTime = (\<lambda>t. ''20260101T000000''),
     osGetenv = (\<lambda>k. []),
     parseQuantity = Inr,
     setStatusCondition = (\<lambda>cs c. ([c], True)),
     addFinalizer = (\<lambda>m f. if f \<in> set (om_finalizers m) then (m, False)
        else (m\<lparr>om_finalizers := om_finalizers m @ [f]\<rparr>, True)),
     containsFinalizer = (\<lambda>m f. f \<in> set (om_finalizers m)),
     removeFinalizer = (\<lambda>m f. m\<lparr>om_finalizers := removeAll f (om_finalizers m)\<rparr>),
     setControllerReference = (\<lambda>owner m. Inr (m\<lparr>om_ownerUIDs := [om_uid owner]\<rparr>)),
     labelSelectorAsSelector = (\<lambda>s. Inr []),
     urlScheme = (\<lambda>u. Inr ''https''),
     ev_now = (\<lambda>h. 1000000000000),
     ev_randBytes = (\<lambda>h. Inr ''deadbeef''),
     ev_randInt = (\<lambda>h n. 0),
     ev_getWorkspace = (\<lambda>h k. Inl (ENotFound ''workspace'')),
     ev_listWorkspaces = (\<lambda>h ns sel pref. Inr []),
     ev_listAllWorkspaces = (\<lambda>h. Inr []),
     ev_updateWorkspace = (\<lambda>h. Inr),
     ev_statusUpdateWorkspace = (\<lambda>h. Inr),
     ev_patchWorkspace = (\<lambda>h b. Inr),
     ev_getProject = (\<lambda>h k. Inl (ENotFound ''project'')),
     ev_updateProject = (\<lambda>h. Inr),
     ev_statusUpdateProject = (\<lambda>h. Inr),
     ev_getRollout = (\<lambda>h k. Inl (ENotFound ''rollout'')),
     ev_listRollouts = (\<lambda>h ns. Inr []),
     ev_statusUpdateRollout = (\<lambda>h. Inr),
     ev_getVariableSet = (\<lambda>h k. Inl (ENotFound ''variableset'')),
     ev_listVariableSets = (\<lambda>h ns. Inr []),
     ev_updateVariableSet = (\<lambda>h. Inr),
     ev_statusUpdateVariableSet = (\<lambda>h. Inr),
     ev_getSecret = (\<lambda>h k. Inl (ENotFound ''secret'')),
     ev_listRepoSecrets = (\<lambda>h ns. Inr []),
     ev_getConfigMap = (\<lambda>h k. Inl (ENotFound ''configmap'')),
     ev_getJob = (\<lambda>h k. Inl (ENotFound ''job'')),
     ev_listJobs = (\<lambda>h ns w. Inr []),
     ev_createJob = (\<lambda>h j. None),
     ev_deleteJob = (\<lambda>h j. None),
     ev_getPVC = (\<lambda>h k. Inl (ENotFound ''pvc'')),
     ev_createPVC = (\<lambda>h p. None),
     ev_listPods = (\<lambda>h ns j. Inr []),
     ev_readLogs = (\<lambda>h ns p. Inr ([], None)),
     ev_putLog = (\<lambda>h ns w rid ph b. Inr []),
     ev_recordRunPhase = (\<lambda>h ns w rid ph r. None),
     ev_recordRun = (\<lambda>h ns w r. None),
     ev_listRemote = (\<lambda>h u. Inr []),
     ev_runGit = (\<lambda>h args. \<lparr>ex_stdout = [], ex_stderr = [], ex_err = None\<rparr>)\<rparr>"

definition sampleVariableSet :: variable_set where
  "sampleVariableSet = \<lparr>vs_meta = sampleMeta ''common'',
     vs_variables =
       [\<lparr>va_name = ''region'', va_value = Some ''eu-west-1'', va_valueFrom = None\<rparr>,
        \<lparr>va_name = ''token'', va_value = None, va_valueFrom = Some
          \<lparr>vsrc_secretKeyRef = Some \<lparr>ks_name = ''creds'', ks_key = ''token'', ks_optional = True\<rparr>,
           vsrc_configMapKeyRef = None\<rparr>\<rparr>,
        \<lparr>va_name = ''user'', va_value = None, va_valueFrom = Some
          \<lparr>vsrc_secretKeyRef = Some \<lparr>ks_name = ''creds'', ks_key = ''user'', ks_optional = False\<rparr>,
           vsrc_configMapKeyRef = None\<rparr>\<rparr>],
     vs_status = \<lparr>vst_phase = PhaseEmpty, vst_reason = [], vst_message = [],
       vst_observedGeneration = 0, vst_resolvedVariables = 0, vst_unresolvedReferences = [],
       vst_lastReconcileTime = None, vst_conditions = []\<rparr>\<rparr>"

text \<open>
  Setting a condition the way the API machinery does: an entry of the same type is replaced
  when its status, reason or message differ, and kept with its time otherwise.
\<close>

definition sameCondition :: "condition \<Rightarrow> condition \<Rightarrow> bool" where
  "sameCondition c d \<longleftrightarrow> co_type c = co_type d \<and> co_status c = co_status d \<and> co_reason c = co_reason d
     \<and> co_message c = co_message d"

definition sampleSetCondition :: "condition list \<Rightarrow> condition \<Rightarrow> condition list \<times> bool" where
  "sampleSetCondition cs c =
     (if list_ex (sameCondition c) cs then (cs, False)
      else (filter (\<lambda>d. co_type d \<noteq> co_type c) cs @ [c], True))"

definition stableEnv :: env where
  "stableEnv = sampleEnv\<lparr>setStatusCondition := sampleSetCondition\<rparr>"

lemma sampleEnv_simps [simp]:
  "retrySteps sampleEnv = 5"
  "parseDuration sampleEnv = (\<lambda>s. if s = ''1m'' then Some 60000000000 else None)"
  "durationString sampleEnv = (\<lambda>d. if d = 180000000000 then ''3m0s'' else ''1m'')"
  "marshalSpec sampleEnv = (\<lambda>s. ''0a1b2c3d'')"
  "sha256hex sampleEnv = (\<lambda>s. s)"
  "gzipBytes sampleEnv = Inr"
  "unmarshalPolicyResult sampleEnv = (\<lambda>s. Inr [])"
  "runIDTime sampleEnv = (\<lambda>t. ''20260101T000000'')"
  "osGetenv sampleEnv = (\<lambda>k. [])"
  "parseQuantity sampleEnv = Inr"
  "setStatusCondition sampleEnv = (\<lambda>cs c. ([c], True))"
  "addFinalizer sampleEnv = (\<lambda>m f. if f \<in> set (om_finalizers m) then (m, False)
        else (m\<lparr>om_finalizers := om_finalizers m @ [f]\<rparr>, True))"
  "containsFinalizer sampleEnv = (\<lambda>m f. f \<in> set (om_finalizers m))"
  "removeFinalizer sampleEnv = (\<lambda>m f. m\<lparr>om_finalizers := removeAll f (om_finalizers m)\<rparr>)"
  "setControllerReference sampleEnv = (\<lambda>owner m. Inr (m\<lparr>om_ownerUIDs := [om_uid owner]\<rparr>))"
  "labelSelectorAsSelector sampleEnv = (\<lambda>s. Inr [])"
  "ev_now sampleEnv = (\<lambda>h. 1000000000000)"
  "ev_randBytes sampleEnv = (\<lambda>h. Inr ''deadbeef'')"
  "ev_randInt sampleEnv = (\<lambda>h n. 0)"
  "ev_getWorkspace sampleEnv = (\<lambda>h k. Inl (ENotFound ''workspace''))"
  "ev_listWorkspaces sampleEnv = (\<lambda>h ns sel pref. Inr [])"
  "ev_listAllWorkspaces sampleEnv = (\<lambda>h. Inr [])"
  "ev_updateWorkspace sampleEnv = (\<lambda>h. Inr)"
  "ev_statusUpdateWorkspace sampleEnv = (\<lambda>h. Inr)"
  "ev_patchWorkspace sampleEnv = (\<lambda>h b. Inr)"
  "ev_getProject sampleEnv = (\<lambda>h k. Inl (ENotFound ''project''))"
  "ev_updateProject sampleEnv = (\<lambda>h. Inr)"
  "ev_statusUpdateProject sampleEnv = (\<lambda>h. Inr)"
  "ev_getRollout sampleEnv = (\<lambda>h k. Inl (ENotFound ''rollout''))"
  "ev_listRollouts sampleEnv = (\<lambda>h ns. Inr [])"
  "ev_statusUpdateRollout sampleEnv = (\<lambda>h. Inr)"
  "ev_getVariableSet sampleEnv = (\<lambda>h k. Inl (ENotFound ''variableset''))"
  "ev_listVariableSets sampleEnv = (\<lambda>h ns. Inr [])"
  "ev_updateVariableSet sampleEnv = (\<lambda>h. Inr)"
  "ev_statusUpdateVariableSet sampleEnv = (\<lambda>h. Inr)"
  "ev_getSecret sampleEnv = (\<lambda>h k. Inl (ENotFound ''secret''))"
  "ev_listRepoSecrets sampleEnv = (\<lambda>h ns. Inr [])"
  "ev_getConfigMap sampleEnv = (\<lambda>h k. Inl (ENotFound ''configmap''))"
  "ev_getJob sampleEnv = (\<lambda>h k. Inl (ENotFound ''job''))"
  "ev_listJobs sampleEnv = (\<lambda>h ns w. Inr [])"
  "ev_createJob sampleEnv = (\<lambda>h j. None)"
  "ev_deleteJob sampleEnv = (\<lambda>h j. None)"
  "ev_getPVC sampleEnv = (\<lambda>h k. Inl (ENotFound ''pvc''))"
  "ev_createPVC sampleEnv = (\<lambda>h p. None)"
  "ev_listPods sampleEnv = (\<lambda>h ns j. Inr [])"
  "ev_readLogs sampleEnv = (\<lambda>h ns p. Inr ([], None))"
  "ev_putLog sampleEnv = (\<lambda>h ns w rid ph b. Inr [])"
  "ev_recordRunPhase sampleEnv = (\<lambda>h ns w rid ph r. None)"
  "ev_recordRun sampleEnv = (\<lambda>h ns w r. None)"
  "ev_listRemote sampleEnv = (\<lambda>h u. Inr [])"
  "ev_runGit sampleEnv = (\<lambda>h args. \<lparr>ex_stdout = [], ex_stderr = [], ex_err = None\<rparr>)"
  "urlScheme sampleEnv = (\<lambda>u. Inr ''https'')"
  by (simp_all add: sampleEnv_def)

lemmas sample_defs =
  sampleMeta_def sampleSpec_def emptyStatus_def sampleWorkspace_def withPhase_def
  withAnnot_def emptyJobSpec_def emptyJobStatus_def sampleJob_def succeededJob_def
  failedJob_def sampleVariableSet_def

end
