(* ===== verification/Var_Resolver.thy ===== *)
theory Var_Resolver
  imports Samples "HOL-Library.List_Lexorder" "HOL-Library.Char_ord" "HOL-Library.Multiset"
begin

text \<open>
  Resolution of variable sets, \<open>src/internal/controller/variableset/resolver.go\<close>: reading
  each variable from its literal value, Secret or ConfigMap with a cache per kind, composing
  several sets into the effective list of a workspace, and the fingerprint that detects a
  change of it. A cache entry \<open>None\<close> records that the object was not found. The hash itself
  is the parameter \<open>sha256hex\<close>; the bytes it is applied to are modelled.
\<close>

record resolved_key_ref =
  rk_name :: string
  rk_key :: string
  rk_resourceVersion :: string
  rk_optional :: bool

record resolved_variable =
  rv_name :: string
  rv_inline :: "string ptr"
  rv_secretRef :: "resolved_key_ref ptr"
  rv_configMapRef :: "resolved_key_ref ptr"
  rv_missing :: "unresolved_reference ptr"
  rv_optionalMissing :: bool

record resolution_result =
  rr_variables :: "resolved_variable list"
  rr_unresolved :: "unresolved_reference list"

type_synonym 'a cache = "string \<rightharpoonup> 'a option"

definition emptyVariable :: "string \<Rightarrow> resolved_variable" where
  "emptyVariable n = \<lparr>rv_name = n, rv_inline = None, rv_secretRef = None,
     rv_configMapRef = None, rv_missing = None, rv_optionalMissing = False\<rparr>"

definition missingOrOptional ::
    "string \<Rightarrow> string \<Rightarrow> key_selector \<Rightarrow> string \<Rightarrow> resolved_variable" where
  "missingOrOptional varName kind sel reason =
     (if ks_optional sel then (emptyVariable varName)\<lparr>rv_optionalMissing := True\<rparr>
      else (emptyVariable varName)\<lparr>rv_missing := Some
        \<lparr>ur_variable = varName, ur_kind = kind, ur_name = ks_name sel, ur_key = ks_key sel,
         ur_reason = reason\<rparr>\<rparr>)"

definition lookupSecret ::
    "env \<Rightarrow> string \<Rightarrow> string \<Rightarrow> secret cache \<Rightarrow> (secret result \<times> secret cache) prog" where
  "lookupSecret E ns name cache =
     (case cache name of
        Some None \<Rightarrow> ret (Inl (ENotFound name), cache)
      | Some (Some existing) \<Rightarrow> ret (Inr existing, cache)
      | None \<Rightarrow> do {
          r \<leftarrow> getSecret E \<lparr>nn_namespace = ns, nn_name = name\<rparr>;
          case r of
            Inl err \<Rightarrow>
              ret (Inl err, if isNotFound err then cache(name \<mapsto> None) else cache)
          | Inr sec \<Rightarrow> ret (Inr sec, cache(name \<mapsto> Some sec))
        })"

definition lookupConfigMap ::
    "env \<Rightarrow> string \<Rightarrow> string \<Rightarrow> config_map cache \<Rightarrow> (config_map result \<times> config_map cache) prog" where
  "lookupConfigMap E ns name cache =
     (case cache name of
        Some None \<Rightarrow> ret (Inl (ENotFound name), cache)
      | Some (Some existing) \<Rightarrow> ret (Inr existing, cache)
      | None \<Rightarrow> do {
          r \<leftarrow> getConfigMap E \<lparr>nn_namespace = ns, nn_name = name\<rparr>;
          case r of
            Inl err \<Rightarrow>
              ret (Inl err, if isNotFound err then cache(name \<mapsto> None) else cache)
          | Inr cm \<Rightarrow> ret (Inr cm, cache(name \<mapsto> Some cm))
        })"

text \<open>
  The branches of \<open>resolveVariable\<close> after its lookups, as functions of what the lookup
  answered; the same code serves the Secret and the ConfigMap case.
\<close>

definition resolveSecretRef ::
    "string \<Rightarrow> variable \<Rightarrow> key_selector \<Rightarrow> secret result \<Rightarrow> resolved_variable result" where
  "resolveSecretRef ns v sel r =
     (case r of
        Inl err \<Rightarrow>
          (if isNotFound err then
             Inr (missingOrOptional (va_name v) VariableSourceKindSecret sel ReasonResourceNotFound)
           else if isForbidden err then
             Inr (missingOrOptional (va_name v) VariableSourceKindSecret sel ReasonForbidden)
           else Inl (EWrap (''read secret '' @ ns @ ''/'' @ ks_name sel) err))
      | Inr sec \<Rightarrow>
          (if se_data sec (ks_key sel) = None then
             Inr (missingOrOptional (va_name v) VariableSourceKindSecret sel ReasonKeyNotFound)
           else Inr ((emptyVariable (va_name v))\<lparr>rv_secretRef := Some
             \<lparr>rk_name = om_name (se_meta sec), rk_key = ks_key sel,
              rk_resourceVersion = om_resourceVersion (se_meta sec),
              rk_optional = ks_optional sel\<rparr>\<rparr>)))"

definition resolveConfigMapRef ::
    "string \<Rightarrow> variable \<Rightarrow> key_selector \<Rightarrow> config_map result \<Rightarrow> resolved_variable result" where
  "resolveConfigMapRef ns v sel r =
     (case r of
        Inl err \<Rightarrow>
          (if isNotFound err then
             Inr (missingOrOptional (va_name v) VariableSourceKindConfigMap sel ReasonResourceNotFound)
           else if isForbidden err then
             Inr (missingOrOptional (va_name v) VariableSourceKindConfigMap sel ReasonForbidden)
           else Inl (EWrap (''read configmap '' @ ns @ ''/'' @ ks_name sel) err))
      | Inr cm \<Rightarrow>
          (if cm_data cm (ks_key sel) = None \<and> cm_binaryData cm (ks_key sel) = None then
             Inr (missingOrOptional (va_name v) VariableSourceKindConfigMap sel ReasonKeyNotFound)
           else Inr ((emptyVariable (va_name v))\<lparr>rv_configMapRef := Some
             \<lparr>rk_name = om_name (cm_meta cm), rk_key = ks_key sel,
              rk_resourceVersion = om_resourceVersion (cm_meta cm),
              rk_optional = ks_optional sel\<rparr>\<rparr>)))"

definition invalidSpec :: "variable \<Rightarrow> resolved_variable" where
  "invalidSpec v = (emptyVariable (va_name v))\<lparr>rv_missing := Some
     \<lparr>ur_variable = va_name v, ur_kind = [], ur_name = [], ur_key = [],
      ur_reason = ''InvalidSpec''\<rparr>\<rparr>"

definition resolveVariable ::
    "env \<Rightarrow> string \<Rightarrow> variable \<Rightarrow> secret cache \<Rightarrow> config_map cache \<Rightarrow>
     (resolved_variable result \<times> secret cache \<times> config_map cache) prog" where
  "resolveVariable E ns v secrets configMaps =
     (case va_value v of
        Some val \<Rightarrow> ret (Inr ((emptyVariable (va_name v))\<lparr>rv_inline := Some val\<rparr>), secrets, configMaps)
      | None \<Rightarrow>
        (case va_valueFrom v of
           None \<Rightarrow> ret (Inr (invalidSpec v), secrets, configMaps)
         | Some src \<Rightarrow>
           (case vsrc_secretKeyRef src of
              Some sel \<Rightarrow> do {
                (r, secrets') \<leftarrow> lookupSecret E ns (ks_name sel) secrets;
                ret (resolveSecretRef ns v sel r, secrets', configMaps)
              }
            | None \<Rightarrow>
              (case vsrc_configMapKeyRef src of
                 Some sel \<Rightarrow> do {
                   (r, configMaps') \<leftarrow> lookupConfigMap E ns (ks_name sel) configMaps;
                   ret (resolveConfigMapRef ns v sel r, secrets, configMaps')
                 }
               | None \<Rightarrow> ret (Inr (invalidSpec v), secrets, configMaps)))))"

definition add_variable :: "resolution_result \<Rightarrow> resolved_variable \<Rightarrow> resolution_result" where
  "add_variable out resolved = out
     \<lparr>rr_variables := rr_variables out @ [resolved],
      rr_unresolved := rr_unresolved out @
        (case rv_missing resolved of None \<Rightarrow> [] | Some m \<Rightarrow> [m])\<rparr>"

fun resolveLoop ::
    "env \<Rightarrow> string \<Rightarrow> variable list \<Rightarrow> secret cache \<Rightarrow> config_map cache \<Rightarrow>
     resolution_result \<Rightarrow> resolution_result result prog" where
  "resolveLoop E ns [] secrets configMaps out = ret (Inr out)"
| "resolveLoop E ns (v # vs) secrets configMaps out = do {
     (r, secrets', configMaps') \<leftarrow> resolveVariable E ns v secrets configMaps;
     case r of
       Inl err \<Rightarrow> ret (Inl err)
     | Inr resolved \<Rightarrow>
         resolveLoop E ns vs secrets' configMaps' (add_variable out resolved)
   }"

definition Resolve :: "env \<Rightarrow> variable_set \<Rightarrow> resolution_result result prog" where
  "Resolve E vs = resolveLoop E (om_namespace (vs_meta vs)) (vs_variables vs)
     Map.empty Map.empty \<lparr>rr_variables = [], rr_unresolved = []\<rparr>"

section \<open>Composition and fingerprint\<close>

text \<open>One step of the inner loop of \<open>ComposeEffective\<close>: the map and the order of first use.\<close>

fun composeStep ::
    "(string \<rightharpoonup> resolved_variable) \<times> string list \<Rightarrow> resolved_variable \<Rightarrow>
     (string \<rightharpoonup> resolved_variable) \<times> string list" where
  "composeStep (byName, order) v =
     (if rv_optionalMissing v then (byName, order)
      else (byName(rv_name v \<mapsto> v),
            if byName (rv_name v) = None then order @ [rv_name v] else order))"

definition ComposeEffective :: "resolution_result list \<Rightarrow> resolved_variable list" where
  "ComposeEffective results =
     (let (byName, order) = foldl (\<lambda>acc res. foldl composeStep acc (rr_variables res))
            (Map.empty, []) results
      in map (\<lambda>name. the (byName name)) order)"

definition writeParts :: "string list \<Rightarrow> string" where
  "writeParts parts = concat (map (\<lambda>p. p @ [CHR 0x00]) parts)"

definition boolString :: "bool \<Rightarrow> string" where
  "boolString b = (if b then ''true'' else ''false'')"

definition sourceParts :: "resolved_variable \<Rightarrow> string list" where
  "sourceParts v =
     (case rv_inline v of
        Some x \<Rightarrow> [''inline'', x]
      | None \<Rightarrow>
        (case rv_secretRef v of
           Some r \<Rightarrow> [''secret'', rk_name r, rk_key r, rk_resourceVersion r, boolString (rk_optional r)]
         | None \<Rightarrow>
           (case rv_configMapRef v of
              Some r \<Rightarrow> [''configmap'', rk_name r, rk_key r, rk_resourceVersion r, boolString (rk_optional r)]
            | None \<Rightarrow>
              (case rv_missing v of
                 Some m \<Rightarrow> [''missing'', ur_kind m, ur_name m, ur_key m]
               | None \<Rightarrow> []))))"

definition fingerprintInput :: "resolved_variable list \<Rightarrow> string" where
  "fingerprintInput vars =
     concat (map (\<lambda>v. writeParts [rv_name v] @ writeParts (sourceParts v)) (sort_key rv_name vars))"

definition Fingerprint :: "'z golib_scheme \<Rightarrow> resolved_variable list \<Rightarrow> string" where
  "Fingerprint L vars =
     (if vars = [] then [] else take 16 (sha256hex L (fingerprintInput vars)))"

section \<open>One outcome per variable\<close>

definition oneOutcome :: "resolved_variable \<Rightarrow> bool" where
  "oneOutcome v \<longleftrightarrow>
     length (filter id [rv_inline v \<noteq> None, rv_secretRef v \<noteq> None, rv_configMapRef v \<noteq> None,
       rv_missing v \<noteq> None, rv_optionalMissing v]) = 1"

lemma oneOutcome_missingOrOptional [simp]:
  "oneOutcome (missingOrOptional n k sel r)" "rv_name (missingOrOptional n k sel r) = n"
  by (simp_all add: oneOutcome_def missingOrOptional_def emptyVariable_def)

lemma resolveSecretRef_outcome:
  "resolveSecretRef ns v sel r = Inr x \<Longrightarrow> oneOutcome x \<and> rv_name x = va_name v"
  by (auto simp: resolveSecretRef_def oneOutcome_def emptyVariable_def missingOrOptional_def
      split: sum.splits if_splits)

lemma resolveConfigMapRef_outcome:
  "resolveConfigMapRef ns v sel r = Inr x \<Longrightarrow> oneOutcome x \<and> rv_name x = va_name v"
  by (auto simp: resolveConfigMapRef_def oneOutcome_def emptyVariable_def missingOrOptional_def
      split: sum.splits if_splits)

lemma invalidSpec_outcome [simp]: "oneOutcome (invalidSpec v)" "rv_name (invalidSpec v) = va_name v"
  by (simp_all add: invalidSpec_def oneOutcome_def emptyVariable_def)

lemma inline_outcome [simp]:
  "oneOutcome ((emptyVariable n)\<lparr>rv_inline := Some x\<rparr>)"
  "rv_name ((emptyVariable n)\<lparr>rv_inline := y\<rparr>) = n"
  by (simp_all add: oneOutcome_def emptyVariable_def)

lemma wp_resolveVariable_outcome:
  "wp (resolveVariable E ns v sc cc)
     (\<lambda>(r, _) h'. \<forall>x. r = Inr x \<longrightarrow> oneOutcome x \<and> rv_name x = va_name v) h"
  unfolding resolveVariable_def
  by (cases "va_value v"; cases "va_valueFrom v")
    (auto simp: wp_simps
      intro!: wp_all [of _ "lookupSecret E ns n c" for n c] wp_all [of _ "lookupConfigMap E ns n c" for n c]
      dest: resolveSecretRef_outcome resolveConfigMapRef_outcome
      split: option.split)

definition missings :: "resolved_variable list \<Rightarrow> unresolved_reference list" where
  "missings vs = concat (map (\<lambda>v. case rv_missing v of None \<Rightarrow> [] | Some m \<Rightarrow> [m]) vs)"

definition resolution_inv :: "variable list \<Rightarrow> resolution_result \<Rightarrow> bool" where
  "resolution_inv vs out \<longleftrightarrow>
     map rv_name (rr_variables out) = map va_name vs \<and>
     list_all oneOutcome (rr_variables out) \<and>
     rr_unresolved out = missings (rr_variables out)"

lemma resolution_inv_add:
  "resolution_inv vs out \<Longrightarrow> oneOutcome x \<Longrightarrow> rv_name x = va_name v \<Longrightarrow>
   resolution_inv (vs @ [v]) (add_variable out x)"
  by (simp add: resolution_inv_def add_variable_def missings_def)

lemma wp_resolveLoop_inv:
  "resolution_inv pre out \<Longrightarrow>
   wp (resolveLoop E ns vs sc cc out)
     (\<lambda>r h'. \<forall>x. r = Inr x \<longrightarrow> resolution_inv (pre @ vs) x) h"
proof (induction vs arbitrary: pre sc cc out h)
  case Nil
  then show ?case by (simp add: wp_simps)
next
  case (Cons v vs)
  have step: "oneOutcome x \<Longrightarrow> rv_name x = va_name v \<Longrightarrow>
      wp (resolveLoop E ns vs sc' cc' (add_variable out x))
        (\<lambda>r h'. \<forall>x. r = Inr x \<longrightarrow> resolution_inv (pre @ v # vs) x) h'" for x sc' cc' h'
    using Cons.IH [of "pre @ [v]"] resolution_inv_add [OF Cons.prems] by simp
  show ?case
    by (simp add: wp_simps)
      (rule wp_mono [OF wp_resolveVariable_outcome], auto simp: wp_simps step split: sum.splits)
qed

text \<open>
  C32. For every variable of the set, in the order of the specification, a successful
  resolution holds exactly one outcome (a literal, a Secret key, a ConfigMap key, a hard
  miss or an optional miss) under the variable's own name, and the list of unresolved
  references is exactly the list of hard misses, in order; this for every answer of the API
  server.
\<close>

theorem Resolve_wellformed:
  assumes "result_of (Resolve E vs) h = Inr out"
  shows "map rv_name (rr_variables out) = map va_name (vs_variables vs)
    \<and> list_all oneOutcome (rr_variables out)
    \<and> rr_unresolved out = missings (rr_variables out)"
proof -
  have "wp (Resolve E vs) (\<lambda>r h'. \<forall>x. r = Inr x \<longrightarrow> resolution_inv (vs_variables vs) x) h"
    unfolding Resolve_def
    by (rule wp_resolveLoop_inv [where pre = "[]", simplified])
      (simp add: resolution_inv_def missings_def)
  with assms show ?thesis by (simp add: wp_result resolution_inv_def)
qed

definition sampleResolution :: resolution_result where
  "sampleResolution = \<lparr>rr_variables =
     [(emptyVariable ''region'')\<lparr>rv_inline := Some ''eu-west-1''\<rparr>,
      (emptyVariable ''token'')\<lparr>rv_optionalMissing := True\<rparr>,
      (emptyVariable ''user'')\<lparr>rv_missing := Some \<lparr>ur_variable = ''user'',
        ur_kind = VariableSourceKindSecret, ur_name = ''creds'', ur_key = ''user'',
        ur_reason = ReasonResourceNotFound\<rparr>\<rparr>],
     rr_unresolved = [\<lparr>ur_variable = ''user'', ur_kind = VariableSourceKindSecret,
        ur_name = ''creds'', ur_key = ''user'', ur_reason = ReasonResourceNotFound\<rparr>]\<rparr>"

lemma result_of_sample: "result_of (Resolve sampleEnv sampleVariableSet) [] = Inr sampleResolution"
  by (rule result_ofI) (simp add: Resolve_def resolveVariable_def lookupSecret_def call_defs wp_simps sample_defs
      resolveSecretRef_def missingOrOptional_def add_variable_def sampleResolution_def emptyVariable_def)

theorem Resolve_wellformed_witness:
  "result_of (Resolve sampleEnv sampleVariableSet) [] = Inr sampleResolution
   \<and> list_all oneOutcome (rr_variables sampleResolution)
   \<and> rr_unresolved sampleResolution = missings (rr_variables sampleResolution)"
  using Resolve_wellformed [OF result_of_sample] result_of_sample by simp

section \<open>The caches are transparent\<close>

definition resolveUncached ::
    "(nsname \<Rightarrow> secret result) \<Rightarrow> (nsname \<Rightarrow> config_map result) \<Rightarrow> string \<Rightarrow> variable \<Rightarrow>
     resolved_variable result" where
  "resolveUncached S C ns v =
     (case va_value v of
        Some val \<Rightarrow> Inr ((emptyVariable (va_name v))\<lparr>rv_inline := Some val\<rparr>)
      | None \<Rightarrow>
        (case va_valueFrom v of
           None \<Rightarrow> Inr (invalidSpec v)
         | Some src \<Rightarrow>
           (case vsrc_secretKeyRef src of
              Some sel \<Rightarrow>
                resolveSecretRef ns v sel (S \<lparr>nn_namespace = ns, nn_name = ks_name sel\<rparr>)
            | None \<Rightarrow>
              (case vsrc_configMapKeyRef src of
                 Some sel \<Rightarrow>
                   resolveConfigMapRef ns v sel (C \<lparr>nn_namespace = ns, nn_name = ks_name sel\<rparr>)
               | None \<Rightarrow> Inr (invalidSpec v)))))"

fun resolveAllUncached ::
    "(variable \<Rightarrow> resolved_variable result) \<Rightarrow> variable list \<Rightarrow> resolution_result \<Rightarrow>
     resolution_result result" where
  "resolveAllUncached f [] out = Inr out"
| "resolveAllUncached f (v # vs) out =
     (case f v of Inl e \<Rightarrow> Inl e | Inr x \<Rightarrow> resolveAllUncached f vs (add_variable out x))"

definition cacheAgrees :: "string \<Rightarrow> (nsname \<Rightarrow> 'a result) \<Rightarrow> 'a cache \<Rightarrow> bool" where
  "cacheAgrees ns S c \<longleftrightarrow>
     (\<forall>n e. c n = Some e \<longrightarrow>
        (case e of
           None \<Rightarrow> (\<exists>err. S \<lparr>nn_namespace = ns, nn_name = n\<rparr> = Inl err \<and> isNotFound err)
         | Some x \<Rightarrow> S \<lparr>nn_namespace = ns, nn_name = n\<rparr> = Inr x))"

lemma cacheAgrees_empty [simp]: "cacheAgrees ns S Map.empty"
  by (simp add: cacheAgrees_def)

text \<open>A lookup answers as the server does, up to the text of a not-found error.\<close>

definition sameAnswer :: "'a result \<Rightarrow> 'a result \<Rightarrow> bool" where
  "sameAnswer r s \<longleftrightarrow> r = s \<or>
     (\<exists>e e'. r = Inl e \<and> s = Inl e' \<and> isNotFound e \<and> isNotFound e')"

lemma wp_lookupSecret:
  assumes "\<And>h. ev_getSecret E h = S" and "cacheAgrees ns S c"
  shows "wp (lookupSecret E ns n c)
    (\<lambda>(r, c') h'. sameAnswer r (S \<lparr>nn_namespace = ns, nn_name = n\<rparr>) \<and> cacheAgrees ns S c') h"
  using assms(2)
  by (auto simp: lookupSecret_def call_defs wp_simps assms(1) cacheAgrees_def sameAnswer_def
      split: option.splits sum.splits) fastforce+

lemma wp_lookupConfigMap:
  assumes "\<And>h. ev_getConfigMap E h = C" and "cacheAgrees ns C c"
  shows "wp (lookupConfigMap E ns n c)
    (\<lambda>(r, c') h'. sameAnswer r (C \<lparr>nn_namespace = ns, nn_name = n\<rparr>) \<and> cacheAgrees ns C c') h"
  using assms(2)
  by (auto simp: lookupConfigMap_def call_defs wp_simps assms(1) cacheAgrees_def sameAnswer_def
      split: option.splits sum.splits) fastforce+

lemma resolveSecretRef_cong:
  "sameAnswer r s \<Longrightarrow> resolveSecretRef ns v sel r = resolveSecretRef ns v sel s"
  by (auto simp: sameAnswer_def resolveSecretRef_def)

lemma resolveConfigMapRef_cong:
  "sameAnswer r s \<Longrightarrow> resolveConfigMapRef ns v sel r = resolveConfigMapRef ns v sel s"
  by (auto simp: sameAnswer_def resolveConfigMapRef_def)

lemma wp_resolveVariable_uncached:
  assumes "\<And>h. ev_getSecret E h = S" and "\<And>h. ev_getConfigMap E h = C"
    and "cacheAgrees ns S sc" and "cacheAgrees ns C cc"
  shows "wp (resolveVariable E ns v sc cc)
    (\<lambda>(r, sc', cc') h'. r = resolveUncached S C ns v \<and> cacheAgrees ns S sc' \<and> cacheAgrees ns C cc') h"
  using assms(3,4)
  by (auto simp: resolveVariable_def resolveUncached_def wp_simps split: option.splits
      intro!: wp_mono [OF wp_lookupSecret [OF assms(1,3)]]
        wp_mono [OF wp_lookupConfigMap [OF assms(2,4)]]
      intro: resolveSecretRef_cong resolveConfigMapRef_cong)

lemma wp_resolveLoop_uncached:
  assumes "\<And>h. ev_getSecret E h = S" and "\<And>h. ev_getConfigMap E h = C"
    and "cacheAgrees ns S sc" and "cacheAgrees ns C cc"
  shows "wp (resolveLoop E ns vs sc cc out)
    (\<lambda>r h'. r = resolveAllUncached (resolveUncached S C ns) vs out) h"
  using assms(3,4)
proof (induction vs arbitrary: sc cc out h)
  case Nil
  then show ?case by (simp add: wp_simps)
next
  case (Cons v vs)
  show ?case
    by (simp add: wp_simps)
      (rule wp_mono [OF wp_resolveVariable_uncached [OF assms(1,2) Cons.prems]],
        auto simp: wp_simps Cons.IH split: sum.splits)
qed

text \<open>
  C33. The caches of \<open>Resolve\<close> do not change what it computes: against a server whose
  answers do not change during the call, the result is that of reading every Secret and
  ConfigMap afresh for every variable, the errors included.
\<close>

theorem Resolve_cache_transparent:
  assumes "\<And>h. ev_getSecret E h = S" and "\<And>h. ev_getConfigMap E h = C"
  shows "result_of (Resolve E vs) h =
    resolveAllUncached (resolveUncached S C (om_namespace (vs_meta vs))) (vs_variables vs)
      \<lparr>rr_variables = [], rr_unresolved = []\<rparr>"
  using wp_resolveLoop_uncached [OF assms cacheAgrees_empty cacheAgrees_empty]
  by (simp add: Resolve_def wp_result)

theorem Resolve_cache_transparent_witness:
  "result_of (Resolve sampleEnv sampleVariableSet) [] =
    resolveAllUncached (resolveUncached (\<lambda>k. Inl (ENotFound ''secret''))
        (\<lambda>k. Inl (ENotFound ''configmap'')) ''default'')
      (vs_variables sampleVariableSet) \<lparr>rr_variables = [], rr_unresolved = []\<rparr>"
proof -
  have "ev_getSecret sampleEnv h = (\<lambda>k. Inl (ENotFound ''secret''))"
    and "ev_getConfigMap sampleEnv h = (\<lambda>k. Inl (ENotFound ''configmap''))" for h
    by (simp_all add: sample_defs)
  then show ?thesis
    using Resolve_cache_transparent [of sampleEnv _ _ sampleVariableSet "[]"]
    by (simp add: sampleVariableSet_def sampleMeta_def)
qed

section \<open>No object is read twice\<close>

text \<open>
  The names already asked for are exactly those in the caches, so long as the server answers
  with the object or with not found.
\<close>

definition fetched :: "string \<Rightarrow> secret cache \<Rightarrow> config_map cache \<Rightarrow> call list \<Rightarrow> bool" where
  "fetched ns sc cc cs \<longleftrightarrow>
     distinct cs \<and>
     set cs \<subseteq> (\<lambda>n. C_GetSecret \<lparr>nn_namespace = ns, nn_name = n\<rparr>) ` dom sc
       \<union> (\<lambda>n. C_GetConfigMap \<lparr>nn_namespace = ns, nn_name = n\<rparr>) ` dom cc"

lemma fetched_distinct: "fetched ns sc cc cs \<Longrightarrow> distinct cs"
  by (simp add: fetched_def)

lemma fetched_empty [simp]: "fetched ns Map.empty Map.empty []"
  by (simp add: fetched_def)

lemma wp_lookupSecret_fetched:
  assumes "\<And>h k e. ev_getSecret E h k = Inl e \<Longrightarrow> isNotFound e" and "fetched ns sc cc cs"
  shows "wp (lookupSecret E ns n sc) (\<lambda>(r, sc') h'. \<exists>ds. h' = h @ ds \<and> fetched ns sc' cc (cs @ ds)) h"
proof (cases "sc n")
  case None
  with assms(2) have "fetched ns (sc(n \<mapsto> x)) cc (cs @ [C_GetSecret \<lparr>nn_namespace = ns, nn_name = n\<rparr>])" for x
    by (auto simp: fetched_def domIff)
  with None show ?thesis
    using assms(1) [of h "\<lparr>nn_namespace = ns, nn_name = n\<rparr>"]
    by (auto simp: lookupSecret_def call_defs wp_simps split: sum.split)
next
  case (Some a)
  with assms(2) show ?thesis
    by (cases a) (auto simp: lookupSecret_def wp_simps)
qed

lemma wp_lookupConfigMap_fetched:
  assumes "\<And>h k e. ev_getConfigMap E h k = Inl e \<Longrightarrow> isNotFound e" and "fetched ns sc cc cs"
  shows "wp (lookupConfigMap E ns n cc) (\<lambda>(r, cc') h'. \<exists>ds. h' = h @ ds \<and> fetched ns sc cc' (cs @ ds)) h"
proof (cases "cc n")
  case None
  with assms(2) have "fetched ns sc (cc(n \<mapsto> x)) (cs @ [C_GetConfigMap \<lparr>nn_namespace = ns, nn_name = n\<rparr>])" for x
    by (auto simp: fetched_def domIff)
  with None show ?thesis
    using assms(1) [of h "\<lparr>nn_namespace = ns, nn_name = n\<rparr>"]
    by (auto simp: lookupConfigMap_def call_defs wp_simps split: sum.split)
next
  case (Some a)
  with assms(2) show ?thesis
    by (cases a) (auto simp: lookupConfigMap_def wp_simps)
qed

lemma wp_resolveVariable_fetched:
  assumes "\<And>h k e. ev_getSecret E h k = Inl e \<Longrightarrow> isNotFound e"
    and "\<And>h k e. ev_getConfigMap E h k = Inl e \<Longrightarrow> isNotFound e"
    and "fetched ns sc cc cs"
  shows "wp (resolveVariable E ns v sc cc)
    (\<lambda>(r, sc', cc') h'. \<exists>ds. h' = h @ ds \<and> fetched ns sc' cc' (cs @ ds)) h"
  unfolding resolveVariable_def
  using assms(3)
  by (auto simp: wp_simps split: option.split
      intro!: wp_mono [OF wp_lookupSecret_fetched [OF assms(1,3)]]
        wp_mono [OF wp_lookupConfigMap_fetched [OF assms(2,3)]])

lemma wp_resolveLoop_fetched:
  assumes "\<And>h k e. ev_getSecret E h k = Inl e \<Longrightarrow> isNotFound e"
    and "\<And>h k e. ev_getConfigMap E h k = Inl e \<Longrightarrow> isNotFound e"
  shows "fetched ns sc cc cs \<Longrightarrow>
    wp (resolveLoop E ns vs sc cc out) (\<lambda>r h'. \<exists>ds. h' = h @ ds \<and> distinct (cs @ ds)) h"
proof (induction vs arbitrary: sc cc out h cs)
  case Nil
  then show ?case by (simp add: wp_simps fetched_def)
next
  case (Cons v vs)
  have step: "fetched ns sc' cc' (cs @ ds) \<Longrightarrow>
      wp (resolveLoop E ns vs sc' cc' o') (\<lambda>r h'. \<exists>es. h' = h @ es \<and> distinct (cs @ es)) (h @ ds)"
    for sc' cc' o' ds
    by (rule wp_mono [OF Cons.IH [of sc' cc' "cs @ ds"]]) auto
  show ?case
    by (simp add: wp_simps del: distinct_append)
      (rule wp_mono [OF wp_resolveVariable_fetched [OF assms Cons.prems]],
        auto simp: wp_simps intro: step dest: fetched_distinct simp del: distinct_append split: sum.splits)
qed

text \<open>
  Each Secret and each ConfigMap is read at most once per resolution, however many
  variables draw from it, when the server answers with the object or with not found.
\<close>

theorem Resolve_reads_once:
  assumes "\<And>h k e. ev_getSecret E h k = Inl e \<Longrightarrow> isNotFound e"
    and "\<And>h k e. ev_getConfigMap E h k = Inl e \<Longrightarrow> isNotFound e"
  shows "distinct (calls_of (Resolve E vs) h)"
proof -
  have "wp (Resolve E vs) (\<lambda>r h'. \<exists>ds. h' = h @ ds \<and> distinct ds) h"
    unfolding Resolve_def
    by (rule wp_resolveLoop_fetched [where cs = "[]", simplified]) (use assms in auto)
  then show ?thesis by (auto simp: wp_def calls_of_def split: prod.splits)
qed

theorem Resolve_reads_once_witness:
  "distinct (calls_of (Resolve sampleEnv sampleVariableSet) [])
   \<and> calls_of (Resolve sampleEnv sampleVariableSet) [] =
       [C_GetSecret \<lparr>nn_namespace = ''default'', nn_name = ''creds''\<rparr>]"
proof
  show "distinct (calls_of (Resolve sampleEnv sampleVariableSet) [])"
    by (rule Resolve_reads_once) auto
  show "calls_of (Resolve sampleEnv sampleVariableSet) [] =
       [C_GetSecret \<lparr>nn_namespace = ''default'', nn_name = ''creds''\<rparr>]"
    by (rule calls_ofI) (simp add: Resolve_def resolveVariable_def lookupSecret_def call_defs
        wp_simps sample_defs resolveSecretRef_def)
qed

section \<open>Composition\<close>

definition contributing :: "resolution_result list \<Rightarrow> resolved_variable list" where
  "contributing results =
     filter (\<lambda>v. \<not> rv_optionalMissing v) (concat (map rr_variables results))"

definition firstOccurrences :: "'a list \<Rightarrow> 'a list" where
  "firstOccurrences xs = rev (remdups (rev xs))"

lemma firstOccurrences_Nil [simp]: "firstOccurrences [] = []"
  by (simp add: firstOccurrences_def)

lemma firstOccurrences_snoc [simp]:
  "firstOccurrences (xs @ [x]) =
     (if x \<in> set xs then firstOccurrences xs else firstOccurrences xs @ [x])"
  by (simp add: firstOccurrences_def)

lemma set_firstOccurrences [simp]: "set (firstOccurrences xs) = set xs"
  by (simp add: firstOccurrences_def)

lemma distinct_firstOccurrences [simp]: "distinct (firstOccurrences xs)"
  by (simp add: firstOccurrences_def)

lemma foldl_composeStep:
  "foldl composeStep (Map.empty, []) vs =
     (let ws = filter (\<lambda>v. \<not> rv_optionalMissing v) vs in
      (\<lambda>n. if n \<in> rv_name ` set ws then Some (last (filter (\<lambda>v. rv_name v = n) ws)) else None,
       firstOccurrences (map rv_name ws)))"
proof (induction vs rule: rev_induct)
  case Nil
  then show ?case by simp
next
  case (snoc v vs)
  then show ?case
    by (cases "rv_optionalMissing v") (auto simp: Let_def fun_eq_iff image_iff)
qed

lemma foldl_foldl_concat:
  "foldl (\<lambda>acc res. foldl f acc (g res)) a xs = foldl f a (concat (map g xs))"
  by (induction xs arbitrary: a) auto

lemma ComposeEffective_eq:
  "ComposeEffective results =
     map (\<lambda>n. last (filter (\<lambda>v. rv_name v = n) (contributing results)))
       (firstOccurrences (map rv_name (contributing results)))"
  unfolding ComposeEffective_def contributing_def foldl_foldl_concat foldl_composeStep
  by (auto simp: Let_def)

text \<open>
  \<open>ComposeEffective\<close> is the layered override: of the variables that are not optional
  misses, taken over all sets in order, every name occurs once, in the order of its first
  occurrence, with the value of its last occurrence.
\<close>

theorem ComposeEffective_layered:
  "ComposeEffective results =
     map (\<lambda>n. last (filter (\<lambda>v. rv_name v = n) (contributing results)))
       (firstOccurrences (map rv_name (contributing results)))"
  by (rule ComposeEffective_eq)

lemma last_filter_name:
  "n \<in> rv_name ` set ws \<Longrightarrow>
   rv_name (last (filter (\<lambda>v. rv_name v = n) ws)) = n
   \<and> last (filter (\<lambda>v. rv_name v = n) ws) \<in> set ws"
proof -
  assume "n \<in> rv_name ` set ws"
  then have "filter (\<lambda>v. rv_name v = n) ws \<noteq> []" by (auto simp: filter_empty_conv)
  then have "last (filter (\<lambda>v. rv_name v = n) ws) \<in> set (filter (\<lambda>v. rv_name v = n) ws)"
    by (rule last_in_set)
  then show ?thesis by auto
qed

lemma map_rv_name_ComposeEffective:
  "map rv_name (ComposeEffective results) = firstOccurrences (map rv_name (contributing results))"
  unfolding ComposeEffective_eq map_map
  by (rule map_idI) (auto dest!: last_filter_name [OF imageI])

lemma distinct_ComposeEffective: "distinct (map rv_name (ComposeEffective results))"
  by (simp add: map_rv_name_ComposeEffective)

section \<open>Fingerprint\<close>

lemma sort_key_unique:
  fixes f :: "'a \<Rightarrow> 'b :: linorder"
  assumes "mset xs = mset ys" and "distinct (map f xs)"
  shows "sort_key f xs = sort_key f ys"
proof (rule map_sorted_distinct_set_unique)
  have sets: "set ys = set xs" using assms(1) by (metis mset_eq_setD)
  show "inj_on f (set (sort_key f xs) \<union> set (sort_key f ys))"
    using assms(2) sets by (simp add: distinct_map)
  have "mset (map f ys) = mset (map f xs)" using assms(1) by simp
  then have "distinct (map f ys)" using assms(2) by (metis mset_eq_imp_distinct_iff)
  then show "distinct (map f (sort_key f ys))"
    by (metis mset_eq_imp_distinct_iff mset_map mset_sort)
  show "distinct (map f (sort_key f xs))"
    using assms(2) by (metis mset_eq_imp_distinct_iff mset_map mset_sort)
  show "set (sort_key f xs) = set (sort_key f ys)" using sets by simp
qed simp_all

text \<open>
  The fingerprint does not depend on the order in which the sets were composed: two
  effective lists with the same variables have the same fingerprint.
\<close>

theorem Fingerprint_order_irrelevant:
  assumes "mset vars = mset vars'" and "distinct (map rv_name vars)"
  shows "Fingerprint L vars = Fingerprint L vars'"
proof -
  have "vars = [] \<longleftrightarrow> vars' = []" using assms(1) by (metis mset_zero_iff)
  moreover have "fingerprintInput vars = fingerprintInput vars'"
    unfolding fingerprintInput_def by (simp add: sort_key_unique [OF assms])
  ultimately show ?thesis by (simp add: Fingerprint_def)
qed

theorem Fingerprint_order_irrelevant_witness:
  "Fingerprint sampleEnv [emptyVariable ''a'', emptyVariable ''b''] =
   Fingerprint sampleEnv [emptyVariable ''b'', emptyVariable ''a'']"
  by (rule Fingerprint_order_irrelevant) (simp_all add: emptyVariable_def)

definition nulFree :: "string \<Rightarrow> bool" where
  "nulFree s \<longleftrightarrow> CHR 0x00 \<notin> set s"

definition variableParts :: "resolved_variable \<Rightarrow> string list" where
  "variableParts v = rv_name v # sourceParts v"

lemma append_nul_cancel:
  assumes "nulFree p" "nulFree q" "p @ CHR 0x00 # r = q @ CHR 0x00 # s"
  shows "p = q \<and> r = s"
  using assms
proof (induction p arbitrary: q)
  case Nil
  then show ?case by (cases q) (auto simp: nulFree_def)
next
  case (Cons a p)
  then show ?case by (cases q) (auto simp: nulFree_def)
qed

lemma writeParts_append: "writeParts (xs @ ys) = writeParts xs @ writeParts ys"
  by (simp add: writeParts_def)

lemma writeParts_inj:
  "list_all nulFree xs \<Longrightarrow> list_all nulFree ys \<Longrightarrow> writeParts xs = writeParts ys \<Longrightarrow> xs = ys"
proof (induction xs arbitrary: ys)
  case Nil
  then show ?case by (cases ys) (auto simp: writeParts_def)
next
  case (Cons x xs)
  then obtain y ys' where ys: "ys = y # ys'"
    by (cases ys) (auto simp: writeParts_def)
  with Cons.prems have "x = y \<and> writeParts xs = writeParts ys'"
    by (intro append_nul_cancel) (auto simp: writeParts_def)
  with Cons ys show ?case by auto
qed

lemma fingerprintInput_parts:
  "fingerprintInput vars = writeParts (concat (map variableParts (sort_key rv_name vars)))"
proof -
  have "concat (map (\<lambda>v. writeParts [rv_name v] @ writeParts (sourceParts v)) xs) =
      writeParts (concat (map variableParts xs))" for xs
    by (induction xs) (auto simp: writeParts_append variableParts_def writeParts_def)
  then show ?thesis by (simp add: fingerprintInput_def)
qed

lemma sourceParts_shape:
  assumes "oneOutcome v" and "\<not> rv_optionalMissing v"
  shows "\<exists>tag args. sourceParts v = tag # args \<and>
    ((tag = ''inline'' \<and> length args = 1) \<or> (tag = ''secret'' \<and> length args = 4) \<or>
     (tag = ''configmap'' \<and> length args = 4) \<or> (tag = ''missing'' \<and> length args = 3))"
  using assms by (auto simp: oneOutcome_def sourceParts_def split: option.splits if_splits)

lemma variableParts_cancel:
  assumes "oneOutcome v" "\<not> rv_optionalMissing v" "oneOutcome w" "\<not> rv_optionalMissing w"
    and "variableParts v @ xs = variableParts w @ ys"
  shows "variableParts v = variableParts w \<and> xs = ys"
proof -
  from sourceParts_shape [OF assms(1,2)] obtain t a where v: "sourceParts v = t # a"
    and vs: "(t = ''inline'' \<and> length a = 1) \<or> (t = ''secret'' \<and> length a = 4) \<or>
      (t = ''configmap'' \<and> length a = 4) \<or> (t = ''missing'' \<and> length a = 3)" by blast
  from sourceParts_shape [OF assms(3,4)] obtain u b where w: "sourceParts w = u # b"
    and ws: "(u = ''inline'' \<and> length b = 1) \<or> (u = ''secret'' \<and> length b = 4) \<or>
      (u = ''configmap'' \<and> length b = 4) \<or> (u = ''missing'' \<and> length b = 3)" by blast
  have "t = u" and n: "rv_name v = rv_name w" and r: "a @ xs = b @ ys"
    using assms(5) v w by (auto simp: variableParts_def)
  then have "length a = length b" using vs ws by auto
  with r have "a = b \<and> xs = ys" by simp
  then show ?thesis using v w n \<open>t = u\<close> by (simp add: variableParts_def)
qed

lemma concat_variableParts_inj:
  "list_all (\<lambda>v. oneOutcome v \<and> \<not> rv_optionalMissing v) vs \<Longrightarrow>
   list_all (\<lambda>v. oneOutcome v \<and> \<not> rv_optionalMissing v) ws \<Longrightarrow>
   concat (map variableParts vs) = concat (map variableParts ws) \<Longrightarrow>
   map variableParts vs = map variableParts ws"
proof (induction vs arbitrary: ws)
  case Nil
  then show ?case by (cases ws) (auto simp: variableParts_def)
next
  case (Cons v vs)
  then obtain w ws' where ws: "ws = w # ws'"
    by (cases ws) (auto simp: variableParts_def)
  with Cons.prems have "variableParts v = variableParts w
      \<and> concat (map variableParts vs) = concat (map variableParts ws')"
    by (intro variableParts_cancel) auto
  with Cons ws show ?case by auto
qed

definition fingerprintable :: "resolved_variable list \<Rightarrow> bool" where
  "fingerprintable vars \<longleftrightarrow>
     list_all (\<lambda>v. oneOutcome v \<and> \<not> rv_optionalMissing v \<and> list_all nulFree (variableParts v)) vars"

text \<open>
  The bytes that are hashed tell effective lists apart: two lists of resolved variables
  with the same bytes have the same names, kinds, source names, keys, resource versions and
  literals. So every rotation of a Secret changes the input of the hash.
\<close>

theorem fingerprintInput_faithful:
  assumes "fingerprintable vars" and "fingerprintable vars'"
    and "fingerprintInput vars = fingerprintInput vars'"
  shows "mset (map variableParts vars) = mset (map variableParts vars')"
proof -
  let ?s = "sort_key rv_name vars" and ?s' = "sort_key rv_name vars'"
  have nf: "list_all nulFree (concat (map variableParts (sort_key rv_name ws)))"
    if "fingerprintable ws" for ws
    using that by (auto simp: fingerprintable_def list_all_iff)
  have "concat (map variableParts ?s) = concat (map variableParts ?s')"
    using assms(3) unfolding fingerprintInput_parts
    by (rule writeParts_inj [OF nf [OF assms(1)] nf [OF assms(2)]])
  then have "map variableParts ?s = map variableParts ?s'"
    using assms(1,2) by (intro concat_variableParts_inj) (auto simp: fingerprintable_def list_all_iff)
  then have "mset (map variableParts ?s) = mset (map variableParts ?s')" by simp
  then show ?thesis by simp
qed

theorem fingerprintInput_faithful_witness:
  "let v = (emptyVariable ''a'')\<lparr>rv_inline := Some ''1''\<rparr>;
       w = (emptyVariable ''b'')\<lparr>rv_inline := Some ''2''\<rparr>
   in mset (map variableParts [v, w]) = mset (map variableParts [w, v])"
proof -
  let ?v = "(emptyVariable ''a'')\<lparr>rv_inline := Some ''1''\<rparr>"
  let ?w = "(emptyVariable ''b'')\<lparr>rv_inline := Some ''2''\<rparr>"
  have "fingerprintable [?v, ?w]" "fingerprintable [?w, ?v]"
    by (simp_all add: fingerprintable_def oneOutcome_def nulFree_def variableParts_def
        sourceParts_def emptyVariable_def)
  moreover have "fingerprintInput [?v, ?w] = fingerprintInput [?w, ?v]"
    by (simp add: fingerprintInput_def emptyVariable_def less_eq_char_simp)
  ultimately show ?thesis using fingerprintInput_faithful by (simp add: Let_def)
qed

lemma emits_lookups [emits_intros]:
  "(\<And>c. jobNeutral c \<Longrightarrow> P c) \<Longrightarrow> emits P (lookupSecret E ns n sc)"
  "(\<And>c. jobNeutral c \<Longrightarrow> P c) \<Longrightarrow> emits P (lookupConfigMap E ns n cc)"
  unfolding lookupSecret_def lookupConfigMap_def call_defs by (auto intro!: emits_intros)

lemma emits_resolveLoop [emits_intros]:
  "(\<And>c. jobNeutral c \<Longrightarrow> P c) \<Longrightarrow> emits P (resolveLoop E ns vs sc cc out)"
proof (induction vs arbitrary: sc cc out)
  case (Cons v vs)
  then have "emits P (resolveVariable E ns v sc cc)" for sc cc
    unfolding resolveVariable_def by (auto intro!: emits_intros)
  with Cons show ?case by (auto intro!: emits_intros)
qed (auto intro!: emits_intros)

end
