(* ===== verification/WS_Vars.thy ===== *)
theory WS_Vars
  imports Var_Resolver
begin

text \<open>
  Variables of a workspace, \<open>src/internal/controller/workspace/variables.go\<close>: resolving the
  variable sets of the parent project and of the workspace itself, turning the effective
  list into container environment entries, summarising unresolved references, and mapping a
  change of a variable set to the workspaces that use it.
\<close>

fun resolveRefs ::
    "env \<Rightarrow> string \<Rightarrow> string list \<Rightarrow> resolution_result list \<Rightarrow> unresolved_reference list \<Rightarrow>
     (resolution_result list \<times> unresolved_reference list) result prog" where
  "resolveRefs E ns [] results unresolved = ret (Inr (results, unresolved))"
| "resolveRefs E ns (ref # refs) results unresolved = do {
     g \<leftarrow> getVariableSet E \<lparr>nn_namespace = ns, nn_name = ref\<rparr>;
     case g of
       Inl err \<Rightarrow>
         (if isNotFound err then
            resolveRefs E ns refs results (unresolved @
              [\<lparr>ur_variable = [], ur_kind = ''VariableSet'', ur_name = ref, ur_key = [],
                ur_reason = ReasonResourceNotFound\<rparr>])
          else ret (Inl (EWrap (''get variableset '' @ ref) err)))
     | Inr vs \<Rightarrow> do {
         r \<leftarrow> Resolve E vs;
         case r of
           Inl err \<Rightarrow> ret (Inl (EWrap (''resolve variableset '' @ ref) err))
         | Inr res \<Rightarrow> resolveRefs E ns refs (results @ [res]) unresolved
       }
   }"

definition resolveWorkspaceVariables ::
    "env \<Rightarrow> workspace \<Rightarrow> (resolved_variable list \<times> unresolved_reference list) result prog" where
  "resolveWorkspaceVariables E ws = do {
     g \<leftarrow> getProject E \<lparr>nn_namespace = ws_namespace ws, nn_name = wsp_projectRef (ws_spec ws)\<rparr>;
     let projectRefs =
           (case g of
              Inl err \<Rightarrow> if isNotFound err then Inr [] else Inl (EWrap ''get parent project'' err)
            | Inr project \<Rightarrow> Inr (psp_variableSetRef (pr_spec project)));
     case projectRefs of
       Inl err \<Rightarrow> ret (Inl err)
     | Inr prefs \<Rightarrow> do {
         r \<leftarrow> resolveRefs E (ws_namespace ws) (prefs @ wsp_variableSetRef (ws_spec ws)) [] [];
         case r of
           Inl err \<Rightarrow> ret (Inl err)
         | Inr (results, unresolved) \<Rightarrow>
             let effective = ComposeEffective results in
             ret (Inr (effective, unresolved @ missings effective))
       }
   }"

definition variableEnvVar :: "resolved_variable \<Rightarrow> env_var list" where
  "variableEnvVar v =
     (let envName = ''TF_VAR_'' @ rv_name v;
          optional = (\<lambda>r. if rk_optional r then Some True else None)
      in case rv_inline v of
           Some x \<Rightarrow> [\<lparr>env_name = envName, env_value = x, env_valueFrom = None\<rparr>]
         | None \<Rightarrow>
           (case rv_secretRef v of
              Some r \<Rightarrow> [\<lparr>env_name = envName, env_value = [],
                  env_valueFrom = Some (SecretKeyRef (rk_name r) (rk_key r) (optional r))\<rparr>]
            | None \<Rightarrow>
              (case rv_configMapRef v of
                 Some r \<Rightarrow> [\<lparr>env_name = envName, env_value = [],
                     env_valueFrom = Some (ConfigMapKeyRef (rk_name r) (rk_key r) (optional r))\<rparr>]
               | None \<Rightarrow> [])))"

definition variableEnvVars :: "resolved_variable list \<Rightarrow> env_var list" where
  "variableEnvVars vars = concat (map variableEnvVar vars)"

definition formatReference :: "unresolved_reference \<Rightarrow> string" where
  "formatReference r =
     (if ur_kind r = ''VariableSet''
      then ''VariableSet '' @ quoteString (ur_name r) @ '': '' @ ur_reason r
      else ur_kind r @ '' '' @ quoteString (ur_name r) @ '' key '' @ quoteString (ur_key r)
        @ '': '' @ ur_reason r)"

fun unresolvedParts :: "nat \<Rightarrow> nat \<Rightarrow> unresolved_reference list \<Rightarrow> string list" where
  "unresolvedParts n i [] = []"
| "unresolvedParts n i (r # rs) =
     (if i \<ge> 3 then [''and '' @ natString (n - 3) @ '' more'']
      else formatReference r # unresolvedParts n (Suc i) rs)"

definition formatUnresolved :: "unresolved_reference list \<Rightarrow> string" where
  "formatUnresolved refs = joinStrings (unresolvedParts (length refs) 0 refs) ''; ''"

section \<open>Fan-out of a change to the workspaces that use a set\<close>

type_synonym project_cache = "string \<rightharpoonup> project option"

definition projectReferences :: "string \<Rightarrow> project option \<Rightarrow> bool" where
  "projectReferences name p =
     (case p of None \<Rightarrow> False | Some project \<Rightarrow> name \<in> set (psp_variableSetRef (pr_spec project)))"

definition workspaceReferencesVariableSet ::
    "env \<Rightarrow> workspace \<Rightarrow> string \<Rightarrow> project_cache \<Rightarrow> (bool \<times> project_cache) prog" where
  "workspaceReferencesVariableSet E ws name cache =
     (if name \<in> set (wsp_variableSetRef (ws_spec ws)) then ret (True, cache)
      else
        let projectKey = ws_namespace ws @ ''/'' @ wsp_projectRef (ws_spec ws) in
        case cache projectKey of
          Some p \<Rightarrow> ret (projectReferences name p, cache)
        | None \<Rightarrow> do {
            g \<leftarrow> getProject E \<lparr>nn_namespace = ws_namespace ws, nn_name = wsp_projectRef (ws_spec ws)\<rparr>;
            let p = (case g of Inl err \<Rightarrow> None | Inr project \<Rightarrow> Some project);
            ret (projectReferences name p, cache(projectKey \<mapsto> p))
          })"

fun requestsReferencing ::
    "env \<Rightarrow> string \<Rightarrow> workspace list \<Rightarrow> project_cache \<Rightarrow> nsname list \<Rightarrow> nsname list prog" where
  "requestsReferencing E name [] cache requests = ret requests"
| "requestsReferencing E name (ws # wss) cache requests = do {
     (b, cache') \<leftarrow> workspaceReferencesVariableSet E ws name cache;
     requestsReferencing E name wss cache' (if b then requests @ [ws_key ws] else requests)
   }"

definition findWorkspacesForVariableSet :: "env \<Rightarrow> variable_set \<Rightarrow> nsname list prog" where
  "findWorkspacesForVariableSet E vs = do {
     r \<leftarrow> listWorkspaces E (om_namespace (vs_meta vs)) None None;
     case r of
       Inl err \<Rightarrow> ret []
     | Inr wss \<Rightarrow> requestsReferencing E (om_name (vs_meta vs)) wss Map.empty []
   }"

lemma emits_resolveRefs [emits_intros]:
  "(\<And>c. jobNeutral c \<Longrightarrow> P c) \<Longrightarrow> emits P (resolveRefs E ns refs results unresolved)"
  by (induction refs arbitrary: results unresolved)
    (auto simp: Resolve_def call_defs intro!: emits_intros)

lemma emits_resolveWorkspaceVariables [emits_intros]:
  "(\<And>c. jobNeutral c \<Longrightarrow> P c) \<Longrightarrow> emits P (resolveWorkspaceVariables E ws)"
  unfolding resolveWorkspaceVariables_def call_defs by (auto intro!: emits_intros)

end
