(* ===== verification/WS_Run.thy ===== *)
theory WS_Run
  imports Samples
begin

text \<open>
  Run identifiers, run triggers and the reconcile schedule of a workspace,
  \<open>src/internal/controller/workspace/run.go\<close>. The schedule functions take the instants they
  read from the clock as arguments; \<open>time.ParseDuration\<close> and \<open>Duration.String\<close> are the
  parameters \<open>parseDuration\<close> and \<open>durationString\<close>. A \<open>ctrl.Result\<close> is its \<open>RequeueAfter\<close>
  duration, zero when no requeue is asked for.
\<close>

definition DefaultReconciliationInterval :: duration where
  "DefaultReconciliationInterval = 180000000000"

definition scheduledReconcileReason :: string where
  "scheduledReconcileReason = ''ScheduledReconcile''"

definition effectiveInterval :: "'z golib_scheme \<Rightarrow> workspace \<Rightarrow> duration" where
  "effectiveInterval L ws =
     (case ws_annots ws ReconcileIntervalAnnotation of
        Some val \<Rightarrow>
          (case parseDuration L val of
             Some d \<Rightarrow> if d > 0 then d else DefaultReconciliationInterval
           | None \<Rightarrow> DefaultReconciliationInterval)
      | None \<Rightarrow> DefaultReconciliationInterval)"

function backBefore :: "time \<Rightarrow> duration \<Rightarrow> time \<Rightarrow> time" where
  \<comment> \<open>the loop that walks the schedule back with the previous interval, which is positive\<close>
  "backBefore t prev next = (if 0 < prev \<and> next > t then backBefore t prev (next - prev) else next)"
  by pat_completeness auto
termination
  by (relation "measure (\<lambda>(t, prev, next). nat (next - t))") auto

function catchUp :: "time \<Rightarrow> duration \<Rightarrow> time \<Rightarrow> time" where
  \<comment> \<open>the loop that advances the schedule by whole intervals, which are positive\<close>
  "catchUp t interval next =
     (if 0 < interval \<and> \<not> next > t then catchUp t interval (next + interval) else next)"
  by pat_completeness auto
termination
  by (relation "measure (\<lambda>(t, interval, next). nat (t - next + 1))") auto

declare backBefore.simps [simp del] catchUp.simps [simp del]

definition computeNextReconcileTime ::
    "'z golib_scheme \<Rightarrow> workspace \<Rightarrow> time ptr \<Rightarrow> time \<Rightarrow> time \<times> duration \<times> bool" where
  "computeNextReconcileTime L ws existing t =
     (let interval = effectiveInterval L ws in
      if timeIsZero existing then (t + interval, interval, False)
      else
        let next0 = the existing;
            observed = wst_observedReconcileInterval (ws_status ws);
            next1 =
              (if observed \<noteq> [] \<and> observed \<noteq> durationString L interval then
                 (case parseDuration L observed of
                    Some prev \<Rightarrow> if prev > 0 then backBefore t prev next0 + interval else next0
                  | None \<Rightarrow> next0)
               else next0);
            due = (\<not> next1 > t)
        in (catchUp t interval next1, interval, due))"

definition maxScheduleJitter :: duration where
  "maxScheduleJitter = 30000000000"

definition scheduleJitter :: "env \<Rightarrow> duration \<Rightarrow> duration prog" where
  "scheduleJitter E scheduled =
     (let span = min (scheduled div 10) maxScheduleJitter in
      if span \<le> 0 then ret 0 else randInt E span)"

definition withScheduledRequeue :: "env \<Rightarrow> duration \<Rightarrow> time \<Rightarrow> duration prog" where
  "withScheduledRequeue E res next = do {
     t \<leftarrow> now E;
     let scheduled = (if next - t \<le> 0 then 1 else next - t);
     if res = 0 \<or> res > scheduled then do {
       jitter \<leftarrow> scheduleJitter E scheduled;
       ret (scheduled + jitter)
     } else ret res
   }"

definition unixNano :: "time \<Rightarrow> int" where
  "unixNano t = t - 62135596800000000000"

definition newRunID :: "env \<Rightarrow> string prog" where
  "newRunID E = do {
     t \<leftarrow> now E;
     r \<leftarrow> randBytes E;
     case r of
       Inl err \<Rightarrow> ret (runIDTime E t @ ''-'' @ hexPad 8 (nat (unixNano t mod 4294967296)))
     | Inr suffix \<Rightarrow> ret (runIDTime E t @ ''-'' @ hexEncode suffix)
   }"

definition inferMissingRunTrigger :: "workspace \<Rightarrow> run_trigger" where
  "inferMissingRunTrigger ws =
     (let detected = mget (ws_annots ws) DetectedRevisionAnnotation in
      if detected \<noteq> [] \<and> detected \<noteq> wst_observedRevision (ws_status ws) then RunTriggerRevision
      else if mget (ws_annots ws) ReconcileRequestAnnotation \<noteq> [] then RunTriggerManual
      else RunTriggerConfig)"

definition ensureCurrentRunTrigger :: "workspace \<Rightarrow> run_trigger \<times> workspace" where
  "ensureCurrentRunTrigger ws =
     (let ws' = (if wst_currentRunTrigger (ws_status ws) = RunTriggerNone
                 then ws\<lparr>ws_status := (ws_status ws)\<lparr>wst_currentRunTrigger := inferMissingRunTrigger ws\<rparr>\<rparr>
                 else ws)
      in (wst_currentRunTrigger (ws_status ws'), ws'))"

definition ensureRunMetadata :: "env \<Rightarrow> workspace \<Rightarrow> (string \<times> workspace) prog" where
  "ensureRunMetadata E ws = do {
     ws1 \<leftarrow> (if wst_currentRunID (ws_status ws) = [] then do {
        rid \<leftarrow> newRunID E;
        t \<leftarrow> now E;
        ret (ws\<lparr>ws_status := (ws_status ws)
          \<lparr>wst_currentRunID := rid, wst_lastRunStartedAt := Some t\<rparr>\<rparr>)
      } else ret ws);
     let ws2 = snd (ensureCurrentRunTrigger ws1);
     ret (wst_currentRunID (ws_status ws2), ws2)
   }"

definition currentRunObservedRevision :: "workspace \<Rightarrow> string" where
  "currentRunObservedRevision ws =
     (let sha = mget (ws_annots ws) DetectedRevisionAnnotation in
      if sha \<noteq> [] then sha else ss_targetRevision (wsp_source (ws_spec ws)))"

definition runTriggerFromReason :: "string \<Rightarrow> run_trigger" where
  "runTriggerFromReason reason =
     (if reason = ''ConfigurationChanged'' \<or> reason = ''VariablesChanged'' then RunTriggerConfig
      else if reason = ''ManualReconcileRequested'' then RunTriggerManual
      else if reason = scheduledReconcileReason then RunTriggerScheduled
      else if reason = ''NewRevisionDetected'' then RunTriggerRevision
      else if reason = ''RetryApply'' \<or> reason = ''RetryPlan'' then RunTriggerRetry
      else RunTriggerUnknown)"

fun terminalWorkspaceRunRecorded :: "phase \<Rightarrow> bool" where
  "terminalWorkspaceRunRecorded PhaseApplied = True"
| "terminalWorkspaceRunRecorded PhaseFailed = True"
| "terminalWorkspaceRunRecorded PhaseRejected = True"
| "terminalWorkspaceRunRecorded PhaseValidationFailed = True"
| "terminalWorkspaceRunRecorded p = False"

section \<open>The schedule loops\<close>

lemma backBefore_le: "0 < prev \<Longrightarrow> backBefore t prev next \<le> max t next"
proof (induction t prev "next" rule: backBefore.induct)
  case (1 t prev "next")
  then show ?case
    by (cases "next > t") (auto simp: backBefore.simps [of t prev "next"])
qed

lemma backBefore_past: "0 < prev \<Longrightarrow> backBefore t prev next \<le> t"
proof (induction t prev "next" rule: backBefore.induct)
  case (1 t prev "next")
  then show ?case
    by (cases "next > t") (auto simp: backBefore.simps [of t prev "next"])
qed

lemma catchUp_spec:
  "0 < i \<Longrightarrow> next \<le> t + i \<Longrightarrow>
   t < catchUp t i next \<and> catchUp t i next \<le> t + i
   \<and> (\<exists>k. 0 \<le> k \<and> catchUp t i next = next + k * i)"
proof (induction t i "next" rule: catchUp.induct)
  case (1 t i "next")
  show ?case
  proof (cases "next > t")
    case True
    then have "catchUp t i next = next" by (simp add: catchUp.simps [of t i "next"])
    with True "1.prems" show ?thesis by (auto intro: exI [of _ 0])
  next
    case False
    then have eq: "catchUp t i next = catchUp t i (next + i)"
      using "1.prems" by (simp add: catchUp.simps [of t i "next"])
    from False "1" obtain k where k: "0 \<le> k" "catchUp t i (next + i) = next + i + k * i"
      and b: "t < catchUp t i (next + i)" "catchUp t i (next + i) \<le> t + i" by fastforce
    from k(2) have "catchUp t i (next + i) = next + (k + 1) * i" by (simp add: algebra_simps)
    with k(1) b eq show ?thesis by (metis add_nonneg_nonneg zero_le_one)
  qed
qed

lemma catchUp_future: "next > t \<Longrightarrow> catchUp t i next = next"
  by (simp add: catchUp.simps)

lemma effectiveInterval_pos: "0 < effectiveInterval L ws"
  by (simp add: effectiveInterval_def DefaultReconciliationInterval_def split: option.split)

lemma backBefore_steps:
  "0 < prev \<Longrightarrow> \<exists>j. 0 \<le> j \<and> backBefore t prev next = next - j * prev"
proof (induction t prev "next" rule: backBefore.induct)
  case (1 t prev "next")
  show ?case
  proof (cases "next > t")
    case True
    with 1 obtain j where j: "0 \<le> j" "backBefore t prev (next - prev) = next - prev - j * prev" by auto
    then have "backBefore t prev next = next - (j + 1) * prev"
      using True "1.prems" by (simp add: backBefore.simps [of t prev "next"] algebra_simps)
    with j(1) show ?thesis by (intro exI [of _ "j + 1"]) simp
  next
    case False
    then have "backBefore t prev next = next - 0 * prev"
      by (simp add: backBefore.simps [of t prev "next"])
    then show ?thesis by (intro exI [of _ 0]) simp
  qed
qed

lemma catchUp_due:
  "0 < i \<Longrightarrow> \<not> next > t \<Longrightarrow>
   t < catchUp t i next \<and> catchUp t i next \<le> t + i \<and> (\<exists>k. 1 \<le> k \<and> catchUp t i next = next + k * i)"
  using catchUp_spec [of i "next" t]
  by (metis add.commute add_cancel_right_right add_mono less_le_not_le linorder_not_less mult_zero_left
      nle_le zero_less_one_class.zero_le_one int_one_le_iff_zero_less order_le_less)

section \<open>Properties of the schedule\<close>

definition intervalUnchanged :: "'z golib_scheme \<Rightarrow> workspace \<Rightarrow> bool" where
  "intervalUnchanged L ws \<longleftrightarrow>
     wst_observedReconcileInterval (ws_status ws) \<in> {[], durationString L (effectiveInterval L ws)}"

text \<open>
  The schedule keeps its cadence. From a stored instant and an unchanged interval, the
  next run is the stored instant itself while that is in the future; once it has passed it
  is due, and the next run is the first instant after now that lies a whole number of
  intervals after the stored one, so no run is skipped twice and none drifts. With nothing
  stored the next run is one interval away and nothing is due.
\<close>

theorem computeNextReconcileTime_cadence:
  assumes "computeNextReconcileTime L ws existing t = (next, interval, due)"
    and "intervalUnchanged L ws"
  shows "interval = effectiveInterval L ws \<and> t < next
    \<and> (timeIsZero existing \<longrightarrow> next = t + interval \<and> \<not> due)
    \<and> (\<not> timeIsZero existing \<longrightarrow>
        due = (the existing \<le> t)
        \<and> (if due then next \<le> t + interval \<and> (\<exists>k \<ge> 1. next = the existing + k * interval)
           else next = the existing))"
proof -
  let ?i = "effectiveInterval L ws"
  have i: "0 < ?i" by (rule effectiveInterval_pos)
  show ?thesis
  proof (cases "timeIsZero existing")
    case True
    with assms(1) i show ?thesis by (auto simp: computeNextReconcileTime_def Let_def)
  next
    case False
    with assms have eq: "next = catchUp t ?i (the existing)" "interval = ?i" "due = (\<not> the existing > t)"
      by (auto simp: computeNextReconcileTime_def Let_def intervalUnchanged_def)
    with False show ?thesis
      using catchUp_due [OF i, of t "the existing"] catchUp_future [of t "the existing" ?i]
      by (cases "the existing > t") auto
  qed
qed

theorem computeNextReconcileTime_cadence_witness:
  "computeNextReconcileTime sampleEnv sampleWorkspace (Some 10) 20 =
     (180000000010, 180000000000, True) \<and> (20 :: int) < 180000000010"
proof -
  have c: "computeNextReconcileTime sampleEnv sampleWorkspace (Some 10) 20 =
      (180000000010, 180000000000, True)"
    by (simp add: computeNextReconcileTime_def Let_def timeIsZero_def effectiveInterval_def
        DefaultReconciliationInterval_def sample_defs catchUp.simps)
  have "intervalUnchanged sampleEnv sampleWorkspace"
    by (simp add: intervalUnchanged_def sample_defs)
  from computeNextReconcileTime_cadence [OF c this] c show ?thesis by simp
qed

text \<open>
  When the interval annotation changed since the stored instant was computed, the new
  schedule starts from the last instant of the old one that is not after now, so the next
  run lies in the future and at most one new interval away: shortening an interval takes
  effect at once, however far away the stored instant was.
\<close>

theorem computeNextReconcileTime_interval_change:
  assumes "computeNextReconcileTime L ws (Some e) t = (next, interval, due)"
    and "e \<noteq> 0" and "\<not> intervalUnchanged L ws"
    and "parseDuration L (wst_observedReconcileInterval (ws_status ws)) = Some prev" and "0 < prev"
  shows "t < next \<and> next \<le> t + effectiveInterval L ws
    \<and> (\<exists>j \<ge> 0. \<exists>k \<ge> 1. e - j * prev \<le> t \<and> next = e - j * prev + k * effectiveInterval L ws)"
proof -
  let ?i = "effectiveInterval L ws" and ?b = "backBefore t prev e"
  have i: "0 < ?i" by (rule effectiveInterval_pos)
  have nxt: "next = catchUp t ?i (?b + ?i)"
    using assms by (auto simp: computeNextReconcileTime_def Let_def intervalUnchanged_def timeIsZero_def)
  have b: "?b \<le> t" by (rule backBefore_past [OF assms(5)])
  obtain j where j: "0 \<le> j" "?b = e - j * prev" using backBefore_steps [OF assms(5)] by blast
  have "t < next \<and> next \<le> t + ?i" and "\<exists>k \<ge> 0. next = ?b + ?i + k * ?i"
    using catchUp_spec [OF i, of "?b + ?i" t] b nxt by auto
  moreover then obtain k where "0 \<le> k" "next = ?b + ?i + k * ?i" by blast
  then have "1 \<le> k + 1" "next = ?b + (k + 1) * ?i" by (auto simp: algebra_simps)
  ultimately show ?thesis using j b by metis
qed

theorem computeNextReconcileTime_interval_change_witness:
  "let ws = sampleWorkspace\<lparr>ws_status := emptyStatus\<lparr>wst_observedReconcileInterval := ''1m''\<rparr>\<rparr>
   in computeNextReconcileTime sampleEnv ws (Some 70000000000) 20000000000 =
        (190000000000, 180000000000, False)
      \<and> (190000000000 :: int) \<le> 20000000000 + 180000000000"
proof -
  let ?ws = "sampleWorkspace\<lparr>ws_status := emptyStatus\<lparr>wst_observedReconcileInterval := ''1m''\<rparr>\<rparr>"
  have c: "computeNextReconcileTime sampleEnv ?ws (Some 70000000000) 20000000000 =
      (190000000000, 180000000000, False)"
    by (simp add: computeNextReconcileTime_def Let_def timeIsZero_def effectiveInterval_def
        DefaultReconciliationInterval_def sample_defs catchUp.simps backBefore.simps)
  have "effectiveInterval sampleEnv ?ws = 180000000000"
    by (simp add: effectiveInterval_def DefaultReconciliationInterval_def sample_defs)
  moreover have "\<not> intervalUnchanged sampleEnv ?ws"
    by (simp add: intervalUnchanged_def effectiveInterval_def DefaultReconciliationInterval_def sample_defs)
  moreover have "parseDuration sampleEnv (wst_observedReconcileInterval (ws_status ?ws)) = Some 60000000000"
    by (simp add: sample_defs)
  ultimately show ?thesis
    using computeNextReconcileTime_interval_change [OF c] c by (simp add: Let_def)
qed



lemma emits_newRunID [emits_intros]: "(\<And>c. jobNeutral c \<Longrightarrow> P c) \<Longrightarrow> emits P (newRunID E)"
  unfolding newRunID_def call_defs by (auto intro!: emits_intros)

lemma emits_ensureRunMetadata [emits_intros]:
  "(\<And>c. jobNeutral c \<Longrightarrow> P c) \<Longrightarrow> emits P (ensureRunMetadata E ws)"
  unfolding ensureRunMetadata_def call_defs by (auto intro!: emits_intros)

lemma emits_withScheduledRequeue [emits_intros]:
  "(\<And>c. jobNeutral c \<Longrightarrow> P c) \<Longrightarrow> emits P (withScheduledRequeue E res next)"
  unfolding withScheduledRequeue_def scheduleJitter_def call_defs by (auto intro!: emits_intros)

end
