(* ===== verification/WS_Job.thy ===== *)
theory WS_Job
  imports WS_Vars WS_Run
begin

text \<open>
  Construction of the plan and apply Jobs and of the volume claim of a workspace,
  \<open>src/internal/controller/workspace/job.go\<close>, with the configuration read from the
  environment (\<open>config.go\<close>) and the lookup of repository credentials
  (\<open>workspace_controller.go\<close>). The reconciler record holds the fields of
  \<open>WorkspaceReconciler\<close> the code reads; of the clients it may lack, whether they are set.
  The hash of the specification, the parsing of quantities, label selectors and the owner
  reference belong to other packages and are parameters.
\<close>

record reconciler =
  rec_jobImage :: string
  rec_hasClientset :: bool
  rec_hasLogStore :: bool
  rec_hasRunRecorder :: bool
  rec_jobResources :: "(string \<times> string) list"
  rec_defaultPVCSize :: string

record run_context =
  rc_planJobName :: string
  rc_applyJobName :: string
  rc_planFile :: string
  rc_pvcName :: string
  rc_planJob :: "job ptr"
  rc_applyJob :: "job ptr"
  rc_resolvedVars :: "resolved_variable list"
  rc_variablesHash :: string

section \<open>Configuration\<close>

definition parseResource :: "'z golib_scheme \<Rightarrow> string \<Rightarrow> string \<Rightarrow> string result" where
  "parseResource L var fallback =
     (let v = (if osGetenv L var = [] then fallback else osGetenv L var) in
      case parseQuantity L v of
        Inl err \<Rightarrow> Inl (EWrap (var @ '' '' @ quoteString v @ '' is not a valid quantity'') err)
      | Inr q \<Rightarrow> Inr q)"

definition loadJobResourcesFromEnv :: "'z golib_scheme \<Rightarrow> (string \<times> string) list result" where
  "loadJobResourcesFromEnv L =
     (case parseResource L ''MAGOS_WORKSPACE_JOB_CPU_REQUEST'' ''125m'' of
        Inl err \<Rightarrow> Inl err
      | Inr cpuReq \<Rightarrow>
     (case parseResource L ''MAGOS_WORKSPACE_JOB_MEMORY_REQUEST'' ''128Mi'' of
        Inl err \<Rightarrow> Inl err
      | Inr memReq \<Rightarrow>
     (case parseResource L ''MAGOS_WORKSPACE_JOB_CPU_LIMIT'' ''250m'' of
        Inl err \<Rightarrow> Inl err
      | Inr cpuLim \<Rightarrow>
     (case parseResource L ''MAGOS_WORKSPACE_JOB_MEMORY_LIMIT'' ''256Mi'' of
        Inl err \<Rightarrow> Inl err
      | Inr memLim \<Rightarrow>
          Inr [(''requests.cpu'', cpuReq), (''requests.memory'', memReq),
               (''limits.cpu'', cpuLim), (''limits.memory'', memLim)]))))"

definition loadDefaultPVCSizeFromEnv :: "'z golib_scheme \<Rightarrow> string result" where
  "loadDefaultPVCSizeFromEnv L =
     (let v = osGetenv L ''MAGOS_WORKSPACE_PVC_SIZE_DEFAULT'' in
      if v = [] then Inr []
      else case parseQuantity L v of
        Inl err \<Rightarrow> Inl (EWrap (''MAGOS_WORKSPACE_PVC_SIZE_DEFAULT '' @ quoteString v
                     @ '' is not a valid quantity'') err)
      | Inr q \<Rightarrow> Inr v)"

definition newReconciler ::
    "'z golib_scheme \<Rightarrow> string \<Rightarrow> bool \<Rightarrow> bool \<Rightarrow> bool \<Rightarrow> reconciler result" where
  "newReconciler L jobImage hasClientset hasLogStore hasRunRecorder =
     (case loadJobResourcesFromEnv L of
        Inl err \<Rightarrow> Inl err
      | Inr jobResources \<Rightarrow>
        (case loadDefaultPVCSizeFromEnv L of
           Inl err \<Rightarrow> Inl err
         | Inr defaultPVCSize \<Rightarrow>
             Inr \<lparr>rec_jobImage = jobImage, rec_hasClientset = hasClientset,
                 rec_hasLogStore = hasLogStore, rec_hasRunRecorder = hasRunRecorder,
                 rec_jobResources = jobResources, rec_defaultPVCSize = defaultPVCSize\<rparr>))"

section \<open>Repository credentials\<close>

definition SecretKeyRepoURL :: string where "SecretKeyRepoURL = ''repoURL''"
definition SecretKeyUsername :: string where "SecretKeyUsername = ''username''"
definition SecretKeyPassword :: string where "SecretKeyPassword = ''password''"
definition SecretKeySSHPrivateKey :: string where "SecretKeySSHPrivateKey = ''sshPrivateKey''"
definition RepoSecretLabelKey :: string where "RepoSecretLabelKey = ''magosproject.io/secret-type''"
definition RepoSecretLabelValue :: string where "RepoSecretLabelValue = ''repository''"

definition normalizeRepoURL :: "string \<Rightarrow> string" where
  "normalizeRepoURL u =
     trimSuffix (trimSuffix (trimSuffix (trimSpace u) ''/'') ''.git'') ''/''"

definition getRepoCredentials :: "env \<Rightarrow> string \<Rightarrow> string \<Rightarrow> secret option result prog" where
  "getRepoCredentials E ns targetRepoURL = do {
     r \<leftarrow> listRepoSecrets E ns;
     case r of
       Inl err \<Rightarrow> ret (Inl err)
     | Inr secrets \<Rightarrow>
         ret (Inr (List.find (\<lambda>s. normalizeRepoURL (mget (se_data s) SecretKeyRepoURL)
                                  = normalizeRepoURL targetRepoURL) secrets))
   }"

definition findWorkspacesForSecret :: "env \<Rightarrow> secret \<Rightarrow> nsname list prog" where
  "findWorkspacesForSecret E sec =
     (if om_labels (se_meta sec) RepoSecretLabelKey \<noteq> Some RepoSecretLabelValue then ret []
      else
        case se_data sec SecretKeyRepoURL of
          None \<Rightarrow> ret []
        | Some repoURL \<Rightarrow> do {
            r \<leftarrow> listWorkspaces E (om_namespace (se_meta sec)) None None;
            case r of
              Inl err \<Rightarrow> ret []
            | Inr wss \<Rightarrow>
                ret (map ws_key (filter (\<lambda>ws.
                  normalizeRepoURL (ss_repoURL (wsp_source (ws_spec ws))) = normalizeRepoURL repoURL) wss))
          })"

section \<open>The volume claim\<close>

definition DefaultWorkspacePVCSize :: string where
  "DefaultWorkspacePVCSize = ''1Gi''"

definition resolveWorkspacePVCSize :: "reconciler \<Rightarrow> workspace \<Rightarrow> string" where
  "resolveWorkspacePVCSize R ws =
     (if wsp_pvcSize (ws_spec ws) \<noteq> [] then wsp_pvcSize (ws_spec ws)
      else if rec_defaultPVCSize R \<noteq> [] then rec_defaultPVCSize R
      else DefaultWorkspacePVCSize)"

definition newMeta :: "string \<Rightarrow> string \<Rightarrow> strmap \<Rightarrow> object_meta" where
  "newMeta ns name labels = \<lparr>om_name = name, om_namespace = ns, om_uid = [],
     om_resourceVersion = [], om_generation = 0, om_deletionTimestamp = None,
     om_finalizers = [], om_labels = labels, om_annotations = Map.empty, om_ownerUIDs = []\<rparr>"

definition ensurePVC :: "env \<Rightarrow> reconciler \<Rightarrow> workspace \<Rightarrow> string \<Rightarrow> goerr option prog" where
  "ensurePVC E R ws pvcName = do {
     r \<leftarrow> getPVC E \<lparr>nn_namespace = ws_namespace ws, nn_name = pvcName\<rparr>;
     case r of
       Inr p \<Rightarrow> ret None
     | Inl err \<Rightarrow>
         (if isNotFound err then
            (let size = resolveWorkspacePVCSize R ws in
             case parseQuantity E size of
               Inl perr \<Rightarrow> ret (Some (EWrap (''invalid workspace PVC size '' @ quoteString size) perr))
             | Inr requestedStorage \<Rightarrow>
                 (case setControllerReference E (ws_meta ws) (newMeta (ws_namespace ws) pvcName Map.empty) of
                    Inl oerr \<Rightarrow> ret (Some oerr)
                  | Inr m \<Rightarrow> createPVC E \<lparr>pvc_meta = m, pvc_accessModes = [''ReadWriteOnce''],
                      pvc_storage = requestedStorage\<rparr>))
          else ret (Some err))
   }"

section \<open>Jobs\<close>

definition jobTypePlan :: string where "jobTypePlan = ''plan''"
definition jobTypeApply :: string where "jobTypeApply = ''apply''"
definition runIDLabelKey :: string where "runIDLabelKey = ''magosproject.io/run-id''"
definition workspaceLabelKey :: string where "workspaceLabelKey = ''magosproject.io/workspace''"
definition jobTypeLabelKey :: string where "jobTypeLabelKey = ''magosproject.io/job-type''"

definition DefaultJobTimeoutSeconds :: int where
  "DefaultJobTimeoutSeconds = 86400"

definition getSpecHash :: "'z golib_scheme \<Rightarrow> workspace \<Rightarrow> string" where
  "getSpecHash L ws = take 8 (sha256hex L (marshalSpec L (ws_spec ws)))"

definition selectorString :: "'z golib_scheme \<Rightarrow> label_selector \<Rightarrow> string" where
  "selectorString L s = (case labelSelectorAsSelector L s of Inl err \<Rightarrow> [] | Inr t \<Rightarrow> t)"

definition specPolicySelector :: "validation_spec ptr \<Rightarrow> label_selector ptr" where
  "specPolicySelector v = (case v of None \<Rightarrow> None | Some x \<Rightarrow> vl_policySelector x)"

definition resolveEffectivePolicySelector :: "env \<Rightarrow> workspace \<Rightarrow> string prog" where
  "resolveEffectivePolicySelector E ws =
     (case specPolicySelector (wsp_validation (ws_spec ws)) of
        Some s \<Rightarrow> ret (selectorString E s)
      | None \<Rightarrow> do {
          g \<leftarrow> getProject E \<lparr>nn_namespace = ws_namespace ws, nn_name = wsp_projectRef (ws_spec ws)\<rparr>;
          case g of
            Inl err \<Rightarrow> ret []
          | Inr project \<Rightarrow>
              (case specPolicySelector (psp_validation (pr_spec project)) of
                 Some s \<Rightarrow> ret (selectorString E s)
               | None \<Rightarrow> ret [])
        })"

definition literal :: "string \<Rightarrow> string \<Rightarrow> env_var" where
  "literal n v = \<lparr>env_name = n, env_value = v, env_valueFrom = None\<rparr>"

definition fromSecret :: "string \<Rightarrow> secret \<Rightarrow> string \<Rightarrow> env_var" where
  "fromSecret n s k = \<lparr>env_name = n, env_value = [],
     env_valueFrom = Some (SecretKeyRef (om_name (se_meta s)) k None)\<rparr>"

definition credentialEnv :: "secret option \<Rightarrow> env_var list" where
  "credentialEnv auth =
     (case auth of
        None \<Rightarrow> []
      | Some s \<Rightarrow>
          (if se_data s SecretKeySSHPrivateKey \<noteq> None then
             [fromSecret ''GIT_SSH_PRIVATE_KEY'' s SecretKeySSHPrivateKey]
           else if se_data s SecretKeyUsername \<noteq> None then
             [fromSecret ''GIT_USERNAME'' s SecretKeyUsername,
              fromSecret ''GIT_PASSWORD'' s SecretKeyPassword]
           else []))"

definition baseEnv :: "'z golib_scheme \<Rightarrow> workspace \<Rightarrow> run_context \<Rightarrow> string \<Rightarrow> string \<Rightarrow> env_var list" where
  "baseEnv L ws rc jobType runID =
     [literal ''REPO_URL'' (ss_repoURL (wsp_source (ws_spec ws))),
      literal ''TF_VERSION'' (tf_version (wsp_terraform (ws_spec ws))),
      literal ''PROJECT_REF'' (wsp_projectRef (ws_spec ws)),
      literal ''MAGOS_JOB_TYPE'' jobType,
      literal ''MAGOS_PLAN_FILE'' (rc_planFile rc),
      literal ''MAGOS_RUN_ID'' runID]
     @ (if jobType = jobTypePlan
        then [literal ''TARGET_REVISION'' (ss_targetRevision (wsp_source (ws_spec ws)))] else [])
     @ (if ss_path (wsp_source (ws_spec ws)) \<noteq> []
        then [literal ''TF_PATH'' (ss_path (wsp_source (ws_spec ws)))] else [])
     @ (if tf_tfvarsPath (wsp_terraform (ws_spec ws)) \<noteq> []
        then [literal ''TF_VAR_FILE'' (tf_tfvarsPath (wsp_terraform (ws_spec ws)))] else [])
     @ variableEnvVars (rc_resolvedVars rc)
     @ (if mget (ws_annots ws) TFLogLevelAnnotation \<noteq> []
        then [literal ''MAGOS_TF_LOG_LEVEL'' (mget (ws_annots ws) TFLogLevelAnnotation)] else [])
     @ (if osGetenv L ''NO_COLOR'' \<noteq> [] then [literal ''NO_COLOR'' ''1''] else [])"

definition phaseOverrides :: "workspace \<Rightarrow> string \<Rightarrow> job_overrides ptr" where
  "phaseOverrides ws jobType =
     (if jobType = jobTypePlan then wsp_plan (ws_spec ws)
      else if jobType = jobTypeApply then wsp_apply (ws_spec ws) else None)"

definition jobTimeout :: "workspace \<Rightarrow> string \<Rightarrow> int" where
  "jobTimeout ws jobType =
     (case phaseOverrides ws jobType of
        None \<Rightarrow> DefaultJobTimeoutSeconds
      | Some o' \<Rightarrow> (case jo_timeoutSeconds o' of None \<Rightarrow> DefaultJobTimeoutSeconds | Some t \<Rightarrow> t))"

definition podAnnotations :: "workspace \<Rightarrow> string \<Rightarrow> strmap" where
  "podAnnotations ws jobType = wsp_annotations (ws_spec ws) ++
     (case phaseOverrides ws jobType of None \<Rightarrow> Map.empty | Some o' \<Rightarrow> jo_annotations o')"

definition jobLabels :: "workspace \<Rightarrow> string \<Rightarrow> string \<Rightarrow> strmap" where
  "jobLabels ws jobType runID =
     [workspaceLabelKey \<mapsto> ws_name ws, jobTypeLabelKey \<mapsto> jobType, runIDLabelKey \<mapsto> runID]"

definition constructJobForWorkspace ::
    "env \<Rightarrow> reconciler \<Rightarrow> workspace \<Rightarrow> run_context \<Rightarrow> string \<Rightarrow> string \<Rightarrow> job result prog" where
  "constructJobForWorkspace E R ws rc jobType runID = do {
     let jobName = (if jobType = jobTypeApply then rc_applyJobName rc else rc_planJobName rc);
     policyEnv \<leftarrow> (if jobType = jobTypePlan then do {
         policySelector \<leftarrow> resolveEffectivePolicySelector E ws;
         ret (if policySelector \<noteq> [] then [literal ''MAGOS_POLICY_SELECTOR'' policySelector] else [])
       } else ret []);
     auth \<leftarrow> getRepoCredentials E (ws_namespace ws) (ss_repoURL (wsp_source (ws_spec ws)));
     case auth of
       Inl err \<Rightarrow> ret (Inl (EWrap ''failed to resolve repository credentials'' err))
     | Inr authSecret \<Rightarrow>
         (case setControllerReference E (ws_meta ws)
              (newMeta (ws_namespace ws) jobName (jobLabels ws jobType runID)) of
            Inl err \<Rightarrow> ret (Inl err)
          | Inr m \<Rightarrow> ret (Inr
              \<lparr>job_meta = m,
               job_spec_of = \<lparr>jsp_backoffLimit = 0,
                 jsp_activeDeadlineSeconds = jobTimeout ws jobType,
                 jsp_podAnnotations = podAnnotations ws jobType,
                 jsp_podLabels = jobLabels ws jobType runID,
                 jsp_restartPolicy = ''Never'',
                 jsp_serviceAccountName = wsp_serviceAccountName (ws_spec ws),
                 jsp_volumeClaim = rc_pvcName rc,
                 jsp_image = rec_jobImage R,
                 jsp_env = baseEnv E ws rc jobType runID @ policyEnv @ credentialEnv authSecret,
                 jsp_resources = rec_jobResources R,
                 jsp_mountPath = ''/workspace-data'',
                 jsp_runAsNonRoot = True,
                 jsp_allowPrivilegeEscalation = False,
                 jsp_dropCapabilities = [''ALL''],
                 jsp_runAsUser = 10001,
                 jsp_runAsGroup = 10001,
                 jsp_fsGroup = 10001\<rparr>,
               job_status_of = \<lparr>jst_active = 0, jst_succeeded = 0, jst_failed = 0,
                 jst_startTime = None, jst_completionTime = None, jst_conditions = []\<rparr>\<rparr>))
   }"

lemma emits_constructJobForWorkspace [emits_intros]:
  "(\<And>c. jobNeutral c \<Longrightarrow> P c) \<Longrightarrow> emits P (constructJobForWorkspace E R ws rc jobType runID)"
  unfolding constructJobForWorkspace_def resolveEffectivePolicySelector_def getRepoCredentials_def
    call_defs
  by (auto intro!: emits_intros)

end
