(* ===== verification/WS_Logs.thy ===== *)
theory WS_Logs
  imports WS_Job
begin

text \<open>
  Pod logs of a run, \<open>src/internal/controller/workspace/logs.go\<close>: finding the policy
  verdict a plan job prints, reading a log up to a cap, and archiving a finished phase in the
  object store and in the run records of the API. A log stream is the bytes it delivers
  and the error it ends with, if any. Compression, JSON decoding, the object store and the
  run recorder are parameters.
\<close>

section \<open>The policy verdict\<close>

definition dropCR :: "string \<Rightarrow> string" where
  "dropCR line = trimSuffix line [CHR 0x0D]"

definition maxScanTokenSize :: nat where
  "maxScanTokenSize = 65536"

fun scanPolicyResult ::
    "'z golib_scheme \<Rightarrow> goerr option \<Rightarrow> string list \<Rightarrow> policy_violation list result" where
  "scanPolicyResult L readErr [] =
     (case readErr of
        None \<Rightarrow> Inr []
      | Some err \<Rightarrow> Inl (EWrap ''error reading pod logs'' err))"
| "scanPolicyResult L readErr (raw # raws) =
     (if length raw \<ge> maxScanTokenSize then
        Inl (EWrap ''error reading pod logs'' (EMsg ''bufio.Scanner: token too long''))
      else if hasPrefix (dropCR raw) ''MAGOS_RESULT:'' then
        (case unmarshalPolicyResult L (drop (length ''MAGOS_RESULT:'') (dropCR raw)) of
           Inl err \<Rightarrow> Inl (EWrap ''failed to parse MAGOS_RESULT'' err)
         | Inr violations \<Rightarrow> Inr violations)
      else scanPolicyResult L readErr raws)"

definition getJobPod :: "env \<Rightarrow> string \<Rightarrow> string \<Rightarrow> pod result prog" where
  "getJobPod E ns jobName = do {
     r \<leftarrow> listPods E ns jobName;
     case r of
       Inl err \<Rightarrow> ret (Inl (EWrap (''failed to list pods for job '' @ jobName) err))
     | Inr pods \<Rightarrow>
         (case pods of
            [] \<Rightarrow> ret (Inl (EMsg (''no pods found for job '' @ jobName)))
          | p # ps \<Rightarrow> ret (Inr p))
   }"

definition readPolicyViolations :: "env \<Rightarrow> string \<Rightarrow> string \<Rightarrow> policy_violation list result prog" where
  "readPolicyViolations E ns jobName = do {
     p \<leftarrow> getJobPod E ns jobName;
     case p of
       Inl err \<Rightarrow> ret (Inl err)
     | Inr pd \<Rightarrow> do {
         s \<leftarrow> readLogs E ns (om_name (pod_meta pd));
         case s of
           Inl err \<Rightarrow>
             ret (Inl (EWrap (''failed to stream logs for pod '' @ om_name (pod_meta pd)) err))
         | Inr (data, readErr) \<Rightarrow> ret (scanPolicyResult E readErr (scanLines data))
       }
   }"

section \<open>Reading and archiving a log\<close>

definition maxLogBytes :: nat where
  "maxLogBytes = 50 * 1024 * 1024"

definition truncationMarker :: string where
  "truncationMarker = CHR 0x0A # ''[log truncated: exceeded 50 MiB limit]''"

text \<open>
  \<open>io.ReadAll\<close> over \<open>io.LimitReader\<close>: the error of the stream is met only when the limit is
  not reached first.
\<close>

definition capLog :: "nat \<Rightarrow> string \<times> goerr option \<Rightarrow> string result" where
  "capLog limit s =
     (case s of (stream, readErr) \<Rightarrow>
        if length stream \<le> limit \<and> readErr \<noteq> None then Inl (the readErr)
        else
          let data = take (limit + 1) stream in
          Inr (if length data > limit then take limit data @ truncationMarker else data))"

definition readPodLogs :: "env \<Rightarrow> string \<Rightarrow> string \<Rightarrow> string result prog" where
  "readPodLogs E ns podName = do {
     s \<leftarrow> readLogs E ns podName;
     case s of
       Inl err \<Rightarrow> ret (Inl (EWrap (''failed to stream logs for pod '' @ podName) err))
     | Inr stream \<Rightarrow>
         (case capLog maxLogBytes stream of
            Inl err \<Rightarrow> ret (Inl (EWrap (''failed to read pod log stream for '' @ podName) err))
          | Inr data \<Rightarrow> ret (Inr data))
   }"

definition failedConditionTime :: "job_condition list \<Rightarrow> time ptr" where
  \<comment> \<open>the loop over the conditions that several functions of the controller repeat\<close>
  "failedConditionTime conds =
     map_option jc_lastTransitionTime
       (List.find (\<lambda>c. jc_type c = JobFailedCondition \<and> jc_status c = ConditionTrue) conds)"

definition terminalJobFinishedAt :: "job \<Rightarrow> time ptr" where
  "terminalJobFinishedAt j =
     (case jst_completionTime (job_status_of j) of
        Some t \<Rightarrow> Some t
      | None \<Rightarrow> failedConditionTime (jst_conditions (job_status_of j)))"

definition adoptRunID :: "workspace \<Rightarrow> job \<Rightarrow> workspace" where
  "adoptRunID ws j =
     (if wst_currentRunID (ws_status ws) = [] then
        ws\<lparr>ws_status := (ws_status ws)\<lparr>wst_currentRunID := mget (om_labels (job_meta j)) runIDLabelKey\<rparr>\<rparr>
      else ws)"

definition phaseSummary :: "job \<Rightarrow> pod \<Rightarrow> run_result \<Rightarrow> string \<Rightarrow> string \<Rightarrow> run_phase_summary" where
  "phaseSummary j pd result logKey compressed =
     \<lparr>rps_jobName = job_name j, rps_podName = om_name (pod_meta pd),
      rps_startedAt = jst_startTime (job_status_of j),
      rps_finishedAt = terminalJobFinishedAt j, rps_result = result, rps_logKey = logKey,
      rps_logSizeBytes = int (length compressed)\<rparr>"

definition runRecordFor ::
    "workspace \<Rightarrow> string \<Rightarrow> run_trigger \<Rightarrow> run_phase \<Rightarrow> run_result \<Rightarrow> run_phase_summary \<Rightarrow> run" where
  "runRecordFor ws runID trigger ph result summary =
     (let r = \<lparr>run_id = runID, run_trigger_of = trigger,
            run_targetRevision = ss_targetRevision (wsp_source (ws_spec ws)),
            run_observedRevision = currentRunObservedRevision ws,
            run_plan = None, run_apply = None, run_startedAt = None, run_finishedAt = None,
            run_scheduledAt = None, run_approval_of = None\<rparr>
      in case ph of
           RunPhasePlan \<Rightarrow> r\<lparr>run_plan := Some summary, run_startedAt := rps_startedAt summary,
             run_finishedAt := (if result = RunLogResultFailed then rps_finishedAt summary else None)\<rparr>
         | RunPhaseApply \<Rightarrow> r\<lparr>run_apply := Some summary, run_finishedAt := rps_finishedAt summary\<rparr>
         | RunPhaseOther s \<Rightarrow> r)"

definition archiveRunLogs ::
    "env \<Rightarrow> reconciler \<Rightarrow> workspace \<Rightarrow> job \<Rightarrow> run_phase \<Rightarrow> run_result \<Rightarrow>
     (goerr option \<times> workspace) prog" where
  "archiveRunLogs E R ws0 j ph result =
     (if \<not> rec_hasLogStore R \<or> \<not> rec_hasClientset R \<or> \<not> rec_hasRunRecorder R then ret (None, ws0)
      else
        let ws1 = adoptRunID ws0 j;
            runID = wst_currentRunID (ws_status ws1)
        in if runID = [] then ret (None, ws1)
        else
          let (trigger, ws) = ensureCurrentRunTrigger ws1 in do {
            p \<leftarrow> getJobPod E (ws_namespace ws) (job_name j);
            case p of
              Inl err \<Rightarrow> ret (Some err, ws)
            | Inr pd \<Rightarrow> do {
                l \<leftarrow> readPodLogs E (ws_namespace ws) (om_name (pod_meta pd));
                case l of
                  Inl err \<Rightarrow> ret (Some err, ws)
                | Inr rawLogs \<Rightarrow>
                  (case gzipBytes E rawLogs of
                     Inl err \<Rightarrow> ret (Some err, ws)
                   | Inr compressed \<Rightarrow> do {
                       k \<leftarrow> putLog E (ws_namespace ws) (ws_name ws) runID ph compressed;
                       case k of
                         Inl err \<Rightarrow> ret (Some err, ws)
                       | Inr logKey \<Rightarrow> do {
                           e \<leftarrow> recordRunPhase E (ws_namespace ws) (ws_name ws) runID ph
                                  (runRecordFor ws runID trigger ph result
                                     (phaseSummary j pd result logKey compressed));
                           ret (e, ws)
                         }
                     })
              }
          })"

lemma emits_getJobPod [emits_intros]:
  "(\<And>c. jobNeutral c \<Longrightarrow> P c) \<Longrightarrow> emits P (getJobPod E ns n)"
  unfolding getJobPod_def call_defs by (auto intro!: emits_intros split: list.splits)

lemma emits_readPolicyViolations [emits_intros]:
  "(\<And>c. jobNeutral c \<Longrightarrow> P c) \<Longrightarrow> emits P (readPolicyViolations E ns n)"
  unfolding readPolicyViolations_def call_defs by (auto intro!: emits_intros)

lemma emits_archiveRunLogs [emits_intros]:
  "(\<And>c. jobNeutral c \<Longrightarrow> P c) \<Longrightarrow> emits P (archiveRunLogs E R ws j ph res)"
  unfolding archiveRunLogs_def readPodLogs_def call_defs
  by (auto intro!: emits_intros simp del: split_paired_All)

section \<open>Rules for archiving and for annotations\<close>

fun archiveCall :: "call \<Rightarrow> bool" where
  "archiveCall (C_ListPods ns j) = True"
| "archiveCall (C_ReadLogs ns p) = True"
| "archiveCall (C_PutLog ns w r ph b) = True"
| "archiveCall (C_RecordRunPhase ns w r ph x) = True"
| "archiveCall c = False"

text \<open>Archiving changes at most the run identifier and trigger of the in-memory status.\<close>

definition runStamped :: "workspace \<Rightarrow> workspace \<Rightarrow> bool" where
  "runStamped ws ws' \<longleftrightarrow> ws_meta ws' = ws_meta ws \<and> ws_spec ws' = ws_spec ws
     \<and> ws_phase ws' = ws_phase ws
     \<and> wst_observedRevision (ws_status ws') = wst_observedRevision (ws_status ws)
     \<and> wst_variablesHash (ws_status ws') = wst_variablesHash (ws_status ws)
     \<and> wst_policyViolations (ws_status ws') = wst_policyViolations (ws_status ws)
     \<and> (wst_currentRunID (ws_status ws) \<noteq> [] \<longrightarrow>
          wst_currentRunID (ws_status ws') = wst_currentRunID (ws_status ws))"

lemma runStamped_refl [simp]: "runStamped ws ws"
  by (simp add: runStamped_def)

lemma runStamped_adopt [simp]: "runStamped ws (adoptRunID ws j)"
  by (simp add: runStamped_def adoptRunID_def)

lemma runStamped_trigger:
  "runStamped ws ws' \<Longrightarrow> runStamped ws (snd (ensureCurrentRunTrigger ws'))"
  by (auto simp: runStamped_def ensureCurrentRunTrigger_def Let_def)

lemma emits_archiveCall: "emits archiveCall (archiveRunLogs E R ws j ph res)"
  unfolding archiveRunLogs_def readPodLogs_def getJobPod_def call_defs
  by (auto intro!: emits_intros split: list.splits)

lemma wp_archive_stamped:
  "wp (archiveRunLogs E R ws j ph res) (\<lambda>(e, ws') h'. runStamped ws ws') h"
proof -
  obtain tr w where e: "ensureCurrentRunTrigger (adoptRunID ws j) = (tr, w)" by fastforce
  then have s: "runStamped ws w" using runStamped_trigger [OF runStamped_adopt [of ws j]] by simp
  show ?thesis
    unfolding archiveRunLogs_def Let_def
    by (auto simp: wp_simps call_defs e s split: sum.split
        intro!: wp_all [of _ "getJobPod E ns n" for ns n] wp_all [of _ "readPodLogs E ns n" for ns n])
qed

lemma wp_archiveRunLogs:
  assumes "\<And>e ws' cs. runStamped ws ws' \<Longrightarrow> list_all archiveCall cs \<Longrightarrow> Q (e, ws') (h @ cs)"
  shows "wp (archiveRunLogs E R ws j ph res) Q h"
  by (rule wp_mono [OF wp_conj [OF wp_archive_stamped emits_wp [OF emits_archiveCall]]])
    (use assms in auto)

end
