(* ===== verification/Status_Publish.thy ===== *)
theory Status_Publish
  imports Samples
begin

text \<open>
  What the status writes of the four controllers have in common. Each \<open>updateStatus\<close> fetches
  the object, merges the wanted values into its status, sets the Ready condition and writes
  only when one of the two changed something. \<open>publish\<close> is that computation, parametrised by
  the merge of the controller. The locale states what a merge must promise so that repeated
  publication of the same values settles after one write; every controller's merge is an
  interpretation of it.
\<close>

definition readyCondition :: "cond_status \<Rightarrow> string \<Rightarrow> string \<Rightarrow> time \<Rightarrow> condition" where
  "readyCondition status reason message t =
     \<lparr>co_type = ConditionTypeReady, co_status = status, co_reason = reason,
      co_message = message, co_lastTransitionTime = t\<rparr>"

text \<open>
  \<open>meta.SetStatusCondition\<close> of the Kubernetes API machinery reports a change only when the
  status, the reason or the message of the condition differ from the stored ones; setting the
  same condition again at a later time is therefore no change.
\<close>

definition conditionStable :: "env \<Rightarrow> bool" where
  "conditionStable E \<longleftrightarrow> (\<forall>cs status reason message t t'.
     \<not> snd (setStatusCondition E
         (fst (setStatusCondition E cs (readyCondition status reason message t)))
         (readyCondition status reason message t')))"

definition publish ::
    "env \<Rightarrow> ('s \<Rightarrow> 's \<times> bool) \<Rightarrow> ('s \<Rightarrow> condition list) \<Rightarrow> (condition list \<Rightarrow> time \<Rightarrow> 's \<Rightarrow> 's) \<Rightarrow>
     (time \<Rightarrow> condition) \<Rightarrow> time \<Rightarrow> 's \<Rightarrow> 's \<times> bool" where
  "publish E merge conds stamp ready t st0 =
     (let (st, upd) = merge st0;
          (cs, changed) = setStatusCondition E (conds st) (ready t)
      in (stamp cs t st, upd \<or> changed))"

lemma publish_fst: "fst (publish E merge conds stamp ready t st) =
    stamp (fst (setStatusCondition E (conds (fst (merge st))) (ready t))) t (fst (merge st))"
  and publish_snd: "snd (publish E merge conds stamp ready t st) =
    (snd (merge st) \<or> snd (setStatusCondition E (conds (fst (merge st))) (ready t)))"
  by (simp_all add: publish_def split: prod.split)

text \<open>
  The contract of a merge. A status is settled for the wanted values when it has them
  already; then the merge must report no change. The values are attainable when merging them
  settles the status.
\<close>

locale published_status =
  fixes attainable :: "'d \<Rightarrow> bool"
    and settled :: "'d \<Rightarrow> 's \<Rightarrow> bool"
    and merge :: "'d \<Rightarrow> 's \<Rightarrow> 's \<times> bool"
    and conds :: "'s \<Rightarrow> condition list"
    and stamp :: "condition list \<Rightarrow> time \<Rightarrow> 's \<Rightarrow> 's"
  assumes merge_settled: "settled d st \<Longrightarrow> merge d st = (st, False)"
    and merge_attains: "attainable d \<Longrightarrow> settled d (fst (merge d st))"
    and stamp_settled: "settled d (stamp cs t st) = settled d st"
    and stamp_conds: "conds (stamp cs t st) = cs"
begin

lemma publish_attains:
  "attainable d \<Longrightarrow> settled d (fst (publish E (merge d) conds stamp ready t st))"
  by (simp add: publish_fst stamp_settled merge_attains)

text \<open>
  After a publication, publishing values for which the status is settled, with the same
  Ready condition at a later time, is no change.
\<close>

lemma publish_settles:
  assumes "conditionStable E"
    and "settled d' (fst (publish E (merge d) conds stamp (readyCondition status reason message) t st))"
  shows "\<not> snd (publish E (merge d') conds stamp (readyCondition status reason message) t'
            (fst (publish E (merge d) conds stamp (readyCondition status reason message) t st)))"
  using assms by (simp add: publish_snd merge_settled) (simp add: publish_fst stamp_conds conditionStable_def)

lemma publish_again:
  assumes "conditionStable E" and "attainable d"
  shows "\<not> snd (publish E (merge d) conds stamp (readyCondition status reason message) t'
            (fst (publish E (merge d) conds stamp (readyCondition status reason message) t st)))"
  using assms by (intro publish_settles publish_attains)

end

lemma conditionStable_sample: "setStatusCondition E = sampleSetCondition \<Longrightarrow> conditionStable E"
  by (auto simp: conditionStable_def sampleSetCondition_def sameCondition_def readyCondition_def list_ex_iff)

end
