(* ===== verification/WS_Status.thy ===== *)
theory WS_Status
  imports WS_Run Status_Publish
begin

text \<open>
  Status writes of the workspace controller, \<open>src/internal/controller/workspace/status.go\<close>.
  A write fetches the object afresh, merges into it what the reconcile has computed on its
  own copy, and updates the status subresource, again on a conflict. Both functions swallow
  the error, as the source does, so what they return is the in-memory workspace: with the
  status of the server after a successful write, and unchanged otherwise. The \<open>needsUpdate\<close>
  flag is the second component of the pairs.
\<close>

type_synonym status_merge = "workspace_status \<times> bool"

definition mergePhase :: "phase \<Rightarrow> string \<Rightarrow> string \<Rightarrow> status_merge \<Rightarrow> status_merge" where
  "mergePhase ph reason message = (\<lambda>(st, upd).
     if wst_phase st \<noteq> ph \<or> wst_reason st \<noteq> reason \<or> wst_message st \<noteq> message
     then (st\<lparr>wst_phase := ph, wst_reason := reason, wst_message := message\<rparr>, True)
     else (st, upd))"

definition carryObservedRevision :: "workspace_status \<Rightarrow> status_merge \<Rightarrow> status_merge" where
  "carryObservedRevision mine = (\<lambda>(st, upd).
     if wst_observedRevision mine \<noteq> [] \<and> wst_observedRevision st \<noteq> wst_observedRevision mine
     then (st\<lparr>wst_observedRevision := wst_observedRevision mine\<rparr>, True) else (st, upd))"

definition carryVariablesHash :: "workspace_status \<Rightarrow> status_merge \<Rightarrow> status_merge" where
  "carryVariablesHash mine = (\<lambda>(st, upd).
     if wst_variablesHash mine \<noteq> [] \<and> wst_variablesHash st \<noteq> wst_variablesHash mine
     then (st\<lparr>wst_variablesHash := wst_variablesHash mine\<rparr>, True) else (st, upd))"

definition carryRun :: "workspace_status \<Rightarrow> status_merge \<Rightarrow> status_merge" where
  "carryRun mine = (\<lambda>(st0, upd0).
     let (st1, upd1) =
           (if wst_currentRunID mine \<noteq> [] \<and> wst_currentRunID st0 \<noteq> wst_currentRunID mine
            then (st0\<lparr>wst_currentRunID := wst_currentRunID mine\<rparr>, True) else (st0, upd0));
         (st2, upd2) =
           (if wst_currentRunTrigger mine \<noteq> RunTriggerNone
               \<and> wst_currentRunTrigger st1 \<noteq> wst_currentRunTrigger mine
            then (st1\<lparr>wst_currentRunTrigger := wst_currentRunTrigger mine\<rparr>, True) else (st1, upd1))
     in if wst_lastRunStartedAt mine \<noteq> None \<and> wst_lastRunStartedAt mine \<noteq> wst_lastRunStartedAt st2
        then (st2\<lparr>wst_lastRunStartedAt := wst_lastRunStartedAt mine\<rparr>, True) else (st2, upd2))"

definition mergeViolations :: "phase \<Rightarrow> workspace_status \<Rightarrow> status_merge \<Rightarrow> status_merge" where
  "mergeViolations ph mine = (\<lambda>(st, upd).
     if ph = PhasePending \<or> ph = PhasePlanning then
       (if wst_policyViolations st \<noteq> [] then (st\<lparr>wst_policyViolations := []\<rparr>, True) else (st, upd))
     else if wst_policyViolations mine \<noteq> [] then
       (st\<lparr>wst_policyViolations := wst_policyViolations mine\<rparr>, True)
     else (st, upd))"

definition mergeStatus ::
    "phase \<Rightarrow> string \<Rightarrow> string \<Rightarrow> workspace_status \<Rightarrow> workspace_status \<Rightarrow> status_merge" where
  "mergeStatus ph reason message mine latest =
     mergeViolations ph mine (carryRun mine (carryVariablesHash mine (carryObservedRevision mine
       (mergePhase ph reason message (latest, False)))))"

definition adoptStatus :: "workspace \<Rightarrow> workspace \<Rightarrow> workspace" where
  \<comment> \<open>the in-memory workspace takes over the status and the resource version of the written object\<close>
  "adoptStatus latest ws = ws\<lparr>ws_status := ws_status latest,
     ws_meta := (ws_meta ws)\<lparr>om_resourceVersion := om_resourceVersion (ws_meta latest)\<rparr>\<rparr>"

definition updateStatusOnce ::
    "env \<Rightarrow> phase \<Rightarrow> string \<Rightarrow> string \<Rightarrow> cond_status \<Rightarrow> workspace \<Rightarrow>
     (goerr option \<times> workspace) prog" where
  "updateStatusOnce E ph reason message status ws = do {
     r \<leftarrow> getWorkspace E (ws_key ws);
     case r of
       Inl err \<Rightarrow> ret (Some err, ws)
     | Inr latest \<Rightarrow> do {
         (if ws_phase latest \<noteq> ph
          then metric ''workspace_phase_transitions_total'' [ws_namespace ws, ws_name ws, phaseString ph] 1
          else ret ());
         let (st, upd) = mergeStatus ph reason message (ws_status ws) (ws_status latest);
         t \<leftarrow> now E;
         let (conds, condChanged) =
               setStatusCondition E (wst_conditions st) (readyCondition status reason message t);
         if \<not> upd \<and> \<not> condChanged then ret (None, ws)
         else do {
           u \<leftarrow> statusUpdateWorkspace E (latest\<lparr>ws_status :=
                  st\<lparr>wst_conditions := conds, wst_lastReconcileTime := Some t\<rparr>\<rparr>);
           case u of
             Inl err \<Rightarrow> ret (Some err, ws)
           | Inr written \<Rightarrow> ret (None, adoptStatus written ws)
         }
       }
   }"

definition updateStatus ::
    "env \<Rightarrow> workspace \<Rightarrow> phase \<Rightarrow> string \<Rightarrow> string \<Rightarrow> cond_status \<Rightarrow> workspace prog" where
  "updateStatus E ws ph reason message status = do {
     (err, ws') \<leftarrow> retryOnConflict (retrySteps E) (updateStatusOnce E ph reason message status) ws;
     ret ws'
   }"

definition updateNextReconcileTimeOnce ::
    "env \<Rightarrow> time \<Rightarrow> duration \<Rightarrow> workspace \<Rightarrow> (goerr option \<times> workspace) prog" where
  "updateNextReconcileTimeOnce E next interval ws = do {
     r \<leftarrow> getWorkspace E (ws_key ws);
     case r of
       Inl err \<Rightarrow> ret (Some err, ws)
     | Inr latest \<Rightarrow> do {
         u \<leftarrow> statusUpdateWorkspace E (latest\<lparr>ws_status := (ws_status latest)
                \<lparr>wst_nextReconcileTime := Some next,
                 wst_observedReconcileInterval := durationString E interval\<rparr>\<rparr>);
         case u of
           Inl err \<Rightarrow> ret (Some err, ws)
         | Inr written \<Rightarrow> ret (None, adoptStatus written ws)
       }
   }"

definition updateNextReconcileTime ::
    "env \<Rightarrow> workspace \<Rightarrow> time \<Rightarrow> duration \<Rightarrow> workspace prog" where
  "updateNextReconcileTime E ws next interval = do {
     (err, ws') \<leftarrow> retryOnConflict (retrySteps E) (updateNextReconcileTimeOnce E next interval) ws;
     ret ws'
   }"

lemma emits_updateStatus [emits_intros]:
  "(\<And>c. jobNeutral c \<Longrightarrow> P c) \<Longrightarrow> emits P (updateStatus E ws ph reason message status)"
  unfolding updateStatus_def updateStatusOnce_def call_defs
  by (auto intro!: emits_intros)

lemma emits_updateNextReconcileTime [emits_intros]:
  "(\<And>c. jobNeutral c \<Longrightarrow> P c) \<Longrightarrow> emits P (updateNextReconcileTime E ws next interval)"
  unfolding updateNextReconcileTime_def updateNextReconcileTimeOnce_def call_defs
  by (auto intro!: emits_intros)

section \<open>The merge of a status write\<close>

lemma merge_fst:
  "fst (mergePhase ph reason message p) =
     (fst p)\<lparr>wst_phase := ph, wst_reason := reason, wst_message := message\<rparr>"
  "fst (carryObservedRevision mine p) = (fst p)\<lparr>wst_observedRevision :=
     (if wst_observedRevision mine \<noteq> [] then wst_observedRevision mine else wst_observedRevision (fst p))\<rparr>"
  "fst (carryVariablesHash mine p) = (fst p)\<lparr>wst_variablesHash :=
     (if wst_variablesHash mine \<noteq> [] then wst_variablesHash mine else wst_variablesHash (fst p))\<rparr>"
  "fst (carryRun mine p) = (fst p)
     \<lparr>wst_currentRunID := (if wst_currentRunID mine \<noteq> [] then wst_currentRunID mine
        else wst_currentRunID (fst p)),
      wst_currentRunTrigger := (if wst_currentRunTrigger mine \<noteq> RunTriggerNone
        then wst_currentRunTrigger mine else wst_currentRunTrigger (fst p)),
      wst_lastRunStartedAt := (if wst_lastRunStartedAt mine \<noteq> None then wst_lastRunStartedAt mine
        else wst_lastRunStartedAt (fst p))\<rparr>"
  "fst (mergeViolations ph mine p) = (fst p)\<lparr>wst_policyViolations :=
     (if ph \<in> {PhasePending, PhasePlanning} then []
      else if wst_policyViolations mine \<noteq> [] then wst_policyViolations mine
      else wst_policyViolations (fst p))\<rparr>"
  by (cases p; simp add: mergePhase_def carryObservedRevision_def carryVariablesHash_def
      carryRun_def mergeViolations_def Let_def split: prod.splits)+

lemma merge_unchanged:
  "\<not> snd (mergePhase ph reason message p) \<Longrightarrow> mergePhase ph reason message p = p"
  "\<not> snd (carryObservedRevision mine p) \<Longrightarrow> carryObservedRevision mine p = p"
  "\<not> snd (carryVariablesHash mine p) \<Longrightarrow> carryVariablesHash mine p = p"
  "\<not> snd (carryRun mine p) \<Longrightarrow> carryRun mine p = p"
  "\<not> snd (mergeViolations ph mine p) \<Longrightarrow> mergeViolations ph mine p = p"
  by (cases p; auto simp: mergePhase_def carryObservedRevision_def carryVariablesHash_def
      carryRun_def mergeViolations_def Let_def split: prod.splits if_splits)+

lemma mergeStatus_unchanged:
  "\<not> snd (mergeStatus ph reason message mine latest) \<Longrightarrow>
   mergeStatus ph reason message mine latest = (latest, False)"
  unfolding mergeStatus_def by (metis merge_unchanged)

lemma mergeStatus_eq:
  assumes "mergeStatus ph reason message mine latest = (st, upd)"
  shows "st = latest
    \<lparr>wst_phase := ph, wst_reason := reason, wst_message := message,
     wst_observedRevision := (if wst_observedRevision mine \<noteq> [] then wst_observedRevision mine
       else wst_observedRevision latest),
     wst_variablesHash := (if wst_variablesHash mine \<noteq> [] then wst_variablesHash mine
       else wst_variablesHash latest),
     wst_currentRunID := (if wst_currentRunID mine \<noteq> [] then wst_currentRunID mine
       else wst_currentRunID latest),
     wst_currentRunTrigger := (if wst_currentRunTrigger mine \<noteq> RunTriggerNone
       then wst_currentRunTrigger mine else wst_currentRunTrigger latest),
     wst_lastRunStartedAt := (if wst_lastRunStartedAt mine \<noteq> None then wst_lastRunStartedAt mine
       else wst_lastRunStartedAt latest),
     wst_policyViolations := (if ph \<in> {PhasePending, PhasePlanning} then []
       else if wst_policyViolations mine \<noteq> [] then wst_policyViolations mine
       else wst_policyViolations latest)\<rparr>
    \<and> (\<not> upd \<longrightarrow> st = latest)"
proof -
  have "st = fst (mergeStatus ph reason message mine latest)" using assms by simp
  then show ?thesis
    using mergeStatus_unchanged [of ph reason message mine latest] assms
    by (simp add: mergeStatus_def merge_fst)
qed

section \<open>Rules for status writes\<close>

definition sameObject :: "workspace \<Rightarrow> workspace \<Rightarrow> bool" where
  "sameObject ws ws' \<longleftrightarrow> ws_spec ws' = ws_spec ws \<and>
     (\<exists>rv. ws_meta ws' = (ws_meta ws)\<lparr>om_resourceVersion := rv\<rparr>)"

lemma sameObject_refl [simp]: "sameObject ws ws"
  by (simp add: sameObject_def) (metis object_meta.surjective object_meta.update_convs(4))

lemma sameObject_status [simp]: "sameObject ws (ws'\<lparr>ws_status := st\<rparr>) = sameObject ws ws'"
  by (simp add: sameObject_def)

lemma sameObject_adopt: "sameObject ws ws' \<Longrightarrow> sameObject ws (adoptStatus w ws')"
  by (auto simp: sameObject_def adoptStatus_def)

lemma sameObject_trans: "sameObject a b \<Longrightarrow> sameObject b c \<Longrightarrow> sameObject a c"
  by (auto simp: sameObject_def)

lemma sameObject_sel:
  "sameObject ws ws' \<Longrightarrow> ws_annots ws' = ws_annots ws \<and> ws_spec ws' = ws_spec ws
     \<and> ws_name ws' = ws_name ws \<and> ws_namespace ws' = ws_namespace ws"
  by (auto simp: sameObject_def)

text \<open>The calls of a status write: reads, the clock, the metric and writes of the given phase.\<close>

fun statusCall :: "phase \<Rightarrow> string \<Rightarrow> workspace_status \<Rightarrow> call \<Rightarrow> bool" where
  "statusCall ph reason mine (C_StatusUpdateWorkspace w) =
     (ws_phase w = ph \<and> wst_reason (ws_status w) = reason
      \<and> (wst_observedRevision mine \<noteq> [] \<longrightarrow> wst_observedRevision (ws_status w) = wst_observedRevision mine)
      \<and> (wst_currentRunID mine \<noteq> [] \<longrightarrow> wst_currentRunID (ws_status w) = wst_currentRunID mine)
      \<and> (ph \<in> {PhasePending, PhasePlanning} \<longrightarrow> wst_policyViolations (ws_status w) = []))"
| "statusCall ph reason mine (C_GetWorkspace k) = True"
| "statusCall ph reason mine C_Now = True"
| "statusCall ph reason mine (C_Metric n ls v) = True"
| "statusCall ph reason mine c = False"

lemma mergeStatus_call:
  assumes "mergeStatus ph reason message mine latest = (st, upd)"
  shows "statusCall ph reason mine (C_StatusUpdateWorkspace
    (w\<lparr>ws_status := st\<lparr>wst_conditions := cs, wst_lastReconcileTime := t\<rparr>\<rparr>))"
  using mergeStatus_eq [OF assms] by auto

text \<open>The in-memory workspace is either unchanged or carries a status the server confirmed.\<close>

lemma wp_updateStatusOnce:
  "wp (updateStatusOnce E ph reason message status ws)
     (\<lambda>(e, ws') h'. (ws' = ws \<or> e = None) \<and> sameObject ws ws'
        \<and> (\<exists>cs. h' = h @ cs \<and> list_all (statusCall ph reason (ws_status ws)) cs)) h"
  unfolding updateStatusOnce_def call_defs
  by (auto simp: wp_simps Let_def sameObject_adopt mergeStatus_call simp del: statusCall.simps(1)
      split: sum.split prod.split)

lemma wp_updateStatus:
  assumes "\<And>ws' cs. sameObject ws ws' \<Longrightarrow> list_all (statusCall ph reason (ws_status ws)) cs \<Longrightarrow> Q ws' (h @ cs)"
  shows "wp (updateStatus E ws ph reason message status) Q h"
proof -
  have "wp (retryOnConflict n (updateStatusOnce E ph reason message status) ws)
      (\<lambda>(e, ws') h'. sameObject ws ws' \<and>
         (\<exists>cs. h' = h @ cs \<and> list_all (statusCall ph reason (ws_status ws)) cs)) h" for n h
  proof (induction n arbitrary: h)
    case 0
    then show ?case by (simp add: wp_simps)
  next
    case (Suc n)
    have "wp (retryOnConflict n (updateStatusOnce E ph reason message status) ws)
      (\<lambda>(e, ws') h'. sameObject ws ws' \<and>
         (\<exists>cs. h' = h @ cs \<and> list_all (statusCall ph reason (ws_status ws)) cs)) (h @ ds)"
      if "list_all (statusCall ph reason (ws_status ws)) ds" for ds
      using that by (intro wp_mono [OF Suc.IH]) auto
    then show ?case
      by (auto simp: wp_simps intro!: wp_mono [OF wp_updateStatusOnce] split: option.split)
  qed
  then show ?thesis
    unfolding updateStatus_def wp_bind wp_case_prod wp_ret
    by (rule wp_mono) (use assms in auto)
qed

text \<open>
  What a status write contains. Of the status fetched from the server, the phase, reason
  and message are replaced; the observed revision, the variables hash, the run identifier, the
  run trigger and the start of the run are replaced by the in-memory values when those are
  set; policy violations are cleared when a run is pending or planning and replaced when the
  reconcile found some; every other field is kept. When the flag says that nothing is to be
  written, the merged status is the fetched one, so skipping the write loses nothing.
\<close>

theorem mergeStatus_spec:
  assumes "mergeStatus ph reason message mine latest = (st, upd)"
  shows "st = latest
    \<lparr>wst_phase := ph, wst_reason := reason, wst_message := message,
     wst_observedRevision := (if wst_observedRevision mine \<noteq> [] then wst_observedRevision mine
       else wst_observedRevision latest),
     wst_variablesHash := (if wst_variablesHash mine \<noteq> [] then wst_variablesHash mine
       else wst_variablesHash latest),
     wst_currentRunID := (if wst_currentRunID mine \<noteq> [] then wst_currentRunID mine
       else wst_currentRunID latest),
     wst_currentRunTrigger := (if wst_currentRunTrigger mine \<noteq> RunTriggerNone
       then wst_currentRunTrigger mine else wst_currentRunTrigger latest),
     wst_lastRunStartedAt := (if wst_lastRunStartedAt mine \<noteq> None then wst_lastRunStartedAt mine
       else wst_lastRunStartedAt latest),
     wst_policyViolations := (if ph \<in> {PhasePending, PhasePlanning} then []
       else if wst_policyViolations mine \<noteq> [] then wst_policyViolations mine
       else wst_policyViolations latest)\<rparr>
    \<and> (\<not> upd \<longrightarrow> st = latest)"
  using assms by (rule mergeStatus_eq)

theorem mergeStatus_spec_witness:
  "fst (mergeStatus PhaseApplied ''ApplySucceeded'' ''ok''
     (emptyStatus\<lparr>wst_observedRevision := ''abc''\<rparr>) emptyStatus)
   = emptyStatus\<lparr>wst_phase := PhaseApplied, wst_reason := ''ApplySucceeded'', wst_message := ''ok'',
       wst_observedRevision := ''abc''\<rparr>"
proof -
  obtain st upd where m: "mergeStatus PhaseApplied ''ApplySucceeded'' ''ok''
      (emptyStatus\<lparr>wst_observedRevision := ''abc''\<rparr>) emptyStatus = (st, upd)" by fastforce
  from mergeStatus_spec [OF m] m show ?thesis by (simp add: emptyStatus_def)
qed

definition stampWorkspace :: "condition list \<Rightarrow> time \<Rightarrow> workspace_status \<Rightarrow> workspace_status" where
  "stampWorkspace cs t st = st\<lparr>wst_conditions := cs, wst_lastReconcileTime := Some t\<rparr>"

type_synonym workspace_values = "phase \<times> string \<times> string \<times> workspace_status"

definition mergeWorkspace :: "workspace_values \<Rightarrow> workspace_status \<Rightarrow> workspace_status \<times> bool" where
  "mergeWorkspace = (\<lambda>(ph, reason, message, mine). mergeStatus ph reason message mine)"

definition settledWorkspace :: "workspace_values \<Rightarrow> workspace_status \<Rightarrow> bool" where
  "settledWorkspace = (\<lambda>(ph, reason, message, mine) st.
     wst_phase st = ph \<and> wst_reason st = reason \<and> wst_message st = message
     \<and> wst_observedRevision mine \<in> {[], wst_observedRevision st}
     \<and> wst_variablesHash mine \<in> {[], wst_variablesHash st}
     \<and> wst_currentRunID mine \<in> {[], wst_currentRunID st}
     \<and> wst_currentRunTrigger mine \<in> {RunTriggerNone, wst_currentRunTrigger st}
     \<and> wst_lastRunStartedAt mine \<in> {None, wst_lastRunStartedAt st}
     \<and> (if ph \<in> {PhasePending, PhasePlanning} then wst_policyViolations st = []
        else wst_policyViolations mine = []))"

definition attainableWorkspace :: "workspace_values \<Rightarrow> bool" where
  "attainableWorkspace = (\<lambda>(ph, reason, message, mine).
     ph \<in> {PhasePending, PhasePlanning} \<or> wst_policyViolations mine = [])"

lemma mergeStatus_settled:
  assumes "settledWorkspace (ph, reason, message, mine) st"
  shows "mergeStatus ph reason message mine st = (st, False)"
proof -
  have "mergePhase ph reason message (st, False) = (st, False)"
    using assms by (simp add: settledWorkspace_def mergePhase_def)
  moreover have "carryObservedRevision mine (st, False) = (st, False)"
    using assms by (auto simp: settledWorkspace_def carryObservedRevision_def)
  moreover have "carryVariablesHash mine (st, False) = (st, False)"
    using assms by (auto simp: settledWorkspace_def carryVariablesHash_def)
  moreover have "carryRun mine (st, False) = (st, False)"
  proof -
    have "\<not> (wst_currentRunID mine \<noteq> [] \<and> wst_currentRunID st \<noteq> wst_currentRunID mine)"
      "\<not> (wst_currentRunTrigger mine \<noteq> RunTriggerNone \<and> wst_currentRunTrigger st \<noteq> wst_currentRunTrigger mine)"
      "\<not> (wst_lastRunStartedAt mine \<noteq> None \<and> wst_lastRunStartedAt mine \<noteq> wst_lastRunStartedAt st)"
      using assms unfolding settledWorkspace_def by auto
    then show ?thesis unfolding carryRun_def Let_def by (simp only: prod.case if_False)
  qed
  moreover have "mergeViolations ph mine (st, False) = (st, False)"
    using assms by (auto simp: settledWorkspace_def mergeViolations_def split: if_splits)
  ultimately show ?thesis by (simp add: mergeStatus_def)
qed

lemma mergeStatus_attains:
  "attainableWorkspace (ph, reason, message, mine) \<Longrightarrow>
   settledWorkspace (ph, reason, message, mine) (fst (mergeStatus ph reason message mine st))"
  by (auto simp: settledWorkspace_def attainableWorkspace_def mergeStatus_def merge_fst)

interpretation workspace_status:
  published_status attainableWorkspace settledWorkspace mergeWorkspace wst_conditions stampWorkspace
proof unfold_locales
  fix d :: workspace_values and st cs t
  show "settledWorkspace d st \<Longrightarrow> mergeWorkspace d st = (st, False)"
    by (cases d) (simp add: mergeWorkspace_def mergeStatus_settled)
  show "attainableWorkspace d \<Longrightarrow> settledWorkspace d (fst (mergeWorkspace d st))"
    by (cases d) (simp add: mergeWorkspace_def mergeStatus_attains)
  show "settledWorkspace d (stampWorkspace cs t st) = settledWorkspace d st"
    by (cases d) (simp add: settledWorkspace_def stampWorkspace_def)
qed (simp add: stampWorkspace_def)

lemma updateStatus_writes:
  "emits (\<lambda>c. \<forall>w. c = C_StatusUpdateWorkspace w \<longrightarrow> (\<exists>st t. ws_status w =
      fst (publish E (mergeWorkspace (ph, reason, message, ws_status ws))
             wst_conditions stampWorkspace (readyCondition status reason message) t st)))
     (updateStatus E ws ph reason message status)"
proof -
  have once: "emits (\<lambda>c. \<forall>w. c = C_StatusUpdateWorkspace w \<longrightarrow> (\<exists>st t. ws_status w =
      fst (publish E (mergeWorkspace (ph, reason, message, ws_status ws))
             wst_conditions stampWorkspace (readyCondition status reason message) t st)))
     (updateStatusOnce E ph reason message status ws)"
    unfolding updateStatusOnce_def call_defs Let_def
    by (auto intro!: emits_intros simp: publish_fst mergeWorkspace_def stampWorkspace_def case_prod_beta) blast+
  have "wp (updateStatusOnce E ph reason message status ws) (\<lambda>(e, s') h'. e \<noteq> None \<longrightarrow> s' = ws) h" for h
    by (rule wp_mono [OF wp_updateStatusOnce]) auto
  then show ?thesis
    unfolding updateStatus_def
    by (intro emits_bind emits_retryUnchanged once) (auto intro!: emits_intros)
qed

lemma updateStatus_quiet:
  assumes "ev_getWorkspace E h (ws_key ws) = Inr latest" and "retrySteps E \<noteq> 0"
    and "\<And>t. \<not> snd (publish E (mergeWorkspace (ph, reason, message, ws_status ws))
          wst_conditions stampWorkspace (readyCondition status reason message) t (ws_status latest))"
    and "ws_phase latest = ph"
  shows "calls_of (updateStatus E ws ph reason message status) h = [C_GetWorkspace (ws_key ws), C_Now]"
proof -
  obtain n where n: "retrySteps E = Suc n" using assms(2) by (cases "retrySteps E") auto
  show ?thesis
    by (rule calls_ofI)
      (use assms in \<open>auto simp: updateStatus_def updateStatusOnce_def n call_defs wp_simps Let_def
         publish_snd mergeWorkspace_def case_prod_beta\<close>)
qed

text \<open>
  A reconcile that finds nothing new writes nothing. After a status write, a reconcile that
  reads the workspace back with the written status and reports the same phase, reason,
  message and Ready status makes no update, provided the status carries no policy violations.
  With violations the merge reports a change every time.
\<close>

theorem workspace_status_settles:
  assumes "conditionStable E" and "retrySteps E \<noteq> 0"
    and "C_StatusUpdateWorkspace w \<in> set (calls_of (updateStatus E ws ph reason message status) h)"
    and "wst_policyViolations (ws_status w) = []"
    and "ev_getWorkspace E h' (ws_key ws') = Inr latest" and "ws_status latest = ws_status w"
    and "ws_status ws' = ws_status w"
  shows "calls_of (updateStatus E ws' ph reason message status) h' = [C_GetWorkspace (ws_key ws'), C_Now]"
proof -
  obtain st t where w: "ws_status w = fst (publish E (mergeWorkspace (ph, reason, message, ws_status ws))
      wst_conditions stampWorkspace (readyCondition status reason message) t st)"
    using emits_call [OF updateStatus_writes assms(3)] by blast
  then have p: "wst_phase (ws_status w) = ph" "wst_reason (ws_status w) = reason" "wst_message (ws_status w) = message"
    by (simp_all add: publish_fst stampWorkspace_def mergeWorkspace_def mergeStatus_def merge_fst)
  then have "settledWorkspace (ph, reason, message, ws_status w) (ws_status w)"
    using assms(4) by (simp add: settledWorkspace_def)
  then have "\<not> snd (publish E (mergeWorkspace (ph, reason, message, ws_status w)) wst_conditions stampWorkspace
      (readyCondition status reason message) t' (ws_status w))" for t'
    unfolding w by (intro workspace_status.publish_settles [OF assms(1)]) auto
  then show ?thesis
    using assms(6,7) p by (intro updateStatus_quiet [OF assms(5,2)]) simp_all
qed

theorem workspace_status_settles_witness:
  "\<exists>w. C_StatusUpdateWorkspace w \<in> set (calls_of (updateStatus
        (stableEnv\<lparr>ev_getWorkspace := (\<lambda>h k. if h = [] then Inr sampleWorkspace else Inr w)\<rparr>)
        sampleWorkspace PhasePending ''r'' ''m'' ConditionUnknown) [])
     \<and> calls_of (updateStatus (stableEnv\<lparr>ev_getWorkspace := (\<lambda>h k. if h = [] then Inr sampleWorkspace else Inr w)\<rparr>)
        w PhasePending ''r'' ''m'' ConditionUnknown) [C_Now]
     = [C_GetWorkspace (ws_key w), C_Now]"
proof -
  define w where "w = sampleWorkspace\<lparr>ws_status := emptyStatus\<lparr>wst_phase := PhasePending, wst_reason := ''r'',
     wst_message := ''m'', wst_lastReconcileTime := Some 1000000000000,
     wst_conditions := [readyCondition ConditionUnknown ''r'' ''m'' 1000000000000]\<rparr>\<rparr>"
  let ?E = "stableEnv\<lparr>ev_getWorkspace := (\<lambda>h k. if h = [] then Inr sampleWorkspace else Inr w)\<rparr>"
  have s: "conditionStable ?E" "retrySteps ?E \<noteq> 0"
    by (rule conditionStable_sample) (simp_all add: stableEnv_def)
  have "C_StatusUpdateWorkspace w \<in> set (calls_of (updateStatus ?E sampleWorkspace PhasePending ''r'' ''m''
      ConditionUnknown) [])"
    by (rule calls_of_start) (simp add: updateStatus_def updateStatusOnce_def call_defs wp_simps Let_def
        mergeStatus_def mergePhase_def carryObservedRevision_def carryVariablesHash_def carryRun_def
        mergeViolations_def stableEnv_def sampleSetCondition_def sample_defs w_def retryOnConflict_numeral)
  with workspace_status_settles [OF s this, of "[C_Now]" w w] show ?thesis
    by (intro exI [of _ w]) (simp add: w_def emptyStatus_def)
qed

end
