(* ===== verification/WS_Cycle.thy ===== *)
theory WS_Cycle
  imports WS_Logs WS_Status
begin

text \<open>
  The plan and apply cycle of a workspace,
  \<open>src/internal/controller/workspace/reconcile_cycle.go\<close>: cleaning up Jobs of an older
  specification, deciding whether a fresh cycle is due, starting one, and the two annotation
  helpers.
\<close>

record cycle_decision =
  cd_start :: bool
  cd_reason :: string
  cd_message :: string
  cd_requeue :: duration

definition startCycle :: "string \<Rightarrow> string \<Rightarrow> cycle_decision" where
  "startCycle reason message =
     \<lparr>cd_start = True, cd_reason = reason, cd_message = message, cd_requeue = 0\<rparr>"

definition noCycle :: "duration \<Rightarrow> cycle_decision" where
  "noCycle delay = \<lparr>cd_start = False, cd_reason = [], cd_message = [], cd_requeue = delay\<rparr>"

definition jobOwnedBy :: "workspace \<Rightarrow> job \<Rightarrow> bool" where
  "jobOwnedBy ws j = (om_uid (ws_meta ws) \<in> set (om_ownerUIDs (job_meta j)))"

definition cleanupOrphanedJobs :: "env \<Rightarrow> workspace \<Rightarrow> run_context \<Rightarrow> unit prog" where
  "cleanupOrphanedJobs E ws rc =
     (if ws_phase ws = PhasePlanning \<or> ws_phase ws = PhaseApplying then ret ()
      else do {
        r \<leftarrow> listJobs E (ws_namespace ws) (ws_name ws);
        case r of
          Inl err \<Rightarrow> ret ()
        | Inr jobs \<Rightarrow>
            for_each (\<lambda>j.
              if jobOwnedBy ws j \<and> job_name j \<noteq> rc_planJobName rc \<and> job_name j \<noteq> rc_applyJobName rc
              then do { e \<leftarrow> deleteJob E j; ret () }
              else ret ()) jobs
      })"

definition jobFinishedState :: "job ptr \<Rightarrow> time \<times> bool" where
  "jobFinishedState p =
     (case p of
        None \<Rightarrow> (0, False)
      | Some j \<Rightarrow>
        (case jst_completionTime (job_status_of j) of
           Some t \<Rightarrow> (t, True)
         | None \<Rightarrow>
             (if jst_failed (job_status_of j) > 0 then
                (case failedConditionTime (jst_conditions (job_status_of j)) of
                   Some t \<Rightarrow> (t, False)
                 | None \<Rightarrow> (0, False))
              else (0, False))))"

definition planFailedTime :: "run_context \<Rightarrow> time" where
  "planFailedTime rc =
     (case rc_planJob rc of
        None \<Rightarrow> 0
      | Some j \<Rightarrow>
        (case failedConditionTime (jst_conditions (job_status_of j)) of Some t \<Rightarrow> t | None \<Rightarrow> 0))"

text \<open>The first check: with no Job under the current names the cycle starts again.\<close>

definition jobsMissing :: "workspace \<Rightarrow> run_context \<Rightarrow> bool" where
  "jobsMissing ws rc \<longleftrightarrow>
     rc_planJob rc = None \<and> rc_applyJob rc = None \<and>
     ws_phase ws \<notin> {PhaseEmpty, PhasePending, PhasePlanning, PhaseApplying}"

text \<open>
  The checks on finished Jobs: a decision to start, or the requeue delay for the next
  scheduled run.
\<close>

definition checkFinished :: "env \<Rightarrow> workspace \<Rightarrow> run_context \<Rightarrow> time \<Rightarrow> bool \<Rightarrow> cycle_decision prog" where
  "checkFinished E ws rc nextScheduled scheduledDue =
     (let (applyFinished, applySucceeded) = jobFinishedState (rc_applyJob rc) in
      if applyFinished \<noteq> 0 \<and> terminalWorkspaceRunRecorded (ws_phase ws) then
        (if scheduledDue then
           (if applySucceeded
            then ret (startCycle scheduledReconcileReason ''Starting scheduled reconciliation'')
            else ret (startCycle ''RetryApply'' ''Retrying failed apply starting from new plan''))
         else do { t \<leftarrow> now E; ret (noCycle (nextScheduled - t)) })
      else if (case rc_planJob rc of None \<Rightarrow> False | Some j \<Rightarrow> jst_failed (job_status_of j) > 0)
              \<and> terminalWorkspaceRunRecorded (ws_phase ws) then
        (if planFailedTime rc \<noteq> 0 then
           (if scheduledDue then ret (startCycle ''RetryPlan'' ''Retrying failed plan'')
            else do { t \<leftarrow> now E; ret (noCycle (nextScheduled - t)) })
         else ret (noCycle 0))
      else ret (noCycle 0))"

definition restartable :: "workspace \<Rightarrow> bool" where
  \<comment> \<open>the phase guard of the three annotation and variable checks\<close>
  "restartable ws \<longleftrightarrow> ws_phase ws = PhaseEmpty \<or> terminalWorkspaceRunRecorded (ws_phase ws)"

definition checkTriggers :: "workspace \<Rightarrow> run_context \<Rightarrow> duration \<Rightarrow> cycle_decision" where
  "checkTriggers ws rc delay =
     (let manual = mget (ws_annots ws) ReconcileRequestAnnotation in
      if restartable ws \<and> (case ws_annots ws DetectedRevisionAnnotation of
           None \<Rightarrow> False | Some detected \<Rightarrow> detected \<noteq> wst_observedRevision (ws_status ws)) then
        startCycle ''NewRevisionDetected''
          (''RefWatcher detected new revision '' @ mget (ws_annots ws) DetectedRevisionAnnotation)
      else if restartable ws \<and> manual \<noteq> [] then
        startCycle ''ManualReconcileRequested'' (''Manual reconcile requested at '' @ manual)
      else if rc_variablesHash rc \<noteq> wst_variablesHash (ws_status ws) \<and> restartable ws then
        startCycle ''VariablesChanged'' ''Effective VariableSet composition changed since the last run''
      else noCycle delay)"

definition checkCycleNeeded :: "env \<Rightarrow> workspace \<Rightarrow> run_context \<Rightarrow> cycle_decision prog" where
  "checkCycleNeeded E ws rc = do {
     t \<leftarrow> now E;
     let (nextScheduled, interval, scheduledDue) =
           computeNextReconcileTime E ws (wst_nextReconcileTime (ws_status ws)) t;
     if jobsMissing ws rc then
       ret (startCycle ''ConfigurationChanged''
         ''Workspace spec was modified or jobs were deleted, triggering fresh execution'')
     else do {
       d \<leftarrow> checkFinished E ws rc nextScheduled scheduledDue;
       if cd_start d then ret d else ret (checkTriggers ws rc (cd_requeue d))
     }
   }"

definition isExecutionAllowedByRolloutController :: "workspace \<Rightarrow> bool" where
  "isExecutionAllowedByRolloutController ws \<longleftrightarrow>
     mget (ws_annots ws) ExecutionAllowedAnnotation = AnnotationValueTrue"

fun dropKeys :: "strmap \<Rightarrow> string list \<Rightarrow> strmap \<times> bool" where
  "dropKeys m [] = (m, False)"
| "dropKeys m (k # ks) =
     (if mget m k \<noteq> [] then (fst (dropKeys (m(k := None)) ks), True) else dropKeys m ks)"

definition deleteAnnotations ::
    "env \<Rightarrow> workspace \<Rightarrow> string list \<Rightarrow> (goerr option \<times> workspace) prog" where
  "deleteAnnotations E ws keys =
     (let (m, changed) = dropKeys (ws_annots ws) keys;
          ws' = set_annots m ws
      in if \<not> changed then ret (None, ws)
         else do {
           r \<leftarrow> patchWorkspace E ws ws';
           case r of Inl err \<Rightarrow> ret (Some err, ws') | Inr patched \<Rightarrow> ret (None, patched)
         })"

definition stampRun :: "string \<Rightarrow> run_trigger \<Rightarrow> time \<Rightarrow> string \<Rightarrow> workspace \<Rightarrow> workspace" where
  "stampRun runID trigger t hash ws = ws\<lparr>ws_status := (ws_status ws)
     \<lparr>wst_currentRunID := runID, wst_currentRunTrigger := trigger,
      wst_lastRunStartedAt := Some t, wst_variablesHash := hash\<rparr>\<rparr>"

definition scheduledRun :: "workspace \<Rightarrow> run" where
  "scheduledRun ws = \<lparr>run_id = wst_currentRunID (ws_status ws),
     run_trigger_of = wst_currentRunTrigger (ws_status ws), run_targetRevision = [],
     run_observedRevision = [], run_plan = None, run_apply = None, run_startedAt = None,
     run_finishedAt = None, run_scheduledAt = wst_nextReconcileTime (ws_status ws),
     run_approval_of = None\<rparr>"

definition deleteJobIfSome :: "env \<Rightarrow> job ptr \<Rightarrow> unit prog" where
  "deleteJobIfSome E p =
     (case p of None \<Rightarrow> ret () | Some j \<Rightarrow> do { e \<leftarrow> deleteJob E j; ret () })"

definition startFreshCycle ::
    "env \<Rightarrow> reconciler \<Rightarrow> workspace \<Rightarrow> run_context \<Rightarrow> string \<Rightarrow> string \<Rightarrow>
     (goerr option \<times> workspace) prog" where
  "startFreshCycle E R ws0 rc reason message = do {
     deleteJobIfSome E (rc_planJob rc);
     deleteJobIfSome E (rc_applyJob rc);
     runID \<leftarrow> newRunID E;
     t \<leftarrow> now E;
     let ws1 = stampRun runID (runTriggerFromReason reason) t (rc_variablesHash rc) ws0;
     ws2 \<leftarrow> updateStatus E ws1 PhasePending reason message ConditionUnknown;
     (if reason = scheduledReconcileReason \<and> rec_hasRunRecorder R
      then do { e \<leftarrow> recordRun E (ws_namespace ws2) (ws_name ws2) (scheduledRun ws2); ret () }
      else ret ());
     deleteAnnotations E ws2 [ExecutionAllowedAnnotation]
   }"

lemma emits_deleteAnnotations [emits_intros]:
  "(\<And>c. jobNeutral c \<Longrightarrow> P c) \<Longrightarrow> emits P (deleteAnnotations E ws keys)"
  unfolding deleteAnnotations_def call_defs by (auto intro!: emits_intros)

lemma emits_checkCycleNeeded [emits_intros]:
  "(\<And>c. jobNeutral c \<Longrightarrow> P c) \<Longrightarrow> emits P (checkCycleNeeded E ws rc)"
  unfolding checkCycleNeeded_def checkFinished_def call_defs by (auto intro!: emits_intros)

lemma terminal_not_running:
  "terminalWorkspaceRunRecorded p \<Longrightarrow> p \<notin> {PhaseEmpty, PhasePending, PhasePlanning, PhasePlanned, PhaseApplying}"
  by (cases p) auto

lemma checkTriggers_start:
  "cd_start (checkTriggers ws rc d) \<longleftrightarrow>
     restartable ws \<and>
     ((\<exists>s. ws_annots ws DetectedRevisionAnnotation = Some s \<and> s \<noteq> wst_observedRevision (ws_status ws))
      \<or> mget (ws_annots ws) ReconcileRequestAnnotation \<noteq> []
      \<or> rc_variablesHash rc \<noteq> wst_variablesHash (ws_status ws))"
  by (auto simp: checkTriggers_def startCycle_def noCycle_def Let_def split: option.splits)

lemma wp_checkFinished_start:
  "wp (checkFinished E ws rc n d) (\<lambda>x h'. cd_start x \<longrightarrow> d \<and> terminalWorkspaceRunRecorded (ws_phase ws)) h"
  by (auto simp: checkFinished_def wp_simps call_defs noCycle_def startCycle_def split: prod.split option.split)

lemma wp_checkCycleNeeded_start:
  "wp (checkCycleNeeded E ws rc)
     (\<lambda>d h'. cd_start d \<longrightarrow>
        jobsMissing ws rc \<or> terminalWorkspaceRunRecorded (ws_phase ws)
        \<or> (ws_phase ws = PhaseEmpty \<and> cd_start (checkTriggers ws rc 0))) h"
proof -
  have t: "cd_start (checkTriggers ws rc d) \<longleftrightarrow> cd_start (checkTriggers ws rc 0)" for d
    by (simp add: checkTriggers_start)
  show ?thesis
    unfolding checkCycleNeeded_def
    by (auto simp: wp_simps call_defs Let_def restartable_def checkTriggers_start split: prod.split
        intro!: wp_mono [OF wp_checkFinished_start])
qed

lemma wp_checkCycleNeeded_not_running:
  "wp (checkCycleNeeded E ws rc)
     (\<lambda>d h'. cd_start d \<longrightarrow> ws_phase ws \<notin> {PhasePending, PhasePlanning, PhaseApplying}) h"
  by (rule wp_mono [OF wp_checkCycleNeeded_start])
    (auto simp: jobsMissing_def dest: terminal_not_running)

lemma dropKeys_eq:
  "dropKeys m ks =
     (\<lambda>k. if k \<in> set ks \<and> mget m k \<noteq> [] then None else m k, \<exists>k \<in> set ks. mget m k \<noteq> [])"
proof (induction ks arbitrary: m)
  case (Cons k ks)
  have "mget (\<lambda>a. if a = k then None else m a) x = (if x = k then [] else mget m x)" for x
    by (simp add: mget_def)
  with Cons show ?case by (auto simp: fun_eq_iff)
qed auto

text \<open>
  The behaviour of a merge patch the controllers rely on: a key that the patched object has
  lost is absent from the object the server answers with.
\<close>

definition patchRemovesKeys :: "env \<Rightarrow> bool" where
  "patchRemovesKeys E \<longleftrightarrow>
     (\<forall>h base w r k. ev_patchWorkspace E h base w = Inr r \<longrightarrow> ws_annots base k \<noteq> None \<longrightarrow>
        ws_annots w k = None \<longrightarrow> ws_annots r k = None)"

lemma wp_deleteAnnotations:
  assumes "patchRemovesKeys E"
  shows "wp (deleteAnnotations E ws keys)
    (\<lambda>(e, ws') h'. e = None \<longrightarrow> (\<forall>k \<in> set keys. mget (ws_annots ws) k \<noteq> [] \<longrightarrow> ws_annots ws' k = None)) h"
proof -
  let ?m = "\<lambda>k. if k \<in> set keys \<and> mget (ws_annots ws) k \<noteq> [] then None else ws_annots ws k"
  have "ws_annots r k = None"
    if "ev_patchWorkspace E h ws (set_annots ?m ws) = Inr r" "k \<in> set keys" "mget (ws_annots ws) k \<noteq> []" for r k
    using that assms mget_nonempty_dom [of "ws_annots ws" k] unfolding patchRemovesKeys_def by fastforce
  then show ?thesis
    by (auto simp: deleteAnnotations_def dropKeys_eq wp_simps call_defs Let_def split: sum.split)
qed

fun annotCall :: "workspace \<Rightarrow> string list \<Rightarrow> call \<Rightarrow> bool" where
  "annotCall ws keys (C_PatchWorkspace base w) =
     (base = ws \<and> w = set_annots (\<lambda>k. if k \<in> set keys \<and> mget (ws_annots ws) k \<noteq> [] then None else ws_annots ws k) ws)"
| "annotCall ws keys c = False"

lemma emits_annotCall: "emits (annotCall ws keys) (deleteAnnotations E ws keys)"
  unfolding deleteAnnotations_def dropKeys_eq call_defs by (auto intro!: emits_intros)

definition withoutKeys :: "string list \<Rightarrow> strmap \<Rightarrow> strmap" where
  "withoutKeys keys m = (\<lambda>k. if k \<in> set keys \<and> mget m k \<noteq> [] then None else m k)"

definition removalPatch :: "string list \<Rightarrow> workspace \<Rightarrow> call list" where
  "removalPatch keys ws =
     (if \<exists>k \<in> set keys. mget (ws_annots ws) k \<noteq> []
      then [C_PatchWorkspace ws (set_annots (withoutKeys keys (ws_annots ws)) ws)] else [])"

lemma wp_deleteAnnotations_calls:
  assumes "\<And>r. Q r (h @ removalPatch keys ws)"
  shows "wp (deleteAnnotations E ws keys) Q h"
proof (cases "\<exists>k \<in> set keys. mget (ws_annots ws) k \<noteq> []")
  case True
  then have "Q r (h @ [C_PatchWorkspace ws (set_annots (withoutKeys keys (ws_annots ws)) ws)])" for r
    using assms by (simp add: removalPatch_def)
  with True show ?thesis
    by (simp add: deleteAnnotations_def dropKeys_eq withoutKeys_def [symmetric] wp_simps call_defs
        Let_def split: sum.split)
next
  case False
  then have "Q r h" for r using assms by (simp add: removalPatch_def)
  with False show ?thesis by (simp add: deleteAnnotations_def dropKeys_eq wp_simps Let_def)
qed

end
