(* ===== verification/WS_Exec.thy ===== *)
theory WS_Exec
  imports WS_Cycle
begin

text \<open>
  Execution of the plan and apply Jobs of a workspace,
  \<open>src/internal/controller/workspace/reconcile_plan.go\<close> and \<open>reconcile_apply.go\<close>: creating a
  Job, observing its outcome, the approval gate between plan and apply, and the end of a
  cycle. The value of the job duration metric is in nanoseconds.
\<close>

section \<open>Plan\<close>

record plan_outcome =
  po_requeue :: duration
  po_planDone :: bool
  po_err :: "goerr option"

definition planWaits :: "duration \<Rightarrow> plan_outcome" where
  "planWaits d = \<lparr>po_requeue = d, po_planDone = False, po_err = None\<rparr>"

definition planError :: "goerr \<Rightarrow> plan_outcome" where
  "planError err = \<lparr>po_requeue = 0, po_planDone = False, po_err = Some err\<rparr>"

definition otherActiveJob :: "workspace \<Rightarrow> run_context \<Rightarrow> job list \<Rightarrow> bool" where
  "otherActiveJob ws rc jobs \<longleftrightarrow>
     (\<exists>j \<in> set jobs. \<not> (job_name j = rc_planJobName rc \<or> job_name j = rc_applyJobName rc
         \<or> jst_active (job_status_of j) = 0) \<and> jobOwnedBy ws j)"

definition createPlanJob ::
    "env \<Rightarrow> reconciler \<Rightarrow> workspace \<Rightarrow> run_context \<Rightarrow> (plan_outcome \<times> workspace) prog" where
  "createPlanJob E R ws rc = do {
     r \<leftarrow> listJobs E (ws_namespace ws) (ws_name ws);
     case r of
       Inl err \<Rightarrow> ret (planError err, ws)
     | Inr jobs \<Rightarrow>
         (if otherActiveJob ws rc jobs then ret (planWaits 10000000000, ws)
          else do {
            (runID, ws1) \<leftarrow> ensureRunMetadata E ws;
            c \<leftarrow> constructJobForWorkspace E R ws1 rc jobTypePlan runID;
            case c of
              Inl err \<Rightarrow> ret (planError err, ws1)
            | Inr newJob \<Rightarrow> do {
                e \<leftarrow> createJob E newJob;
                case e of
                  Some err \<Rightarrow> ret (planError err, ws1)
                | None \<Rightarrow> do {
                    ws2 \<leftarrow> updateStatus E ws1 PhasePlanning ''PlanJobCreated''
                             ''Terraform Plan job created'' ConditionUnknown;
                    ret (planWaits 0, ws2)
                  }
              }
          })
   }"

text \<open>What a failed plan is reported as: a policy violation when the log has a verdict with one.\<close>

definition classifyPlanFailure ::
    "env \<Rightarrow> reconciler \<Rightarrow> workspace \<Rightarrow> run_context \<Rightarrow> (phase \<times> string \<times> string \<times> workspace) prog" where
  "classifyPlanFailure E R ws rc =
     (let plain = (PhaseFailed, ''PlanFailed'', ''Terraform Plan execution failed'', ws) in
      if \<not> rec_hasClientset R then ret plain
      else do {
        v \<leftarrow> readPolicyViolations E (ws_namespace ws) (rc_planJobName rc);
        case v of
          Inl err \<Rightarrow> ret plain
        | Inr violations \<Rightarrow>
            (if violations \<noteq> [] then
               ret (PhaseValidationFailed, ''PolicyViolation'',
                 ''Plan violated '' @ natString (length violations) @ '' policy rule(s)'',
                 ws\<lparr>ws_status := (ws_status ws)\<lparr>wst_policyViolations := violations\<rparr>\<rparr>)
             else ret plain)
      })"

definition handlePlanFailure ::
    "env \<Rightarrow> reconciler \<Rightarrow> workspace \<Rightarrow> run_context \<Rightarrow> job \<Rightarrow> (plan_outcome \<times> workspace) prog" where
  "handlePlanFailure E R ws rc planJob = do {
     (ph, reason, message, ws1) \<leftarrow> classifyPlanFailure E R ws rc;
     (ignored, ws2) \<leftarrow> archiveRunLogs E R ws1 planJob RunPhasePlan RunLogResultFailed;
     ws3 \<leftarrow> updateStatus E ws2 ph reason message ConditionFalse;
     (e, ws4) \<leftarrow> deleteAnnotations E ws3 [ExecutionAllowedAnnotation, ReconcileRequestAnnotation];
     case e of
       Some err \<Rightarrow> ret (planError err, ws4)
     | None \<Rightarrow> ret (planWaits 0, ws4)
   }"

definition observeDuration :: "workspace \<Rightarrow> job \<Rightarrow> string \<Rightarrow> unit prog" where
  "observeDuration ws j jobType =
     (case (jst_startTime (job_status_of j), jst_completionTime (job_status_of j)) of
        (Some s, Some c) \<Rightarrow>
          metric ''workspace_job_duration_seconds'' [ws_namespace ws, ws_name ws, jobType] (c - s)
      | _ \<Rightarrow> ret ())"

definition reconcilePlanJob ::
    "env \<Rightarrow> reconciler \<Rightarrow> workspace \<Rightarrow> run_context \<Rightarrow> (plan_outcome \<times> workspace) prog" where
  "reconcilePlanJob E R ws rc =
     (case rc_planJob rc of
        None \<Rightarrow> createPlanJob E R ws rc
      | Some planJob \<Rightarrow>
          (if jst_failed (job_status_of planJob) > 0 then handlePlanFailure E R ws rc planJob
           else if jst_succeeded (job_status_of planJob) = 0 then do {
             ws1 \<leftarrow> updateStatus E ws PhasePlanning ''Planning''
                      ''Terraform Plan execution is running'' ConditionUnknown;
             ret (planWaits 0, ws1)
           }
           else do {
             observeDuration ws planJob jobTypePlan;
             ret (\<lparr>po_requeue = 0, po_planDone = True, po_err = None\<rparr>, ws)
           }))"

section \<open>Apply\<close>

definition rejectPlan ::
    "env \<Rightarrow> reconciler \<Rightarrow> workspace \<Rightarrow> job \<Rightarrow> (goerr option \<times> workspace) prog" where
  "rejectPlan E R ws planJob = do {
     (ignored, ws1) \<leftarrow> archiveRunLogs E R ws planJob RunPhasePlan RunLogResultSucceeded;
     ws2 \<leftarrow> updateStatus E ws1 PhaseRejected ''PlanRejected''
              ''Plan was rejected. See run history for details.'' ConditionFalse;
     deleteAnnotations E ws2 [ApprovalDecisionAnnotation, ExecutionAllowedAnnotation,
       ReconcileRequestAnnotation, DetectedRevisionAnnotation]
   }"

definition parkPlanned ::
    "env \<Rightarrow> reconciler \<Rightarrow> workspace \<Rightarrow> job \<Rightarrow> (goerr option \<times> workspace) prog" where
  "parkPlanned E R ws planJob = do {
     ws1 \<leftarrow> (if ws_phase ws \<noteq> PhasePlanned then do {
         (ignored, ws') \<leftarrow> archiveRunLogs E R ws planJob RunPhasePlan RunLogResultSucceeded;
         ret ws'
       } else ret ws);
     ws2 \<leftarrow> updateStatus E ws1 PhasePlanned ''PlanSucceeded''
              ''Terraform Plan succeeded. Waiting for manual approval to Apply.'' ConditionTrue;
     ret (None, ws2)
   }"

definition consumeApproval :: "env \<Rightarrow> workspace \<Rightarrow> (goerr option \<times> workspace) prog" where
  "consumeApproval E ws =
     (if mget (ws_annots ws) ApprovalDecisionAnnotation \<noteq> [] then
        (let ws' = set_annots ((ws_annots ws)(ApprovalDecisionAnnotation := None)) ws in do {
           r \<leftarrow> patchWorkspace E ws ws';
           case r of Inl err \<Rightarrow> ret (Some err, ws') | Inr patched \<Rightarrow> ret (None, patched)
         })
      else ret (None, ws))"

definition createApplyJob ::
    "env \<Rightarrow> reconciler \<Rightarrow> workspace \<Rightarrow> run_context \<Rightarrow> job \<Rightarrow> (goerr option \<times> workspace) prog" where
  "createApplyJob E R ws rc planJob = do {
     (ce, ws1) \<leftarrow> consumeApproval E ws;
     case ce of
       Some err \<Rightarrow> ret (Some err, ws1)
     | None \<Rightarrow> do {
         (ignored, ws2) \<leftarrow> archiveRunLogs E R ws1 planJob RunPhasePlan RunLogResultSucceeded;
         (runID, ws3) \<leftarrow> ensureRunMetadata E ws2;
         c \<leftarrow> constructJobForWorkspace E R ws3 rc jobTypeApply runID;
         case c of
           Inl err \<Rightarrow> ret (Some err, ws3)
         | Inr newJob \<Rightarrow> do {
             e \<leftarrow> createJob E newJob;
             case e of
               Some err \<Rightarrow> ret (Some err, ws3)
             | None \<Rightarrow> do {
                 ws4 \<leftarrow> updateStatus E ws3 PhaseApplying ''ApplyJobCreated''
                          ''Terraform Apply job created'' ConditionUnknown;
                 ret (None, ws4)
               }
           }
       }
   }"

definition createApplyJobIfApproved ::
    "env \<Rightarrow> reconciler \<Rightarrow> workspace \<Rightarrow> run_context \<Rightarrow> job \<Rightarrow> (goerr option \<times> workspace) prog" where
  "createApplyJobIfApproved E R ws rc planJob =
     (let decision = mget (ws_annots ws) ApprovalDecisionAnnotation in
      if decision = ApprovalDecisionRejected then rejectPlan E R ws planJob
      else if \<not> (wsp_autoApply (ws_spec ws) \<or> decision = ApprovalDecisionApproved)
      then parkPlanned E R ws planJob
      else createApplyJob E R ws rc planJob)"

definition withObservedRevision :: "workspace \<Rightarrow> workspace" where
  "withObservedRevision ws = ws\<lparr>ws_status := (ws_status ws)
     \<lparr>wst_observedRevision :=
        (let sha = mget (ws_annots ws) DetectedRevisionAnnotation in
         if sha \<noteq> [] then sha else ss_targetRevision (wsp_source (ws_spec ws)))\<rparr>\<rparr>"

definition handleApplySuccess ::
    "env \<Rightarrow> reconciler \<Rightarrow> workspace \<Rightarrow> job \<Rightarrow> (goerr option \<times> workspace) prog" where
  "handleApplySuccess E R ws applyJob = do {
     (ignored, ws1) \<leftarrow> archiveRunLogs E R ws applyJob RunPhaseApply RunLogResultSucceeded;
     observeDuration ws1 applyJob jobTypeApply;
     ws2 \<leftarrow> updateStatus E (withObservedRevision ws1) PhaseApplied ''ApplySucceeded''
              ''Terraform Apply completed successfully'' ConditionTrue;
     deleteAnnotations E ws2 [ExecutionAllowedAnnotation, DetectedRevisionAnnotation,
       ReconcileRequestAnnotation]
   }"

definition handleApplyFailure ::
    "env \<Rightarrow> reconciler \<Rightarrow> workspace \<Rightarrow> job \<Rightarrow> (goerr option \<times> workspace) prog" where
  "handleApplyFailure E R ws applyJob = do {
     (ignored, ws1) \<leftarrow> archiveRunLogs E R ws applyJob RunPhaseApply RunLogResultFailed;
     ws2 \<leftarrow> updateStatus E ws1 PhaseFailed ''ApplyFailed'' ''Terraform Apply execution failed''
              ConditionFalse;
     deleteAnnotations E ws2 [ExecutionAllowedAnnotation, ReconcileRequestAnnotation]
   }"

definition reconcileApplyJob ::
    "env \<Rightarrow> reconciler \<Rightarrow> workspace \<Rightarrow> run_context \<Rightarrow> job \<Rightarrow> (goerr option \<times> workspace) prog" where
  "reconcileApplyJob E R ws rc planJob =
     (case rc_applyJob rc of
        None \<Rightarrow> createApplyJobIfApproved E R ws rc planJob
      | Some applyJob \<Rightarrow>
          (if jst_failed (job_status_of applyJob) > 0 then handleApplyFailure E R ws applyJob
           else if jst_succeeded (job_status_of applyJob) = 0 then do {
             ws1 \<leftarrow> updateStatus E ws PhaseApplying ''Applying''
                      ''Terraform Apply execution is running'' ConditionUnknown;
             ret (None, ws1)
           }
           else handleApplySuccess E R ws applyJob))"

lemma emits_observeDuration [emits_intros]:
  "(\<And>c. jobNeutral c \<Longrightarrow> P c) \<Longrightarrow> emits P (observeDuration ws j jobType)"
  unfolding observeDuration_def call_defs by (auto intro!: emits_intros split: option.splits)

end
