(* ===== verification/WS_Controller.thy ===== *)
theory WS_Controller
  imports WS_Exec
begin

text \<open>
  The reconcile loop of the workspace controller,
  \<open>src/internal/controller/workspace/workspace_controller.go\<close>: from the request to the
  requeue delay, with the finalizer, deletion, the rollout gate and the status writes on
  error. A result is the requeue delay, zero for none, and the error returned.
\<close>

definition getJobOrNil :: "env \<Rightarrow> string \<Rightarrow> string \<Rightarrow> job ptr result prog" where
  "getJobOrNil E name ns = do {
     r \<leftarrow> getJob E \<lparr>nn_namespace = ns, nn_name = name\<rparr>;
     case r of
       Inl err \<Rightarrow> if isNotFound err then ret (Inr None) else ret (Inl err)
     | Inr j \<Rightarrow> ret (Inr (Some j))
   }"

definition emptyRunContext :: "'z golib_scheme \<Rightarrow> workspace \<Rightarrow> run_context" where
  "emptyRunContext L ws =
     \<lparr>rc_planJobName = ws_name ws @ ''-plan-'' @ getSpecHash L ws,
      rc_applyJobName = ws_name ws @ ''-apply-'' @ getSpecHash L ws,
      rc_planFile = ''/workspace-data/run-'' @ getSpecHash L ws @ ''.tfplan'',
      rc_pvcName = ws_name ws @ ''-data'',
      rc_planJob = None, rc_applyJob = None, rc_resolvedVars = [], rc_variablesHash = []\<rparr>"

definition newRunContext :: "env \<Rightarrow> workspace \<Rightarrow> run_context result prog" where
  "newRunContext E ws = do {
     let rc = emptyRunContext E ws;
     p \<leftarrow> getJobOrNil E (rc_planJobName rc) (ws_namespace ws);
     case p of
       Inl err \<Rightarrow> ret (Inl err)
     | Inr planJob \<Rightarrow> do {
         a \<leftarrow> getJobOrNil E (rc_applyJobName rc) (ws_namespace ws);
         case a of
           Inl err \<Rightarrow> ret (Inl err)
         | Inr applyJob \<Rightarrow> ret (Inr (rc\<lparr>rc_planJob := planJob, rc_applyJob := applyJob\<rparr>))
       }
   }"

text \<open>The part of \<open>reconcileWorkspace\<close> behind the rollout gate.\<close>

definition executeCycle ::
    "env \<Rightarrow> reconciler \<Rightarrow> workspace \<Rightarrow> run_context \<Rightarrow> (ctrl_result \<times> workspace) prog" where
  "executeCycle E R ws rc = do {
     e \<leftarrow> ensurePVC E R ws (rc_pvcName rc);
     case e of
       Some err \<Rightarrow> ret (failWith (Some err), ws)
     | None \<Rightarrow> do {
         (po, ws1) \<leftarrow> reconcilePlanJob E R ws rc;
         case rc_planJob rc of
           None \<Rightarrow> ret (\<lparr>cr_requeueAfter = po_requeue po, cr_err = po_err po\<rparr>, ws1)
         | Some planJob \<Rightarrow>
             (if po_err po \<noteq> None \<or> \<not> po_planDone po
              then ret (\<lparr>cr_requeueAfter = po_requeue po, cr_err = po_err po\<rparr>, ws1)
              else do {
                (err, ws2) \<leftarrow> reconcileApplyJob E R ws1 rc planJob;
                ret (failWith err, ws2)
              })
       }
   }"

definition awaitRollout :: "env \<Rightarrow> workspace \<Rightarrow> duration \<Rightarrow> (ctrl_result \<times> workspace) prog" where
  "awaitRollout E ws delay = do {
     ws1 \<leftarrow> (if ws_phase ws = PhaseEmpty
              then updateStatus E ws PhasePending ''AwaitingRollout''
                ''Waiting for the Rollout controller to schedule this Workspace for execution''
                ConditionUnknown
              else ret ws);
     ret (requeue (if delay > 0 then delay else 0), ws1)
   }"

definition unresolvedMessage :: "unresolved_reference list \<Rightarrow> string" where
  "unresolvedMessage unresolved = natString (length unresolved)
     @ '' variable reference(s) unresolved: '' @ formatUnresolved unresolved"

definition reconcileWorkspace ::
    "env \<Rightarrow> reconciler \<Rightarrow> workspace \<Rightarrow> (ctrl_result \<times> workspace) prog" where
  "reconcileWorkspace E R ws = do {
     c \<leftarrow> newRunContext E ws;
     case c of
       Inl err \<Rightarrow> ret (failWith (Some err), ws)
     | Inr rc0 \<Rightarrow> do {
         cleanupOrphanedJobs E ws rc0;
         v \<leftarrow> resolveWorkspaceVariables E ws;
         case v of
           Inl err \<Rightarrow> ret (failWith (Some err), ws)
         | Inr (resolvedVars, unresolved) \<Rightarrow>
             (if unresolved \<noteq> [] then do {
                ws1 \<leftarrow> updateStatus E ws PhaseFailed ''UnresolvedVariables''
                         (unresolvedMessage unresolved) ConditionFalse;
                ret (requeue 0, ws1)
              }
              else
                let rc = rc0\<lparr>rc_resolvedVars := resolvedVars,
                             rc_variablesHash := Fingerprint E resolvedVars\<rparr> in do {
                  d \<leftarrow> checkCycleNeeded E ws rc;
                  if cd_start d then do {
                    (err, ws1) \<leftarrow> startFreshCycle E R ws rc (cd_reason d) (cd_message d);
                    ret (failWith err, ws1)
                  }
                  else if \<not> isExecutionAllowedByRolloutController ws
                  then awaitRollout E ws (cd_requeue d)
                  else executeCycle E R ws rc
                })
       }
   }"

definition handleDeletion :: "env \<Rightarrow> workspace \<Rightarrow> bool result prog" where
  "handleDeletion E ws = do {
     ws1 \<leftarrow> updateStatus E ws PhaseDeleting ''Deleting'' ''Workspace is being deleted'' ConditionFalse;
     if containsFinalizer E (ws_meta ws1) FinalizerName then do {
       u \<leftarrow> updateWorkspace E (ws1\<lparr>ws_meta := removeFinalizer E (ws_meta ws1) FinalizerName\<rparr>);
       case u of Inl err \<Rightarrow> ret (Inl err) | Inr w \<Rightarrow> ret (Inr True)
     }
     else ret (Inr True)
   }"

definition finishReconcile :: "env \<Rightarrow> workspace \<Rightarrow> duration \<Rightarrow> duration prog" where
  "finishReconcile E ws res = do {
     t \<leftarrow> now E;
     let (next, interval, due) =
           computeNextReconcileTime E ws (wst_nextReconcileTime (ws_status ws)) t;
     ws' \<leftarrow> updateNextReconcileTime E ws next interval;
     withScheduledRequeue E res next
   }"

definition Reconcile :: "env \<Rightarrow> reconciler \<Rightarrow> nsname \<Rightarrow> ctrl_result prog" where
  "Reconcile E R req = do {
     g \<leftarrow> getWorkspace E req;
     case g of
       Inl err \<Rightarrow> if isNotFound err then ret (requeue 0) else ret (failWith (Some err))
     | Inr ws \<Rightarrow>
         (case addFinalizer E (ws_meta ws) FinalizerName of (m, added) \<Rightarrow>
            if added then do {
              u \<leftarrow> updateWorkspace E (ws\<lparr>ws_meta := m\<rparr>);
              case u of Inl err \<Rightarrow> ret (failWith (Some err)) | Inr w \<Rightarrow> ret (requeue 0)
            }
            else if \<not> timeIsZero (om_deletionTimestamp (ws_meta ws)) then do {
              f \<leftarrow> handleDeletion E ws;
              case f of
                Inl err \<Rightarrow> ret (failWith (Some err))
              | Inr finished \<Rightarrow> ret (requeue (if finished then 0 else 10000000000))
            }
            else do {
              (res, ws1) \<leftarrow> reconcileWorkspace E R ws;
              case cr_err res of
                Some err \<Rightarrow> do {
                  metric ''workspace_reconcile_total'' [nn_namespace req, nn_name req, ''error''] 1;
                  ws2 \<leftarrow> updateStatus E ws1 PhaseFailed ''ReconcileError'' (err_text err) ConditionFalse;
                  ret (failWith (Some err))
                }
              | None \<Rightarrow> do {
                  metric ''workspace_reconcile_total'' [nn_namespace req, nn_name req, ''success''] 1;
                  d \<leftarrow> finishReconcile E ws1 (cr_requeueAfter res);
                  ret (requeue d)
                }
            })
   }"

section \<open>Metrics\<close>

definition countActive :: "workspace list \<Rightarrow> int" where
  "countActive wss = int (length (filter (\<lambda>ws. ws_phase ws \<in> {PhasePlanning, PhaseApplying}) wss))"

definition Collect :: "env \<Rightarrow> unit prog" where
  "Collect E = do {
     r \<leftarrow> listAllWorkspaces E;
     case r of
       Inl err \<Rightarrow> ret ()
     | Inr wss \<Rightarrow> metric ''workspace_active_count'' [] (countActive wss)
   }"

lemma emits_newRunContext [emits_intros]:
  "(\<And>c. jobNeutral c \<Longrightarrow> P c) \<Longrightarrow> emits P (newRunContext E ws)"
  unfolding newRunContext_def getJobOrNil_def call_defs by (auto intro!: emits_intros)

lemma emits_finishReconcile [emits_intros]:
  "(\<And>c. jobNeutral c \<Longrightarrow> P c) \<Longrightarrow> emits P (finishReconcile E ws res)"
  unfolding finishReconcile_def call_defs by (auto intro!: emits_intros)

lemma emits_handleDeletion [emits_intros]:
  "(\<And>c. jobNeutral c \<Longrightarrow> P c) \<Longrightarrow> emits P (handleDeletion E ws)"
  unfolding handleDeletion_def call_defs by (auto intro!: emits_intros)

end
