(* ===== verification/WS_Safety.thy ===== *)
theory WS_Safety
  imports WS_Controller
begin

text \<open>
  Safety of the workspace controller: which Jobs and claims a reconcile may create or delete,
  whatever the API server answers and whatever other actors write between two calls. Each
  lemma bounds the calls of one function; the properties at the end bound the calls of
  \<open>Reconcile\<close>.
\<close>

section \<open>The gates of a run\<close>

definition isJobType :: "string \<Rightarrow> job \<Rightarrow> bool" where
  "isJobType t j \<longleftrightarrow> jsp_podLabels (job_spec_of j) jobTypeLabelKey = Some t"

lemma jobType_facts [simp]:
  "jobTypePlan \<noteq> jobTypeApply" "jobTypeApply \<noteq> jobTypePlan"
  "jobTypeLabelKey \<noteq> runIDLabelKey" "jobTypeLabelKey \<noteq> workspaceLabelKey"
  "runIDLabelKey \<noteq> jobTypeLabelKey" "workspaceLabelKey \<noteq> jobTypeLabelKey"
  "runIDLabelKey \<noteq> workspaceLabelKey" "workspaceLabelKey \<noteq> runIDLabelKey"
  by (simp_all add: jobTypePlan_def jobTypeApply_def jobTypeLabelKey_def runIDLabelKey_def
      workspaceLabelKey_def)

lemma wp_constructJob_type:
  "wp (constructJobForWorkspace E R ws rc t runID)
     (\<lambda>r h'. \<forall>j. r = Inr j \<longrightarrow> jsp_podLabels (job_spec_of j) = jobLabels ws t runID) h"
  unfolding constructJobForWorkspace_def
  by (auto simp: wp_simps Let_def intro!: wp_all [of _ "resolveEffectivePolicySelector E ws"]
      wp_all [of _ "getRepoCredentials E ns u" for ns u] split: sum.split)

lemma isJobType_jobLabels:
  "jsp_podLabels (job_spec_of j) = jobLabels ws t runID \<Longrightarrow> isJobType t' j \<longleftrightarrow> t' = t"
  by (auto simp: isJobType_def jobLabels_def)

text \<open>When a Job of each kind may be created, of the workspace the reconcile has read.\<close>

definition planFinished :: "run_context \<Rightarrow> bool" where
  "planFinished rc \<longleftrightarrow>
     (\<exists>pj. rc_planJob rc = Some pj \<and> \<not> jst_failed (job_status_of pj) > 0
        \<and> jst_succeeded (job_status_of pj) \<noteq> 0)"

definition approved :: "workspace \<Rightarrow> bool" where
  "approved ws \<longleftrightarrow> wsp_autoApply (ws_spec ws)
     \<or> ws_annots ws ApprovalDecisionAnnotation = Some ApprovalDecisionApproved"

fun gateCall :: "workspace \<Rightarrow> run_context \<Rightarrow> call \<Rightarrow> bool" where
  "gateCall ws rc (C_CreateJob j) =
     ((isJobType jobTypePlan j \<and> rc_planJob rc = None)
      \<or> (isJobType jobTypeApply j \<and> approved ws \<and> planFinished rc \<and> rc_applyJob rc = None))"
| "gateCall ws rc (C_DeleteJob j) = False"
| "gateCall ws rc c = True"

lemma gateCall_neutral [simp]: "jobNeutral c \<Longrightarrow> gateCall ws rc c"
  by (cases c) auto

lemma emits_launch:
  assumes "(\<forall>c. jobNeutral c \<longrightarrow> P c)
    \<and> (\<forall>j. jsp_podLabels (job_spec_of j) = jobLabels ws t runID \<longrightarrow> P (C_CreateJob j))
    \<and> (\<forall>err. emits P (f err)) \<and> (\<forall>e. emits P (g e))"
  shows "emits P (do {
    c \<leftarrow> constructJobForWorkspace E R ws rc t runID;
    case c of Inl err \<Rightarrow> f err | Inr newJob \<Rightarrow> do { e \<leftarrow> createJob E newJob; g e } })"
proof (rule emits_bind_wp)
  show "emits P (constructJobForWorkspace E R ws rc t runID)"
    using assms by (intro emits_intros) auto
  show "wp (constructJobForWorkspace E R ws rc t runID)
      (\<lambda>c h'. emits P (case c of Inl err \<Rightarrow> f err
        | Inr newJob \<Rightarrow> do { e \<leftarrow> createJob E newJob; g e })) h" for h
    using assms
    by (intro wp_mono [OF wp_constructJob_type]) (auto simp: createJob_def intro!: emits_intros)
qed

lemma emits_createPlanJob:
  "rc_planJob rc = None \<Longrightarrow> emits (gateCall ws rc) (createPlanJob E R ws' rc)"
  unfolding createPlanJob_def listJobs_def
  by (auto intro!: emits_intros emits_launch simp: isJobType_jobLabels)

lemma emits_createApplyJobIfApproved:
  assumes "planFinished rc" and "rc_applyJob rc = None"
  shows "emits (gateCall ws rc) (createApplyJobIfApproved E R ws rc planJob)"
proof -
  have ok: "approved ws" if "wsp_autoApply (ws_spec ws) \<or>
      mget (ws_annots ws) ApprovalDecisionAnnotation = ApprovalDecisionApproved"
    using that approval_decisions_distinct by (auto simp: approved_def mget_def split: option.splits)
  have "emits (gateCall ws rc) (createApplyJob E R ws' rc planJob)" if "approved ws" for ws'
    unfolding createApplyJob_def consumeApproval_def patchWorkspace_def
    using that assms by (auto intro!: emits_intros emits_launch simp: isJobType_jobLabels)
  then show ?thesis
    unfolding createApplyJobIfApproved_def rejectPlan_def parkPlanned_def
    using ok by (auto intro!: emits_intros)
qed

lemma emits_reconcileApplyJob:
  "planFinished rc \<Longrightarrow> emits (gateCall ws rc) (reconcileApplyJob E R ws rc planJob)"
  unfolding reconcileApplyJob_def handleApplyFailure_def handleApplySuccess_def
  by (auto intro!: emits_intros emits_createApplyJobIfApproved)

lemma emits_reconcilePlanJob:
  "emits (gateCall ws rc) (reconcilePlanJob E R ws' rc)"
  unfolding reconcilePlanJob_def handlePlanFailure_def classifyPlanFailure_def
  by (auto intro!: emits_intros emits_createPlanJob)

text \<open>A plan that is done leaves the workspace as it was, and its Job has succeeded.\<close>

lemma wp_reconcilePlanJob_done:
  "wp (reconcilePlanJob E R ws rc)
     (\<lambda>(po, ws') h'. po_planDone po \<longrightarrow> planFinished rc \<and> ws' = ws) h"
proof (cases "rc_planJob rc")
  case None
  then show ?thesis
    unfolding reconcilePlanJob_def createPlanJob_def
    by (auto simp: wp_simps call_defs planWaits_def planError_def split: sum.split option.split
        intro!: wp_all [of _ "ensureRunMetadata E ws"] wp_all [of _ "constructJobForWorkspace E R w rc t r" for w t r]
          wp_all [of _ "updateStatus E w a b c d" for w a b c d])
next
  case (Some j)
  then show ?thesis
    unfolding reconcilePlanJob_def handlePlanFailure_def planFinished_def
    by (auto simp: wp_simps observeDuration_def metric_def planWaits_def planError_def split: sum.split option.split
        intro!: wp_all [of _ "classifyPlanFailure E R ws rc"]
          wp_all [of _ "updateStatus E w a b c d" for w a b c d]
          wp_all [of _ "archiveRunLogs E R w j p r" for w p r]
          wp_all [of _ "deleteAnnotations E w k" for w k])
qed

lemma emits_ensurePVC:
  "(\<And>c. jobNeutral c \<Longrightarrow> P c) \<Longrightarrow> (\<And>p. P (C_CreatePVC p)) \<Longrightarrow> emits P (ensurePVC E R ws n)"
  unfolding ensurePVC_def call_defs by (auto intro!: emits_intros)

lemma emits_executeCycle: "emits (gateCall ws rc) (executeCycle E R ws rc)"
  unfolding executeCycle_def
  by (auto intro!: emits_intros emits_ensurePVC emits_bind_wp [OF emits_reconcilePlanJob]
      wp_mono [OF wp_reconcilePlanJob_done] emits_reconcileApplyJob)

definition readsJob :: "env \<Rightarrow> workspace \<Rightarrow> string \<Rightarrow> job \<Rightarrow> bool" where
  "readsJob E ws n j \<longleftrightarrow>
     (\<exists>h. ev_getJob E h \<lparr>nn_namespace = ws_namespace ws, nn_name = n\<rparr> = Inr j)"

lemma wp_newRunContext:
  "wp (newRunContext E ws)
     (\<lambda>r h'. \<forall>rc. r = Inr rc \<longrightarrow>
        rc_planJobName rc = rc_planJobName (emptyRunContext E ws)
        \<and> (\<forall>j. rc_planJob rc = Some j \<longrightarrow> readsJob E ws (rc_planJobName (emptyRunContext E ws)) j)) h"
  by (auto simp: newRunContext_def getJobOrNil_def wp_simps call_defs Let_def readsJob_def
      split: sum.split)

text \<open>What a reconcile of the workspace \<open>ws\<close>, as read at its start, may do to Jobs and claims.\<close>

definition planSucceeded :: "env \<Rightarrow> workspace \<Rightarrow> bool" where
  "planSucceeded E ws \<longleftrightarrow>
     (\<exists>pj. readsJob E ws (rc_planJobName (emptyRunContext E ws)) pj
        \<and> \<not> jst_failed (job_status_of pj) > 0 \<and> jst_succeeded (job_status_of pj) \<noteq> 0)"

fun runCall :: "env \<Rightarrow> workspace \<Rightarrow> call \<Rightarrow> bool" where
  "runCall E ws (C_CreateJob j) =
     (isExecutionAllowedByRolloutController ws
      \<and> (isJobType jobTypePlan j \<or> (isJobType jobTypeApply j \<and> approved ws \<and> planSucceeded E ws)))"
| "runCall E ws (C_CreatePVC p) = isExecutionAllowedByRolloutController ws"
| "runCall E ws (C_DeleteJob j) = (ws_phase ws \<notin> {PhasePlanning, PhaseApplying})"
| "runCall E ws c = True"

lemma runCall_neutral [simp]: "jobNeutral c \<Longrightarrow> runCall E ws c"
  by (cases c) auto

lemma gateCall_runCall:
  assumes "gateCall ws rc c" and "isExecutionAllowedByRolloutController ws"
    and "\<And>j. rc_planJob rc = Some j \<Longrightarrow> readsJob E ws (rc_planJobName (emptyRunContext E ws)) j"
  shows "runCall E ws c"
  using assms by (cases c) (auto simp: planFinished_def planSucceeded_def)

lemma emits_cleanupOrphanedJobs: "emits (runCall E ws) (cleanupOrphanedJobs E ws rc)"
  unfolding cleanupOrphanedJobs_def call_defs by (auto intro!: emits_intros)

lemma emits_startFreshCycle:
  "ws_phase ws \<notin> {PhasePlanning, PhaseApplying} \<Longrightarrow>
   emits (runCall E ws) (startFreshCycle E R ws rc reason message)"
  unfolding startFreshCycle_def deleteJobIfSome_def call_defs
  by (auto intro!: emits_intros)

lemma emits_reconcileWorkspace: "emits (runCall E ws) (reconcileWorkspace E R ws)"
  unfolding reconcileWorkspace_def awaitRollout_def
  by (auto intro!: emits_intros emits_cleanupOrphanedJobs emits_startFreshCycle
      emits_bind_wp [where m = "newRunContext E ws"] wp_mono [OF wp_newRunContext]
      emits_bind_wp [where m = "checkCycleNeeded E ws rc" for rc]
      wp_mono [OF wp_checkCycleNeeded_not_running]
      emits_mono [OF emits_executeCycle] intro: gateCall_runCall)

lemma Reconcile_calls:
  assumes "ev_getWorkspace E h req = Inr ws" and "c \<in> set (calls_of (Reconcile E R req) h)"
  shows "runCall E ws c \<and> (\<not> jobNeutral c \<longrightarrow> timeIsZero (om_deletionTimestamp (ws_meta ws)))"
proof -
  have "emits (runCall E ws) (reconcileWorkspace E R ws)" by (rule emits_reconcileWorkspace)
  moreover have "runCall E ws c \<and> (\<not> jobNeutral c \<longrightarrow> timeIsZero (om_deletionTimestamp (ws_meta ws)))"
    if "jobNeutral c" for c using that by simp
  ultimately have "c = C_GetWorkspace req \<or> runCall E ws c \<and>
      (\<not> jobNeutral c \<longrightarrow> timeIsZero (om_deletionTimestamp (ws_meta ws)))"
    using assms unfolding Reconcile_def getWorkspace_def
    by (elim first_call)
      (auto simp: call_defs intro!: emits_intros elim!: emits_mono)
  then show ?thesis by auto
qed

lemma Reconcile_missing_calls:
  assumes "ev_getWorkspace E h req = Inl err" and "c \<in> set (calls_of (Reconcile E R req) h)"
  shows "c = C_GetWorkspace req"
  using assms unfolding Reconcile_def getWorkspace_def
  by (drule_tac P = "\<lambda>c. False" in first_call) (auto intro!: emits_intros)

text \<open>
  C1. The apply gate. Whatever the server answers, a reconcile creates an apply Job only for
  a workspace it read as not being deleted, with execution allowed by the rollout controller,
  with \<open>autoApply\<close> set or the approval decision \<open>approved\<close>, and only after it has read the plan
  Job of the current specification as succeeded.
\<close>

theorem Reconcile_apply_gate:
  assumes "C_CreateJob j \<in> set (calls_of (Reconcile E R req) h)" and "isJobType jobTypeApply j"
  shows "\<exists>ws. ev_getWorkspace E h req = Inr ws
    \<and> timeIsZero (om_deletionTimestamp (ws_meta ws))
    \<and> isExecutionAllowedByRolloutController ws
    \<and> (wsp_autoApply (ws_spec ws)
        \<or> ws_annots ws ApprovalDecisionAnnotation = Some ApprovalDecisionApproved)
    \<and> (\<exists>h' pj. ev_getJob E h' \<lparr>nn_namespace = ws_namespace ws,
            nn_name = ws_name ws @ ''-plan-'' @ getSpecHash E ws\<rparr> = Inr pj
          \<and> \<not> jst_failed (job_status_of pj) > 0 \<and> jst_succeeded (job_status_of pj) \<noteq> 0)"
proof (cases "ev_getWorkspace E h req")
  case (Inl err)
  with Reconcile_missing_calls [OF Inl assms(1)] show ?thesis by simp
next
  case (Inr ws)
  from Reconcile_calls [OF Inr assms(1)] assms(2) have
    "isExecutionAllowedByRolloutController ws" "approved ws" "planSucceeded E ws"
    "timeIsZero (om_deletionTimestamp (ws_meta ws))"
    by (auto simp: isJobType_def)
  with Inr show ?thesis
    by (auto simp: approved_def planSucceeded_def readsJob_def emptyRunContext_def)
qed


text \<open>
  The rollout gate: a Job or a volume claim is created only for a workspace that carries
  the execution permission and is not being deleted.
\<close>

theorem Reconcile_rollout_gate:
  assumes "ev_getWorkspace E h req = Inr ws"
    and "C_CreateJob j \<in> set (calls_of (Reconcile E R req) h)
      \<or> C_CreatePVC p \<in> set (calls_of (Reconcile E R req) h)"
  shows "ws_annots ws ExecutionAllowedAnnotation = Some AnnotationValueTrue
    \<and> timeIsZero (om_deletionTimestamp (ws_meta ws))"
  using assms(2)
  by (auto dest!: Reconcile_calls [OF assms(1)] simp: isExecutionAllowedByRolloutController_def mget_def
      split: option.splits)

lemmas reconcile_defs =
  retryOnConflict_numeral
  Reconcile_def reconcileWorkspace_def newRunContext_def getJobOrNil_def emptyRunContext_def
  getSpecHash_def cleanupOrphanedJobs_def resolveWorkspaceVariables_def checkCycleNeeded_def
  checkFinished_def jobsMissing_def jobFinishedState_def checkTriggers_def restartable_def
  noCycle_def startCycle_def isExecutionAllowedByRolloutController_def executeCycle_def
  ensurePVC_def reconcilePlanJob_def observeDuration_def reconcileApplyJob_def
  createApplyJobIfApproved_def createApplyJob_def consumeApproval_def archiveRunLogs_def
  ensureRunMetadata_def newRunID_def ensureCurrentRunTrigger_def constructJobForWorkspace_def
  getRepoCredentials_def updateStatus_def updateStatusOnce_def finishReconcile_def
  updateNextReconcileTime_def updateNextReconcileTimeOnce_def withScheduledRequeue_def
  scheduleJitter_def computeNextReconcileTime_def effectiveInterval_def
  DefaultReconciliationInterval_def timeIsZero_def ComposeEffective_def missings_def
  Fingerprint_def mget_def mergeStatus_def mergePhase_def carryObservedRevision_def
  carryVariablesHash_def carryRun_def mergeViolations_def set_annots_def annotation_keys

definition sampleReconciler :: reconciler where
  "sampleReconciler = \<lparr>rec_jobImage = ''magos-job'', rec_hasClientset = False,
     rec_hasLogStore = False, rec_hasRunRecorder = False, rec_jobResources = [],
     rec_defaultPVCSize = []\<rparr>"

definition sampleRequest :: nsname where
  "sampleRequest = \<lparr>nn_namespace = ''default'', nn_name = ''ws''\<rparr>"

definition allowedWorkspace :: workspace where
  "allowedWorkspace = withPhase PhasePlanned
     (withAnnot ApprovalDecisionAnnotation ApprovalDecisionApproved
       (withAnnot ExecutionAllowedAnnotation AnnotationValueTrue sampleWorkspace))"

definition plannedEnv :: "workspace \<Rightarrow> env" where
  "plannedEnv ws = sampleEnv
     \<lparr>ev_getWorkspace := (\<lambda>h k. if h = [] then Inr ws else Inl (ENotFound ''workspace'')),
      ev_getJob := (\<lambda>h k. if nn_name k = ''ws-plan-0a1b2c3d'' then Inr (succeededJob (nn_name k))
                         else Inl (ENotFound ''job''))\<rparr>"

lemma plannedEnv_run:
  "\<exists>j. C_CreateJob j \<in> set (calls_of (Reconcile (plannedEnv allowedWorkspace) sampleReconciler sampleRequest) [])
     \<and> isJobType jobTypeApply j"
proof (rule calls_of_start)
  show "wp (Reconcile (plannedEnv allowedWorkspace) sampleReconciler sampleRequest)
    (\<lambda>r h. \<exists>j. C_CreateJob j \<in> set h \<and> isJobType jobTypeApply j) []"
    by (simp add: reconcile_defs wp_simps call_defs plannedEnv_def allowedWorkspace_def
        sample_defs Let_def sampleReconciler_def isJobType_def jobLabels_def)
qed
theorem Reconcile_apply_gate_witness:
  "\<exists>j ws. C_CreateJob j \<in> set (calls_of (Reconcile (plannedEnv allowedWorkspace) sampleReconciler sampleRequest) [])
     \<and> isJobType jobTypeApply j
     \<and> ev_getWorkspace (plannedEnv allowedWorkspace) [] sampleRequest = Inr ws
     \<and> isExecutionAllowedByRolloutController ws"
proof -
  obtain j where j: "C_CreateJob j \<in> set (calls_of (Reconcile (plannedEnv allowedWorkspace)
      sampleReconciler sampleRequest) [])" "isJobType jobTypeApply j"
    using plannedEnv_run by blast
  from Reconcile_apply_gate [OF this] j show ?thesis by blast
qed


theorem Reconcile_rollout_gate_witness:
  "ws_annots allowedWorkspace ExecutionAllowedAnnotation = Some AnnotationValueTrue
   \<and> timeIsZero (om_deletionTimestamp (ws_meta allowedWorkspace))"
proof -
  obtain j where j: "C_CreateJob j \<in> set (calls_of (Reconcile (plannedEnv allowedWorkspace)
      sampleReconciler sampleRequest) [])" using plannedEnv_run by blast
  show ?thesis
    by (rule Reconcile_rollout_gate [where E = "plannedEnv allowedWorkspace" and h = "[]"
          and req = sampleRequest and R = sampleReconciler and j = j])
      (use j in \<open>auto simp: plannedEnv_def\<close>)
qed

section \<open>The end of a run\<close>




text \<open>
  A rejected commit is not planned again. When a plan is rejected and the handler returns
  without error, no Job was created or deleted, and the decision and the detected revision
  that led to the plan are gone from the workspace; so neither the revision nor the manual
  request can start another cycle for it.
\<close>

theorem rejection_is_final:
  assumes "patchRemovesKeys E"
    and "ws_annots ws ApprovalDecisionAnnotation = Some ApprovalDecisionRejected"
    and "result_of (createApplyJobIfApproved E R ws rc planJob) h = (None, ws')"
  shows "list_all jobNeutral (calls_of (createApplyJobIfApproved E R ws rc planJob) h)
    \<and> ws_annots ws' ApprovalDecisionAnnotation = None
    \<and> (\<forall>k \<in> {DetectedRevisionAnnotation, ReconcileRequestAnnotation}.
         mget (ws_annots ws) k \<noteq> [] \<longrightarrow> ws_annots ws' k = None)
    \<and> (mget (ws_annots ws) DetectedRevisionAnnotation \<noteq> [] \<longrightarrow>
         cd_reason (checkTriggers ws' rc' d) \<noteq> ''NewRevisionDetected'')"
proof -
  have eq: "createApplyJobIfApproved E R ws rc planJob = rejectPlan E R ws planJob"
    using assms(2) by (simp add: createApplyJobIfApproved_def mget_def)
  have "emits jobNeutral (rejectPlan E R ws planJob)"
    unfolding rejectPlan_def by (auto intro!: emits_intros)
  then have neutral: "list_all jobNeutral (calls_of (rejectPlan E R ws planJob) h)"
    by (rule emits_calls_of)
  have del: "wp (deleteAnnotations E w keys) (\<lambda>(e, ws') h'. e = None \<longrightarrow>
      (\<forall>k \<in> set keys. mget (ws_annots ws) k \<noteq> [] \<longrightarrow> ws_annots ws' k = None)) h"
    if "ws_annots w = ws_annots ws" for w keys h
    using that wp_deleteAnnotations [OF assms(1), of w keys h] by simp
  define keys where "keys = [ApprovalDecisionAnnotation, ExecutionAllowedAnnotation,
    ReconcileRequestAnnotation, DetectedRevisionAnnotation]"
  have "wp (rejectPlan E R ws planJob) (\<lambda>(e, ws') h'. e = None \<longrightarrow>
      (\<forall>k \<in> set keys. mget (ws_annots ws) k \<noteq> [] \<longrightarrow> ws_annots ws' k = None)) h"
    unfolding rejectPlan_def wp_bind wp_case_prod keys_def [symmetric]
    by (auto simp: runStamped_def intro!: wp_archiveRunLogs wp_updateStatus del dest!: sameObject_sel)
  then have gone: "mget (ws_annots ws) k \<noteq> [] \<Longrightarrow> ws_annots ws' k = None"
    if "k \<in> {ApprovalDecisionAnnotation, ReconcileRequestAnnotation, DetectedRevisionAnnotation}" for k
    using assms(3) that unfolding wp_result_pair eq keys_def by auto
  have "cd_reason (checkTriggers ws' rc' d) \<noteq> ''NewRevisionDetected''"
    if "ws_annots ws' DetectedRevisionAnnotation = None"
    using that by (simp add: checkTriggers_def startCycle_def noCycle_def Let_def)
  with neutral gone show ?thesis
    using assms(2) unfolding eq by (auto simp: mget_def)
qed

text \<open>
  The end of a successful apply. Every status write of the handler sets the phase to Applied
  with the commit the annotation names, or the target revision when there is none, as the
  observed revision; the only other write is one patch that removes exactly the execution
  permission, the detected revision and the manual request; and the patch comes last, so the
  annotation is never given up before the write of the revision has been attempted.
\<close>

definition appliedRevision :: "workspace \<Rightarrow> string" where
  "appliedRevision ws =
     (if mget (ws_annots ws) DetectedRevisionAnnotation \<noteq> [] then mget (ws_annots ws) DetectedRevisionAnnotation
      else ss_targetRevision (wsp_source (ws_spec ws)))"

fun appliedCall :: "workspace \<Rightarrow> call \<Rightarrow> bool" where
  "appliedCall ws (C_StatusUpdateWorkspace w) =
     (ws_phase w = PhaseApplied
      \<and> (appliedRevision ws \<noteq> [] \<longrightarrow> wst_observedRevision (ws_status w) = appliedRevision ws))"
| "appliedCall ws (C_PatchWorkspace b w) = False"
| "appliedCall ws c = jobNeutral c"

lemma archiveCall_applied: "archiveCall c \<Longrightarrow> appliedCall ws c"
  by (cases c) auto

lemma statusCall_applied:
  "statusCall PhaseApplied r mine c \<Longrightarrow> wst_observedRevision mine = appliedRevision ws \<Longrightarrow> appliedCall ws c"
  by (cases c) auto

theorem handleApplySuccess_calls:
  "\<exists>cs ws2. list_all (appliedCall ws) cs \<and> ws_annots ws2 = ws_annots ws
     \<and> calls_of (handleApplySuccess E R ws j) h = cs @ removalPatch
         [ExecutionAllowedAnnotation, DetectedRevisionAnnotation, ReconcileRequestAnnotation] ws2"
proof -
  define keys where
    "keys = [ExecutionAllowedAnnotation, DetectedRevisionAnnotation, ReconcileRequestAnnotation]"
  have ob: "wp (observeDuration w j t) (\<lambda>a h'. \<exists>cs. h' = h @ cs \<and> list_all (appliedCall ws) cs) h" for w t h
    by (rule emits_wp) (auto simp: observeDuration_def call_defs intro!: emits_intros split: option.splits)
  have "wp (handleApplySuccess E R ws j) (\<lambda>r h'. \<exists>cs ws2. list_all (appliedCall ws) cs
      \<and> ws_annots ws2 = ws_annots ws \<and> h' = h @ cs @ removalPatch keys ws2) h"
    unfolding handleApplySuccess_def wp_bind wp_case_prod keys_def [symmetric]
  proof (rule wp_archiveRunLogs, clarify)
    fix e ws1 cs1
    assume s1: "runStamped ws ws1" and c1: "list_all archiveCall cs1"
    then have a1: "list_all (appliedCall ws) cs1"
      by (auto simp: list_all_iff intro: archiveCall_applied)
    have rev: "wst_observedRevision (ws_status (withObservedRevision ws1)) = appliedRevision ws"
      using s1 by (simp add: runStamped_def withObservedRevision_def appliedRevision_def Let_def)
    have an: "ws_annots (withObservedRevision ws1) = ws_annots ws"
      using s1 by (simp add: runStamped_def withObservedRevision_def)
    show "wp (observeDuration ws1 j jobTypeApply) (\<lambda>a. wp (updateStatus E (withObservedRevision ws1)
        PhaseApplied ''ApplySucceeded'' ''Terraform Apply completed successfully'' ConditionTrue)
        (\<lambda>a. wp (deleteAnnotations E a keys) (\<lambda>r h'. \<exists>cs ws2. list_all (appliedCall ws) cs
          \<and> ws_annots ws2 = ws_annots ws \<and> h' = h @ cs @ removalPatch keys ws2))) (h @ cs1)"
    proof (rule wp_mono [OF ob], clarify, rule wp_updateStatus, rule wp_deleteAnnotations_calls)
      fix cs2 ws2 cs3 r
      assume "list_all (appliedCall ws) cs2" and "sameObject (withObservedRevision ws1) ws2"
        and "list_all (statusCall PhaseApplied ''ApplySucceeded'' (ws_status (withObservedRevision ws1))) cs3"
      then have "list_all (appliedCall ws) (cs1 @ cs2 @ cs3)" "ws_annots ws2 = ws_annots ws"
        using a1 an statusCall_applied [OF _ rev] by (auto simp: list_all_iff dest!: sameObject_sel)
      then show "\<exists>cs ws2'. list_all (appliedCall ws) cs \<and> ws_annots ws2' = ws_annots ws
          \<and> (((h @ cs1) @ cs2) @ cs3) @ removalPatch keys ws2 = h @ cs @ removalPatch keys ws2'"
        by (intro exI [of _ "cs1 @ cs2 @ cs3"] exI [of _ ws2]) simp
    qed
  qed
  then show ?thesis
    unfolding keys_def by - (rule calls_of_wp, erule wp_mono, auto)
qed

section \<open>The start of a run\<close>

fun pendingCall :: "string \<Rightarrow> call \<Rightarrow> bool" where
  "pendingCall rid (C_StatusUpdateWorkspace w) =
     (ws_phase w = PhasePending \<and> wst_currentRunID (ws_status w) = rid
      \<and> wst_policyViolations (ws_status w) = [])"
| "pendingCall rid (C_PatchWorkspace b w) = False"
| "pendingCall rid (C_CreateJob j) = False"
| "pendingCall rid c = True"

lemma statusCall_pending:
  "statusCall PhasePending r mine c \<Longrightarrow> wst_currentRunID mine = rid \<Longrightarrow> rid \<noteq> [] \<Longrightarrow> pendingCall rid c"
  by (cases c) auto

lemma wp_newRunID: "wp (newRunID E) (\<lambda>rid h'. rid \<noteq> [] \<and> (\<exists>cs. h' = h @ cs \<and> (\<forall>r. list_all (pendingCall r) cs))) h"
  by (auto simp: newRunID_def wp_simps call_defs split: sum.split)


section \<open>The workspace is woken again\<close>

lemma wp_reconcileWorkspace_requeue:
  "wp (reconcileWorkspace E R ws) (\<lambda>(res, ws') h'. 0 \<le> cr_requeueAfter res) h"
proof -
  have plan: "wp (reconcilePlanJob E R w rc) (\<lambda>(po, ws') h'. 0 \<le> po_requeue po) h" for w rc h
    unfolding reconcilePlanJob_def createPlanJob_def handlePlanFailure_def
    by (auto simp: wp_simps call_defs planWaits_def planError_def split: sum.split option.split
        intro!: wp_all [of _ "ensureRunMetadata E w" for w] wp_all [of _ "constructJobForWorkspace E R w rc t r" for w t r]
          wp_all [of _ "updateStatus E w a b c d" for w a b c d] wp_all [of _ "classifyPlanFailure E R w rc" for w]
          wp_all [of _ "archiveRunLogs E R w j p r" for w j p r] wp_all [of _ "deleteAnnotations E w k" for w k]
          wp_all [of _ "observeDuration w j t" for w j t])
  have exec: "wp (executeCycle E R w rc) (\<lambda>(res, ws') h'. 0 \<le> cr_requeueAfter res) h" for w rc h
    unfolding executeCycle_def
    by (auto simp: wp_simps split: option.split
        intro!: wp_all [of _ "ensurePVC E R w n" for n] wp_mono [OF plan]
          wp_all [of _ "reconcileApplyJob E R w rc j" for w j])
  show ?thesis
    unfolding reconcileWorkspace_def awaitRollout_def
    by (auto simp: wp_simps Let_def split: sum.split
        intro!: wp_all [of _ "newRunContext E ws"] wp_all [of _ "cleanupOrphanedJobs E ws rc" for rc]
          wp_all [of _ "resolveWorkspaceVariables E ws"] wp_all [of _ "checkCycleNeeded E ws rc" for rc]
          wp_all [of _ "startFreshCycle E R ws rc a b" for rc a b]
          wp_all [of _ "updateStatus E w a b c d" for w a b c d] exec)
qed

lemma withScheduledRequeue_pos:
  assumes "\<And>h n. 0 < n \<Longrightarrow> 0 \<le> ev_randInt E h n \<and> ev_randInt E h n < n" and "0 \<le> res"
  shows "wp (withScheduledRequeue E res next) (\<lambda>r h'. 0 < r) h"
proof -
  have "0 \<le> ev_randInt E h n" if "\<not> n \<le> 0" for h n using assms(1) [of n h] that by simp
  with assms(2) show ?thesis
    by (auto simp: withScheduledRequeue_def scheduleJitter_def call_defs wp_simps Let_def
        intro!: add_pos_nonneg)
qed


section \<open>When a cycle starts\<close>

text \<open>
  A run in progress is not interrupted. Whatever annotations and variables say, no fresh
  cycle is decided for a workspace in phase Pending, Planning or Applying, and for one in
  phase Planned only when both its Jobs are gone.
\<close>

theorem checkCycleNeeded_no_interruption:
  assumes "cd_start (result_of (checkCycleNeeded E ws rc) h)"
  shows "ws_phase ws \<notin> {PhasePending, PhasePlanning, PhaseApplying}
    \<and> (ws_phase ws = PhasePlanned \<longrightarrow> rc_planJob rc = None \<and> rc_applyJob rc = None)"
proof -
  have "wp (checkCycleNeeded E ws rc) (\<lambda>d h'. cd_start d \<longrightarrow>
      ws_phase ws \<notin> {PhasePending, PhasePlanning, PhaseApplying}
      \<and> (ws_phase ws = PhasePlanned \<longrightarrow> rc_planJob rc = None \<and> rc_applyJob rc = None)) h"
    by (rule wp_mono [OF wp_checkCycleNeeded_start])
      (auto simp: jobsMissing_def dest: terminal_not_running)
  with assms show ?thesis by (simp add: wp_result)
qed

text \<open>
  A cycle starts when it should. From a recorded terminal phase, or from no phase at all,
  a fresh cycle is decided when the watcher reported a revision other than the observed one,
  when a manual request is pending, when the variables changed, or when the schedule is due
  and the apply Job has finished.
\<close>

theorem checkCycleNeeded_starts:
  assumes "restartable ws"
    and "(\<exists>s. ws_annots ws DetectedRevisionAnnotation = Some s \<and> s \<noteq> wst_observedRevision (ws_status ws))
      \<or> mget (ws_annots ws) ReconcileRequestAnnotation \<noteq> []
      \<or> rc_variablesHash rc \<noteq> wst_variablesHash (ws_status ws)
      \<or> (ws_phase ws \<noteq> PhaseEmpty \<and> fst (jobFinishedState (rc_applyJob rc)) \<noteq> 0
          \<and> snd (snd (computeNextReconcileTime E ws (wst_nextReconcileTime (ws_status ws)) (ev_now E h))))"
  shows "cd_start (result_of (checkCycleNeeded E ws rc) h)"
proof -
  obtain n i due where c: "computeNextReconcileTime E ws (wst_nextReconcileTime (ws_status ws)) (ev_now E h)
      = (n, i, due)" by (metis prod_cases3)
  obtain f s where f: "jobFinishedState (rc_applyJob rc) = (f, s)" by fastforce
  have t: "ws_phase ws \<noteq> PhaseEmpty \<Longrightarrow> terminalWorkspaceRunRecorded (ws_phase ws)"
    using assms(1) by (simp add: restartable_def)
  have "wp (checkCycleNeeded E ws rc) (\<lambda>d h'. cd_start d) h"
  proof (cases "ws_phase ws \<noteq> PhaseEmpty \<and> f \<noteq> 0 \<and> due")
    case True
    with t show ?thesis
      by (simp add: checkCycleNeeded_def checkFinished_def wp_simps call_defs c f startCycle_def)
  next
    case False
    with assms f c have "cd_start (checkTriggers ws rc d)" for d
      by (auto simp: checkTriggers_start)
    then show ?thesis
      by (auto simp: checkCycleNeeded_def wp_simps call_defs c startCycle_def
          intro!: wp_all [of _ "checkFinished E ws rc n due"])
  qed
  then show ?thesis by (simp add: wp_result)
qed

text \<open>
  The hash of the variables cannot be cleared. Starting a cycle for a workspace whose
  variables have all been detached stamps the empty hash, but the status write keeps the
  stored one; so as soon as the run has ended, the next reconcile finds the hashes different
  and starts the next cycle, for ever.
\<close>

theorem detached_variables_restart:
  assumes "wst_variablesHash latest \<noteq> []" and "rc_variablesHash rc = []"
  shows "let st = fst (mergeStatus PhasePending reason message
            (ws_status (stampRun rid trigger t (rc_variablesHash rc) ws)) latest)
    in wst_variablesHash st = wst_variablesHash latest
       \<and> (\<forall>ws' d. wst_variablesHash (ws_status ws') = wst_variablesHash st \<and> restartable ws' \<longrightarrow>
            cd_start (checkTriggers ws' rc d))"
  using assms by (simp add: mergeStatus_def merge_fst stampRun_def checkTriggers_start)

section \<open>Run identifiers\<close>

fun carriesRun :: "string \<Rightarrow> call \<Rightarrow> bool" where
  "carriesRun rid (C_CreateJob j) = (jsp_podLabels (job_spec_of j) runIDLabelKey = Some rid)"
| "carriesRun rid c = True"

lemma carriesRun_neutral [simp]: "jobNeutral c \<Longrightarrow> carriesRun rid c"
  by (cases c) auto

lemma wp_ensureRunMetadata_keeps:
  "wst_currentRunID (ws_status ws) = rid \<Longrightarrow> rid \<noteq> [] \<Longrightarrow>
   wp (ensureRunMetadata E ws) (\<lambda>(r, w) h'. r = rid) h"
  by (auto simp: ensureRunMetadata_def wp_simps ensureCurrentRunTrigger_def Let_def)

lemma emits_launch_carries:
  assumes "wst_currentRunID (ws_status ws) = rid \<and> rid \<noteq> []
    \<and> (\<forall>w err. emits (carriesRun rid) (f w err)) \<and> (\<forall>w e. emits (carriesRun rid) (g w e))"
  shows "emits (carriesRun rid) (do {
    (runID, w) \<leftarrow> ensureRunMetadata E ws;
    c \<leftarrow> constructJobForWorkspace E R w rc t runID;
    case c of Inl err \<Rightarrow> f w err | Inr newJob \<Rightarrow> do { e \<leftarrow> createJob E newJob; g w e } })"
proof (rule emits_bind_wp)
  show "emits (carriesRun rid) (ensureRunMetadata E ws)" by (auto intro!: emits_intros)
  show "wp (ensureRunMetadata E ws) (\<lambda>a h'. emits (carriesRun rid) (case a of (runID, w) \<Rightarrow> do {
      c \<leftarrow> constructJobForWorkspace E R w rc t runID;
      case c of Inl err \<Rightarrow> f w err | Inr newJob \<Rightarrow> do { e \<leftarrow> createJob E newJob; g w e } })) h" for h
    by (rule wp_mono [OF wp_ensureRunMetadata_keeps [where rid = rid]])
      (use assms in \<open>auto intro!: emits_launch simp: jobLabels_def\<close>)
qed

text \<open>
  The plan and the apply of one run carry the same identifier: a Job created for a
  workspace with a current run is labelled with its identifier, when the workspaces the server
  answers a patch with carry it too.
\<close>

theorem jobs_carry_run_id:
  assumes "wst_currentRunID (ws_status ws) = rid" and "rid \<noteq> []"
    and "\<And>h b w r. ev_patchWorkspace E h b w = Inr r \<Longrightarrow> wst_currentRunID (ws_status r) = rid"
    and "C_CreateJob j \<in> set (calls_of (createPlanJob E R ws rc) h)
      \<or> C_CreateJob j \<in> set (calls_of (createApplyJob E R ws rc planJob) h)"
  shows "jsp_podLabels (job_spec_of j) runIDLabelKey = Some rid"
proof -
  have consume: "wp (consumeApproval E ws) (\<lambda>(e, w) h'. e = None \<longrightarrow> wst_currentRunID (ws_status w) = rid) h" for h
    using assms(1,3) by (auto simp: consumeApproval_def wp_simps call_defs split: sum.split)
  have neutral: "emits (carriesRun rid) (consumeApproval E ws)"
    unfolding consumeApproval_def patchWorkspace_def by (auto intro!: emits_intros)
  have stamp: "wp (archiveRunLogs E R w planJob p r) (\<lambda>(e, w') h'. wst_currentRunID (ws_status w') = rid) h"
    if "wst_currentRunID (ws_status w) = rid" for w p r h
    using assms(2) that by (intro wp_mono [OF wp_archive_stamped]) (auto simp: runStamped_def)
  have "emits (carriesRun rid) (createPlanJob E R ws rc)"
    unfolding createPlanJob_def listJobs_def using assms(1,2)
    by (auto intro!: emits_intros emits_launch_carries)
  moreover have "emits (carriesRun rid) (createApplyJob E R ws rc planJob)"
    unfolding createApplyJob_def using assms(2)
    by (auto intro!: emits_intros emits_bind_wp [OF neutral] wp_mono [OF consume]
        emits_bind_wp [where m = "archiveRunLogs E R w planJob p r" for w p r] wp_mono [OF stamp] emits_launch_carries)
  ultimately show ?thesis using assms(4) by (auto dest: emits_call)
qed

section \<open>Witnesses\<close>

definition rejectedWorkspace :: workspace where
  "rejectedWorkspace = withPhase PhasePlanned
     (withAnnot DetectedRevisionAnnotation ''abc''
       (withAnnot ApprovalDecisionAnnotation ApprovalDecisionRejected sampleWorkspace))"

lemma rejection_sample:
  "\<exists>ws'. result_of (createApplyJobIfApproved sampleEnv sampleReconciler rejectedWorkspace
      (emptyRunContext sampleEnv rejectedWorkspace) (succeededJob ''p'')) [] = (None, ws')"
proof -
  have "wp (createApplyJobIfApproved sampleEnv sampleReconciler rejectedWorkspace
      (emptyRunContext sampleEnv rejectedWorkspace) (succeededJob ''p'')) (\<lambda>(e, w) h. e = None) []"
    by (simp add: createApplyJobIfApproved_def rejectedWorkspace_def withAnnot_def withPhase_def
        rejectPlan_def archiveRunLogs_def sampleReconciler_def updateStatus_def updateStatusOnce_def
        retryOnConflict_numeral call_defs wp_simps deleteAnnotations_def dropKeys_eq Let_def)
  then show ?thesis unfolding wp_result_pair by (metis prod.collapse)
qed

theorem rejection_is_final_witness:
  "\<exists>ws'. result_of (createApplyJobIfApproved sampleEnv sampleReconciler rejectedWorkspace
      (emptyRunContext sampleEnv rejectedWorkspace) (succeededJob ''p'')) [] = (None, ws')
    \<and> ws_annots ws' DetectedRevisionAnnotation = None"
proof -
  obtain ws' where w: "result_of (createApplyJobIfApproved sampleEnv sampleReconciler rejectedWorkspace
      (emptyRunContext sampleEnv rejectedWorkspace) (succeededJob ''p'')) [] = (None, ws')"
    using rejection_sample by blast
  have "patchRemovesKeys sampleEnv" by (simp add: patchRemovesKeys_def)
  moreover have "ws_annots rejectedWorkspace ApprovalDecisionAnnotation = Some ApprovalDecisionRejected"
    and "mget (ws_annots rejectedWorkspace) DetectedRevisionAnnotation \<noteq> []"
    by (simp_all add: rejectedWorkspace_def withAnnot_def withPhase_def)
  ultimately show ?thesis using rejection_is_final [OF _ _ w] w by blast
qed


definition appliedWorkspace :: workspace where
  "appliedWorkspace = withPhase PhaseApplied (withAnnot DetectedRevisionAnnotation ''abc'' sampleWorkspace)"

lemma appliedWorkspace_starts:
  "cd_start (result_of (checkCycleNeeded sampleEnv appliedWorkspace (emptyRunContext sampleEnv sampleWorkspace)) [])"
proof -
  have "wp (checkCycleNeeded sampleEnv appliedWorkspace (emptyRunContext sampleEnv sampleWorkspace))
      (\<lambda>d h. cd_start d) []"
    by (simp add: checkCycleNeeded_def jobsMissing_def emptyRunContext_def appliedWorkspace_def
        withPhase_def wp_simps call_defs startCycle_def split: prod.split)
  then show ?thesis by (simp add: wp_result)
qed

theorem checkCycleNeeded_no_interruption_witness:
  "ws_phase appliedWorkspace \<notin> {PhasePending, PhasePlanning, PhaseApplying}"
  using checkCycleNeeded_no_interruption [OF appliedWorkspace_starts] by blast

theorem checkCycleNeeded_starts_witness:
  "cd_start (result_of (checkCycleNeeded sampleEnv appliedWorkspace
     ((emptyRunContext sampleEnv sampleWorkspace)\<lparr>rc_planJob := Some (succeededJob ''p'')\<rparr>)) [])"
  by (rule checkCycleNeeded_starts)
    (simp_all add: restartable_def appliedWorkspace_def withPhase_def withAnnot_def sampleWorkspace_def
      emptyStatus_def)

theorem detached_variables_restart_witness:
  "let st = fst (mergeStatus PhasePending ''ScheduledReconcile'' ''m''
            (ws_status (stampRun ''r'' RunTriggerScheduled 1 [] sampleWorkspace))
            (emptyStatus\<lparr>wst_variablesHash := ''0123''\<rparr>))
   in wst_variablesHash st = ''0123''"
  using detached_variables_restart [of "emptyStatus\<lparr>wst_variablesHash := ''0123''\<rparr>"
      "emptyRunContext sampleEnv sampleWorkspace" "''ScheduledReconcile''" "''m''" "''r''" RunTriggerScheduled 1
      sampleWorkspace]
  by (simp add: Let_def emptyRunContext_def)

definition noPatchEnv :: env where
  "noPatchEnv = sampleEnv\<lparr>ev_patchWorkspace := (\<lambda>h b w. Inl (EMsg ''unavailable''))\<rparr>"

definition runningWorkspace :: workspace where
  "runningWorkspace = sampleWorkspace\<lparr>ws_status := emptyStatus\<lparr>wst_currentRunID := ''run-1''\<rparr>\<rparr>"

theorem jobs_carry_run_id_witness:
  "\<exists>j. C_CreateJob j \<in> set (calls_of (createPlanJob noPatchEnv sampleReconciler runningWorkspace
        (emptyRunContext noPatchEnv runningWorkspace)) [])
      \<and> jsp_podLabels (job_spec_of j) runIDLabelKey = Some ''run-1''"
proof -
  have "\<exists>j. C_CreateJob j \<in> set (calls_of (createPlanJob noPatchEnv sampleReconciler runningWorkspace
      (emptyRunContext noPatchEnv runningWorkspace)) [])"
    by (rule calls_of_start)
      (simp add: createPlanJob_def otherActiveJob_def reconcile_defs resolveEffectivePolicySelector_def
        specPolicySelector_def wp_simps call_defs noPatchEnv_def runningWorkspace_def sample_defs
        Let_def sampleReconciler_def)
  moreover have "wst_currentRunID (ws_status runningWorkspace) = ''run-1''"
    and "\<And>h b w r. ev_patchWorkspace noPatchEnv h b w = Inr r \<Longrightarrow> wst_currentRunID (ws_status r) = ''run-1''"
    by (simp_all add: runningWorkspace_def noPatchEnv_def)
  ultimately show ?thesis using jobs_carry_run_id [of runningWorkspace "''run-1''" noPatchEnv] by blast
qed

end
