(* ===== verification/WS_Truth.thy ===== *)
theory WS_Truth
  imports WS_Safety
begin

text \<open>
  What a reconcile of a workspace says about it. Two kinds of calls tell others what happened:
  status writes, which report the phase, and patches, which set and withdraw annotations. The
  theory shows that the phase Applied is reported only when the apply Job has succeeded, that a
  decision is withdrawn only at the gate it opens, and, as the other side of the same coin,
  that a decision outlives the run it was made for when a new run starts before the controller
  has seen it.
\<close>

section \<open>Calls that neither write the status nor patch\<close>

fun quietCall :: "call \<Rightarrow> bool" where
  "quietCall (C_StatusUpdateWorkspace w) = False"
| "quietCall (C_PatchWorkspace b w) = False"
| "quietCall c = True"

lemmas emits_core =
  emits_ret emits_perform emits_bind emits_if emits_let emits_case_sum emits_case_option emits_case_prod
  emits_for_each

lemma quiet_ops:
  "emits quietCall (newRunContext E ws)"
  "emits quietCall (checkCycleNeeded E ws rc)"
  "emits quietCall (cleanupOrphanedJobs E ws rc)"
  "emits quietCall (observeDuration ws j t)"
  "emits quietCall (newRunID E)"
  "emits quietCall (withScheduledRequeue E res n)"
  "emits quietCall (ensurePVC E R ws pvc)"
  "emits quietCall (deleteJobIfSome E p)"
  unfolding newRunContext_def getJobOrNil_def checkCycleNeeded_def checkFinished_def cleanupOrphanedJobs_def
    observeDuration_def newRunID_def withScheduledRequeue_def scheduleJitter_def ensurePVC_def deleteJobIfSome_def call_defs
  by (auto intro!: emits_core split: option.split)

lemma quiet_ensureRunMetadata: "emits quietCall (ensureRunMetadata E ws)"
  unfolding ensureRunMetadata_def call_defs by (auto intro!: emits_core quiet_ops)

lemma quiet_constructJobForWorkspace: "emits quietCall (constructJobForWorkspace E R ws rc t runID)"
  unfolding constructJobForWorkspace_def resolveEffectivePolicySelector_def getRepoCredentials_def call_defs
  by (auto intro!: emits_core)

lemma quiet_pods:
  "emits quietCall (getJobPod E ns n)" "emits quietCall (readPodLogs E ns n)"
  unfolding getJobPod_def readPodLogs_def call_defs by (auto intro!: emits_core split: list.split)

lemma quiet_readPolicyViolations: "emits quietCall (readPolicyViolations E ns n)"
  unfolding readPolicyViolations_def call_defs by (auto intro!: emits_core quiet_pods)

lemma quiet_archiveRunLogs: "emits quietCall (archiveRunLogs E R ws j ph res)"
  unfolding archiveRunLogs_def call_defs by (auto intro!: emits_core quiet_pods simp del: split_paired_All)

lemma quiet_classifyPlanFailure: "emits quietCall (classifyPlanFailure E R ws rc)"
  unfolding classifyPlanFailure_def by (auto intro!: emits_core quiet_readPolicyViolations)

lemma quiet_resolveLoop: "emits quietCall (resolveLoop E ns vs sc cc out)"
proof (induction vs arbitrary: sc cc out)
  case (Cons v vs)
  have "emits quietCall (resolveVariable E ns v sc cc)" for sc cc
    unfolding resolveVariable_def lookupSecret_def lookupConfigMap_def call_defs by (auto intro!: emits_core)
  with Cons show ?case by (auto intro!: emits_core)
qed (auto intro!: emits_core)

lemma quiet_resolveRefs: "emits quietCall (resolveRefs E ns refs results unresolved)"
  by (induction refs arbitrary: results unresolved)
    (auto simp: Resolve_def call_defs intro!: emits_core quiet_resolveLoop)

lemma quiet_resolveWorkspaceVariables: "emits quietCall (resolveWorkspaceVariables E ws)"
  unfolding resolveWorkspaceVariables_def call_defs by (auto intro!: emits_core quiet_resolveRefs)

section \<open>Calls that tell the truth\<close>

text \<open>
  With the flags for a succeeded apply Job and for a gate that is open: a status write with
  the phase Applied needs the first or repeats a status read from the server, a patch that
  changes the decision needs the second.
\<close>

fun truthful :: "env \<Rightarrow> bool \<Rightarrow> bool \<Rightarrow> call \<Rightarrow> bool" where
  "truthful E appliedOK gateOpen (C_StatusUpdateWorkspace w) =
     (ws_phase w = PhaseApplied \<longrightarrow> appliedOK \<or> (\<exists>h k l. ev_getWorkspace E h k = Inr l \<and> ws_phase l = PhaseApplied))"
| "truthful E appliedOK gateOpen (C_PatchWorkspace b w) =
     (ws_annots w ApprovalDecisionAnnotation = ws_annots b ApprovalDecisionAnnotation \<or> gateOpen)"
| "truthful E appliedOK gateOpen c = True"

lemma truthful_quiet: "quietCall c \<Longrightarrow> truthful E a g c"
  by (cases c) auto

lemma truthful_mono: "truthful E a g c \<Longrightarrow> (a \<Longrightarrow> a') \<Longrightarrow> (g \<Longrightarrow> g') \<Longrightarrow> truthful E a' g' c"
  by (cases c) auto

lemma truthful_statusCall: "statusCall ph reason mine c \<Longrightarrow> ph \<noteq> PhaseApplied \<or> a \<Longrightarrow> truthful E a g c"
  by (cases c) auto

lemma emitsI: "(\<And>h. wp m (\<lambda>r h'. \<exists>cs. h' = h @ cs \<and> list_all P cs) h) \<Longrightarrow> emits P m"
  by (simp add: emits_def wp_def case_prod_beta)

lemma truthful_updateStatus:
  "ph \<noteq> PhaseApplied \<or> a \<Longrightarrow> emits (truthful E a g) (updateStatus E ws ph reason message status)"
  by (rule emitsI, rule wp_updateStatus) (auto simp: list_all_iff intro: truthful_statusCall)

lemma truthful_deleteAnnotations:
  "ApprovalDecisionAnnotation \<notin> set keys \<or> g \<Longrightarrow> emits (truthful E a g) (deleteAnnotations E ws keys)"
  unfolding deleteAnnotations_def dropKeys_eq call_defs by (auto intro!: emits_core)

lemma truthful_updateNextReconcileTime: "emits (truthful E a g) (updateNextReconcileTime E ws t d)"
proof -
  have "emits (truthful E a g) (updateNextReconcileTimeOnce E t d w)" for w
    unfolding updateNextReconcileTimeOnce_def call_defs
    by (rule emits_bind_wp) (auto simp: wp_simps intro!: emits_core split: sum.split)
  then show ?thesis unfolding updateNextReconcileTime_def by (auto intro!: emits_core emits_retryOnConflict)
qed

lemmas quiet_all =
  quiet_ops quiet_ensureRunMetadata quiet_constructJobForWorkspace quiet_archiveRunLogs quiet_classifyPlanFailure
  quiet_resolveWorkspaceVariables

lemmas truthful_ops =
  emits_core truthful_updateStatus truthful_deleteAnnotations truthful_updateNextReconcileTime
  quiet_all [THEN emits_mono, OF truthful_quiet]

section \<open>The handlers\<close>

definition applyFinished :: "run_context \<Rightarrow> bool" where
  "applyFinished rc \<longleftrightarrow>
     (\<exists>j. rc_applyJob rc = Some j \<and> \<not> jst_failed (job_status_of j) > 0 \<and> jst_succeeded (job_status_of j) \<noteq> 0)"

lemma truthful_startFreshCycle: "emits (truthful E a g) (startFreshCycle E R ws rc reason message)"
  unfolding startFreshCycle_def recordRun_def now_def by (auto intro!: truthful_ops)

lemma truthful_reconcilePlanJob: "emits (truthful E a g) (reconcilePlanJob E R ws rc)"
proof -
  have c: "wp (classifyPlanFailure E R ws rc) (\<lambda>(ph, r, m, w) h'. ph \<noteq> PhaseApplied) h" for h
    unfolding classifyPlanFailure_def
    by (auto simp: wp_simps Let_def split: sum.split intro!: wp_all [of _ "readPolicyViolations E ns n" for ns n])
  have "emits (truthful E a g) (handlePlanFailure E R ws rc j)" for j
    unfolding handlePlanFailure_def
    by (rule emits_bind_wp [OF quiet_classifyPlanFailure [THEN emits_mono, OF truthful_quiet]])
      (auto intro!: wp_mono [OF c] truthful_ops)
  then show ?thesis
    unfolding reconcilePlanJob_def createPlanJob_def listJobs_def createJob_def by (auto intro!: truthful_ops)
qed

lemma truthful_reconcileApplyJob:
  "planFinished rc \<Longrightarrow> emits (truthful E (applyFinished rc) (planFinished rc)) (reconcileApplyJob E R ws rc planJob)"
  unfolding reconcileApplyJob_def createApplyJobIfApproved_def rejectPlan_def parkPlanned_def createApplyJob_def
    consumeApproval_def handleApplyFailure_def handleApplySuccess_def patchWorkspace_def createJob_def
  by (auto simp: applyFinished_def intro!: truthful_ops)

lemma truthful_executeCycle: "emits (truthful E (applyFinished rc) (planFinished rc)) (executeCycle E R ws rc)"
  unfolding executeCycle_def
  by (auto intro!: truthful_ops emits_bind_wp [OF truthful_reconcilePlanJob] wp_mono [OF wp_reconcilePlanJob_done]
      truthful_reconcileApplyJob)

section \<open>A reconcile\<close>

lemma wp_newRunContext_jobs:
  "wp (newRunContext E ws) (\<lambda>r h'. \<forall>rc. r = Inr rc \<longrightarrow>
     (\<forall>j. rc_planJob rc = Some j \<longrightarrow> readsJob E ws (rc_planJobName (emptyRunContext E ws)) j)
     \<and> (\<forall>j. rc_applyJob rc = Some j \<longrightarrow> readsJob E ws (rc_applyJobName (emptyRunContext E ws)) j)) h"
  by (auto simp: newRunContext_def getJobOrNil_def wp_simps call_defs Let_def readsJob_def split: sum.split)

definition applySucceeded :: "env \<Rightarrow> workspace \<Rightarrow> bool" where
  "applySucceeded E ws \<longleftrightarrow>
     (\<exists>j. readsJob E ws (rc_applyJobName (emptyRunContext E ws)) j
        \<and> \<not> jst_failed (job_status_of j) > 0 \<and> jst_succeeded (job_status_of j) \<noteq> 0)"

definition gateOpen :: "env \<Rightarrow> workspace \<Rightarrow> bool" where
  "gateOpen E ws \<longleftrightarrow> isExecutionAllowedByRolloutController ws \<and> planSucceeded E ws"

lemma truthful_cycle:
  assumes "isExecutionAllowedByRolloutController ws"
    and "\<And>j. rc_planJob rc = Some j \<Longrightarrow> readsJob E ws (rc_planJobName (emptyRunContext E ws)) j"
    and "\<And>j. rc_applyJob rc = Some j \<Longrightarrow> readsJob E ws (rc_applyJobName (emptyRunContext E ws)) j"
  shows "emits (truthful E (applySucceeded E ws) (gateOpen E ws)) (executeCycle E R ws rc)"
  using assms
  by (intro emits_mono [OF truthful_executeCycle], elim truthful_mono)
    (auto simp: applyFinished_def applySucceeded_def planFinished_def gateOpen_def planSucceeded_def)

lemma truthful_reconcileWorkspace:
  "emits (truthful E (applySucceeded E ws) (gateOpen E ws)) (reconcileWorkspace E R ws)"
  unfolding reconcileWorkspace_def awaitRollout_def
  by (auto intro!: truthful_ops truthful_startFreshCycle truthful_cycle
      emits_bind_wp [where m = "newRunContext E ws"] wp_mono [OF wp_newRunContext_jobs])

lemma truthful_Reconcile:
  assumes "ev_getWorkspace E h req = Inr ws" and "c \<in> set (calls_of (Reconcile E R req) h)"
  shows "truthful E (applySucceeded E ws) (gateOpen E ws) c"
proof -
  have "c = C_GetWorkspace req \<or> truthful E (applySucceeded E ws) (gateOpen E ws) c"
    using assms truthful_reconcileWorkspace [of E ws R] unfolding Reconcile_def getWorkspace_def
    by (elim first_call)
      (auto simp: updateWorkspace_def metric_def handleDeletion_def finishReconcile_def now_def intro!: truthful_ops)
  then show ?thesis by auto
qed


text \<open>
  C6. A decision is spent only at the gate. A reconcile changes the approval decision of a workspace
  only when the rollout controller has allowed the execution and the plan Job of the current
  specification was read as succeeded.
\<close>

theorem decision_spent_at_gate:
  assumes "ev_getWorkspace E h req = Inr ws" and "C_PatchWorkspace b w \<in> set (calls_of (Reconcile E R req) h)"
    and "ws_annots w ApprovalDecisionAnnotation \<noteq> ws_annots b ApprovalDecisionAnnotation"
  shows "isExecutionAllowedByRolloutController ws
    \<and> (\<exists>h' pj. ev_getJob E h' \<lparr>nn_namespace = ws_namespace ws,
            nn_name = ws_name ws @ ''-plan-'' @ getSpecHash E ws\<rparr> = Inr pj
          \<and> \<not> jst_failed (job_status_of pj) > 0 \<and> jst_succeeded (job_status_of pj) \<noteq> 0)"
  using truthful_Reconcile [OF assms(1,2)] assms(3)
  by (auto simp: gateOpen_def planSucceeded_def readsJob_def emptyRunContext_def)

section \<open>A successful apply is reported\<close>

definition reportsPhase :: "phase \<Rightarrow> call \<Rightarrow> bool" where
  "reportsPhase ph c \<longleftrightarrow> (\<exists>w. c = C_StatusUpdateWorkspace w \<and> ws_phase w = ph)"

lemma emits_True: "emits P m \<Longrightarrow> emits (\<lambda>c. True) m"
  by (rule emits_mono) auto

lemma reaches_skips:
  "(\<And>a. reaches Q (f1 a)) \<Longrightarrow> reaches Q (State_Monad.bind (metric n ls v) f1)"
  "(\<And>a. reaches Q (f2 a)) \<Longrightarrow> reaches Q (State_Monad.bind (now E) f2)"
  "(\<And>a. reaches Q (f3 a)) \<Longrightarrow> reaches Q (State_Monad.bind (observeDuration ws j t) f3)"
  "(\<And>a b. reaches Q (f4 (a, b))) \<Longrightarrow> reaches Q (State_Monad.bind (archiveRunLogs E R ws j ph res) f4)"
  by (auto simp: metric_def now_def
      intro!: reaches_after emits_core emits_True [OF quiet_ops(4)] emits_True [OF quiet_archiveRunLogs])

lemma reaches_updateStatusOnce:
  assumes "\<And>h k. \<exists>l. ev_getWorkspace E h k = Inr l \<and> ws_phase l \<noteq> ph"
  shows "reaches (reportsPhase ph) (updateStatusOnce E ph reason message status ws)"
  unfolding updateStatusOnce_def
proof (rule reaches_then)
  show "wp (getWorkspace E (ws_key ws)) (\<lambda>r h'. reaches (reportsPhase ph) (case r of Inl err \<Rightarrow> ret (Some err, ws)
      | Inr latest \<Rightarrow> do {
          (if ws_phase latest \<noteq> ph
           then metric ''workspace_phase_transitions_total'' [ws_namespace ws, ws_name ws, phaseString ph] 1
           else ret ());
          let (st, upd) = mergeStatus ph reason message (ws_status ws) (ws_status latest);
          t \<leftarrow> now E;
          let (conds, condChanged) = setStatusCondition E (wst_conditions st) (readyCondition status reason message t);
          if \<not> upd \<and> \<not> condChanged then ret (None, ws)
          else do {
            u \<leftarrow> statusUpdateWorkspace E (latest\<lparr>ws_status := st\<lparr>wst_conditions := conds, wst_lastReconcileTime := Some t\<rparr>\<rparr>);
            case u of Inl err \<Rightarrow> ret (Some err, ws) | Inr w \<Rightarrow> ret (None, adoptStatus w ws)
          }
        })) h" for h
  proof -
    obtain l where l: "ev_getWorkspace E h (ws_key ws) = Inr l" "ws_phase l \<noteq> ph" using assms by blast
    obtain st upd where m: "mergeStatus ph reason message (ws_status ws) (ws_status l) = (st, upd)" by fastforce
    have "wst_phase st = ph" using conjunct1 [OF mergeStatus_eq [OF m]] by simp
    moreover from this have "upd" using conjunct2 [OF mergeStatus_eq [OF m]] l(2) by auto
    ultimately show ?thesis
      using l m
      by (auto simp: wp_simps getWorkspace_def statusUpdateWorkspace_def reportsPhase_def
        intro!: reaches_skips reaches_first reaches_perform emits_core split: prod.split)
  qed
qed (auto simp: getWorkspace_def intro!: emits_core)

lemma reaches_updateStatus:
  assumes "0 < retrySteps E" and "\<And>h k. \<exists>l. ev_getWorkspace E h k = Inr l \<and> ws_phase l \<noteq> ph"
  shows "reaches (reportsPhase ph) (updateStatus E ws ph reason message status)"
proof -
  have b: "emits (\<lambda>c. True) (updateStatusOnce E ph reason message status w)" for w
    unfolding updateStatusOnce_def call_defs by (auto intro!: emits_core)
  obtain n where "retrySteps E = Suc n" using assms(1) by (cases "retrySteps E") auto
  then show ?thesis
    unfolding updateStatus_def
    by (auto intro!: reaches_first reaches_updateStatusOnce assms(2) emits_core emits_retryOnConflict b)
qed

lemma reaches_handleApplySuccess:
  assumes "0 < retrySteps E" and "\<And>h k. \<exists>l. ev_getWorkspace E h k = Inr l \<and> ws_phase l \<noteq> PhaseApplied"
  shows "reaches (reportsPhase PhaseApplied) (handleApplySuccess E R ws j)"
  unfolding handleApplySuccess_def
  by (auto intro!: reaches_skips reaches_first reaches_updateStatus [OF assms]
      truthful_deleteAnnotations [of _ True, THEN emits_True])

lemma reaches_executeCycle:
  assumes "0 < retrySteps E" and "\<And>h k. \<exists>l. ev_getWorkspace E h k = Inr l \<and> ws_phase l \<noteq> PhaseApplied"
    and "\<And>h k. \<exists>p. ev_getPVC E h k = Inr p" and "rc_planJob rc = Some pj" and "planFinished rc" and "applyFinished rc"
  shows "reaches (reportsPhase PhaseApplied) (executeCycle E R ws rc)"
  unfolding executeCycle_def
proof (rule reaches_then)
  show "emits (\<lambda>c. True) (ensurePVC E R ws (rc_pvcName rc))" by (rule quiet_ops [THEN emits_True])
  have p: "wp (reconcilePlanJob E R ws rc) (\<lambda>r h'. po_err (fst r) = None \<and> po_planDone (fst r) \<and> snd r = ws) h" for h
    using assms(4,5) by (auto simp: reconcilePlanJob_def planFinished_def wp_simps intro!: wp_all [of _ "observeDuration w j t" for w j t])
  obtain j where "reconcileApplyJob E R ws rc pj = handleApplySuccess E R ws j"
    using assms(6) by (auto simp: reconcileApplyJob_def applyFinished_def)
  then have "reaches (reportsPhase PhaseApplied) (reconcileApplyJob E R ws rc pj)"
    using reaches_handleApplySuccess [OF assms(1,2)] by simp
  then have r: "reaches (reportsPhase PhaseApplied) (do {
      (po, ws1) \<leftarrow> reconcilePlanJob E R ws rc;
      case rc_planJob rc of
        None \<Rightarrow> ret (\<lparr>cr_requeueAfter = po_requeue po, cr_err = po_err po\<rparr>, ws1)
      | Some planJob \<Rightarrow>
          (if po_err po \<noteq> None \<or> \<not> po_planDone po
           then ret (\<lparr>cr_requeueAfter = po_requeue po, cr_err = po_err po\<rparr>, ws1)
           else do { (err, ws2) \<leftarrow> reconcileApplyJob E R ws1 rc planJob; ret (failWith err, ws2) }) })"
    by (intro reaches_then [OF emits_True [OF truthful_reconcilePlanJob]] wp_mono [OF p])
      (auto simp: assms(4) intro!: reaches_first emits_core)
  show "wp (ensurePVC E R ws (rc_pvcName rc)) (\<lambda>e h'. reaches (reportsPhase PhaseApplied) (case e of
        Some err \<Rightarrow> ret (failWith (Some err), ws)
      | None \<Rightarrow> do {
          (po, ws1) \<leftarrow> reconcilePlanJob E R ws rc;
          case rc_planJob rc of
            None \<Rightarrow> ret (\<lparr>cr_requeueAfter = po_requeue po, cr_err = po_err po\<rparr>, ws1)
          | Some planJob \<Rightarrow>
              (if po_err po \<noteq> None \<or> \<not> po_planDone po
               then ret (\<lparr>cr_requeueAfter = po_requeue po, cr_err = po_err po\<rparr>, ws1)
               else do { (err, ws2) \<leftarrow> reconcileApplyJob E R ws1 rc planJob; ret (failWith err, ws2) }) })) h" for h
    using assms(3) [of h "\<lparr>nn_namespace = ws_namespace ws, nn_name = rc_pvcName rc\<rparr>"] r
    by (auto simp: ensurePVC_def wp_simps call_defs)
qed

definition calmServer :: "env \<Rightarrow> workspace \<Rightarrow> bool" where
  "calmServer E ws \<longleftrightarrow> 0 < retrySteps E \<and> (\<forall>h k. ev_getWorkspace E h k = Inr ws) \<and> (\<forall>h k. \<exists>p. ev_getPVC E h k = Inr p)"

lemma reaches_known:
  assumes "emits P m" and "\<And>h. wp m (\<lambda>r h'. r = a) h" and "reaches Q (f a)"
  shows "reaches Q (State_Monad.bind m f)"
  using assms(3) by (intro reaches_then [OF emits_True [OF assms(1)]] wp_mono [OF assms(2)]) simp

lemma newRunContext_calm:
  assumes "\<And>h. ev_getJob E h \<lparr>nn_namespace = ws_namespace ws, nn_name = rc_planJobName (emptyRunContext E ws)\<rparr> = Inr pj"
    and "\<And>h. ev_getJob E h \<lparr>nn_namespace = ws_namespace ws, nn_name = rc_applyJobName (emptyRunContext E ws)\<rparr> = Inr aj"
  shows "wp (newRunContext E ws)
    (\<lambda>r h'. r = Inr ((emptyRunContext E ws)\<lparr>rc_planJob := Some pj, rc_applyJob := Some aj\<rparr>)) h"
  using assms by (simp add: newRunContext_def getJobOrNil_def wp_simps call_defs Let_def)

lemma reaches_reconcileWorkspace:
  assumes "calmServer E ws" and "ws_phase ws = PhaseApplying" and "isExecutionAllowedByRolloutController ws"
    and "\<And>h. ev_getJob E h \<lparr>nn_namespace = ws_namespace ws, nn_name = rc_planJobName (emptyRunContext E ws)\<rparr> = Inr pj"
    and "\<And>h. ev_getJob E h \<lparr>nn_namespace = ws_namespace ws, nn_name = rc_applyJobName (emptyRunContext E ws)\<rparr> = Inr aj"
    and "\<not> jst_failed (job_status_of pj) > 0" and "jst_succeeded (job_status_of pj) \<noteq> 0"
    and "\<not> jst_failed (job_status_of aj) > 0" and "jst_succeeded (job_status_of aj) \<noteq> 0"
    and "\<And>h. result_of (resolveWorkspaceVariables E ws) h = Inr (vars, [])"
  shows "reaches (reportsPhase PhaseApplied) (reconcileWorkspace E R ws)"
proof -
  let ?rc0 = "(emptyRunContext E ws)\<lparr>rc_planJob := Some pj, rc_applyJob := Some aj\<rparr>"
  let ?rc = "?rc0\<lparr>rc_resolvedVars := vars, rc_variablesHash := Fingerprint E vars\<rparr>"
  have ex: "reaches (reportsPhase PhaseApplied) (executeCycle E R ws ?rc)"
    using assms(1,2,6-9)
    by (intro reaches_executeCycle [where pj = pj]) (auto simp: calmServer_def planFinished_def applyFinished_def)
  have v: "wp (resolveWorkspaceVariables E ws) (\<lambda>r h'. r = Inr (vars, [])) h" for h using assms(10) by (simp add: wp_result)
  have k: "wp (checkCycleNeeded E ws ?rc) (\<lambda>d h'. \<not> cd_start d) h" for h
    by (rule wp_mono [OF wp_checkCycleNeeded_not_running]) (use assms(2) in auto)
  have d: "reaches (reportsPhase PhaseApplied) (do {
      d \<leftarrow> checkCycleNeeded E ws ?rc;
      if cd_start d then do {
        (err, ws1) \<leftarrow> startFreshCycle E R ws ?rc (cd_reason d) (cd_message d);
        ret (failWith err, ws1)
      }
      else if \<not> isExecutionAllowedByRolloutController ws then awaitRollout E ws (cd_requeue d)
      else executeCycle E R ws ?rc })"
    by (rule reaches_then [OF emits_True [OF quiet_ops(2)]], rule wp_mono [OF k]) (simp add: assms(3) ex)
  show ?thesis
    unfolding reconcileWorkspace_def
    by (rule reaches_known [OF quiet_ops(1) newRunContext_calm [OF assms(4,5)]], simp only: sum.case,
        rule reaches_after [OF emits_True [OF quiet_ops(3)]],
        rule reaches_known [OF quiet_resolveWorkspaceVariables v]) (use d in \<open>simp add: Let_def\<close>)
qed

lemma Reconcile_reports_applied:
  assumes "calmServer E ws" and "ws_phase ws = PhaseApplying" and "isExecutionAllowedByRolloutController ws"
    and "\<And>h. ev_getJob E h \<lparr>nn_namespace = ws_namespace ws, nn_name = rc_planJobName (emptyRunContext E ws)\<rparr> = Inr pj"
    and "\<And>h. ev_getJob E h \<lparr>nn_namespace = ws_namespace ws, nn_name = rc_applyJobName (emptyRunContext E ws)\<rparr> = Inr aj"
    and "\<not> jst_failed (job_status_of pj) > 0" and "jst_succeeded (job_status_of pj) \<noteq> 0"
    and "\<not> jst_failed (job_status_of aj) > 0" and "jst_succeeded (job_status_of aj) \<noteq> 0"
    and "\<And>h. result_of (resolveWorkspaceVariables E ws) h = Inr (vars, [])"
    and "\<not> snd (addFinalizer E (ws_meta ws) FinalizerName)" and "timeIsZero (om_deletionTimestamp (ws_meta ws))"
  shows "\<exists>w. C_StatusUpdateWorkspace w \<in> set (calls_of (Reconcile E R req) h) \<and> ws_phase w = PhaseApplied"
proof -
  have r: "reaches (reportsPhase PhaseApplied) (reconcileWorkspace E R ws)"
    by (rule reaches_reconcileWorkspace) (rule assms | assumption)+
  have g: "ev_getWorkspace E h req = Inr ws" using assms(1) by (simp add: calmServer_def)
  have "list_ex (reportsPhase PhaseApplied) (calls_of (Reconcile E R req) h)"
    unfolding Reconcile_def getWorkspace_def
    by (rule first_call_reaches)
      (use g assms(11,12) r in \<open>auto simp: metric_def finishReconcile_def now_def split: prod.split
        intro!: reaches_first emits_core emits_True [OF truthful_updateStatus [of _ True]]
          emits_True [OF truthful_updateNextReconcileTime] quiet_ops(6) [THEN emits_True]\<close>)
  then show ?thesis by (auto simp: list_ex_iff reportsPhase_def)
qed


section \<open>Decisions that outlive their run\<close>

text \<open>The behaviour of a merge patch: the server answers with the annotations it was sent.\<close>

definition patchEchoes :: "env \<Rightarrow> bool" where
  "patchEchoes E \<longleftrightarrow> (\<forall>h b w r. ev_patchWorkspace E h b w = Inr r \<longrightarrow> ws_annots r = ws_annots w)"

lemma wp_deleteAnnotations_keeps:
  assumes "patchEchoes E" and "k \<notin> set keys"
  shows "wp (deleteAnnotations E ws keys) (\<lambda>r h'. ws_annots (snd r) k = ws_annots ws k) h"
  using assms
  by (auto simp: deleteAnnotations_def dropKeys_eq wp_simps call_defs Let_def patchEchoes_def split: sum.split)

lemma wp_startFreshCycle_decision:
  assumes "patchEchoes E"
  shows "wp (startFreshCycle E R ws rc reason message)
    (\<lambda>r h'. ws_annots (snd r) ApprovalDecisionAnnotation = ws_annots ws ApprovalDecisionAnnotation) h"
  unfolding startFreshCycle_def wp_bind Let_def
proof (rule wp_all, rule wp_all, rule wp_all, rule wp_all, rule wp_updateStatus, rule wp_all)
  fix runID t h and ws2 :: workspace and cs
  assume "sameObject (stampRun runID (runTriggerFromReason reason) t (rc_variablesHash rc) ws) ws2"
  then have "ws_annots ws2 = ws_annots ws" by (auto simp: stampRun_def dest!: sameObject_sel)
  then show "wp (deleteAnnotations E ws2 [ExecutionAllowedAnnotation])
      (\<lambda>r h'. ws_annots (snd r) ApprovalDecisionAnnotation = ws_annots ws ApprovalDecisionAnnotation) h"
    by (intro wp_mono [OF wp_deleteAnnotations_keeps [OF assms, where k = ApprovalDecisionAnnotation]]) auto
qed

text \<open>
  C7. A decision outlives the run it was made for. A fresh cycle stamps a new run but takes only the
  execution permission away: a workspace that was approved before it, because the approval
  arrived while its specification changed, is still approved after it. So when the plan of the
  new run has succeeded, its apply Job is created at once, although nobody has seen this plan.
\<close>

theorem approval_outlives_run:
  assumes "patchEchoes E" and "ws_annots ws ApprovalDecisionAnnotation = Some ApprovalDecisionApproved"
    and "ws' = snd (result_of (startFreshCycle E R ws rc reason message) h)" and "rc_applyJob rc' = None"
  shows "ws_annots ws' ApprovalDecisionAnnotation = Some ApprovalDecisionApproved
    \<and> reconcileApplyJob E' R' ws' rc' planJob = createApplyJob E' R' ws' rc' planJob"
proof -
  have "ws_annots ws' ApprovalDecisionAnnotation = Some ApprovalDecisionApproved"
    using wp_startFreshCycle_decision [OF assms(1), of R ws rc reason message h] assms(2,3)
    by (simp add: wp_result)
  then show ?thesis
    using assms(4) approval_decisions_distinct
    by (simp add: reconcileApplyJob_def createApplyJobIfApproved_def mget_def)
qed

section \<open>Witnesses\<close>

lemma sampleEnv_echoes: "patchEchoes sampleEnv"
  by (simp add: patchEchoes_def sample_defs)

theorem approval_outlives_run_witness:
  "ws_annots (snd (result_of (startFreshCycle sampleEnv sampleReconciler
      (withAnnot ApprovalDecisionAnnotation ApprovalDecisionApproved sampleWorkspace)
      (emptyRunContext sampleEnv sampleWorkspace) ''ConfigurationChanged'' ''changed'') [])) ApprovalDecisionAnnotation
   = Some ApprovalDecisionApproved"
  using approval_outlives_run [OF sampleEnv_echoes _ refl, of "withAnnot ApprovalDecisionAnnotation ApprovalDecisionApproved sampleWorkspace"
      "emptyRunContext sampleEnv sampleWorkspace" sampleReconciler "emptyRunContext sampleEnv sampleWorkspace"]
  by (simp add: withAnnot_def emptyRunContext_def)

definition applyingWorkspace :: workspace where
  "applyingWorkspace = withPhase PhaseApplying (withAnnot ExecutionAllowedAnnotation AnnotationValueTrue sampleWorkspace)"

definition appliedEnv :: env where
  "appliedEnv = sampleEnv\<lparr>ev_getWorkspace := (\<lambda>h k. Inr applyingWorkspace),
     ev_getJob := (\<lambda>h k. Inr (succeededJob (nn_name k))),
     ev_getPVC := (\<lambda>h k. Inr \<lparr>pvc_meta = sampleMeta ''ws-data'', pvc_accessModes = [], pvc_storage = ''1Gi''\<rparr>)\<rparr>"

lemma applyingWorkspace_sel [simp]:
  "ws_phase applyingWorkspace = PhaseApplying" "ws_namespace applyingWorkspace = ''default''"
  "ws_name applyingWorkspace = ''ws''" "om_deletionTimestamp (ws_meta applyingWorkspace) = None"
  "om_finalizers (ws_meta applyingWorkspace) = [FinalizerName]" "wsp_variableSetRef (ws_spec applyingWorkspace) = []"
  "ws_annots applyingWorkspace ExecutionAllowedAnnotation = Some AnnotationValueTrue"
  by (simp_all add: applyingWorkspace_def sample_defs set_annots_def)

lemma succeededJob_sel [simp]:
  "jst_failed (job_status_of (succeededJob n)) = 0" "jst_succeeded (job_status_of (succeededJob n)) = 1"
  by (simp_all add: sample_defs)

lemma appliedEnv_sel [simp]:
  "ev_getWorkspace appliedEnv h k = Inr applyingWorkspace" "ev_getJob appliedEnv h k = Inr (succeededJob (nn_name k))"
  "calmServer appliedEnv applyingWorkspace" "ev_getProject appliedEnv h k = Inl (ENotFound ''project'')"
  "addFinalizer appliedEnv m FinalizerName = (if FinalizerName \<in> set (om_finalizers m) then (m, False)
     else (m\<lparr>om_finalizers := om_finalizers m @ [FinalizerName]\<rparr>, True))"
  by (simp_all add: appliedEnv_def calmServer_def sampleEnv_def)

lemma appliedEnv_vars: "result_of (resolveWorkspaceVariables appliedEnv applyingWorkspace) h = Inr ([], [])"
proof -
  have "wp (resolveWorkspaceVariables appliedEnv applyingWorkspace) (\<lambda>r h'. r = Inr ([], [])) h"
    by (simp add: resolveWorkspaceVariables_def wp_simps call_defs Let_def ComposeEffective_def missings_def)
  then show ?thesis by (simp add: wp_result)
qed

lemmas appliedEnv_laws =
  isExecutionAllowedByRolloutController_def mget_def timeIsZero_def



lemma decision_patch_run:
  "\<exists>b w. C_PatchWorkspace b w \<in> set (calls_of (Reconcile (plannedEnv allowedWorkspace) sampleReconciler sampleRequest) [])
     \<and> ws_annots w ApprovalDecisionAnnotation \<noteq> ws_annots b ApprovalDecisionAnnotation"
proof (rule calls_of_start)
  show "wp (Reconcile (plannedEnv allowedWorkspace) sampleReconciler sampleRequest)
    (\<lambda>r h. \<exists>b w. C_PatchWorkspace b w \<in> set h
       \<and> ws_annots w ApprovalDecisionAnnotation \<noteq> ws_annots b ApprovalDecisionAnnotation) []"
    by (simp add: reconcile_defs wp_simps call_defs plannedEnv_def allowedWorkspace_def
        sample_defs Let_def sampleReconciler_def)
qed

theorem decision_spent_at_gate_witness: "isExecutionAllowedByRolloutController allowedWorkspace"
proof -
  obtain b w where "C_PatchWorkspace b w \<in> set (calls_of (Reconcile (plannedEnv allowedWorkspace) sampleReconciler sampleRequest) [])"
    "ws_annots w ApprovalDecisionAnnotation \<noteq> ws_annots b ApprovalDecisionAnnotation" using decision_patch_run by blast
  from decision_spent_at_gate [OF _ this] show ?thesis by (simp add: plannedEnv_def)
qed

end
