(* ===== verification/Git_Transport.thy ===== *)
theory Git_Transport
  imports Samples
begin

text \<open>
  The choice of the Git implementation for a repository and the resolution of a revision,
  \<open>src/internal/gittransport/gittransport.go\<close>. The Git command is an operation of the
  environment that returns what it printed; the scheme of a URL is the one \<open>url.Parse\<close>
  reports. White space is the ASCII white space of \<open>strings.Fields\<close>.
\<close>

datatype mode = GoGit | NativeGit

record remote_ref =
  gr_hash :: string
  gr_name :: string

definition knownGoGitSchemes :: "string list" where
  "knownGoGitSchemes = ['''', ''file'', ''git'', ''http'', ''https'', ''ssh'']"

definition Scheme :: "'z golib_scheme \<Rightarrow> string \<Rightarrow> string" where
  "Scheme L repoURL = (case urlScheme L repoURL of Inl err \<Rightarrow> [] | Inr scheme \<Rightarrow> toLower scheme)"

definition ModeForURL :: "'z golib_scheme \<Rightarrow> string \<Rightarrow> mode" where
  "ModeForURL L repoURL = (if Scheme L repoURL \<in> set knownGoGitSchemes then GoGit else NativeGit)"

definition HelperName :: "'z golib_scheme \<Rightarrow> string \<Rightarrow> string" where
  "HelperName L repoURL =
     (if Scheme L repoURL = [] then ''git-remote helper'' else ''git-remote-'' @ Scheme L repoURL)"

definition commandError :: "string \<Rightarrow> exec_result \<Rightarrow> goerr \<Rightarrow> goerr" where
  "commandError what r err =
     (let message = trimSpace (ex_stderr r) in
      EMsg (what @ '' failed: '' @ err_text err @ (if message \<noteq> [] then '': '' @ message else [])))"

definition run_git :: "env \<Rightarrow> string list \<Rightarrow> goerr option prog" where
  "run_git E args = do {
     r \<leftarrow> runGit E args;
     case ex_err r of
       None \<Rightarrow> ret None
     | Some err \<Rightarrow> ret (Some (commandError (''git '' @ joinStrings args '' '') r err))
   }"

definition Clone :: "env \<Rightarrow> string \<Rightarrow> string \<Rightarrow> string \<Rightarrow> goerr option prog" where
  "Clone E repoURL targetRevision dest = do {
     c \<leftarrow> run_git E [''clone'', ''--no-checkout'', repoURL, dest];
     case c of
       Some err \<Rightarrow> ret (Some (EWrap (''clone through '' @ HelperName E repoURL) err))
     | None \<Rightarrow> do {
         k \<leftarrow> run_git E [''-C'', dest, ''checkout'', targetRevision];
         case k of
           Some err \<Rightarrow> ret (Some (EWrap (''checkout revision '' @ quoteString targetRevision) err))
         | None \<Rightarrow> ret None
       }
   }"

definition parseRefLine :: "string \<Rightarrow> remote_ref list" where
  "parseRefLine line =
     (case stringFields line of
        [hash, name] \<Rightarrow> [\<lparr>gr_hash = hash, gr_name = name\<rparr>]
      | _ \<Rightarrow> [])"

definition ParseLSRemote :: "string \<Rightarrow> remote_ref list" where
  "ParseLSRemote output = concat (map parseRefLine (scanLines output))"

definition ListRemote :: "env \<Rightarrow> string \<Rightarrow> remote_ref list result prog" where
  "ListRemote E repoURL = do {
     r \<leftarrow> runGit E [''ls-remote'', repoURL];
     case ex_err r of
       Some err \<Rightarrow> ret (Inl (commandError (''git ls-remote through '' @ HelperName E repoURL) r err))
     | None \<Rightarrow> ret (Inr (ParseLSRemote (ex_stdout r)))
   }"

definition lookupRef :: "remote_ref list \<Rightarrow> string \<Rightarrow> string option" where
  "lookupRef refs candidate = map_option gr_hash (find (\<lambda>r. gr_name r = candidate) refs)"

fun firstCandidate :: "remote_ref list \<Rightarrow> string list \<Rightarrow> string option" where
  "firstCandidate refs [] = None"
| "firstCandidate refs (c # cs) =
     (case lookupRef refs c of Some hash \<Rightarrow> Some hash | None \<Rightarrow> firstCandidate refs cs)"

definition ResolveRef :: "remote_ref list \<Rightarrow> string \<Rightarrow> string option" where
  "ResolveRef refs ref =
     (case firstCandidate refs [''refs/heads/'' @ ref, ''refs/tags/'' @ ref, ref] of
        Some hash \<Rightarrow> Some hash
      | None \<Rightarrow>
          (if length ref = 40 then Some ref
           else if ref = [] \<or> ref = ''HEAD'' then lookupRef refs ''HEAD''
           else None))"

section \<open>Parsing the output of Git\<close>

definition printRef :: "remote_ref \<Rightarrow> string" where
  "printRef r = gr_hash r @ CHR 0x09 # gr_name r @ [CHR 0x0A]"

definition word :: "string \<Rightarrow> bool" where
  "word w \<longleftrightarrow> w \<noteq> [] \<and> list_all (\<lambda>c. \<not> isSpace c) w"

lemma isSpace_tab_newline [simp]: "isSpace (CHR 0x09)" "isSpace (CHR 0x0A)"
  by (simp_all add: isSpace_def)

lemma fields_Nil [simp]: "stringFields [] = []"
  by (subst stringFields.simps) simp

lemma fields_space [simp]: "isSpace c \<Longrightarrow> stringFields (c # s) = stringFields s"
  by (subst (1 2) stringFields.simps) simp

lemma fields_word:
  assumes "word w" and "s = [] \<or> isSpace (hd s)"
  shows "stringFields (w @ s) = w # stringFields s"
proof -
  have w: "w \<noteq> []" "\<forall>c \<in> set w. \<not> isSpace c" using assms(1) by (simp_all add: word_def list_all_iff)
  then have "dropWhile isSpace (w @ s) = w @ s" by (cases w) auto
  moreover have "takeWhile (\<lambda>c. \<not> isSpace c) (w @ s) = w" "dropWhile (\<lambda>c. \<not> isSpace c) (w @ s) = s"
    using w assms(2) by (cases s; simp add: takeWhile_append dropWhile_append)+
  ultimately show ?thesis using w by (subst stringFields.simps) (simp add: Let_def)
qed

lemma scanLines_line:
  assumes "CHR 0x0A \<notin> set l"
  shows "scanLines (l @ CHR 0x0A # s) = l # scanLines s"
proof -
  have "takeWhile (\<lambda>c. c \<noteq> CHR 0x0A) (l @ CHR 0x0A # s) = l"
    "dropWhile (\<lambda>c. c \<noteq> CHR 0x0A) (l @ CHR 0x0A # s) = CHR 0x0A # s"
    using assms by (induction l) auto
  then show ?thesis by (subst scanLines.simps) simp
qed

text \<open>
  Reading back what Git prints: parsing the listing of references whose hashes and names
  contain no white space returns exactly these references, in order.
\<close>

theorem ParseLSRemote_roundtrip:
  assumes "\<forall>r \<in> set refs. word (gr_hash r) \<and> word (gr_name r)"
  shows "ParseLSRemote (concat (map printRef refs)) = refs"
  using assms
proof (induction refs)
  case Nil
  then show ?case by (simp add: ParseLSRemote_def scanLines.simps)
next
  case (Cons r refs)
  let ?l = "gr_hash r @ CHR 0x09 # gr_name r"
  have w: "word (gr_hash r)" "word (gr_name r)" using Cons.prems by simp_all
  then have "CHR 0x0A \<notin> set ?l" by (auto simp: word_def list_all_iff)
  then have "scanLines (printRef r @ s) = ?l # scanLines s" for s
    using scanLines_line [of ?l s] by (simp add: printRef_def)
  moreover have "stringFields ?l = [gr_hash r, gr_name r]"
    using fields_word [OF w(1), of "CHR 0x09 # gr_name r"] fields_word [OF w(2), of "[]"] by simp
  ultimately show ?case
    using Cons by (simp add: ParseLSRemote_def parseRefLine_def)
qed

theorem ParseLSRemote_roundtrip_witness:
  "ParseLSRemote (concat (map printRef [\<lparr>gr_hash = ''0a'', gr_name = ''HEAD''\<rparr>,
     \<lparr>gr_hash = ''0b'', gr_name = ''refs/heads/main''\<rparr>]))
   = [\<lparr>gr_hash = ''0a'', gr_name = ''HEAD''\<rparr>, \<lparr>gr_hash = ''0b'', gr_name = ''refs/heads/main''\<rparr>]"
  by (rule ParseLSRemote_roundtrip) (simp add: word_def isSpace_def)

section \<open>Resolving a revision\<close>

lemma lookupRef_None: "lookupRef refs n = None \<longleftrightarrow> (\<forall>r \<in> set refs. gr_name r \<noteq> n)"
  by (auto simp: lookupRef_def find_None_iff)

lemma lookupRef_Some: "lookupRef refs n = Some x \<Longrightarrow> \<exists>r \<in> set refs. gr_name r = n \<and> gr_hash r = x"
  by (auto simp: lookupRef_def find_Some_iff)

text \<open>
  The order of preference of a revision. A branch of that name wins over a tag, a tag over a
  fully qualified reference, and only when none of the three exists is the revision taken as
  a commit: every string of forty characters is then accepted as it is, whether or not it
  consists of hexadecimal digits. The empty revision and HEAD mean the remote's HEAD.
\<close>

theorem ResolveRef_preference:
  "ResolveRef refs ref =
     (let named = (\<lambda>n. \<exists>r \<in> set refs. gr_name r = n) in
      if named (''refs/heads/'' @ ref) then lookupRef refs (''refs/heads/'' @ ref)
      else if named (''refs/tags/'' @ ref) then lookupRef refs (''refs/tags/'' @ ref)
      else if named ref then lookupRef refs ref
      else if length ref = 40 then Some ref
      else if ref = [] then lookupRef refs ''HEAD''
      else None)"
proof -
  have n: "(\<exists>r \<in> set refs. gr_name r = n) \<longleftrightarrow> lookupRef refs n \<noteq> None" for n
    by (auto simp: lookupRef_None)
  show ?thesis
    unfolding Let_def n ResolveRef_def
    by (cases "lookupRef refs (''refs/heads/'' @ ref)"; cases "lookupRef refs (''refs/tags/'' @ ref)"; cases "lookupRef refs ref";
        cases "ref = ''HEAD''") simp_all
qed

end
