(* ===== verification/Poll_Heap.thy ===== *)
theory Poll_Heap
  imports API_Types "HOL-Library.Multiset"
begin

text \<open>
  The scheduler's heap, \<open>pollHeap\<close> of \<open>src/internal/controller/refwatcher/refwatcher_controller.go\<close>
  under the operations of \<open>container/heap\<close>: an array in which an entry is never later than the
  entries below it. \<open>siftUp\<close> and \<open>siftDown\<close> are the loops \<open>up\<close> and \<open>down\<close> of that package.
  The contract of a priority queue is a locale; the array heap is an interpretation of it.
\<close>

record heap_entry =
  he_key :: nsname
  he_nextPollAt :: time

type_synonym poll_heap = "heap_entry list"

definition Less :: "poll_heap \<Rightarrow> nat \<Rightarrow> nat \<Rightarrow> bool" where
  "Less h i j \<longleftrightarrow> he_nextPollAt (h ! i) < he_nextPollAt (h ! j)"

definition Swap :: "poll_heap \<Rightarrow> nat \<Rightarrow> nat \<Rightarrow> poll_heap" where
  "Swap h i j = h[i := h ! j, j := h ! i]"

function siftUp :: "poll_heap \<Rightarrow> nat \<Rightarrow> poll_heap" where
  "siftUp h j =
     (let i = (j - 1) div 2 in
      if i = j \<or> \<not> Less h j i then h else siftUp (Swap h i j) i)"
  by pat_completeness auto
termination
  by (relation "measure snd") auto

function siftDown :: "poll_heap \<Rightarrow> nat \<Rightarrow> nat \<Rightarrow> poll_heap" where
  "siftDown h i n =
     (let j1 = 2 * i + 1 in
      if j1 \<ge> n then h
      else let j = (if j1 + 1 < n \<and> Less h (j1 + 1) j1 then j1 + 1 else j1) in
           if \<not> Less h j i then h else siftDown (Swap h i j) j n)"
  by pat_completeness auto
termination
  by (relation "measure (\<lambda>(h, i, n). n - i)") (auto split: if_splits)

declare siftUp.simps [simp del] siftDown.simps [simp del]

definition heapPush :: "heap_entry \<Rightarrow> poll_heap \<Rightarrow> poll_heap" where
  "heapPush x h = siftUp (h @ [x]) (length h)"

definition heapPop :: "poll_heap \<Rightarrow> heap_entry \<times> poll_heap" where
  \<comment> \<open>the caller has checked that the heap is not empty\<close>
  "heapPop h =
     (let n = length h - 1;
          h' = siftDown (Swap h 0 n) 0 n
      in (last h', butlast h'))"

section \<open>The heap order\<close>

abbreviation pollAt :: "poll_heap \<Rightarrow> nat \<Rightarrow> time" where
  "pollAt h i \<equiv> he_nextPollAt (h ! i)"

definition isHeap :: "poll_heap \<Rightarrow> bool" where
  "isHeap h \<longleftrightarrow> (\<forall>i. 0 < i \<and> i < length h \<longrightarrow> pollAt h ((i - 1) div 2) \<le> pollAt h i)"

text \<open>
  Heap order with a hole: all pairs are ordered but those that involve the position \<open>j\<close> from
  below (or from above), and the entries below \<open>j\<close> are not earlier than the one above it.
\<close>

definition heapUpTo :: "nat \<Rightarrow> nat \<Rightarrow> poll_heap \<Rightarrow> bool" where
  "heapUpTo j n h \<longleftrightarrow>
     (\<forall>i. 0 < i \<and> i < n \<and> i \<noteq> j \<longrightarrow> pollAt h ((i - 1) div 2) \<le> pollAt h i)
     \<and> (\<forall>i. 0 < i \<and> i < n \<and> (i - 1) div 2 = j \<and> 0 < j \<longrightarrow> pollAt h ((j - 1) div 2) \<le> pollAt h i)"

definition heapDownTo :: "nat \<Rightarrow> nat \<Rightarrow> poll_heap \<Rightarrow> bool" where
  "heapDownTo j n h \<longleftrightarrow>
     (\<forall>i. 0 < i \<and> i < n \<and> (i - 1) div 2 \<noteq> j \<longrightarrow> pollAt h ((i - 1) div 2) \<le> pollAt h i)
     \<and> (\<forall>i. 0 < i \<and> i < n \<and> (i - 1) div 2 = j \<and> 0 < j \<longrightarrow> pollAt h ((j - 1) div 2) \<le> pollAt h i)"

lemma length_Swap [simp]: "length (Swap h i j) = length h"
  by (simp add: Swap_def)

lemma mset_Swap [simp]: "i < length h \<Longrightarrow> j < length h \<Longrightarrow> mset (Swap h i j) = mset h"
  unfolding Swap_def by (rule mset_swap)

lemma nth_Swap:
  "i < length h \<Longrightarrow> j < length h \<Longrightarrow> k < length h \<Longrightarrow>
   Swap h i j ! k = (if k = j then h ! i else if k = i then h ! j else h ! k)"
  by (auto simp: Swap_def nth_list_update)

lemma siftUp_mset: "j < length h \<Longrightarrow> mset (siftUp h j) = mset h \<and> length (siftUp h j) = length h"
proof (induction h j rule: siftUp.induct)
  case (1 h j)
  show ?case
  proof (cases "(j - 1) div 2 = j \<or> \<not> Less h j ((j - 1) div 2)")
    case True
    then show ?thesis by (subst (1 2) siftUp.simps) (auto simp: Let_def)
  next
    case False
    with 1 have "mset (siftUp (Swap h ((j - 1) div 2) j) ((j - 1) div 2)) = mset h
        \<and> length (siftUp (Swap h ((j - 1) div 2) j) ((j - 1) div 2)) = length h"
      by auto
    with False show ?thesis by (subst (1 2) siftUp.simps) (auto simp: Let_def)
  qed
qed

lemma heapUpTo_step:
  assumes h: "heapUpTo j (length h) h" and j: "j < length h" "0 < j"
    and less: "Less h j ((j - 1) div 2)"
  shows "heapUpTo ((j - 1) div 2) (length h) (Swap h ((j - 1) div 2) j)"
proof -
  define p where "p = (j - 1) div 2"
  have p: "p < j" "p < length h" "pollAt h j < pollAt h p"
    using j less by (auto simp: p_def Less_def)
  have sw: "k < length h \<Longrightarrow> pollAt (Swap h p j) k = (if k = j then pollAt h p else if k = p then pollAt h j
      else pollAt h k)" for k
    using p j by (simp add: nth_Swap)
  have up: "0 < i \<Longrightarrow> i < length h \<Longrightarrow> i \<noteq> j \<Longrightarrow> pollAt h ((i - 1) div 2) \<le> pollAt h i" for i
    using h by (simp add: heapUpTo_def)
  have below: "0 < i \<Longrightarrow> i < length h \<Longrightarrow> (i - 1) div 2 = j \<Longrightarrow> pollAt h p \<le> pollAt h i" for i
    using h j by (auto simp: heapUpTo_def p_def)
  have "pollAt (Swap h p j) ((i - 1) div 2) \<le> pollAt (Swap h p j) i"
    if i: "0 < i" "i < length h" "i \<noteq> p" for i
  proof -
    have "(i - 1) div 2 < length h" using i by linarith
    then show ?thesis
      using i p up [of i] below [of i] by (simp add: sw) (fastforce simp: p_def)
  qed
  moreover have "pollAt (Swap h p j) ((p - 1) div 2) \<le> pollAt (Swap h p j) i"
    if i: "0 < i" "i < length h" "(i - 1) div 2 = p" "0 < p" for i
  proof -
    have pp: "(p - 1) div 2 < p" "(p - 1) div 2 < length h" "pollAt h ((p - 1) div 2) \<le> pollAt h p"
      using p i up [of p] by auto
    then show ?thesis using i p up [of i] by (auto simp: sw)
  qed
  ultimately show ?thesis unfolding heapUpTo_def p_def [symmetric] by blast
qed

lemma siftUp_heap: "heapUpTo j (length h) h \<Longrightarrow> j < length h \<Longrightarrow> isHeap (siftUp h j)"
proof (induction h j rule: siftUp.induct)
  case (1 h j)
  show ?case
  proof (cases "(j - 1) div 2 = j \<or> \<not> Less h j ((j - 1) div 2)")
    case True
    then have "0 < j \<Longrightarrow> pollAt h ((j - 1) div 2) \<le> pollAt h j" by (auto simp: Less_def)
    then have "isHeap h" using 1(2) by (auto simp: isHeap_def heapUpTo_def)
    with True show ?thesis by (subst siftUp.simps) (auto simp: Let_def)
  next
    case False
    then have j: "0 < j" "(j - 1) div 2 < length h" using 1(3) by auto
    have "isHeap (siftUp (Swap h ((j - 1) div 2) j) ((j - 1) div 2))"
      using 1(1) [OF refl] False heapUpTo_step [OF 1(2,3)] j by auto
    with False show ?thesis by (subst siftUp.simps) (auto simp: Let_def)
  qed
qed

lemma siftDown_mset:
  "i < n \<Longrightarrow> n \<le> length h \<Longrightarrow>
   mset (siftDown h i n) = mset h \<and> length (siftDown h i n) = length h \<and> drop n (siftDown h i n) = drop n h"
proof (induction h i n rule: siftDown.induct)
  case (1 h i n)
  define j where "j = (if 2 * i + 1 + 1 < n \<and> Less h (2 * i + 1 + 1) (2 * i + 1) then 2 * i + 1 + 1 else 2 * i + 1)"
  show ?case
  proof (cases "2 * i + 1 \<ge> n \<or> \<not> Less h j i")
    case True
    then show ?thesis by (subst (1 2 3) siftDown.simps) (auto simp: Let_def j_def)
  next
    case False
    then have j: "j < n" by (auto simp: j_def)
    have "drop n (Swap h i j) = drop n h" using j 1(2) by (simp add: Swap_def)
    then have "mset (siftDown (Swap h i j) j n) = mset h \<and> length (siftDown (Swap h i j) j n) = length h
        \<and> drop n (siftDown (Swap h i j) j n) = drop n h"
      using 1 False j by (auto simp: j_def Let_def)
    with False show ?thesis by (subst (1 2 3) siftDown.simps) (auto simp: Let_def j_def)
  qed
qed

text \<open>Heap order of the first \<open>n\<close> entries.\<close>

definition heapBelow :: "nat \<Rightarrow> poll_heap \<Rightarrow> bool" where
  "heapBelow n h \<longleftrightarrow> (\<forall>i. 0 < i \<and> i < n \<longrightarrow> pollAt h ((i - 1) div 2) \<le> pollAt h i)"

lemma heapDownTo_step:
  assumes h: "heapDownTo i n h" and n: "n \<le> length h" and j: "j < n" "(j - 1) div 2 = i" "0 < j"
    and less: "pollAt h j < pollAt h i"
    and least: "\<And>k. 0 < k \<Longrightarrow> k < n \<Longrightarrow> (k - 1) div 2 = i \<Longrightarrow> pollAt h j \<le> pollAt h k"
  shows "heapDownTo j n (Swap h i j)"
proof -
  have i: "i < j" "i < length h" "j < length h" using j n by auto
  have sw: "k < n \<Longrightarrow> pollAt (Swap h i j) k = (if k = j then pollAt h i else if k = i then pollAt h j
      else pollAt h k)" for k
    using i n by (simp add: nth_Swap)
  have down: "0 < k \<Longrightarrow> k < n \<Longrightarrow> (k - 1) div 2 \<noteq> i \<Longrightarrow> pollAt h ((k - 1) div 2) \<le> pollAt h k" for k
    using h by (simp add: heapDownTo_def)
  have above: "0 < k \<Longrightarrow> k < n \<Longrightarrow> (k - 1) div 2 = i \<Longrightarrow> 0 < i \<Longrightarrow> pollAt h ((i - 1) div 2) \<le> pollAt h k" for k
    using h by (simp add: heapDownTo_def)
  have "pollAt (Swap h i j) ((k - 1) div 2) \<le> pollAt (Swap h i j) k"
    if k: "0 < k" "k < n" "(k - 1) div 2 \<noteq> j" for k
  proof -
    have "(k - 1) div 2 < n" using k by linarith
    moreover have "(i - 1) div 2 \<noteq> i \<or> i = 0" by auto
    ultimately show ?thesis
      using k less least [of k] down [of k] above [of j] j by (auto simp: sw)
  qed
  moreover have "pollAt (Swap h i j) ((j - 1) div 2) \<le> pollAt (Swap h i j) k"
    if k: "0 < k" "k < n" "(k - 1) div 2 = j" for k
    using k i j down [of k] by (auto simp: sw)
  ultimately show ?thesis unfolding heapDownTo_def by blast
qed

lemma child_cases: "0 < (k::nat) \<Longrightarrow> (k - 1) div 2 = i \<Longrightarrow> k = 2 * i + 1 \<or> k = 2 * i + 1 + 1"
  by linarith

lemma siftDown_heap:
  "heapDownTo i n h \<Longrightarrow> i < n \<Longrightarrow> n \<le> length h \<Longrightarrow> heapBelow n (siftDown h i n)"
proof (induction h i n rule: siftDown.induct)
  case (1 h i n)
  define j where "j = (if 2 * i + 1 + 1 < n \<and> Less h (2 * i + 1 + 1) (2 * i + 1) then 2 * i + 1 + 1 else 2 * i + 1)"
  have least: "pollAt h j \<le> pollAt h k" if "0 < k" "k < n" "(k - 1) div 2 = i" for k
    using child_cases [OF that(1,3)] that(2) by (auto simp: j_def Less_def)
  have j: "0 < j" "(j - 1) div 2 = i" by (auto simp: j_def)
  show ?case
  proof (cases "2 * i + 1 \<ge> n \<or> \<not> Less h j i")
    case True
    have "pollAt h i \<le> pollAt h k" if k: "0 < k" "k < n" "(k - 1) div 2 = i" for k
      using True child_cases [OF k(1,3)] k least [OF k] by (auto simp: Less_def)
    then have "heapBelow n h" using 1(2) by (auto simp: heapBelow_def heapDownTo_def)
    with True show ?thesis by (subst siftDown.simps) (auto simp: Let_def j_def)
  next
    case False
    then have jn: "j < n" "pollAt h j < pollAt h i" by (auto simp: j_def Less_def)
    have "heapDownTo j n (Swap h i j)"
      by (rule heapDownTo_step [OF 1(2,4) jn(1) j(2,1) jn(2) least])
    then have "heapBelow n (siftDown (Swap h i j) j n)"
      using 1(1) [OF refl _ _ ] False jn 1(4) by (auto simp: j_def Let_def)
    with False show ?thesis by (subst siftDown.simps) (auto simp: Let_def j_def)
  qed
qed

section \<open>The contract of a priority queue\<close>

text \<open>
  What the scheduler relies on: pushing adds one element, popping a nonempty queue removes the
  element at its front, and the front is never later than any other element.
\<close>

locale priority_queue =
  fixes inv :: "'q \<Rightarrow> bool" and elems :: "'q \<Rightarrow> 'e multiset" and prio :: "'e \<Rightarrow> 'p::linorder"
    and empty :: 'q and push :: "'e \<Rightarrow> 'q \<Rightarrow> 'q" and front :: "'q \<Rightarrow> 'e" and pop :: "'q \<Rightarrow> 'e \<times> 'q"
  assumes inv_empty: "inv empty" and elems_empty: "elems empty = {#}"
    and inv_push: "inv q \<Longrightarrow> inv (push x q)"
    and elems_push: "inv q \<Longrightarrow> elems (push x q) = add_mset x (elems q)"
    and inv_pop: "inv q \<Longrightarrow> elems q \<noteq> {#} \<Longrightarrow> inv (snd (pop q))"
    and elems_pop: "inv q \<Longrightarrow> elems q \<noteq> {#} \<Longrightarrow> elems q = add_mset (fst (pop q)) (elems (snd (pop q)))"
    and pop_front: "inv q \<Longrightarrow> elems q \<noteq> {#} \<Longrightarrow> fst (pop q) = front q"
    and front_least: "inv q \<Longrightarrow> x \<in># elems q \<Longrightarrow> prio (front q) \<le> prio x"
begin

lemma pop_least: "inv q \<Longrightarrow> x \<in># elems q \<Longrightarrow> prio (fst (pop q)) \<le> prio x"
  using pop_front front_least by (metis empty_iff set_mset_empty)

lemma front_mem: "inv q \<Longrightarrow> elems q \<noteq> {#} \<Longrightarrow> front q \<in># elems q"
  using elems_pop pop_front by (metis union_single_eq_member)

text \<open>When the front is not due, nothing is.\<close>

lemma none_due: "inv q \<Longrightarrow> t < prio (front q) \<Longrightarrow> x \<in># elems q \<Longrightarrow> t < prio x"
  using front_least by fastforce

text \<open>Elements leave the queue in the order of their priority.\<close>

lemma pop_pop_ordered:
  assumes "inv q" and "elems q \<noteq> {#}" and "elems (snd (pop q)) \<noteq> {#}"
  shows "prio (fst (pop q)) \<le> prio (fst (pop (snd (pop q))))"
proof -
  have "fst (pop (snd (pop q))) \<in># elems q"
    using elems_pop [OF assms(1,2)] elems_pop [OF inv_pop [OF assms(1,2)] assms(3)]
    by (metis insert_iff set_mset_add_mset_insert)
  then show ?thesis by (rule pop_least [OF assms(1)])
qed

end

lemma heap_root_least:
  assumes "isHeap h" and "i < length h"
  shows "pollAt h 0 \<le> pollAt h i"
  using assms(2)
proof (induction i rule: less_induct)
  case (less i)
  show ?case
  proof (cases "i = 0")
    case False
    then have "pollAt h 0 \<le> pollAt h ((i - 1) div 2)" using less by simp
    also have "\<dots> \<le> pollAt h i" using assms(1) less.prems False by (simp add: isHeap_def)
    finally show ?thesis .
  qed simp
qed

lemma heapPush_correct:
  assumes "isHeap h"
  shows "isHeap (heapPush x h)" and "mset (heapPush x h) = add_mset x (mset h)"
proof -
  have "\<not> (0 < i \<and> i < Suc (length h) \<and> (i - Suc 0) div 2 = length h)" for i by presburger
  then have "heapUpTo (length h) (length (h @ [x])) (h @ [x])"
    using assms by (auto simp: heapUpTo_def isHeap_def nth_append)
  then show "isHeap (heapPush x h)" unfolding heapPush_def by (rule siftUp_heap) simp
  show "mset (heapPush x h) = add_mset x (mset h)"
    unfolding heapPush_def using siftUp_mset [of "length h" "h @ [x]"] by simp
qed

lemma heapPop_correct:
  assumes "isHeap h" and "h \<noteq> []"
  shows "isHeap (snd (heapPop h))" and "fst (heapPop h) = h ! 0"
    and "mset h = add_mset (fst (heapPop h)) (mset (snd (heapPop h)))"
proof -
  define n where "n = length h - 1"
  define h' where "h' = siftDown (Swap h 0 n) 0 n"
  have n: "n < length h" "0 < length h" "length h = Suc n" using assms(2) by (auto simp: n_def)
  have h': "mset h' = mset h" "length h' = length h" "drop n h' = drop n (Swap h 0 n)"
    using siftDown_mset [of 0 n "Swap h 0 n"] n
    by (cases "n = 0"; simp add: h'_def siftDown.simps [of _ 0 0])+
  have p: "heapPop h = (last h', butlast h')" by (simp add: heapPop_def n_def h'_def Let_def)
  have ne: "h' \<noteq> []" using h' n by auto
  have "last h' = h' ! n" using h' n ne by (simp add: last_conv_nth)
  also have "\<dots> = hd (drop n h')" using h'(2) n by (intro hd_drop_conv_nth [symmetric]) simp
  also have "\<dots> = hd (drop n (Swap h 0 n))" by (simp only: h')
  also have "\<dots> = Swap h 0 n ! n" using n by (intro hd_drop_conv_nth) simp
  finally show f: "fst (heapPop h) = h ! 0" using p n by (simp add: nth_Swap)
  show "mset h = add_mset (fst (heapPop h)) (mset (snd (heapPop h)))"
  proof -
    have "mset h = mset (butlast h' @ [last h'])" using h'(1) ne by simp
    then show ?thesis unfolding p by (simp add: mset_append)
  qed
  show "isHeap (snd (heapPop h))"
  proof (cases "n = 0")
    case True
    then show ?thesis using p h' n by (simp add: isHeap_def)
  next
    case False
    have "heapDownTo 0 n (Swap h 0 n)"
      using assms(1) n by (auto simp: heapDownTo_def isHeap_def nth_Swap)
    then have "heapBelow n h'" unfolding h'_def using False n by (intro siftDown_heap) auto
    then show ?thesis using p h' n by (auto simp: isHeap_def heapBelow_def nth_butlast)
  qed
qed

interpretation poll_queue: priority_queue isHeap mset he_nextPollAt "[]" heapPush hd heapPop
proof unfold_locales
  fix q :: poll_heap and x
  show "isHeap q \<Longrightarrow> mset q \<noteq> {#} \<Longrightarrow> fst (heapPop q) = hd q"
    by (cases q) (simp_all add: heapPop_correct)
  show "isHeap q \<Longrightarrow> x \<in># mset q \<Longrightarrow> he_nextPollAt (hd q) \<le> he_nextPollAt x"
    using heap_root_least by (cases q) (fastforce simp: in_set_conv_nth)+
qed (simp_all add: heapPush_correct heapPop_correct, simp add: isHeap_def)

end
