(* ===== verification/Channels.thy ===== *)
theory Channels
  imports Prelude "HOL-Library.Sublist"
begin

text \<open>
  The contract of a buffered Go channel that is written with \<open>select ... default\<close>: a send
  appends when there is room and does nothing otherwise, a receive takes the oldest element.
  Three parts of the program use channels this way: the work channel and the wake-up signal of
  the reference watcher, and the subscriptions of the API server's broadcaster. Each of them
  interprets the locale in its own theory.
\<close>

datatype 'a chan_op =
    Offer 'a
  | Accept

fun chanRun ::
    "('a \<Rightarrow> 's \<Rightarrow> 's) \<Rightarrow> ('s \<Rightarrow> 's) \<Rightarrow> ('s \<Rightarrow> 'a list) \<Rightarrow> 'a chan_op list \<Rightarrow> 's \<Rightarrow> 'a list \<times> 's" where
  "chanRun put receive buffer [] s = ([], s)"
| "chanRun put receive buffer (Offer x # ops) s = chanRun put receive buffer ops (put x s)"
| "chanRun put receive buffer (Accept # ops) s =
     (case buffer s of
        [] \<Rightarrow> chanRun put receive buffer ops s
      | x # rest \<Rightarrow> (case chanRun put receive buffer ops (receive s) of (got, s1) \<Rightarrow> (x # got, s1)))"

fun offered :: "'a chan_op list \<Rightarrow> 'a list" where
  "offered [] = []"
| "offered (Offer x # ops) = x # offered ops"
| "offered (Accept # ops) = offered ops"

locale bounded_channel =
  fixes room :: "'s \<Rightarrow> nat" and buffer :: "'s \<Rightarrow> 'a list"
    and put :: "'a \<Rightarrow> 's \<Rightarrow> 's" and receive :: "'s \<Rightarrow> 's"
  assumes room_put: "room (put x s) = room s"
    and room_receive: "room (receive s) = room s"
    and buffer_put: "buffer (put x s) = (if length (buffer s) < room s then buffer s @ [x] else buffer s)"
    and buffer_receive: "buffer s \<noteq> [] \<Longrightarrow> buffer (receive s) = tl (buffer s)"
begin

lemma put_bounded: "length (buffer s) \<le> room s \<Longrightarrow> length (buffer (put x s)) \<le> room (put x s)"
  by (simp add: room_put buffer_put)

lemma put_pending: "0 < room s \<Longrightarrow> buffer (put x s) \<noteq> []"
  by (auto simp: buffer_put)

lemma put_keeps: "buffer s \<noteq> [] \<Longrightarrow> buffer (put x s) \<noteq> []"
  by (simp add: buffer_put)

lemma put_full: "room s \<le> length (buffer s) \<Longrightarrow> buffer (put x s) = buffer s"
  by (simp add: buffer_put)

text \<open>A burst of sends fills the free places in order, and the rest is lost.\<close>

lemma burst: "buffer (fold put xs s) = buffer s @ take (room s - length (buffer s)) xs"
proof (induction xs arbitrary: s)
  case (Cons x xs)
  have "room s - length (buffer s) = Suc (room s - Suc (length (buffer s)))" if "length (buffer s) < room s"
    using that by simp
  then show ?case by (simp add: Cons.IH buffer_put room_put)
qed simp

lemma room_burst: "room (fold put xs s) = room s"
  by (induction xs arbitrary: s) (simp_all add: room_put)

text \<open>What a consumer gets is a subsequence of what was buffered and offered, in that order.\<close>

lemma run_order:
  "chanRun put receive buffer ops s = (got, s1) \<Longrightarrow> subseq (got @ buffer s1) (buffer s @ offered ops)"
proof (induction ops arbitrary: s got)
  case (Cons op ops)
  show ?case
  proof (cases op)
    case (Offer x)
    then have "subseq (got @ buffer s1) (buffer (put x s) @ offered ops)" using Cons by simp
    also have "subseq \<dots> (buffer s @ offered (op # ops))"
      using Offer by (auto simp: buffer_put intro: list_emb_append_mono)
    finally show ?thesis .
  next
    case Accept
    show ?thesis
    proof (cases "buffer s")
      case Nil
      then show ?thesis using Cons.IH [of s got] Cons.prems Accept by simp
    next
      case (Cons x rest)
      obtain got1 s2 where r: "chanRun put receive buffer ops (receive s) = (got1, s2)" by fastforce
      then have "got = x # got1" "s1 = s2" using Cons.prems Cons Accept by simp_all
      then show ?thesis using Cons.IH [of "receive s" got1] r Cons Accept buffer_receive [of s] by simp
    qed
  qed
qed auto

end

end
