(* ===== verification/Ref_Watcher.thy ===== *)
theory Ref_Watcher
  imports Git_Transport Poll_Heap Channels
begin

text \<open>
  The reference watcher, \<open>src/internal/controller/refwatcher/refwatcher_controller.go\<close>. Its
  state is the registry of workspaces to poll, the scheduler's heap, the bounded work channel
  and the wake-up signal. Each operation that holds a lock is one function on that state, and
  the programs that call the API server, Git or the clock read and write the state between
  their calls. The interleaving of the scheduler, the workers and the reconciles is the step
  relation at the end of the theory.
\<close>

record registry_entry =
  re_url :: string
  re_ref :: string
  re_interval :: duration
  re_nextPollAt :: time
  re_lastSHA :: string

record watcher =
  rw_defaultPollInterval :: duration
  rw_workQueueSize :: nat
  rw_entries :: "nsname \<rightharpoonup> registry_entry"
  rw_heap :: poll_heap
  rw_workCh :: "nsname list"
  rw_updateCh :: bool

definition newWatcher :: "duration \<Rightarrow> nat \<Rightarrow> watcher" where
  "newWatcher defaultPollInterval workQueueSize =
     \<lparr>rw_defaultPollInterval = defaultPollInterval, rw_workQueueSize = workQueueSize,
      rw_entries = Map.empty, rw_heap = [], rw_workCh = [], rw_updateCh = False\<rparr>"

definition maxRetryBackoff :: duration where
  "maxRetryBackoff = 30000000000"

section \<open>The registry\<close>

definition parsePollInterval :: "'z golib_scheme \<Rightarrow> watcher \<Rightarrow> workspace \<Rightarrow> duration" where
  "parsePollInterval L w ws =
     (case ws_annots ws GitPollIntervalAnnotation of
        None \<Rightarrow> rw_defaultPollInterval w
      | Some v \<Rightarrow>
          (case parseDuration L v of
             None \<Rightarrow> rw_defaultPollInterval w
           | Some d \<Rightarrow> if d > 0 then d else rw_defaultPollInterval w))"

definition notifyScheduler :: "watcher \<Rightarrow> watcher" where
  "notifyScheduler w = w\<lparr>rw_updateCh := True\<rparr>"

definition signalScheduler :: "nsname \<Rightarrow> time \<Rightarrow> watcher \<Rightarrow> watcher" where
  "signalScheduler key next w = notifyScheduler
     (w\<lparr>rw_heap := heapPush \<lparr>he_key = key, he_nextPollAt = next\<rparr> (rw_heap w)\<rparr>)"

definition setEntry :: "nsname \<Rightarrow> registry_entry \<Rightarrow> watcher \<Rightarrow> watcher" where
  "setEntry key e w = w\<lparr>rw_entries := (rw_entries w)(key \<mapsto> e)\<rparr>"

definition updateEntry ::
    "time \<Rightarrow> nsname \<Rightarrow> string \<Rightarrow> string \<Rightarrow> duration \<Rightarrow> registry_entry \<Rightarrow> watcher \<Rightarrow> watcher" where
  "updateEntry t key url ref interval existing w =
     (if re_url existing = url \<and> re_ref existing = ref \<and> re_interval existing = interval then w
      else if re_url existing \<noteq> url \<or> re_ref existing \<noteq> ref
      then signalScheduler key t (setEntry key (existing
             \<lparr>re_url := url, re_ref := ref, re_interval := interval, re_nextPollAt := t\<rparr>) w)
      else setEntry key (existing\<lparr>re_interval := interval\<rparr>) w)"

definition insertEntry ::
    "time \<Rightarrow> duration \<Rightarrow> nsname \<Rightarrow> string \<Rightarrow> string \<Rightarrow> duration \<Rightarrow> string \<Rightarrow> watcher \<Rightarrow> watcher" where
  "insertEntry t jitter key url ref interval observedRevision w =
     signalScheduler key (t + jitter) (setEntry key
       \<lparr>re_url = url, re_ref = ref, re_interval = interval, re_nextPollAt = t + jitter,
        re_lastSHA = observedRevision\<rparr> w)"

definition registrySize :: "watcher \<Rightarrow> int" where
  "registrySize w = int (card (dom (rw_entries w)))"

definition upsertEntry ::
    "env \<Rightarrow> watcher \<Rightarrow> nsname \<Rightarrow> string \<Rightarrow> string \<Rightarrow> duration \<Rightarrow> string \<Rightarrow> watcher result prog" where
  \<comment> \<open>\<open>rand.Int63n\<close> panics on an argument that is not positive\<close>
  "upsertEntry E w key url ref interval observedRevision = do {
     t \<leftarrow> now E;
     case rw_entries w key of
       Some existing \<Rightarrow> ret (Inr (updateEntry t key url ref interval existing w))
     | None \<Rightarrow>
         (if interval \<le> 0 then ret (Inl (EMsg ''invalid argument to Int63n''))
          else do {
            jitter \<leftarrow> randInt E interval;
            let w1 = insertEntry t jitter key url ref interval observedRevision w;
            metric ''refwatcher_registry_size'' [] (registrySize w1);
            ret (Inr w1)
          })
   }"

definition deleteEntry :: "nsname \<Rightarrow> watcher \<Rightarrow> watcher" where
  "deleteEntry key w =
     (if rw_entries w key = None then w
      else notifyScheduler (w\<lparr>rw_entries := (rw_entries w)(key := None)\<rparr>))"

definition removeEntry :: "watcher \<Rightarrow> nsname \<Rightarrow> watcher prog" where
  "removeEntry w key =
     (if rw_entries w key = None then ret w
      else do {
        metric ''refwatcher_registry_size'' [] (registrySize (deleteEntry key w));
        ret (deleteEntry key w)
      })"

definition ReconcileRef :: "env \<Rightarrow> watcher \<Rightarrow> nsname \<Rightarrow> (goerr option \<times> watcher) prog" where
  "ReconcileRef E w req = do {
     g \<leftarrow> getWorkspace E req;
     case g of
       Inl err \<Rightarrow>
         (if isNotFound err then do { w1 \<leftarrow> removeEntry w req; ret (None, w1) }
          else ret (Some err, w))
     | Inr ws \<Rightarrow>
         (if om_deletionTimestamp (ws_meta ws) \<noteq> None then do { w1 \<leftarrow> removeEntry w req; ret (None, w1) }
          else do {
            u \<leftarrow> upsertEntry E w req (ss_repoURL (wsp_source (ws_spec ws)))
                   (ss_targetRevision (wsp_source (ws_spec ws))) (parsePollInterval E w ws)
                   (wst_observedRevision (ws_status ws));
            case u of Inl panic \<Rightarrow> ret (Some panic, w) | Inr w1 \<Rightarrow> ret (None, w1)
          })
   }"

section \<open>The scheduler\<close>

definition schedulerSleep :: "time \<Rightarrow> watcher \<Rightarrow> duration" where
  "schedulerSleep t w =
     (if rw_heap w = [] then 3600000000000 else max (he_nextPollAt (hd (rw_heap w)) - t) 0)"

definition due :: "time \<Rightarrow> poll_heap \<Rightarrow> bool" where
  "due t h \<longleftrightarrow> h \<noteq> [] \<and> he_nextPollAt (hd h) \<le> t"

definition trySendWork :: "nsname \<Rightarrow> watcher \<Rightarrow> watcher" where
  "trySendWork key w =
     (if length (rw_workCh w) < rw_workQueueSize w then w\<lparr>rw_workCh := rw_workCh w @ [key]\<rparr> else w)"

definition receiveWork :: "watcher \<Rightarrow> watcher" where
  "receiveWork w = w\<lparr>rw_workCh := tl (rw_workCh w)\<rparr>"

definition receiveUpdate :: "watcher \<Rightarrow> watcher" where
  "receiveUpdate w = w\<lparr>rw_updateCh := False\<rparr>"

text \<open>
  The work channel has \<open>workQueueSize\<close> places; the wake-up signal is a channel of one place whose
  elements carry nothing.
\<close>

interpretation work_chan: bounded_channel rw_workQueueSize rw_workCh trySendWork receiveWork
  by unfold_locales (simp_all add: trySendWork_def receiveWork_def)

interpretation update_chan: bounded_channel "\<lambda>w. 1" "\<lambda>w. if rw_updateCh w then [()] else []"
    "\<lambda>u. notifyScheduler" receiveUpdate
  by unfold_locales (simp_all add: notifyScheduler_def receiveUpdate_def split: if_splits)

declare trySendWork_def [simp]

definition enqueue :: "nsname \<Rightarrow> watcher \<Rightarrow> watcher" where
  "enqueue key w = (if rw_entries w key = None then w else trySendWork key w)"

definition dispatchOne :: "watcher \<Rightarrow> watcher" where
  "dispatchOne w = (case heapPop (rw_heap w) of (entry, h) \<Rightarrow> enqueue (he_key entry) (w\<lparr>rw_heap := h\<rparr>))"

lemma enqueue_heap [simp]: "rw_heap (enqueue key w) = rw_heap w"
  by (simp add: enqueue_def)

lemma length_siftDown [simp]: "n \<le> length h \<Longrightarrow> length (siftDown h i n) = length h"
  using siftDown_mset [of i n h] by (cases "i < n") (simp, subst siftDown.simps, simp)

lemma length_heapPop: "h \<noteq> [] \<Longrightarrow> length (snd (heapPop h)) < length h"
  by (simp add: heapPop_def Let_def)

function drainDue :: "time \<Rightarrow> watcher \<Rightarrow> watcher" where
  "drainDue t w = (if due t (rw_heap w) then drainDue t (dispatchOne w) else w)"
  by pat_completeness auto
termination
proof (relation "measure (\<lambda>(t, w). length (rw_heap w))")
  fix t and w :: watcher
  assume "due t (rw_heap w)"
  then have "length (snd (heapPop (rw_heap w))) < length (rw_heap w)"
    by (intro length_heapPop) (simp add: due_def)
  then show "((t, dispatchOne w), t, w) \<in> measure (\<lambda>(t, w). length (rw_heap w))"
    by (simp add: dispatchOne_def case_prod_beta)
qed simp

declare drainDue.simps [simp del]

definition dispatchDue :: "env \<Rightarrow> watcher \<Rightarrow> watcher prog" where
  "dispatchDue E w = do {
     t \<leftarrow> now E;
     let w1 = drainDue t w;
     metric ''refwatcher_worker_queue_depth'' [] (int (length (rw_workCh w1)));
     ret w1
   }"

section \<open>Polling\<close>

definition resolveRef :: "env \<Rightarrow> string \<Rightarrow> string \<Rightarrow> string result prog" where
  "resolveRef E url ref = do {
     listed \<leftarrow> (if ModeForURL E url = NativeGit then ListRemote E url
                else do {
                  l \<leftarrow> listRemote E url;
                  ret (case l of
                    Inl err \<Rightarrow> Inl err
                  | Inr refs \<Rightarrow> Inr (map (\<lambda>(hash, name). \<lparr>gr_hash = hash, gr_name = name\<rparr>) refs))
                });
     case listed of
       Inl err \<Rightarrow> ret (Inl err)
     | Inr refs \<Rightarrow>
         (case ResolveRef refs ref of
            Some hash \<Rightarrow> ret (Inr hash)
          | None \<Rightarrow> ret (Inl (EMsg (''ref '' @ ref @ '' not found in remote '' @ url))))
   }"

datatype poll_outcome =
    PollFailed
  | PollUnchanged
  | PollSeeded string
  | PollDeferred
  | PollChanged string

definition pollMetric :: "nsname \<Rightarrow> string \<Rightarrow> unit prog" where
  "pollMetric key result = metric ''refwatcher_poll_total'' [nn_namespace key, nn_name key, result] 1"

definition patchDetected :: "env \<Rightarrow> nsname \<Rightarrow> string \<Rightarrow> poll_outcome prog" where
  "patchDetected E key newSHA = do {
     g \<leftarrow> getWorkspace E key;
     case g of
       Inl err \<Rightarrow> do { pollMetric key ''error''; ret PollFailed }
     | Inr ws \<Rightarrow>
         (if IsApprovalPending (Some ws) then do { pollMetric key ''deferred''; ret PollDeferred }
          else do {
            p \<leftarrow> patchWorkspace E ws (set_annots ((ws_annots ws)(DetectedRevisionAnnotation \<mapsto> newSHA)) ws);
            case p of
              Inl err \<Rightarrow> do { pollMetric key ''error''; ret PollFailed }
            | Inr w \<Rightarrow> do { pollMetric key ''changed''; ret (PollChanged newSHA) }
          })
   }"

definition actOnSHA :: "env \<Rightarrow> nsname \<Rightarrow> string \<Rightarrow> string result \<Rightarrow> poll_outcome prog" where
  "actOnSHA E key lastSHA r =
     (case r of
        Inl err \<Rightarrow> do { pollMetric key ''error''; ret PollFailed }
      | Inr newSHA \<Rightarrow>
          (if newSHA = lastSHA then do { pollMetric key ''unchanged''; ret PollUnchanged }
           else if lastSHA = [] then do { pollMetric key ''seeded''; ret (PollSeeded newSHA) }
           else patchDetected E key newSHA))"

definition timedResolve :: "env \<Rightarrow> nsname \<Rightarrow> string \<Rightarrow> string \<Rightarrow> string result prog" where
  "timedResolve E key url ref = do {
     start \<leftarrow> now E;
     r \<leftarrow> resolveRef E url ref;
     finish \<leftarrow> now E;
     metric ''refwatcher_poll_duration_seconds'' [nn_namespace key, nn_name key] (finish - start);
     ret r
   }"

definition queryRemote :: "env \<Rightarrow> nsname \<Rightarrow> string \<Rightarrow> string \<Rightarrow> string \<Rightarrow> poll_outcome prog" where
  "queryRemote E key url ref lastSHA = do {
     r \<leftarrow> timedResolve E key url ref;
     actOnSHA E key lastSHA r
   }"

definition recordSHA :: "nsname \<Rightarrow> string \<Rightarrow> watcher \<Rightarrow> watcher" where
  "recordSHA key sha w =
     (case rw_entries w key of None \<Rightarrow> w | Some e \<Rightarrow> setEntry key (e\<lparr>re_lastSHA := sha\<rparr>) w)"

definition reschedule :: "time \<Rightarrow> nsname \<Rightarrow> duration \<Rightarrow> watcher \<Rightarrow> watcher" where
  "reschedule t key interval w =
     (let next = t + interval in
      signalScheduler key next
        (case rw_entries w key of None \<Rightarrow> w | Some e \<Rightarrow> setEntry key (e\<lparr>re_nextPollAt := next\<rparr>) w))"

definition recordOutcome :: "nsname \<Rightarrow> poll_outcome \<Rightarrow> watcher \<Rightarrow> watcher" where
  "recordOutcome key o1 w =
     (case o1 of PollSeeded sha \<Rightarrow> recordSHA key sha w | PollChanged sha \<Rightarrow> recordSHA key sha w | _ \<Rightarrow> w)"

definition pollDelay :: "duration \<Rightarrow> poll_outcome \<Rightarrow> duration" where
  "pollDelay interval o1 = (case o1 of PollFailed \<Rightarrow> min interval maxRetryBackoff | _ \<Rightarrow> interval)"

definition pollRemote :: "env \<Rightarrow> watcher \<Rightarrow> nsname \<Rightarrow> watcher prog" where
  "pollRemote E w key =
     (case rw_entries w key of
        None \<Rightarrow> ret w
      | Some e \<Rightarrow> do {
          o1 \<leftarrow> queryRemote E key (re_url e) (re_ref e) (re_lastSHA e);
          t \<leftarrow> now E;
          ret (reschedule t key (pollDelay (re_interval e) o1) (recordOutcome key o1 w))
        })"

end
