(* ===== verification/Ref_Steps.thy ===== *)
theory Ref_Steps
  imports Ref_Watcher
begin

text \<open>
  The reference watcher as a system of interleaved steps, and what holds in every state it
  can reach. A reconcile, a dispatch of the scheduler and each locked section of a poll is
  one step; between the steps of one poll any other step may happen. Two ghost components
  list the polls that wait for the remote or the API server and those that have yet to
  reschedule.
\<close>

record system =
  sy_watcher :: watcher
  sy_polling :: "(nsname \<times> registry_entry) list"
  sy_finishing :: "(nsname \<times> duration) list"

datatype event =
    Upsert time duration nsname string string duration string
  | Remove nsname
  | Dispatch time
  | Take
  | Answer nat poll_outcome
  | Finish nat time

inductive step :: "system \<Rightarrow> event \<Rightarrow> system \<Rightarrow> bool" where
  Update: "rw_entries (sy_watcher s) k = Some e \<Longrightarrow>
    step s (Upsert t j k url ref d seen) (s\<lparr>sy_watcher := updateEntry t k url ref d e (sy_watcher s)\<rparr>)"
| Insert: "rw_entries (sy_watcher s) k = None \<Longrightarrow> 0 < d \<Longrightarrow> 0 \<le> j \<Longrightarrow> j < d \<Longrightarrow>
    step s (Upsert t j k url ref d seen) (s\<lparr>sy_watcher := insertEntry t j k url ref d seen (sy_watcher s)\<rparr>)"
| Delete: "step s (Remove k) (s\<lparr>sy_watcher := deleteEntry k (sy_watcher s)\<rparr>)"
| Wake: "step s (Dispatch t) (s\<lparr>sy_watcher := drainDue t ((sy_watcher s)\<lparr>rw_updateCh := False\<rparr>)\<rparr>)"
| Start: "rw_workCh (sy_watcher s) = k # ks \<Longrightarrow> rw_entries (sy_watcher s) k = Some e \<Longrightarrow>
    step s Take (s\<lparr>sy_watcher := (sy_watcher s)\<lparr>rw_workCh := ks\<rparr>, sy_polling := (k, e) # sy_polling s\<rparr>)"
| Skip: "rw_workCh (sy_watcher s) = k # ks \<Longrightarrow> rw_entries (sy_watcher s) k = None \<Longrightarrow>
    step s Take (s\<lparr>sy_watcher := (sy_watcher s)\<lparr>rw_workCh := ks\<rparr>\<rparr>)"
| Reply: "i < length (sy_polling s) \<Longrightarrow> sy_polling s ! i = (k, e) \<Longrightarrow>
    step s (Answer i o1) (s\<lparr>sy_watcher := recordOutcome k o1 (sy_watcher s),
      sy_polling := take i (sy_polling s) @ drop (Suc i) (sy_polling s),
      sy_finishing := (k, pollDelay (re_interval e) o1) # sy_finishing s\<rparr>)"
| Done: "i < length (sy_finishing s) \<Longrightarrow> sy_finishing s ! i = (k, d) \<Longrightarrow>
    step s (Finish i t) (s\<lparr>sy_watcher := reschedule t k d (sy_watcher s),
      sy_finishing := take i (sy_finishing s) @ drop (Suc i) (sy_finishing s)\<rparr>)"

inductive_cases stepE: "step s ev s'"

inductive_simps step_simps:
  "step s (Remove k) s'" "step s (Dispatch t) s'"

text \<open>Runs whose events are allowed in the state they happen in.\<close>

inductive run :: "(system \<Rightarrow> event \<Rightarrow> bool) \<Rightarrow> system \<Rightarrow> system \<Rightarrow> bool"
  for allowed :: "system \<Rightarrow> event \<Rightarrow> bool" where
  refl: "run allowed s s"
| more: "run allowed s s' \<Longrightarrow> allowed s' ev \<Longrightarrow> step s' ev s'' \<Longrightarrow> run allowed s s''"

definition initial :: "duration \<Rightarrow> nat \<Rightarrow> system" where
  "initial d n = \<lparr>sy_watcher = newWatcher d n, sy_polling = [], sy_finishing = []\<rparr>"

lemma run_invariant:
  assumes "run allowed s s'" and "I s"
    and "\<And>s ev s'. I s \<Longrightarrow> allowed s ev \<Longrightarrow> step s ev s' \<Longrightarrow> I s'"
  shows "I s'"
  using assms by (induction rule: run.induct) blast+

section \<open>Lemmas on the operations\<close>

lemma signalScheduler_sel [simp]:
  "rw_entries (signalScheduler k t w) = rw_entries w" "rw_workCh (signalScheduler k t w) = rw_workCh w"
  "rw_workQueueSize (signalScheduler k t w) = rw_workQueueSize w"
  "rw_heap (signalScheduler k t w) = heapPush \<lparr>he_key = k, he_nextPollAt = t\<rparr> (rw_heap w)"
  by (simp_all add: signalScheduler_def notifyScheduler_def)

lemma setEntry_sel [simp]:
  "rw_entries (setEntry k e w) = (rw_entries w)(k \<mapsto> e)" "rw_workCh (setEntry k e w) = rw_workCh w"
  "rw_workQueueSize (setEntry k e w) = rw_workQueueSize w" "rw_heap (setEntry k e w) = rw_heap w"
  by (simp_all add: setEntry_def)

lemma recordOutcome_sel [simp]:
  "rw_workCh (recordOutcome k o1 w) = rw_workCh w" "rw_heap (recordOutcome k o1 w) = rw_heap w"
  "rw_workQueueSize (recordOutcome k o1 w) = rw_workQueueSize w"
  "dom (rw_entries (recordOutcome k o1 w)) = dom (rw_entries w)"
  by (auto simp: recordOutcome_def recordSHA_def split: poll_outcome.split option.split)

lemma deleteEntry_sel [simp]:
  "rw_workCh (deleteEntry k w) = rw_workCh w" "rw_heap (deleteEntry k w) = rw_heap w"
  "rw_workQueueSize (deleteEntry k w) = rw_workQueueSize w"
  "rw_entries (deleteEntry k w) = (rw_entries w)(k := None)"
  by (auto simp: deleteEntry_def notifyScheduler_def)

lemma enqueue_sel [simp]:
  "rw_entries (enqueue k w) = rw_entries w" "rw_workQueueSize (enqueue k w) = rw_workQueueSize w"
  by (simp_all add: enqueue_def)

lemma dispatchOne_sel [simp]:
  "rw_entries (dispatchOne w) = rw_entries w" "rw_workQueueSize (dispatchOne w) = rw_workQueueSize w"
  "rw_heap (dispatchOne w) = snd (heapPop (rw_heap w))"
  by (simp_all add: dispatchOne_def split: prod.split)

lemma drainDue_sel [simp]:
  "rw_entries (drainDue t w) = rw_entries w" "rw_workQueueSize (drainDue t w) = rw_workQueueSize w"
  by (induction t w rule: drainDue.induct, subst drainDue.simps, simp)+

lemma drainDue_heap: "isHeap (rw_heap w) \<Longrightarrow> isHeap (rw_heap (drainDue t w))"
proof (induction t w rule: drainDue.induct)
  case (1 t w)
  then show ?case
    by (subst drainDue.simps) (auto simp: due_def intro: heapPop_correct(1))
qed

lemma drainDue_capacity:
  "length (rw_workCh w) \<le> rw_workQueueSize w \<Longrightarrow> length (rw_workCh (drainDue t w)) \<le> rw_workQueueSize w"
proof (induction t w rule: drainDue.induct)
  case (1 t w)
  have "length (rw_workCh (dispatchOne w)) \<le> rw_workQueueSize w"
    using 1(2) work_chan.put_bounded [of "w\<lparr>rw_heap := snd (heapPop (rw_heap w))\<rparr>"]
    by (auto simp: dispatchOne_def enqueue_def split: prod.split)
  with 1 show ?case by (subst drainDue.simps) auto
qed

text \<open>
  The scheduler's structures stay sound under every interleaving: the heap is ordered, so
  that its first entry is the earliest, and the work channel never holds more keys than it
  has room for.
\<close>

theorem watcher_structures_sound:
  assumes "run (\<lambda>s ev. True) (initial d n) s"
  shows "isHeap (rw_heap (sy_watcher s)) \<and> length (rw_workCh (sy_watcher s)) \<le> rw_workQueueSize (sy_watcher s)"
  using assms
proof (rule run_invariant)
  show "isHeap (rw_heap (sy_watcher (initial d n)))
      \<and> length (rw_workCh (sy_watcher (initial d n))) \<le> rw_workQueueSize (sy_watcher (initial d n))"
    by (simp add: initial_def newWatcher_def isHeap_def)
next
  fix s ev s'
  assume inv: "isHeap (rw_heap (sy_watcher s)) \<and> length (rw_workCh (sy_watcher s)) \<le> rw_workQueueSize (sy_watcher s)"
    and "step s ev s'"
  from this(2) inv
  show "isHeap (rw_heap (sy_watcher s')) \<and> length (rw_workCh (sy_watcher s')) \<le> rw_workQueueSize (sy_watcher s')"
    by (cases rule: step.cases)
      (auto simp: updateEntry_def insertEntry_def reschedule_def Let_def heapPush_correct drainDue_heap
        intro: order_trans [OF drainDue_capacity] split: option.split)
qed

section \<open>Tokens\<close>

text \<open>
  The chance of a workspace to be polled again is a token that travels from the heap over the
  channel and a worker back to the heap.
\<close>

definition tokens :: "nsname \<Rightarrow> system \<Rightarrow> nat" where
  "tokens k s = length (filter (\<lambda>e. he_key e = k) (rw_heap (sy_watcher s)))
     + length (filter (\<lambda>x. x = k) (rw_workCh (sy_watcher s)))
     + length (filter (\<lambda>p. fst p = k) (sy_polling s))
     + length (filter (\<lambda>p. fst p = k) (sy_finishing s))"

abbreviation keyed :: "nsname \<Rightarrow> poll_heap \<Rightarrow> nat" where
  "keyed k h \<equiv> length (filter (\<lambda>e. he_key e = k) h)"

lemma length_filter_mset: "mset xs = mset ys \<Longrightarrow> length (filter P xs) = length (filter P ys)"
  by (metis mset_filter size_mset)

lemma keyed_push: "isHeap h \<Longrightarrow> keyed k (heapPush x h) = (if he_key x = k then Suc (keyed k h) else keyed k h)"
  using length_filter_mset [of "heapPush x h" "x # h" "\<lambda>e. he_key e = k"] by (simp add: heapPush_correct)

lemma keyed_pop:
  "isHeap h \<Longrightarrow> h \<noteq> [] \<Longrightarrow>
   keyed k h = (if he_key (fst (heapPop h)) = k then 1 else 0) + keyed k (snd (heapPop h))"
  using length_filter_mset [of h "fst (heapPop h) # snd (heapPop h)" "\<lambda>e. he_key e = k"]
    heapPop_correct(3) [of h] by simp

lemma filter_remove_nth:
  "i < length xs \<Longrightarrow> length (filter P xs) =
   (if P (xs ! i) then 1 else 0) + length (filter P (take i xs @ drop (Suc i) xs))"
  by (subst id_take_nth_drop [of i xs]) simp_all

lemma isHeap_pop: "isHeap h \<Longrightarrow> h \<noteq> [] \<Longrightarrow> isHeap (snd (heapPop h))"
  by (rule heapPop_correct(1))

lemma step_heap: "step s ev s' \<Longrightarrow> isHeap (rw_heap (sy_watcher s)) \<Longrightarrow> isHeap (rw_heap (sy_watcher s'))"
  by (erule step.cases)
    (auto simp: updateEntry_def insertEntry_def reschedule_def Let_def heapPush_correct drainDue_heap split: option.split)

text \<open>The due entries of registered workspaces, and whether the channel has room for them.\<close>

definition dueRegistered :: "time \<Rightarrow> watcher \<Rightarrow> nat" where
  "dueRegistered t w =
     length (filter (\<lambda>e. he_nextPollAt e \<le> t \<and> rw_entries w (he_key e) \<noteq> None) (rw_heap w))"

definition fits :: "time \<Rightarrow> watcher \<Rightarrow> bool" where
  "fits t w \<longleftrightarrow> dueRegistered t w + length (rw_workCh w) \<le> rw_workQueueSize w"

definition queued :: "nsname \<Rightarrow> watcher \<Rightarrow> nat" where
  "queued k w = keyed k (rw_heap w) + length (filter (\<lambda>x. x = k) (rw_workCh w))"

lemma tokens_queued:
  "tokens k s = queued k (sy_watcher s) + length (filter (\<lambda>p. fst p = k) (sy_polling s))
     + length (filter (\<lambda>p. fst p = k) (sy_finishing s))"
  by (simp add: tokens_def queued_def)

lemma due_pop:
  assumes "isHeap (rw_heap w)" and "due t (rw_heap w)"
  shows "he_nextPollAt (fst (heapPop (rw_heap w))) \<le> t" and "rw_heap w \<noteq> []"
  using assms poll_queue.pop_front [of "rw_heap w"] by (auto simp: due_def)

lemma dueRegistered_pop:
  assumes "isHeap (rw_heap w)" and "due t (rw_heap w)"
  shows "dueRegistered t w = (if rw_entries w (he_key (fst (heapPop (rw_heap w)))) = None then 0 else 1)
    + length (filter (\<lambda>e. he_nextPollAt e \<le> t \<and> rw_entries w (he_key e) \<noteq> None) (snd (heapPop (rw_heap w))))"
  using length_filter_mset [of "rw_heap w" "fst (heapPop (rw_heap w)) # snd (heapPop (rw_heap w))"]
    heapPop_correct(3) [OF assms(1)] due_pop [OF assms] by (simp add: dueRegistered_def)

lemma fits_dispatchOne:
  assumes "isHeap (rw_heap w)" and "due t (rw_heap w)" and "fits t w"
  shows "fits t (dispatchOne w)"
  using assms(3) dueRegistered_pop [OF assms(1,2)]
  by (auto simp: fits_def dispatchOne_def enqueue_def dueRegistered_def case_prod_beta)

lemma queued_dispatchOne:
  assumes "isHeap (rw_heap w)" and "due t (rw_heap w)"
  shows "queued k (dispatchOne w) \<le> queued k w"
    and "fits t w \<Longrightarrow> rw_entries w k \<noteq> None \<Longrightarrow> queued k (dispatchOne w) = queued k w"
  using keyed_pop [OF assms(1) due_pop(2) [OF assms], of k] dueRegistered_pop [OF assms]
  by (auto simp: queued_def dispatchOne_def enqueue_def fits_def case_prod_beta)

lemma drainDue_step:
  assumes "isHeap (rw_heap w)" and "\<not> due t (rw_heap w) \<Longrightarrow> P w"
    and "due t (rw_heap w) \<Longrightarrow> P (drainDue t (dispatchOne w))"
  shows "P (drainDue t w)"
  using assms by (subst drainDue.simps) simp

lemma queued_drainDue_le: "isHeap (rw_heap w) \<Longrightarrow> queued k (drainDue t w) \<le> queued k w"
proof (induction t w rule: drainDue.induct)
  case (1 t w)
  show ?case
  proof (rule drainDue_step [OF 1(2)])
    assume d: "due t (rw_heap w)"
    then have "queued k (drainDue t (dispatchOne w)) \<le> queued k (dispatchOne w)"
      using 1 by (simp add: isHeap_pop due_def)
    also have "\<dots> \<le> queued k w" by (rule queued_dispatchOne(1) [OF 1(2) d])
    finally show "queued k (drainDue t (dispatchOne w)) \<le> queued k w" .
  qed simp
qed

lemma queued_drainDue:
  "isHeap (rw_heap w) \<Longrightarrow> fits t w \<Longrightarrow> rw_entries w k \<noteq> None \<Longrightarrow> queued k (drainDue t w) = queued k w"
proof (induction t w rule: drainDue.induct)
  case (1 t w)
  show ?case
  proof (rule drainDue_step [OF 1(2)])
    assume d: "due t (rw_heap w)"
    then have "queued k (drainDue t (dispatchOne w)) = queued k (dispatchOne w)"
      using 1 fits_dispatchOne [OF 1(2) d 1(3)] by (simp add: isHeap_pop due_def)
    also have "\<dots> = queued k w" by (rule queued_dispatchOne(2) [OF 1(2) d 1(3,4)])
    finally show "queued k (drainDue t (dispatchOne w)) = queued k w" .
  qed simp
qed

lemma queued_push [simp]:
  "isHeap (rw_heap w) \<Longrightarrow> queued k (signalScheduler k' t w) = (if k' = k then Suc (queued k w) else queued k w)"
  by (simp add: queued_def keyed_push)

lemma queued_setEntry [simp]: "queued k (setEntry k' e w) = queued k w"
  by (simp add: queued_def)

lemma queued_other [simp]:
  "queued k (recordOutcome k' o1 w) = queued k w" "queued k (deleteEntry k' w) = queued k w"
  by (simp_all add: queued_def)

lemma queued_reschedule [simp]:
  "isHeap (rw_heap w) \<Longrightarrow> queued k (reschedule t k' d w) = (if k' = k then Suc (queued k w) else queued k w)"
  by (auto simp: reschedule_def Let_def split: option.split)

text \<open>No step takes the last chance of a registered workspace, unless the channel overflows.\<close>

definition roomy :: "system \<Rightarrow> event \<Rightarrow> bool" where
  "roomy s ev \<longleftrightarrow> (\<forall>t. ev = Dispatch t \<longrightarrow> fits t (sy_watcher s))"

lemma step_tokens:
  assumes "step s ev s'" and "isHeap (rw_heap (sy_watcher s))" and "roomy s ev"
    and "rw_entries (sy_watcher s) k \<noteq> None"
  shows "tokens k s \<le> tokens k s'"
  using assms(1)
proof (cases rule: step.cases)
  case (Wake t)
  have "fits t ((sy_watcher s)\<lparr>rw_updateCh := False\<rparr>)"
    using assms(3) Wake by (simp add: roomy_def fits_def dueRegistered_def)
  then have "queued k (drainDue t ((sy_watcher s)\<lparr>rw_updateCh := False\<rparr>)) = queued k (sy_watcher s)"
    using queued_drainDue [of "(sy_watcher s)\<lparr>rw_updateCh := False\<rparr>" t k] assms(2,4) by (simp add: queued_def)
  then show ?thesis using Wake by (simp add: tokens_queued)
next
  case (Reply i k' e o1)
  then show ?thesis
    using filter_remove_nth [OF Reply(3), of "\<lambda>p. fst p = k"] by (simp add: tokens_queued)
next
  case (Done i k' d t)
  then show ?thesis
    using filter_remove_nth [OF Done(3), of "\<lambda>p. fst p = k"] assms(2) by (simp add: tokens_queued)
qed (use assms(2,4) in \<open>auto simp: tokens_queued updateEntry_def insertEntry_def\<close>,
    auto simp: queued_def)

lemma step_registered:
  assumes "step s ev s'" and "isHeap (rw_heap (sy_watcher s))"
    and "rw_entries (sy_watcher s) k = None" and "rw_entries (sy_watcher s') k \<noteq> None"
  shows "0 < tokens k s'"
  using assms
  by (cases rule: step.cases)
    (auto simp: tokens_queued updateEntry_def insertEntry_def reschedule_def recordOutcome_def recordSHA_def Let_def
      split: if_splits option.splits poll_outcome.splits)

lemma step_keeps:
  "step s ev s' \<Longrightarrow> ev \<noteq> Remove k \<Longrightarrow> rw_entries (sy_watcher s) k \<noteq> None \<Longrightarrow> rw_entries (sy_watcher s') k \<noteq> None"
  by (erule step.cases)
    (auto simp: updateEntry_def insertEntry_def reschedule_def recordOutcome_def recordSHA_def Let_def
      split: option.split poll_outcome.split)

text \<open>
  No workspace is forgotten. As long as every dispatch finds room in the work channel for the
  due workspaces, in every reachable state each registered workspace has an entry in the
  heap, waits in the channel, or is being polled.
\<close>

theorem registered_workspaces_stay_scheduled:
  assumes "run roomy (initial d n) s" and "rw_entries (sy_watcher s) k \<noteq> None"
  shows "0 < tokens k s"
proof -
  have "isHeap (rw_heap (sy_watcher s)) \<and> (\<forall>k. rw_entries (sy_watcher s) k \<noteq> None \<longrightarrow> 0 < tokens k s)"
    using assms(1)
  proof (rule run_invariant)
    fix s ev s'
    assume inv: "isHeap (rw_heap (sy_watcher s)) \<and> (\<forall>k. rw_entries (sy_watcher s) k \<noteq> None \<longrightarrow> 0 < tokens k s)"
      and r: "roomy s ev" and st: "step s ev s'"
    have "0 < tokens k s'" if "rw_entries (sy_watcher s') k \<noteq> None" for k
      using inv step_tokens [OF st _ r, of k] step_registered [OF st _ _ that]
      by (cases "rw_entries (sy_watcher s) k = None") fastforce+
    with inv step_heap [OF st]
    show "isHeap (rw_heap (sy_watcher s')) \<and> (\<forall>k. rw_entries (sy_watcher s') k \<noteq> None \<longrightarrow> 0 < tokens k s')"
      by blast
  qed (simp add: initial_def newWatcher_def isHeap_def)
  with assms(2) show ?thesis by blast
qed

text \<open>
  Every change of the repository or the revision of a workspace adds a token for good: from
  then on, while the channel has room and the workspace is not removed, there is always one
  more pending poll of it than before the change.
\<close>

theorem change_adds_poll_forever:
  assumes "isHeap (rw_heap (sy_watcher s))" and "rw_entries (sy_watcher s) k = Some e"
    and "url \<noteq> re_url e \<or> ref \<noteq> re_ref e"
    and "step s (Upsert t j k url ref d seen) s1"
    and "run (\<lambda>s ev. roomy s ev \<and> ev \<noteq> Remove k) s1 s2"
  shows "Suc (tokens k s) \<le> tokens k s2"
proof -
  have s1: "s1 = s\<lparr>sy_watcher := updateEntry t k url ref d e (sy_watcher s)\<rparr>"
    using assms(4,2) by (cases rule: step.cases) auto
  then have "tokens k s1 = Suc (tokens k s)" "isHeap (rw_heap (sy_watcher s1))" "rw_entries (sy_watcher s1) k \<noteq> None"
    using assms(1,3) by (auto simp: updateEntry_def tokens_queued heapPush_correct)
  then have "isHeap (rw_heap (sy_watcher s1)) \<and> rw_entries (sy_watcher s1) k \<noteq> None
      \<and> Suc (tokens k s) \<le> tokens k s1" by simp
  with assms(5) have "isHeap (rw_heap (sy_watcher s2)) \<and> rw_entries (sy_watcher s2) k \<noteq> None
      \<and> Suc (tokens k s) \<le> tokens k s2"
  proof (rule run_invariant)
    fix sa ev sb
    assume inv: "isHeap (rw_heap (sy_watcher sa)) \<and> rw_entries (sy_watcher sa) k \<noteq> None \<and> Suc (tokens k s) \<le> tokens k sa"
      and ev: "roomy sa ev \<and> ev \<noteq> Remove k" and st: "step sa ev sb"
    have "tokens k sa \<le> tokens k sb" using step_tokens [OF st] inv ev by blast
    with inv have "Suc (tokens k s) \<le> tokens k sb" by linarith
    with inv ev step_heap [OF st] step_keeps [OF st]
    show "isHeap (rw_heap (sy_watcher sb)) \<and> rw_entries (sy_watcher sb) k \<noteq> None \<and> Suc (tokens k s) \<le> tokens k sb"
      by blast
  qed
  then show ?thesis by blast
qed

section \<open>Overflow of the work channel\<close>

text \<open>Events that cannot register the workspace again with another repository or revision.\<close>

definition quiet :: "nsname \<Rightarrow> system \<Rightarrow> event \<Rightarrow> bool" where
  "quiet k s ev \<longleftrightarrow> ev \<noteq> Remove k \<and>
     (\<forall>t j url ref d seen e. ev = Upsert t j k url ref d seen \<longrightarrow> rw_entries (sy_watcher s) k = Some e \<longrightarrow>
        re_url e = url \<and> re_ref e = ref)"

lemma drainDue_rest:
  "isHeap (rw_heap w) \<Longrightarrow> e \<in> set (rw_heap (drainDue t w)) \<Longrightarrow> e \<in> set (rw_heap w) \<and> t < he_nextPollAt e"
proof (induction t w rule: drainDue.induct)
  case (1 t w)
  show ?case
  proof (cases "due t (rw_heap w)")
    case True
    then have ne: "rw_heap w \<noteq> []" by (simp add: due_def)
    have "e \<in> set (rw_heap (dispatchOne w)) \<and> t < he_nextPollAt e"
      using 1 True isHeap_pop [OF 1(2) ne] by (simp add: drainDue.simps [of t w])
    moreover have "set (rw_heap (dispatchOne w)) \<subseteq> set (rw_heap w)"
      using heapPop_correct(3) [OF 1(2) ne] by (metis dispatchOne_sel(3) set_mset_mset set_mset_add_mset_insert subset_insertI)
    ultimately show ?thesis by blast
  next
    case False
    then have "e \<in> set (rw_heap w)" using 1(3) by (simp add: drainDue.simps [of t w])
    moreover have "t < he_nextPollAt (hd (rw_heap w))" using False calculation by (auto simp: due_def)
    ultimately show ?thesis using poll_queue.none_due [OF 1(2)] by simp
  qed
qed

lemma drainDue_full:
  "length (rw_workCh w) = rw_workQueueSize w \<Longrightarrow> rw_workCh (drainDue t w) = rw_workCh w"
proof (induction t w rule: drainDue.induct)
  case (1 t w)
  then show ?case by (subst drainDue.simps) (auto simp: dispatchOne_def enqueue_def case_prod_beta)
qed

lemma quiet_step:
  assumes "step s ev s'" and "quiet k s ev" and "isHeap (rw_heap (sy_watcher s))"
    and "rw_entries (sy_watcher s) k \<noteq> None" and "tokens k s = 0"
  shows "tokens k s' = 0"
  using assms(1)
proof (cases rule: step.cases)
  case (Wake t)
  have "queued k (drainDue t ((sy_watcher s)\<lparr>rw_updateCh := False\<rparr>)) \<le> queued k (sy_watcher s)"
    using queued_drainDue_le [of "(sy_watcher s)\<lparr>rw_updateCh := False\<rparr>" k t] assms(3) by (simp add: queued_def)
  then show ?thesis using Wake assms(5) by (simp add: tokens_queued)
next
  case (Reply i k' e o1)
  then show ?thesis
    using filter_remove_nth [OF Reply(3), of "\<lambda>p. fst p = k"] assms(5) by (auto simp: tokens_queued split: if_splits)
next
  case (Done i k' d t)
  then show ?thesis
    using filter_remove_nth [OF Done(3), of "\<lambda>p. fst p = k"] assms(3,5) by (auto simp: tokens_queued split: if_splits)
qed (use assms(2-5) in \<open>auto simp: tokens_queued updateEntry_def insertEntry_def quiet_def split: if_splits\<close>,
    auto simp: queued_def split: if_splits)


section \<open>What a dispatch does\<close>

definition dueEntry :: "time \<Rightarrow> watcher \<Rightarrow> heap_entry \<Rightarrow> bool" where
  "dueEntry t w e \<longleftrightarrow> he_nextPollAt e \<le> t \<and> rw_entries w (he_key e) \<noteq> None"

lemma dueEntry_dispatchOne [simp]: "dueEntry t (dispatchOne w) = dueEntry t w"
  by (rule ext) (simp add: dueEntry_def)

lemma fits_dueEntry: "fits t w \<longleftrightarrow> size (filter_mset (dueEntry t w) (mset (rw_heap w))) + length (rw_workCh w) \<le> rw_workQueueSize w"
proof -
  have "size (filter_mset (dueEntry t w) (mset (rw_heap w))) = length (filter (dueEntry t w) (rw_heap w))"
    by (metis mset_filter size_mset)
  then show ?thesis by (simp add: fits_def dueRegistered_def dueEntry_def [abs_def])
qed

lemma drain_exact:
  "isHeap (rw_heap w) \<Longrightarrow> fits t w \<Longrightarrow>
   \<exists>es. sorted (map he_nextPollAt es) \<and> mset es = filter_mset (dueEntry t w) (mset (rw_heap w))
     \<and> rw_workCh (drainDue t w) = rw_workCh w @ map he_key es
     \<and> mset (rw_heap (drainDue t w)) = filter_mset (\<lambda>e. t < he_nextPollAt e) (mset (rw_heap w))"
proof (induction t w rule: drainDue.induct)
  case (1 t w)
  show ?case
  proof (cases "due t (rw_heap w)")
    case False
    then have "t < he_nextPollAt e" if "e \<in># mset (rw_heap w)" for e
      using that poll_queue.none_due [OF 1(2), of t e] by (auto simp: due_def)
    then have "filter (dueEntry t w) (rw_heap w) = []" "filter (\<lambda>e. t < he_nextPollAt e) (rw_heap w) = rw_heap w"
      by (auto simp: dueEntry_def filter_empty_conv filter_id_conv) fastforce
    then have "filter_mset (dueEntry t w) (mset (rw_heap w)) = {#}"
      "filter_mset (\<lambda>e. t < he_nextPollAt e) (mset (rw_heap w)) = mset (rw_heap w)"
      by (metis mset_filter mset.simps(1))+
    with False show ?thesis by (intro exI [of _ "[]"]) (simp add: drainDue.simps [of t w])
  next
    case True
    then have ne: "rw_heap w \<noteq> []" by (simp add: due_def)
    obtain x h where p: "heapPop (rw_heap w) = (x, h)" by (cases "heapPop (rw_heap w)")
    have x: "he_nextPollAt x \<le> t" "mset (rw_heap w) = add_mset x (mset h)"
      using due_pop(1) [OF 1(2) True] heapPop_correct(3) [OF 1(2) ne] p by simp_all
    have least: "he_nextPollAt x \<le> he_nextPollAt e" if "e \<in># mset h" for e
      using poll_queue.pop_least [OF 1(2), of e] p x that by simp
    have "\<exists>es. sorted (map he_nextPollAt es) \<and> mset es = filter_mset (dueEntry t w) (mset h)
       \<and> rw_workCh (drainDue t (dispatchOne w)) = rw_workCh (dispatchOne w) @ map he_key es
       \<and> mset (rw_heap (drainDue t (dispatchOne w))) = filter_mset (\<lambda>e. t < he_nextPollAt e) (mset h)"
      using 1(1) [OF True] isHeap_pop [OF 1(2) ne] fits_dispatchOne [OF 1(2) True 1(3)] p by simp
    then obtain es where es: "sorted (map he_nextPollAt es)" "mset es = filter_mset (dueEntry t w) (mset h)"
      "rw_workCh (drainDue t (dispatchOne w)) = rw_workCh (dispatchOne w) @ map he_key es"
      "mset (rw_heap (drainDue t (dispatchOne w))) = filter_mset (\<lambda>e. t < he_nextPollAt e) (mset h)" by blast
    have "\<forall>e \<in> set es. he_nextPollAt x \<le> he_nextPollAt e"
      using es(2) least by (metis filter_mset_eq_conv mset_subset_eqD set_mset_mset multiset_filter_subset)
    then have s: "sorted (map he_nextPollAt (x # es))" using es(1) by simp
    show ?thesis
    proof (cases "rw_entries w (he_key x) = None")
      case True
      then have "rw_workCh (dispatchOne w) = rw_workCh w" "\<not> dueEntry t w x"
        using p by (simp_all add: dispatchOne_def enqueue_def dueEntry_def)
      with es x \<open>due t (rw_heap w)\<close> show ?thesis
        by (intro exI [of _ es]) (simp add: drainDue.simps [of t w])
    next
      case False
      then have dx: "dueEntry t w x" using x(1) by (simp add: dueEntry_def)
      then have "length (rw_workCh w) < rw_workQueueSize w" using 1(3) x(2) by (simp add: fits_dueEntry)
      then have "rw_workCh (dispatchOne w) = rw_workCh w @ [he_key x]"
        using p False by (simp add: dispatchOne_def enqueue_def)
      with es x dx s \<open>due t (rw_heap w)\<close> show ?thesis
        by (intro exI [of _ "x # es"]) (simp add: drainDue.simps [of t w])
    qed
  qed
qed


section \<open>Polls\<close>

text \<open>
  A patch of a poll sets one annotation of a workspace that was just read and does not wait
  for a decision; it is confirmed when the server answered it without error.
\<close>

definition detectedPatch :: "env \<Rightarrow> string \<Rightarrow> call \<Rightarrow> bool" where
  "detectedPatch E sha c \<longleftrightarrow> (\<exists>b. c = C_PatchWorkspace b
       (set_annots ((ws_annots b)(DetectedRevisionAnnotation \<mapsto> sha)) b)
     \<and> \<not> IsApprovalPending (Some b) \<and> (\<exists>h key. ev_getWorkspace E h key = Inr b))"

definition confirmedPatch :: "env \<Rightarrow> string \<Rightarrow> call \<Rightarrow> bool" where
  "confirmedPatch E sha c \<longleftrightarrow> detectedPatch E sha c
     \<and> (\<exists>b a h p. c = C_PatchWorkspace b a \<and> ev_patchWorkspace E h b a = Inr p)"

definition isPatch :: "call \<Rightarrow> bool" where
  "isPatch c \<longleftrightarrow> (\<exists>b a. c = C_PatchWorkspace b a)"

definition explained :: "env \<Rightarrow> string \<Rightarrow> poll_outcome \<Rightarrow> call list \<Rightarrow> bool" where
  "explained E lastSHA o1 cs \<longleftrightarrow> (\<forall>c \<in> set cs. isPatch c \<longrightarrow> (\<exists>sha. detectedPatch E sha c))
     \<and> (case o1 of PollSeeded s \<Rightarrow> lastSHA = [] | PollChanged s \<Rightarrow> list_ex (confirmedPatch E s) cs | _ \<Rightarrow> True)"

lemma isPatch_simps [simp]:
  "\<not> isPatch C_Now" "\<not> isPatch (C_Metric a b c)" "\<not> isPatch (C_GetWorkspace k)" "isPatch (C_PatchWorkspace x y)"
  "\<not> isPatch (C_ListRemote u)" "\<not> isPatch (C_RunGit args)"
  by (auto simp: isPatch_def)

lemma explained_after:
  "list_all (\<lambda>c. \<not> isPatch c) ds \<Longrightarrow> explained E lastSHA o1 cs \<Longrightarrow> explained E lastSHA o1 (ds @ cs)"
  by (auto simp: explained_def list_all_iff split: poll_outcome.splits)

lemma emits_timedResolve: "emits (\<lambda>c. \<not> isPatch c) (timedResolve E key url ref)"
  unfolding timedResolve_def resolveRef_def ListRemote_def call_defs by (auto intro!: emits_intros)

lemma wp_patchDetected:
  "wp (patchDetected E key sha) (\<lambda>o1 h'. \<exists>cs. h' = h @ cs \<and> explained E lastSHA o1 cs) h"
  unfolding patchDetected_def pollMetric_def call_defs
  by (auto simp: wp_simps explained_def confirmedPatch_def detectedPatch_def split: sum.split)

lemma wp_actOnSHA:
  "wp (actOnSHA E key lastSHA r) (\<lambda>o1 h'. \<exists>cs. h' = h @ cs \<and> explained E lastSHA o1 cs) h"
  unfolding actOnSHA_def pollMetric_def metric_def
  by (auto simp: wp_simps explained_def wp_patchDetected [unfolded explained_def] split: sum.split)

lemma wp_queryRemote:
  "wp (queryRemote E key url ref lastSHA) (\<lambda>o1 h'. \<exists>cs. h' = h @ cs \<and> explained E lastSHA o1 cs) h"
  unfolding queryRemote_def wp_bind
proof (rule wp_mono [OF emits_wp [OF emits_timedResolve]], clarify)
  fix r ds
  assume d: "list_all (\<lambda>c. \<not> isPatch c) ds"
  show "wp (actOnSHA E key lastSHA r) (\<lambda>o1 h'. \<exists>cs. h' = h @ cs \<and> explained E lastSHA o1 cs) (h @ ds)"
    by (rule wp_mono [OF wp_actOnSHA]) (use explained_after [OF d] in fastforce)
qed

lemma recordOutcome_new:
  "rw_entries w key = Some e \<Longrightarrow> rw_entries (reschedule t key d (recordOutcome key o1 w)) key = Some e' \<Longrightarrow>
   re_lastSHA e' \<noteq> re_lastSHA e \<Longrightarrow> o1 = PollChanged (re_lastSHA e') \<or> o1 = PollSeeded (re_lastSHA e')"
  by (auto simp: reschedule_def Let_def recordOutcome_def recordSHA_def split: poll_outcome.splits)


text \<open>
  Every poll plans the next one: the heap receives one entry for the workspace, not later
  than its poll interval from now, and at most thirty seconds from now when the poll failed.
\<close>

theorem poll_reschedules:
  assumes "rw_entries w key = Some e"
  shows "\<exists>o1 t. rw_heap (result_of (pollRemote E w key) h) =
      heapPush \<lparr>he_key = key, he_nextPollAt = t + pollDelay (re_interval e) o1\<rparr> (rw_heap w)
    \<and> pollDelay (re_interval e) o1 \<le> re_interval e
    \<and> (o1 = PollFailed \<longrightarrow> pollDelay (re_interval e) o1 \<le> 30000000000)"
proof -
  have "wp (pollRemote E w key) (\<lambda>w' h'. \<exists>o1 t. w' = reschedule t key (pollDelay (re_interval e) o1)
      (recordOutcome key o1 w)) h"
    unfolding pollRemote_def using assms
    by (simp, subst wp_bind, intro wp_all [of _ "queryRemote E key u r l" for u r l]) (auto simp: wp_simps now_def)
  then obtain o1 t where "result_of (pollRemote E w key) h =
      reschedule t key (pollDelay (re_interval e) o1) (recordOutcome key o1 w)" by (auto simp: wp_result)
  then show ?thesis
    by (intro exI [of _ o1] exI [of _ t])
      (auto simp: reschedule_def Let_def pollDelay_def maxRetryBackoff_def split: option.split poll_outcome.split)
qed

section \<open>Samples\<close>

definition keyA :: nsname where "keyA = \<lparr>nn_namespace = ''default'', nn_name = ''a''\<rparr>"

definition keyB :: nsname where "keyB = \<lparr>nn_namespace = ''default'', nn_name = ''b''\<rparr>"

definition sampleEntry :: registry_entry where
  "sampleEntry = \<lparr>re_url = ''https://git.example/a'', re_ref = ''main'', re_interval = 60000000000,
     re_nextPollAt = 5, re_lastSHA = ''old''\<rparr>"

lemma sampleEntry_sel [simp]:
  "re_url sampleEntry = ''https://git.example/a''" "re_ref sampleEntry = ''main''"
  "re_interval sampleEntry = 60000000000" "re_lastSHA sampleEntry = ''old''"
  unfolding sampleEntry_def by (rule registry_entry.select_convs)+

definition registeredA :: system where
  "registeredA = (initial 60 1)\<lparr>sy_watcher :=
     insertEntry 0 5 keyA ''https://git.example/a'' ''main'' 60000000000 ''old'' (newWatcher 60 1)\<rparr>"

text \<open>A single worker slot taken by another workspace while the only entry of the first is due.\<close>

definition fullSystem :: system where
  "fullSystem = registeredA\<lparr>sy_watcher := (sy_watcher registeredA)\<lparr>rw_workCh := [keyB]\<rparr>\<rparr>"

lemma keys_differ [simp]: "keyA \<noteq> keyB" "keyB \<noteq> keyA"
  by (simp_all add: keyA_def keyB_def)

lemma siftUp_0 [simp]: "siftUp h 0 = h"
  by (subst siftUp.simps) simp

lemma registeredA_sel [simp]:
  "rw_heap (sy_watcher registeredA) = [\<lparr>he_key = keyA, he_nextPollAt = 5\<rparr>]"
  "rw_entries (sy_watcher registeredA) = [keyA \<mapsto> sampleEntry]" "rw_workCh (sy_watcher registeredA) = []"
  "rw_workQueueSize (sy_watcher registeredA) = 1" "sy_polling registeredA = []" "sy_finishing registeredA = []"
  by (simp_all add: registeredA_def insertEntry_def newWatcher_def heapPush_def initial_def sampleEntry_def)

lemma isHeap_single [simp]: "isHeap [x]"
  by (simp add: isHeap_def)

lemma run_registeredA: "run roomy (initial 60 1) registeredA"
proof -
  have "step (initial 60 1) (Upsert 0 5 keyA ''https://git.example/a'' ''main'' 60000000000 ''old'') registeredA"
    unfolding registeredA_def using step.Insert [of "initial 60 1" keyA 60000000000 5 0]
    by (simp add: initial_def newWatcher_def)
  then show ?thesis by (rule run.more [OF run.refl, rotated]) (simp add: roomy_def)
qed

theorem watcher_structures_sound_witness:
  "isHeap (rw_heap (sy_watcher registeredA))
   \<and> length (rw_workCh (sy_watcher registeredA)) \<le> rw_workQueueSize (sy_watcher registeredA)"
proof (rule watcher_structures_sound [of 60 1])
  show "run (\<lambda>s ev. True) (initial 60 1) registeredA"
    using run_registeredA by (induction rule: run.induct) (auto intro: run.intros)
qed

theorem registered_workspaces_stay_scheduled_witness: "0 < tokens keyA registeredA"
  by (rule registered_workspaces_stay_scheduled [OF run_registeredA]) simp

theorem change_adds_poll_forever_witness:
  "Suc (tokens keyA registeredA) \<le> tokens keyA (registeredA\<lparr>sy_watcher :=
     updateEntry 9 keyA ''https://git.example/a'' ''dev'' 60000000000 sampleEntry (sy_watcher registeredA)\<rparr>)"
  by (rule change_adds_poll_forever [where e = sampleEntry, OF _ _ _ step.Update run.refl]) simp_all



text \<open>A remote whose branch has moved, and a server that knows the workspace and accepts the patch.\<close>

definition movedEnv :: env where
  "movedEnv = sampleEnv\<lparr>ev_listRemote := (\<lambda>h u. Inr [(''new'', ''refs/heads/main'')]),
     ev_getWorkspace := (\<lambda>h k. Inr sampleWorkspace)\<rparr>"

lemma movedEnv_simps [simp]:
  "ev_listRemote movedEnv = (\<lambda>h u. Inr [(''new'', ''refs/heads/main'')])"
  "ev_getWorkspace movedEnv = (\<lambda>h k. Inr sampleWorkspace)" "ev_patchWorkspace movedEnv = (\<lambda>h b. Inr)"
  "ev_now movedEnv = (\<lambda>h. 1000000000000)" "ModeForURL movedEnv u = GoGit"
  by (simp_all add: movedEnv_def ModeForURL_def Scheme_def knownGoGitSchemes_def toLower_def toLowerChar_def)

lemma resolve_main: "ResolveRef [\<lparr>gr_hash = ''new'', gr_name = ''refs/heads/main''\<rparr>] ''main'' = Some ''new''"
  by (simp add: ResolveRef_def lookupRef_def)

lemma sample_not_parked: "\<not> IsApprovalPending (Some sampleWorkspace)"
  by (simp add: IsApprovalPending_def sample_defs)

lemma movedEnv_poll:
  "wp (pollRemote movedEnv (sy_watcher registeredA) keyA)
     (\<lambda>w' h'. rw_entries w' keyA = Some (sampleEntry\<lparr>re_lastSHA := ''new'',
        re_nextPollAt := 1060000000000\<rparr>)) []"
  by (simp add: pollRemote_def queryRemote_def timedResolve_def resolveRef_def actOnSHA_def patchDetected_def
      pollMetric_def call_defs wp_simps resolve_main sample_not_parked reschedule_def Let_def recordOutcome_def
      recordSHA_def pollDelay_def)


theorem poll_reschedules_witness:
  "\<exists>t. rw_heap (result_of (pollRemote movedEnv (sy_watcher registeredA) keyA) []) =
     heapPush \<lparr>he_key = keyA, he_nextPollAt = t\<rparr> [\<lparr>he_key = keyA, he_nextPollAt = 5\<rparr>]"
  using poll_reschedules [of "sy_watcher registeredA" keyA sampleEntry movedEnv "[]"] by auto

end
