(* ===== verification/Ref_Runtime.thy ===== *)
theory Ref_Runtime
  imports Ref_Steps
begin

text \<open>
  The goroutines of the reference watcher at the grain of their locks:
  \<open>src/internal/controller/refwatcher/refwatcher_controller.go\<close>, \<open>Start\<close>, \<open>dispatchDue\<close>,
  \<open>worker\<close>, and the locked sections of \<open>upsertEntry\<close>, \<open>removeEntry\<close>, \<open>pollRemote\<close> and
  \<open>reschedule\<close>. Every goroutine has a program counter. A section that takes one lock and
  blocks on nothing while it holds it is one step, enabled when the lock is free; the two
  sections that take a second lock are split there: \<open>upsertEntry\<close> asks for the heap's lock
  while it holds the registry's, \<open>dispatchDue\<close> asks for the registry's while it holds the
  heap's. So which lock is held can be read off the program counters. A send on the closed
  work channel panics, also in a \<open>select\<close> with a default, and ends the process.
\<close>

datatype sched_pc =
    Looping
  | Arming time duration
  | Waiting time time duration
  | Woken
  | Stamped time
  | Dispatching time
  | Checking time nsname
  | SchedReturned
  | SchedPanicked

datatype worker_pc =
    WIdle
  | WTaken nsname
  | WPolling nsname registry_entry
  | WFinishing nsname duration
  | WPushing nsname time
  | WNotifying
  | WReturned

datatype recon_pc =
    RIdle
  | RSignal nsname time
  | RNotify

text \<open>
  The last component is a ghost: the keys that met a full channel, which \<open>dispatchDue\<close> only
  logs.
\<close>

record runtime =
  rt_watcher :: watcher
  rt_clock :: time
  rt_cancelled :: bool
  rt_closed :: bool
  rt_sched :: sched_pc
  rt_workers :: "worker_pc list"
  rt_recon :: recon_pc
  rt_dropped :: "nsname set"

definition startRuntime :: "duration \<Rightarrow> nat \<Rightarrow> nat \<Rightarrow> time \<Rightarrow> runtime" where
  "startRuntime defaultPollInterval workerCount workQueueSize t =
     \<lparr>rt_watcher = newWatcher defaultPollInterval workQueueSize, rt_clock = t, rt_cancelled = False, rt_closed = False,
      rt_sched = Looping, rt_workers = replicate workerCount WIdle, rt_recon = RIdle, rt_dropped = {}\<rparr>"

definition registryHeld :: "runtime \<Rightarrow> bool" where
  "registryHeld s \<longleftrightarrow> rt_recon s \<noteq> RIdle"

definition heapHeld :: "runtime \<Rightarrow> bool" where
  "heapHeld s \<longleftrightarrow> (case rt_sched s of Dispatching t \<Rightarrow> True | Checking t k \<Rightarrow> True | _ \<Rightarrow> False)"

definition pushEntry :: "nsname \<Rightarrow> time \<Rightarrow> watcher \<Rightarrow> watcher" where
  "pushEntry key next w = w\<lparr>rw_heap := heapPush \<lparr>he_key = key, he_nextPollAt = next\<rparr> (rw_heap w)\<rparr>"

definition popEntry :: "watcher \<Rightarrow> nsname \<times> watcher" where
  "popEntry w = (case heapPop (rw_heap w) of (entry, h) \<Rightarrow> (he_key entry, w\<lparr>rw_heap := h\<rparr>))"

definition changedEntry :: "time \<Rightarrow> string \<Rightarrow> string \<Rightarrow> duration \<Rightarrow> registry_entry \<Rightarrow> registry_entry" where
  "changedEntry t url ref interval e = e\<lparr>re_url := url, re_ref := ref, re_interval := interval, re_nextPollAt := t\<rparr>"

definition freshEntry :: "time \<Rightarrow> string \<Rightarrow> string \<Rightarrow> duration \<Rightarrow> string \<Rightarrow> registry_entry" where
  "freshEntry next url ref interval observedRevision =
     \<lparr>re_url = url, re_ref = ref, re_interval = interval, re_nextPollAt = next, re_lastSHA = observedRevision\<rparr>"

definition postpone :: "nsname \<Rightarrow> time \<Rightarrow> watcher \<Rightarrow> watcher" where
  "postpone key next w =
     (case rw_entries w key of None \<Rightarrow> w | Some e \<Rightarrow> setEntry key (e\<lparr>re_nextPollAt := next\<rparr>) w)"

text \<open>The split sections compose to the operations of the watcher.\<close>

lemma signalScheduler_split: "signalScheduler key next w = notifyScheduler (pushEntry key next w)"
  by (simp add: signalScheduler_def pushEntry_def)

lemma dispatchOne_split: "dispatchOne w = (case popEntry w of (key, w1) \<Rightarrow> enqueue key w1)"
  by (simp add: dispatchOne_def popEntry_def split: prod.split)

lemma updateEntry_split:
  "re_url e \<noteq> url \<or> re_ref e \<noteq> ref \<Longrightarrow>
   updateEntry t k url ref d e w = notifyScheduler (pushEntry k t (setEntry k (changedEntry t url ref d e) w))"
  by (auto simp: updateEntry_def signalScheduler_split changedEntry_def)

lemma insertEntry_split:
  "insertEntry t j k url ref d seen w
     = notifyScheduler (pushEntry k (t + j) (setEntry k (freshEntry (t + j) url ref d seen) w))"
  by (simp add: insertEntry_def signalScheduler_split freshEntry_def)

lemma reschedule_split: "reschedule t k d w = notifyScheduler (pushEntry k (t + d) (postpone k (t + d) w))"
  by (simp add: reschedule_def signalScheduler_split postpone_def Let_def)

section \<open>Steps\<close>

datatype actor =
    Sched
  | Worker nat
  | Recon
  | Main
  | Clock

inductive moves :: "actor \<Rightarrow> runtime \<Rightarrow> runtime \<Rightarrow> bool" where
  Tick: "rt_clock s \<le> t \<Longrightarrow> moves Clock s (s\<lparr>rt_clock := t\<rparr>)"
| Cancel: "moves Main s (s\<lparr>rt_cancelled := True\<rparr>)"
| Close: "rt_cancelled s \<Longrightarrow> \<not> rt_closed s \<Longrightarrow> moves Main s (s\<lparr>rt_closed := True\<rparr>)"
\<comment> \<open>the scheduler's loop\<close>
| Look: "rt_sched s = Looping \<Longrightarrow>
    moves Sched s (s\<lparr>rt_sched := Arming (rt_clock s) (schedulerSleep (rt_clock s) (rt_watcher s))\<rparr>)"
| Arm: "rt_sched s = Arming l d \<Longrightarrow> moves Sched s (s\<lparr>rt_sched := Waiting l (rt_clock s) d\<rparr>)"
| Stop: "rt_sched s = Waiting l a d \<Longrightarrow> rt_cancelled s \<Longrightarrow> moves Sched s (s\<lparr>rt_sched := SchedReturned\<rparr>)"
| WakeUpdate: "rt_sched s = Waiting l a d \<Longrightarrow> rw_updateCh (rt_watcher s) \<Longrightarrow>
    moves Sched s (s\<lparr>rt_sched := Woken, rt_watcher := receiveUpdate (rt_watcher s)\<rparr>)"
| WakeTimer: "rt_sched s = Waiting l a d \<Longrightarrow> a + d \<le> rt_clock s \<Longrightarrow> moves Sched s (s\<lparr>rt_sched := Woken\<rparr>)"
\<comment> \<open>a dispatch\<close>
| Stamp: "rt_sched s = Woken \<Longrightarrow> moves Sched s (s\<lparr>rt_sched := Stamped (rt_clock s)\<rparr>)"
| LockHeap: "rt_sched s = Stamped t \<Longrightarrow> moves Sched s (s\<lparr>rt_sched := Dispatching t\<rparr>)"
| Pop: "rt_sched s = Dispatching t \<Longrightarrow> due t (rw_heap (rt_watcher s)) \<Longrightarrow> popEntry (rt_watcher s) = (k, w) \<Longrightarrow>
    moves Sched s (s\<lparr>rt_sched := Checking t k, rt_watcher := w\<rparr>)"
| Discard: "rt_sched s = Checking t k \<Longrightarrow> \<not> registryHeld s \<Longrightarrow> rw_entries (rt_watcher s) k = None \<Longrightarrow>
    moves Sched s (s\<lparr>rt_sched := Dispatching t\<rparr>)"
| Hand: "rt_sched s = Checking t k \<Longrightarrow> \<not> registryHeld s \<Longrightarrow> rw_entries (rt_watcher s) k \<noteq> None \<Longrightarrow> \<not> rt_closed s \<Longrightarrow>
    length (rw_workCh (rt_watcher s)) < rw_workQueueSize (rt_watcher s) \<Longrightarrow>
    moves Sched s (s\<lparr>rt_sched := Dispatching t, rt_watcher := trySendWork k (rt_watcher s)\<rparr>)"
| Drop: "rt_sched s = Checking t k \<Longrightarrow> \<not> registryHeld s \<Longrightarrow> rw_entries (rt_watcher s) k \<noteq> None \<Longrightarrow> \<not> rt_closed s \<Longrightarrow>
    \<not> length (rw_workCh (rt_watcher s)) < rw_workQueueSize (rt_watcher s) \<Longrightarrow>
    moves Sched s (s\<lparr>rt_sched := Dispatching t, rt_dropped := insert k (rt_dropped s)\<rparr>)"
| Panic: "rt_sched s = Checking t k \<Longrightarrow> \<not> registryHeld s \<Longrightarrow> rw_entries (rt_watcher s) k \<noteq> None \<Longrightarrow> rt_closed s \<Longrightarrow>
    moves Sched s (s\<lparr>rt_sched := SchedPanicked\<rparr>)"
| Unlock: "rt_sched s = Dispatching t \<Longrightarrow> \<not> due t (rw_heap (rt_watcher s)) \<Longrightarrow> moves Sched s (s\<lparr>rt_sched := Looping\<rparr>)"
\<comment> \<open>a reconcile\<close>
| Keep: "rt_recon s = RIdle \<Longrightarrow> rw_entries (rt_watcher s) k = Some e \<Longrightarrow> re_url e = url \<Longrightarrow> re_ref e = ref \<Longrightarrow>
    moves Recon s (s\<lparr>rt_watcher := updateEntry (rt_clock s) k url ref d e (rt_watcher s)\<rparr>)"
| Change: "rt_recon s = RIdle \<Longrightarrow> rw_entries (rt_watcher s) k = Some e \<Longrightarrow> re_url e \<noteq> url \<or> re_ref e \<noteq> ref \<Longrightarrow>
    moves Recon s (s\<lparr>rt_recon := RSignal k (rt_clock s),
      rt_watcher := setEntry k (changedEntry (rt_clock s) url ref d e) (rt_watcher s)\<rparr>)"
| Register: "rt_recon s = RIdle \<Longrightarrow> rw_entries (rt_watcher s) k = None \<Longrightarrow> 0 \<le> j \<Longrightarrow> j < d \<Longrightarrow>
    moves Recon s (s\<lparr>rt_recon := RSignal k (rt_clock s + j),
      rt_watcher := setEntry k (freshEntry (rt_clock s + j) url ref d seen) (rt_watcher s)\<rparr>)"
| Unregister: "rt_recon s = RIdle \<Longrightarrow> rw_entries (rt_watcher s) k \<noteq> None \<Longrightarrow>
    moves Recon s (s\<lparr>rt_recon := RNotify, rt_watcher := (rt_watcher s)\<lparr>rw_entries := (rw_entries (rt_watcher s))(k := None)\<rparr>\<rparr>)"
| ReconPush: "rt_recon s = RSignal k next \<Longrightarrow> \<not> heapHeld s \<Longrightarrow>
    moves Recon s (s\<lparr>rt_recon := RNotify, rt_watcher := pushEntry k next (rt_watcher s)\<rparr>)"
| ReconNotify: "rt_recon s = RNotify \<Longrightarrow>
    moves Recon s (s\<lparr>rt_recon := RIdle, rt_watcher := notifyScheduler (rt_watcher s)\<rparr>)"
\<comment> \<open>a worker\<close>
| Receive: "i < length (rt_workers s) \<Longrightarrow> rt_workers s ! i = WIdle \<Longrightarrow> rw_workCh (rt_watcher s) = k # ks \<Longrightarrow>
    moves (Worker i) s (s\<lparr>rt_watcher := receiveWork (rt_watcher s),
      rt_workers := (rt_workers s)[i := if rt_cancelled s then WReturned else WTaken k]\<rparr>)"
| Range: "i < length (rt_workers s) \<Longrightarrow> rt_workers s ! i = WIdle \<Longrightarrow> rw_workCh (rt_watcher s) = [] \<Longrightarrow> rt_closed s \<Longrightarrow>
    moves (Worker i) s (s\<lparr>rt_workers := (rt_workers s)[i := WReturned]\<rparr>)"
| Begin: "i < length (rt_workers s) \<Longrightarrow> rt_workers s ! i = WTaken k \<Longrightarrow> \<not> registryHeld s \<Longrightarrow>
    moves (Worker i) s (s\<lparr>rt_workers := (rt_workers s)[i :=
      case rw_entries (rt_watcher s) k of None \<Rightarrow> WIdle | Some e \<Rightarrow> WPolling k e]\<rparr>)"
| Answered: "i < length (rt_workers s) \<Longrightarrow> rt_workers s ! i = WPolling k e \<Longrightarrow>
    \<not> registryHeld s \<or> (\<forall>sha. out \<noteq> PollSeeded sha \<and> out \<noteq> PollChanged sha) \<Longrightarrow>
    moves (Worker i) s (s\<lparr>rt_watcher := recordOutcome k out (rt_watcher s),
      rt_workers := (rt_workers s)[i := WFinishing k (pollDelay (re_interval e) out)]\<rparr>)"
| Postpone: "i < length (rt_workers s) \<Longrightarrow> rt_workers s ! i = WFinishing k d \<Longrightarrow> \<not> registryHeld s \<Longrightarrow>
    moves (Worker i) s (s\<lparr>rt_watcher := postpone k (rt_clock s + d) (rt_watcher s),
      rt_workers := (rt_workers s)[i := WPushing k (rt_clock s + d)]\<rparr>)"
| WorkerPush: "i < length (rt_workers s) \<Longrightarrow> rt_workers s ! i = WPushing k next \<Longrightarrow> \<not> heapHeld s \<Longrightarrow>
    moves (Worker i) s (s\<lparr>rt_watcher := pushEntry k next (rt_watcher s),
      rt_workers := (rt_workers s)[i := WNotifying]\<rparr>)"
| WorkerNotify: "i < length (rt_workers s) \<Longrightarrow> rt_workers s ! i = WNotifying \<Longrightarrow>
    moves (Worker i) s (s\<lparr>rt_watcher := notifyScheduler (rt_watcher s), rt_workers := (rt_workers s)[i := WIdle]\<rparr>)"

text \<open>A panic ends the process: no goroutine moves any more.\<close>

inductive runs :: "runtime \<Rightarrow> runtime \<Rightarrow> bool" where
  rest: "runs s s"
| move: "runs s s' \<Longrightarrow> rt_sched s' \<noteq> SchedPanicked \<Longrightarrow> moves a s' s'' \<Longrightarrow> runs s s''"

lemma runs_invariant:
  assumes "runs s s'" and "I s" and "\<And>a s s'. I s \<Longrightarrow> moves a s s' \<Longrightarrow> I s'"
  shows "I s'"
  using assms by (induction rule: runs.induct) blast+

lemma runs_trans: "runs s' s'' \<Longrightarrow> runs s s' \<Longrightarrow> runs s s''"
  by (induction rule: runs.induct) (auto intro: runs.move)

section \<open>The lock order\<close>

text \<open>
  The scheduler holds the heap and waits for the registry, the reconcile holds the registry
  and waits for the heap.
\<close>

definition deadlocked :: "runtime \<Rightarrow> bool" where
  "deadlocked s \<longleftrightarrow> (case (rt_sched s, rt_recon s) of (Checking t k, RSignal k' next) \<Rightarrow> True | _ \<Rightarrow> False)"

lemma deadlockedE:
  assumes "deadlocked s"
  obtains t k k' n where "rt_sched s = Checking t k" and "rt_recon s = RSignal k' n"
  using assms by (auto simp: deadlocked_def split: sched_pc.splits recon_pc.splits)

text \<open>What a state has in common with a deadlocked one it comes from.\<close>

definition frozen :: "runtime \<Rightarrow> runtime \<Rightarrow> bool" where
  "frozen s s' \<longleftrightarrow> rt_sched s' = rt_sched s \<and> rt_recon s' = rt_recon s
     \<and> rw_heap (rt_watcher s') = rw_heap (rt_watcher s) \<and> rw_entries (rt_watcher s') = rw_entries (rt_watcher s)
     \<and> suffix (rw_workCh (rt_watcher s')) (rw_workCh (rt_watcher s))"

lemma frozen_refl: "frozen s s"
  by (simp add: frozen_def)

lemma frozen_trans: "frozen s1 s2 \<Longrightarrow> frozen s2 s3 \<Longrightarrow> frozen s1 s3"
  by (auto simp: frozen_def intro: suffix_order.order_trans)

lemma recordOutcome_unchanged:
  "\<forall>sha. out \<noteq> PollSeeded sha \<and> out \<noteq> PollChanged sha \<Longrightarrow> recordOutcome k out w = w"
  by (cases out) (simp_all add: recordOutcome_def)

lemma frozen_step: "moves a s s' \<Longrightarrow> deadlocked s \<Longrightarrow> frozen s s'"
  by (erule deadlockedE, erule moves.cases)
    (auto simp: frozen_def registryHeld_def heapHeld_def recordOutcome_unchanged receiveWork_def notifyScheduler_def
      suffix_def)

lemma frozen_deadlocked: "frozen s s' \<Longrightarrow> deadlocked s \<Longrightarrow> deadlocked s'"
  by (simp add: frozen_def deadlocked_def)

lemma deadlock_frozen: "runs s s' \<Longrightarrow> deadlocked s \<Longrightarrow> frozen s s'"
  by (induction rule: runs.induct) (auto intro: frozen_refl frozen_trans frozen_step frozen_deadlocked)

lemma dispatch_meets_register:
  assumes "rt_sched s = Dispatching t" and "due t (rw_heap (rt_watcher s))" and "rt_recon s = RIdle"
    and "rw_entries (rt_watcher s) k = None"
  shows "\<exists>s2. runs s s2 \<and> deadlocked s2"
proof -
  obtain k' w where p: "popEntry (rt_watcher s) = (k', w)" by fastforce
  then have e: "rw_entries w = rw_entries (rt_watcher s)" by (auto simp: popEntry_def split: prod.splits)
  let ?s1 = "s\<lparr>rt_sched := Checking t k', rt_watcher := w\<rparr>"
  let ?s2 = "?s1\<lparr>rt_recon := RSignal k (rt_clock ?s1 + 0),
    rt_watcher := setEntry k (freshEntry (rt_clock ?s1 + 0) [] [] 1 []) (rt_watcher ?s1)\<rparr>"
  have "moves Sched s ?s1" using assms(1,2) p by (rule moves.Pop)
  moreover have "moves Recon ?s1 ?s2" by (rule moves.Register) (use assms(3,4) e in simp_all)
  ultimately have "runs s ?s2" using assms(1) by (intro runs.move [OF runs.move [OF runs.rest]]) auto
  moreover have "deadlocked ?s2" by (simp add: deadlocked_def)
  ultimately show ?thesis by blast
qed

text \<open>
  C10. Registering a workspace during a dispatch can stop the watcher for good. While the scheduler
  dispatches and an entry is due, a reconcile that registers a workspace can take the registry's
  lock between the scheduler's pop and its look at the registry; then both wait for each other.
  Nothing ends this: from there on no entry leaves the heap, no workspace is registered or
  removed, no key enters the work channel and neither goroutine moves.
\<close>

theorem upsert_during_dispatch_deadlocks:
  assumes "rt_sched s = Dispatching t" and "due t (rw_heap (rt_watcher s))" and "rt_recon s = RIdle"
    and "rw_entries (rt_watcher s) k = None"
  shows "\<exists>s2. runs s s2 \<and> deadlocked s2 \<and> (\<forall>s3. runs s2 s3 \<longrightarrow> frozen s2 s3)"
  using dispatch_meets_register [OF assms] deadlock_frozen by blast

text \<open>
  The inversion is the only way to get stuck: in every other state of a process that has not
  panicked, the goroutine that holds a lock has a step.
\<close>

theorem lock_holders_proceed:
  assumes "\<not> deadlocked s" and "rt_sched s \<noteq> SchedPanicked"
  shows "(registryHeld s \<longrightarrow> \<not> heapHeld s \<longrightarrow> (\<exists>s'. moves Recon s s'))
    \<and> (heapHeld s \<longrightarrow> (\<exists>s'. moves Sched s s') \<or> (\<exists>s'. moves Recon s s'))"
proof (intro conjI impI)
  assume "registryHeld s" "\<not> heapHeld s"
  then show "\<exists>s'. moves Recon s s'"
    by (cases "rt_recon s") (auto simp: registryHeld_def intro: moves.ReconPush moves.ReconNotify)
next
  assume h: "heapHeld s"
  show "(\<exists>s'. moves Sched s s') \<or> (\<exists>s'. moves Recon s s')"
  proof (cases "rt_sched s")
    case (Dispatching t)
    obtain k w where "popEntry (rt_watcher s) = (k, w)" by fastforce
    then show ?thesis using Dispatching moves.Pop [of s t k w] moves.Unlock [of s t] by blast
  next
    case (Checking t k)
    then have "rt_recon s = RIdle \<or> rt_recon s = RNotify"
      using assms(1) by (auto simp: deadlocked_def split: recon_pc.splits)
    then show ?thesis
      using Checking moves.Discard [of s t k] moves.Hand [of s t k] moves.Drop [of s t k] moves.Panic [of s t k] moves.ReconNotify [of s]
      by (auto simp: registryHeld_def)
  qed (use h in \<open>simp_all add: heapHeld_def\<close>)
qed

section \<open>Waking up\<close>

definition pendingNotify :: "runtime \<Rightarrow> bool" where
  "pendingNotify s \<longleftrightarrow> rt_recon s = RNotify \<or> WNotifying \<in> set (rt_workers s)"

definition noLater :: "runtime \<Rightarrow> time \<Rightarrow> duration \<Rightarrow> bool" where
  "noLater s l d \<longleftrightarrow> rw_updateCh (rt_watcher s) \<or> pendingNotify s
     \<or> (\<forall>e \<in> set (rw_heap (rt_watcher s)). l + d \<le> max l (he_nextPollAt e))"

definition sleepOK :: "runtime \<Rightarrow> bool" where
  "sleepOK s \<longleftrightarrow> isHeap (rw_heap (rt_watcher s))
     \<and> (case rt_sched s of Arming l d \<Rightarrow> noLater s l d | Waiting l a d \<Rightarrow> noLater s l d | _ \<Rightarrow> True)"

lemma schedulerSleep_noLater:
  assumes "isHeap (rw_heap w)" and "e \<in> set (rw_heap w)"
  shows "t + schedulerSleep t w \<le> max t (he_nextPollAt e)"
proof -
  have "he_nextPollAt (hd (rw_heap w)) \<le> he_nextPollAt e"
    using poll_queue.front_least [OF assms(1), of e] assms(2) by simp
  then show ?thesis using assms(2) by (auto simp: schedulerSleep_def)
qed

lemma set_update_other: "i < length xs \<Longrightarrow> xs ! i \<noteq> y \<Longrightarrow> y \<in> set xs \<Longrightarrow> y \<in> set (xs[i := x])"
  by (metis in_set_conv_nth length_list_update nth_list_update_neq)

lemma set_update_new: "i < length xs \<Longrightarrow> x \<in> set (xs[i := x])"
  by (rule set_update_memI)

lemma isHeap_pushEntry: "isHeap (rw_heap w) \<Longrightarrow> isHeap (rw_heap (pushEntry k t w))"
  by (simp add: pushEntry_def heapPush_correct)

lemma isHeap_popEntry: "isHeap (rw_heap w) \<Longrightarrow> due t (rw_heap w) \<Longrightarrow> popEntry w = (k, w') \<Longrightarrow> isHeap (rw_heap w')"
  using heapPop_correct(1) [of "rw_heap w"] by (auto simp: popEntry_def due_def split: prod.splits)

lemma postpone_sel [simp]:
  "rw_heap (postpone k t w) = rw_heap w" "rw_workCh (postpone k t w) = rw_workCh w"
  "rw_updateCh (postpone k t w) = rw_updateCh w" "(rw_entries (postpone k t w) k' = None) = (rw_entries w k' = None)"
  by (auto simp: postpone_def setEntry_def split: option.split)

lemma pushEntry_sel [simp]:
  "rw_entries (pushEntry k t w) = rw_entries w" "rw_workCh (pushEntry k t w) = rw_workCh w"
  "rw_updateCh (pushEntry k t w) = rw_updateCh w"
  by (simp_all add: pushEntry_def)

lemma sleepOK_step: "moves a s s' \<Longrightarrow> sleepOK s \<Longrightarrow> sleepOK s'"
  by (erule moves.cases)
    (auto simp: sleepOK_def noLater_def pendingNotify_def schedulerSleep_noLater isHeap_pushEntry isHeap_popEntry
      updateEntry_def notifyScheduler_def receiveUpdate_def receiveWork_def setEntry_def recordOutcome_def recordSHA_def
      set_update_new
      intro: set_update_other split: sched_pc.splits option.splits poll_outcome.splits if_splits)

lemma startRuntime_sleepOK: "sleepOK (startRuntime d n m t)"
  by (simp add: sleepOK_def startRuntime_def newWatcher_def isHeap_def)

lemma runs_sleepOK: "runs (startRuntime d n m t) s \<Longrightarrow> sleepOK s"
  using runs_invariant [of _ s sleepOK] startRuntime_sleepOK sleepOK_step by blast

text \<open>
  C11. The scheduler does not oversleep. In every reachable state in which the scheduler waits, and
  for every entry of the heap: once the clock has passed the time of the entry, or the moment
  the scheduler looked at the heap if that is later, by the time the scheduler took to set its
  timer, the scheduler can wake up, unless the goroutine that pushed an entry is just about to
  send the wake-up signal. This holds although a signal that finds the signal channel full is
  thrown away, and although entries are pushed at any moment of the scheduler's loop.
\<close>

theorem scheduler_never_oversleeps:
  assumes "runs (startRuntime d n m t) s" and "rt_sched s = Waiting looked armed dur"
    and "e \<in> set (rw_heap (rt_watcher s))"
    and "max looked (he_nextPollAt e) + (armed - looked) \<le> rt_clock s"
  shows "pendingNotify s \<or> (\<exists>s'. moves Sched s s' \<and> rt_sched s' = Woken)"
proof -
  have "noLater s looked dur"
    using runs_sleepOK [OF assms(1)] assms(2) by (simp add: sleepOK_def)
  then consider "rw_updateCh (rt_watcher s)" | "pendingNotify s" | "looked + dur \<le> max looked (he_nextPollAt e)"
    using assms(3) by (auto simp: noLater_def)
  then show ?thesis
  proof cases
    case 1
    then show ?thesis using moves.WakeUpdate [OF assms(2)] by fastforce
  next
    case 3
    then show ?thesis using moves.WakeTimer [OF assms(2)] assms(4) by fastforce
  qed simp
qed

section \<open>No workspace is forgotten\<close>

fun workerHolds :: "nsname \<Rightarrow> worker_pc \<Rightarrow> bool" where
  "workerHolds k (WTaken k') \<longleftrightarrow> k' = k"
| "workerHolds k (WPolling k' e) \<longleftrightarrow> k' = k"
| "workerHolds k (WFinishing k' d) \<longleftrightarrow> k' = k"
| "workerHolds k (WPushing k' n) \<longleftrightarrow> k' = k"
| "workerHolds k pc \<longleftrightarrow> False"

definition tracked :: "nsname \<Rightarrow> runtime \<Rightarrow> bool" where
  "tracked k s \<longleftrightarrow> k \<in> he_key ` set (rw_heap (rt_watcher s)) \<or> k \<in> set (rw_workCh (rt_watcher s))
     \<or> (\<exists>t. rt_sched s = Checking t k) \<or> (\<exists>n. rt_recon s = RSignal k n) \<or> (\<exists>pc \<in> set (rt_workers s). workerHolds k pc)"

definition trackedOK :: "runtime \<Rightarrow> bool" where
  "trackedOK s \<longleftrightarrow> isHeap (rw_heap (rt_watcher s)) \<and> (rt_closed s \<longrightarrow> rt_cancelled s)
     \<and> (rt_cancelled s \<or> (\<forall>k. rw_entries (rt_watcher s) k \<noteq> None \<longrightarrow> k \<in> rt_dropped s \<or> tracked k s))"

lemma heap_keys_push:
  assumes "isHeap (rw_heap w)"
  shows "he_key ` set (rw_heap (pushEntry k t w)) = insert k (he_key ` set (rw_heap w))"
proof -
  have "set (rw_heap (pushEntry k t w)) = insert \<lparr>he_key = k, he_nextPollAt = t\<rparr> (set (rw_heap w))"
    using arg_cong [OF heapPush_correct(2) [OF assms, of "\<lparr>he_key = k, he_nextPollAt = t\<rparr>"], of set_mset]
    by (simp add: pushEntry_def)
  then show ?thesis by simp
qed

lemma heap_keys_pop:
  assumes "isHeap (rw_heap w)" and "due t (rw_heap w)" and "popEntry w = (k, w')"
  shows "he_key ` set (rw_heap w) = insert k (he_key ` set (rw_heap w'))"
    and "rw_entries w' = rw_entries w" and "rw_workCh w' = rw_workCh w"
proof -
  obtain x h where p: "heapPop (rw_heap w) = (x, h)" by fastforce
  have "set (rw_heap w) = insert x (set h)"
    using arg_cong [OF heapPop_correct(3) [OF assms(1)], of set_mset] assms(2) p by (simp add: due_def)
  with assms(3) p show "he_key ` set (rw_heap w) = insert k (he_key ` set (rw_heap w'))"
    "rw_entries w' = rw_entries w" "rw_workCh w' = rw_workCh w" by (auto simp: popEntry_def)
qed

lemma ex_split:
  "i < length xs \<Longrightarrow> (\<exists>x \<in> set xs. P x) \<longleftrightarrow> P (xs ! i) \<or> (\<exists>j < length xs. j \<noteq> i \<and> P (xs ! j))"
  by (metis in_set_conv_nth)

lemma ex_update:
  "i < length xs \<Longrightarrow> (\<exists>x \<in> set (xs[i := y]). P x) \<longleftrightarrow> P y \<or> (\<exists>j < length xs. j \<noteq> i \<and> P (xs ! j))"
  using ex_split [of i "xs[i := y]" P] by auto

lemma worker_moves_tracked:
  assumes "i < length (rt_workers s)" and "rt_workers s' = (rt_workers s)[i := pc]"
    and "tracked k s" and "rt_sched s' = rt_sched s" and "rt_recon s' = rt_recon s"
    and "he_key ` set (rw_heap (rt_watcher s)) \<subseteq> he_key ` set (rw_heap (rt_watcher s'))"
    and "k \<in> set (rw_workCh (rt_watcher s)) \<Longrightarrow> k \<in> set (rw_workCh (rt_watcher s')) \<or> workerHolds k pc"
    and "workerHolds k (rt_workers s ! i) \<Longrightarrow> workerHolds k pc \<or> k \<in> he_key ` set (rw_heap (rt_watcher s'))"
  shows "tracked k s'"
  using assms(3-8) unfolding tracked_def assms(2) ex_update [OF assms(1)] ex_split [OF assms(1)] by auto

lemma isHeap_step: "moves a s s' \<Longrightarrow> isHeap (rw_heap (rt_watcher s)) \<Longrightarrow> isHeap (rw_heap (rt_watcher s'))"
  by (erule moves.cases)
    (auto simp: isHeap_pushEntry isHeap_popEntry updateEntry_def notifyScheduler_def receiveUpdate_def receiveWork_def)

lemma recordOutcome_registered [simp]: "(rw_entries (recordOutcome k' out w) k = None) = (rw_entries w k = None)"
  by (auto simp: recordOutcome_def recordSHA_def setEntry_def split: poll_outcome.split option.split)

lemma tracked_step:
  assumes "moves a s s'" and "isHeap (rw_heap (rt_watcher s))" and "\<not> rt_cancelled s \<and> \<not> rt_closed s"
    and "rw_entries (rt_watcher s) k \<noteq> None \<Longrightarrow> k \<in> rt_dropped s \<or> tracked k s"
    and "rw_entries (rt_watcher s') k \<noteq> None"
  shows "k \<in> rt_dropped s' \<or> tracked k s'"
  using assms(1)
proof (cases rule: moves.cases)
  case (Pop t k' w)
  then show ?thesis using assms(4,5) heap_keys_pop [OF assms(2) Pop(4,5)] by (auto simp: tracked_def)
next
  case (ReconPush k' n)
  then show ?thesis using assms(4,5) heap_keys_push [OF assms(2), of k' n] by (auto simp: tracked_def)
next
  case (Receive i k' ks)
  then show ?thesis using assms(3-5) worker_moves_tracked [OF Receive(3), of s' "WTaken k'" k]
    by (auto simp: receiveWork_def)
next
  case (Range i)
  then show ?thesis using assms(3-5) worker_moves_tracked [OF Range(3), of s' WReturned k] by auto
next
  case (Begin i k')
  then show ?thesis
    using assms(3-5) worker_moves_tracked [OF Begin(3), of s'
        "case rw_entries (rt_watcher s) k' of None \<Rightarrow> WIdle | Some e \<Rightarrow> WPolling k' e" k]
    by (cases "k' = k") (auto split: option.splits)
next
  case (Answered i k' e out)
  then show ?thesis using assms(3-5) worker_moves_tracked [OF Answered(3), of s' "WFinishing k' (pollDelay (re_interval e) out)" k]
    by simp blast
next
  case (Postpone i k' d)
  then show ?thesis using assms(3-5) worker_moves_tracked [OF Postpone(3), of s' _ k] by auto
next
  case (WorkerPush i k' n)
  then show ?thesis
    using assms(3-5) worker_moves_tracked [OF WorkerPush(3), of s' _ k] heap_keys_push [OF assms(2), of k' n] by auto
next
  case (WorkerNotify i)
  then show ?thesis using assms(3-5) worker_moves_tracked [OF WorkerNotify(3), of s' _ k]
    by (auto simp: notifyScheduler_def)
qed (use assms(3-5) in \<open>auto simp: tracked_def setEntry_def updateEntry_def notifyScheduler_def receiveUpdate_def
  split: if_splits\<close>)

lemma shutdown_order_step:
  "moves a s s' \<Longrightarrow> (rt_closed s \<longrightarrow> rt_cancelled s) \<and> (rt_sched s = SchedPanicked \<longrightarrow> rt_closed s) \<Longrightarrow>
   (rt_closed s' \<longrightarrow> rt_cancelled s') \<and> (rt_sched s' = SchedPanicked \<longrightarrow> rt_closed s')"
  by (erule moves.cases) auto

lemma trackedOK_step:
  assumes "moves a s s'" and "trackedOK s"
  shows "trackedOK s'"
proof -
  have c: "rt_cancelled s \<Longrightarrow> rt_cancelled s'" "rt_closed s' \<Longrightarrow> rt_closed s \<or> rt_cancelled s'"
    using assms(1) by (cases rule: moves.cases; simp)+
  with assms(2) have "rt_closed s' \<longrightarrow> rt_cancelled s'" by (auto simp: trackedOK_def)
  then show ?thesis
    using assms(2) c isHeap_step [OF assms(1)] tracked_step [OF assms(1)] unfolding trackedOK_def by blast
qed

text \<open>
  C9. No workspace is forgotten. At every moment of every run, between any two steps of the
  scheduler, the workers and the reconciles, and until the process is told to stop: a
  registered workspace has an entry in the heap, waits in the work channel, is in the hands of
  the scheduler, of the reconcile or of a worker, or is one whose key met a full work channel.
\<close>

theorem registered_workspaces_never_forgotten:
  assumes "runs (startRuntime d n m t) s" and "\<not> rt_cancelled s"
    and "rw_entries (rt_watcher s) k \<noteq> None" and "k \<notin> rt_dropped s"
  shows "tracked k s"
proof -
  have "trackedOK (startRuntime d n m t)" by (simp add: trackedOK_def startRuntime_def newWatcher_def isHeap_def)
  then have "trackedOK s" using runs_invariant [OF assms(1)] trackedOK_step by blast
  then show ?thesis using assms(2-4) by (auto simp: trackedOK_def)
qed

section \<open>Shutdown\<close>

lemma panic_at_shutdown:
  assumes "runs (startRuntime d n m t) s" and "rt_sched s = SchedPanicked"
  shows "rt_cancelled s \<and> rt_closed s"
  using runs_invariant [OF assms(1), of "\<lambda>s. (rt_closed s \<longrightarrow> rt_cancelled s) \<and> (rt_sched s = SchedPanicked \<longrightarrow> rt_closed s)"]
    shutdown_order_step assms(2) by (auto simp: startRuntime_def)

text \<open>
  At shutdown it can panic: \<open>Start\<close> closes the work channel without waiting for the scheduler,
  whose \<open>select\<close> may still choose the wake-up signal or the timer over the cancelled context.
\<close>

lemma close_meets_dispatch:
  assumes "rt_sched s = Waiting l a d" and "a + d \<le> rt_clock s" and "\<not> rt_closed s" and "rt_recon s = RIdle"
    and "isHeap (rw_heap (rt_watcher s))" and "due (rt_clock s) (rw_heap (rt_watcher s))"
    and "rw_entries (rt_watcher s) (he_key (hd (rw_heap (rt_watcher s)))) \<noteq> None"
  shows "\<exists>s'. runs s s' \<and> rt_sched s' = SchedPanicked"
proof -
  let ?c = "rt_clock s" and ?w = "rt_watcher s"
  obtain k w where p: "popEntry ?w = (k, w)" by fastforce
  have k: "k = he_key (hd (rw_heap ?w))" "rw_entries w = rw_entries ?w"
    using p poll_queue.pop_front [OF assms(5)] assms(6) by (auto simp: popEntry_def due_def split: prod.splits)
  let ?s1 = "s\<lparr>rt_cancelled := True\<rparr>" let ?s2 = "?s1\<lparr>rt_closed := True\<rparr>"
  let ?s3 = "?s2\<lparr>rt_sched := Woken\<rparr>" let ?s4 = "?s3\<lparr>rt_sched := Stamped ?c\<rparr>"
  let ?s5 = "?s4\<lparr>rt_sched := Dispatching ?c\<rparr>" let ?s6 = "?s5\<lparr>rt_sched := Checking ?c k, rt_watcher := w\<rparr>"
  let ?s7 = "?s6\<lparr>rt_sched := SchedPanicked\<rparr>"
  have "runs s ?s1" by (rule runs.move [OF runs.rest _ moves.Cancel]) (simp add: assms(1))
  then have "runs s ?s2" by (rule runs.move [OF _ _ moves.Close]) (simp_all add: assms(1,3))
  then have "runs s ?s3" by (rule runs.move [OF _ _ moves.WakeTimer [where l = l and a = a and d = d]]) (use assms(1,2) in simp_all)
  then have "runs s ?s4" by (rule runs.move) (use moves.Stamp [of ?s3] in simp_all)
  then have "runs s ?s5" by (rule runs.move [OF _ _ moves.LockHeap]) simp_all
  then have "runs s ?s6" by (rule runs.move [OF _ _ moves.Pop]) (use assms(6) p in simp_all)
  then have "runs s ?s7"
    by (rule runs.move [OF _ _ moves.Panic]) (use assms(4,7) k in \<open>simp_all add: registryHeld_def\<close>)
  then show ?thesis by force
qed

text \<open>
  C35. A shutdown can end in a panic. When the timer of the waiting scheduler has expired, a
  registered workspace is due and no reconcile is under way, the context can be cancelled and
  the work channel closed before the scheduler dispatches; its send then panics. While the
  watcher runs it never does: a panicked state is only reached with the context cancelled and
  the channel closed.
\<close>

theorem shutdown_may_panic:
  assumes "runs (startRuntime d n m t) s" and "rt_sched s = Waiting l a dur" and "a + dur \<le> rt_clock s"
    and "\<not> rt_closed s" and "rt_recon s = RIdle" and "due (rt_clock s) (rw_heap (rt_watcher s))"
    and "rw_entries (rt_watcher s) (he_key (hd (rw_heap (rt_watcher s)))) \<noteq> None"
  shows "(\<exists>s'. runs s s' \<and> rt_sched s' = SchedPanicked)
    \<and> (\<forall>s'. runs s s' \<and> rt_sched s' = SchedPanicked \<longrightarrow> rt_cancelled s' \<and> rt_closed s')"
proof
  have "isHeap (rw_heap (rt_watcher s))"
    using runs_sleepOK [OF assms(1)] by (simp add: sleepOK_def)
  then show "\<exists>s'. runs s s' \<and> rt_sched s' = SchedPanicked" using assms(2-7) by (intro close_meets_dispatch) auto
  show "\<forall>s'. runs s s' \<and> rt_sched s' = SchedPanicked \<longrightarrow> rt_cancelled s' \<and> rt_closed s'"
    using panic_at_shutdown [OF runs_trans [OF _ assms(1)]] by blast
qed

text \<open>How many steps a worker can still take once the context is cancelled.\<close>

fun stepsLeft :: "worker_pc \<Rightarrow> nat" where
  "stepsLeft WReturned = 0"
| "stepsLeft WIdle = 1"
| "stepsLeft WNotifying = 2"
| "stepsLeft (WPushing k n) = 3"
| "stepsLeft (WFinishing k d) = 4"
| "stepsLeft (WPolling k e) = 5"
| "stepsLeft (WTaken k) = 6"

definition workLeft :: "runtime \<Rightarrow> nat" where
  "workLeft s = sum_list (map stepsLeft (rt_workers s))"

lemma workLeft_update:
  assumes "i < length xs" and "stepsLeft pc < stepsLeft (xs ! i)"
  shows "sum_list (map stepsLeft (xs[i := pc])) < sum_list (map stepsLeft xs)"
  using assms elem_le_sum_list [of i "map stepsLeft xs"] by (simp add: map_update sum_list_update)

lemma workLeft_step:
  "moves a s s' \<Longrightarrow> rt_cancelled s \<Longrightarrow>
   rt_cancelled s' \<and> workLeft s' \<le> workLeft s \<and> ((\<exists>i. a = Worker i) \<longrightarrow> workLeft s' < workLeft s)"
  by (erule moves.cases) (auto simp: workLeft_def intro!: workLeft_update less_imp_le split: option.split)

lemma worker_can_move:
  assumes "rt_closed s" and "rt_cancelled s" and "rt_recon s = RIdle" and "\<not> heapHeld s"
    and "i < length (rt_workers s)" and "rt_workers s ! i \<noteq> WReturned"
  shows "\<exists>s'. moves (Worker i) s s'"
proof (cases "rt_workers s ! i")
  case WIdle
  then show ?thesis
    using moves.Receive [OF assms(5) WIdle] moves.Range [OF assms(5) WIdle] assms(1) by (cases "rw_workCh (rt_watcher s)") blast+
next
  case (WTaken k)
  then show ?thesis using moves.Begin [OF assms(5) WTaken] assms(3) by (auto simp: registryHeld_def)
next
  case (WPolling k e)
  then show ?thesis using moves.Answered [OF assms(5) WPolling] assms(3) by (auto simp: registryHeld_def)
next
  case (WFinishing k d)
  then show ?thesis using moves.Postpone [OF assms(5) WFinishing] assms(3) by (auto simp: registryHeld_def)
next
  case (WPushing k n)
  then show ?thesis using moves.WorkerPush [OF assms(5) WPushing assms(4)] by blast
next
  case WNotifying
  then show ?thesis using moves.WorkerNotify [OF assms(5) WNotifying] by blast
qed (use assms(6) in simp)

lemma worker_step_stable:
  "moves (Worker i) s s' \<Longrightarrow> rt_sched s' = rt_sched s \<and> rt_recon s' = rt_recon s \<and> rt_closed s' = rt_closed s"
  by (cases rule: moves.cases) auto

lemma workers_wind_down:
  "rt_closed s \<Longrightarrow> rt_cancelled s \<Longrightarrow> rt_recon s = RIdle \<Longrightarrow> rt_sched s = SchedReturned \<Longrightarrow>
   \<exists>s'. runs s s' \<and> (\<forall>pc \<in> set (rt_workers s'). pc = WReturned)"
proof (induction "workLeft s" arbitrary: s rule: less_induct)
  case less
  show ?case
  proof (cases "\<forall>pc \<in> set (rt_workers s). pc = WReturned")
    case False
    then obtain i where "i < length (rt_workers s)" "rt_workers s ! i \<noteq> WReturned" by (auto simp: in_set_conv_nth)
    then obtain s1 where a: "moves (Worker i) s s1"
      using worker_can_move [of s i] less.prems by (auto simp: heapHeld_def)
    then obtain s' where "runs s1 s'" "\<forall>pc \<in> set (rt_workers s'). pc = WReturned"
      using less.hyps [of s1] workLeft_step [OF a] worker_step_stable [OF a] less.prems by auto
    moreover have "runs s s1" using less.prems by (intro runs.move [OF runs.rest _ a]) simp
    ultimately show ?thesis using runs_trans by blast
  qed (auto intro: runs.rest)
qed

lemma reconcile_finishes:
  assumes "rt_sched s = SchedReturned"
  shows "\<exists>s'. runs s s' \<and> rt_recon s' = RIdle \<and> rt_sched s' = SchedReturned
    \<and> rt_closed s' = rt_closed s \<and> rt_cancelled s' = rt_cancelled s"
proof -
  have notify: "\<exists>s'. runs s1 s' \<and> rt_recon s' = RIdle \<and> rt_sched s' = SchedReturned
      \<and> rt_closed s' = rt_closed s1 \<and> rt_cancelled s' = rt_cancelled s1"
    if "rt_recon s1 = RNotify" "rt_sched s1 = SchedReturned" for s1
    using runs.move [OF runs.rest _ moves.ReconNotify [OF that(1)]] that(2) by fastforce
  show ?thesis
  proof (cases "rt_recon s")
    case RIdle
    then show ?thesis using assms runs.rest by blast
  next
    case (RSignal k n)
    let ?s1 = "s\<lparr>rt_recon := RNotify, rt_watcher := pushEntry k n (rt_watcher s)\<rparr>"
    have r: "runs s ?s1" by (rule runs.move [OF runs.rest _ moves.ReconPush [OF RSignal]]) (simp_all add: assms heapHeld_def)
    obtain s' where "runs ?s1 s'" "rt_recon s' = RIdle" "rt_sched s' = SchedReturned" "rt_closed s' = rt_closed s"
      "rt_cancelled s' = rt_cancelled s" using notify [of ?s1] assms by auto
    with runs_trans [OF _ r] show ?thesis by blast
  next
    case RNotify
    then show ?thesis using notify assms by blast
  qed
qed

text \<open>
  \<open>Start\<close> returns. Once the context is cancelled, the work channel closed and the scheduler has
  returned, all workers can return, so that the wait for them ends; and each step of a worker
  brings this nearer while no other step takes it further away.
\<close>

theorem Start_returns:
  assumes "rt_cancelled s" and "rt_closed s" and "rt_sched s = SchedReturned"
  shows "(\<exists>s'. runs s s' \<and> (\<forall>pc \<in> set (rt_workers s'). pc = WReturned))
    \<and> (\<forall>a s'. moves a s s' \<longrightarrow> workLeft s' \<le> workLeft s \<and> ((\<exists>i. a = Worker i) \<longrightarrow> workLeft s' < workLeft s))"
proof
  show "\<forall>a s'. moves a s s' \<longrightarrow> workLeft s' \<le> workLeft s \<and> ((\<exists>i. a = Worker i) \<longrightarrow> workLeft s' < workLeft s)"
    using workLeft_step assms(1) by blast
  show "\<exists>s'. runs s s' \<and> (\<forall>pc \<in> set (rt_workers s'). pc = WReturned)"
    using reconcile_finishes [OF assms(3)] workers_wind_down assms(1,2) runs_trans by metis
qed

section \<open>Samples\<close>

definition sampleRegistered :: watcher where
  "sampleRegistered = insertEntry 0 0 keyA ''https://git.example/a'' ''main'' 60000000000 ''old'' (newWatcher 60 4)"

definition waitingSample :: runtime where
  "waitingSample = (startRuntime 60 2 4 0)\<lparr>rt_watcher := sampleRegistered, rt_sched := Waiting 0 0 0\<rparr>"

definition dispatchingSample :: runtime where
  "dispatchingSample = waitingSample\<lparr>rt_sched := Dispatching 0\<rparr>"

lemma sampleRegistered_sel [simp]:
  "rw_heap sampleRegistered = [\<lparr>he_key = keyA, he_nextPollAt = 0\<rparr>]" "dom (rw_entries sampleRegistered) = {keyA}"
  by (simp_all add: sampleRegistered_def insertEntry_def newWatcher_def heapPush_def)

lemma runs_waitingSample: "runs (startRuntime 60 2 4 0) waitingSample"
proof -
  let ?s0 = "startRuntime 60 2 4 0"
  let ?w1 = "setEntry keyA (freshEntry 0 ''https://git.example/a'' ''main'' 60000000000 ''old'') (newWatcher 60 4)"
  let ?s1 = "?s0\<lparr>rt_recon := RSignal keyA 0, rt_watcher := ?w1\<rparr>"
  let ?s2 = "?s1\<lparr>rt_recon := RNotify, rt_watcher := pushEntry keyA 0 ?w1\<rparr>"
  let ?s3 = "?s2\<lparr>rt_recon := RIdle, rt_watcher := sampleRegistered\<rparr>"
  let ?s4 = "?s3\<lparr>rt_sched := Arming 0 0\<rparr>"
  have w: "notifyScheduler (pushEntry keyA 0 ?w1) = sampleRegistered"
    using insertEntry_split [of 0 0 keyA] by (simp add: sampleRegistered_def)
  have i: "rt_clock ?s0 = 0" "rt_sched ?s0 = Looping" "rt_recon ?s0 = RIdle" "rt_watcher ?s0 = newWatcher 60 4"
    "rw_entries (newWatcher 60 4) = Map.empty" by (simp_all add: startRuntime_def newWatcher_def)
  have "moves Recon ?s0 ?s1"
    using moves.Register [of ?s0 keyA 0 60000000000 "''https://git.example/a''" "''main''" "''old''"] i by simp
  then have "runs ?s0 ?s1" by (rule runs.move [OF runs.rest, rotated]) (simp add: i)
  then have "runs ?s0 ?s2" by (rule runs.move) (use moves.ReconPush [of ?s1 keyA 0] i in \<open>simp_all add: heapHeld_def\<close>)
  then have "runs ?s0 ?s3" by (rule runs.move) (use moves.ReconNotify [of ?s2] i w in simp_all)
  then have "runs ?s0 ?s4" by (rule runs.move) (use moves.Look [of ?s3] i in \<open>simp_all add: schedulerSleep_def\<close>)
  then have "runs ?s0 (?s4\<lparr>rt_sched := Waiting 0 0 0\<rparr>)" by (rule runs.move) (use moves.Arm [of ?s4 0 0] i in simp_all)
  then show ?thesis using i by (simp add: waitingSample_def startRuntime_def)
qed

lemma waitingSample_sel [simp]:
  "rt_sched waitingSample = Waiting 0 0 0" "rt_clock waitingSample = 0" "rt_watcher waitingSample = sampleRegistered"
  "rt_recon waitingSample = RIdle" "\<not> rt_closed waitingSample" "\<not> rt_cancelled waitingSample"
  "rt_dropped waitingSample = {}"
  by (simp_all add: waitingSample_def startRuntime_def)

lemma keyA_registered [simp]: "\<exists>e. rw_entries sampleRegistered keyA = Some e" "rw_entries sampleRegistered keyB = None"
proof -
  have "keyA \<in> dom (rw_entries sampleRegistered)" "keyB \<notin> dom (rw_entries sampleRegistered)" by simp_all
  then show "\<exists>e. rw_entries sampleRegistered keyA = Some e" "rw_entries sampleRegistered keyB = None"
    by (blast dest: domD, blast)
qed

lemma runs_dispatchingSample: "runs (startRuntime 60 2 4 0) dispatchingSample"
proof -
  let ?s = waitingSample
  have "moves Sched ?s (?s\<lparr>rt_sched := Woken\<rparr>)" by (rule moves.WakeTimer [of _ 0 0 0]) simp_all
  then have "runs (startRuntime 60 2 4 0) (?s\<lparr>rt_sched := Woken\<rparr>)" by (rule runs.move [OF runs_waitingSample, rotated]) simp
  then have "runs (startRuntime 60 2 4 0) (?s\<lparr>rt_sched := Stamped 0\<rparr>)"
    by (rule runs.move) (use moves.Stamp [of "?s\<lparr>rt_sched := Woken\<rparr>"] in simp_all)
  then show ?thesis unfolding dispatchingSample_def
    by (rule runs.move) (use moves.LockHeap [of "?s\<lparr>rt_sched := Stamped 0\<rparr>" 0] in simp_all)
qed

theorem upsert_during_dispatch_deadlocks_witness:
  "runs (startRuntime 60 2 4 0) dispatchingSample \<and> (\<exists>s2. runs dispatchingSample s2 \<and> deadlocked s2)"
proof (rule conjI [OF runs_dispatchingSample])
  show "\<exists>s2. runs dispatchingSample s2 \<and> deadlocked s2"
    using upsert_during_dispatch_deadlocks [of dispatchingSample 0 keyB] by (auto simp: dispatchingSample_def due_def)
qed

theorem scheduler_never_oversleeps_witness:
  "pendingNotify waitingSample \<or> (\<exists>s'. moves Sched waitingSample s' \<and> rt_sched s' = Woken)"
  by (rule scheduler_never_oversleeps [OF runs_waitingSample, of 0 0 0 "\<lparr>he_key = keyA, he_nextPollAt = 0\<rparr>"]) simp_all

theorem registered_workspaces_never_forgotten_witness: "tracked keyA waitingSample"
  by (rule registered_workspaces_never_forgotten [OF runs_waitingSample]) simp_all

theorem shutdown_may_panic_witness: "\<exists>s'. runs waitingSample s' \<and> rt_sched s' = SchedPanicked"
  using shutdown_may_panic [OF runs_waitingSample, of 0 0 0] by (simp add: due_def)

definition stoppingSample :: runtime where
  "stoppingSample = waitingSample\<lparr>rt_sched := SchedReturned, rt_cancelled := True, rt_closed := True,
     rt_workers := [WTaken keyA, WIdle]\<rparr>"

theorem Start_returns_witness:
  "\<exists>s'. runs stoppingSample s' \<and> (\<forall>pc \<in> set (rt_workers s'). pc = WReturned)"
  using Start_returns [of stoppingSample] by (simp add: stoppingSample_def)

end
