(* ===== verification/Log_Store.thy ===== *)
theory Log_Store
  imports WS_Logs Samples
begin

text \<open>
  The store of archived logs, \<open>src/internal/logstore/logstore.go\<close>, and the check of run
  identifiers in \<open>src/api/internal/api/handlers/workspace_handler.go\<close> that guards its keys.
  The S3 client is a parameter, \<open>s3env\<close>: its answers are functions of the history of the
  requests. Go's \<open>path.Join\<close> and \<open>path.Clean\<close> are modelled on the segments of a path.
\<close>

section \<open>Paths\<close>

fun cleanSegments :: "bool \<Rightarrow> string list \<Rightarrow> string list \<Rightarrow> string list" where
  \<comment> \<open>the cleaned segments so far, last first\<close>
  "cleanSegments rooted acc [] = rev acc"
| "cleanSegments rooted acc (seg # segs) =
     (if seg = [] \<or> seg = ''.'' then cleanSegments rooted acc segs
      else if seg = ''..'' then
        (case acc of
           a # as \<Rightarrow> if a = ''..'' then cleanSegments rooted (seg # acc) segs else cleanSegments rooted as segs
         | [] \<Rightarrow> cleanSegments rooted (if rooted then [] else [seg]) segs)
      else cleanSegments rooted (seg # acc) segs)"

definition pathClean :: "string \<Rightarrow> string" where
  "pathClean p =
     (let rooted = (p \<noteq> [] \<and> hd p = CHR ''/'');
          body = joinStrings (cleanSegments rooted [] (splitOn (CHR ''/'') p)) ''/''
      in if rooted then CHR ''/'' # body else if body = [] then ''.'' else body)"

definition pathJoin :: "string list \<Rightarrow> string" where
  "pathJoin elems =
     (let nonempty = filter (\<lambda>e. e \<noteq> []) elems in
      if nonempty = [] then [] else pathClean (joinStrings nonempty ''/''))"

section \<open>Configuration\<close>

record s3_config =
  s3c_endpoint :: string
  s3c_accessKeyID :: string
  s3c_secretAccessKey :: string

definition Enabled :: "s3_config \<Rightarrow> bool" where
  "Enabled c \<longleftrightarrow> s3c_endpoint c \<noteq> []"

definition LoadLogConfigFromEnv :: "'z golib_scheme \<Rightarrow> s3_config" where
  "LoadLogConfigFromEnv L =
     \<lparr>s3c_endpoint = osGetenv L ''MAGOS_LOGS_S3_ENDPOINT'',
      s3c_accessKeyID = osGetenv L ''MAGOS_LOGS_S3_ACCESS_KEY_ID'',
      s3c_secretAccessKey = osGetenv L ''MAGOS_LOGS_S3_SECRET_ACCESS_KEY''\<rparr>"

definition validateLogConfig :: "s3_config \<Rightarrow> goerr option" where
  "validateLogConfig c =
     (if s3c_endpoint c = [] then Some (EMsg ''MAGOS_LOGS_S3_ENDPOINT must be set when log storage is enabled'')
      else if s3c_accessKeyID c = []
      then Some (EMsg ''MAGOS_LOGS_S3_ACCESS_KEY_ID must be set when log storage is enabled'')
      else if s3c_secretAccessKey c = []
      then Some (EMsg ''MAGOS_LOGS_S3_SECRET_ACCESS_KEY must be set when log storage is enabled'')
      else None)"

section \<open>The bucket\<close>

datatype s3_call =
    S3_HeadBucket
  | S3_CreateBucket
  | S3_PutObject string string
  | S3_GetObject string

record s3env =
  s3_openClient :: "s3_config \<Rightarrow> goerr option"
  s3_headBucket :: "s3_call list \<Rightarrow> goerr option"
  s3_createBucket :: "s3_call list \<Rightarrow> goerr option"
  s3_putObject :: "s3_call list \<Rightarrow> string \<Rightarrow> string \<Rightarrow> goerr option"
  s3_getObject :: "s3_call list \<Rightarrow> string \<Rightarrow> string result"

definition defaultRunLogBucket :: string where
  "defaultRunLogBucket = ''magos-run-logs''"

fun containsText :: "string \<Rightarrow> string \<Rightarrow> bool" where
  "containsText s p = (hasPrefix s p \<or> (case s of [] \<Rightarrow> False | c # cs \<Rightarrow> containsText cs p))"

declare containsText.simps [simp del]

definition ensureBucket :: "s3env \<Rightarrow> (s3_call, goerr option) io" where
  "ensureBucket S = do {
     e \<leftarrow> perform (s3_headBucket S) S3_HeadBucket;
     case e of
       None \<Rightarrow> ret None
     | Some x \<Rightarrow> do {
         c \<leftarrow> perform (s3_createBucket S) S3_CreateBucket;
         case c of
           None \<Rightarrow> ret None
         | Some err \<Rightarrow>
             ret (if containsText (toLower (err_text err)) ''bucketalreadyownedbyyou''
                     \<or> containsText (toLower (err_text err)) ''bucket already exists'' then None
                  else Some (EWrap (''ensure bucket '' @ quoteString defaultRunLogBucket) err))
       }
   }"

definition withBucketEnsure ::
    "s3env \<Rightarrow> (s3_call, goerr option) io \<Rightarrow> (s3_call, goerr option) io" where
  "withBucketEnsure S fn = do {
     e \<leftarrow> fn;
     case e of
       None \<Rightarrow> ret None
     | Some err \<Rightarrow>
         (if containsText (err_text err) ''NoSuchBucket'' then do {
            b \<leftarrow> ensureBucket S;
            case b of None \<Rightarrow> fn | Some x \<Rightarrow> ret (Some err)
          }
          else ret (Some err))
   }"

definition NewLogStore :: "s3env \<Rightarrow> s3_config \<Rightarrow> (s3_call, bool result) io" where
  \<comment> \<open>the result says whether there is a store\<close>
  "NewLogStore S cfg =
     (if \<not> Enabled cfg then ret (Inr False)
      else case validateLogConfig cfg of
             Some err \<Rightarrow> ret (Inl err)
           | None \<Rightarrow>
               (case s3_openClient S cfg of
                  Some err \<Rightarrow> ret (Inl err)
                | None \<Rightarrow> do {
                    b \<leftarrow> ensureBucket S;
                    ret (case b of Some err \<Rightarrow> Inl err | None \<Rightarrow> Inr True)
                  }))"

section \<open>Logs\<close>

definition RunPhaseLogKey :: "string \<Rightarrow> string \<Rightarrow> string \<Rightarrow> run_phase \<Rightarrow> string" where
  "RunPhaseLogKey ns ws rid ph =
     pathJoin [''run-logs'', ns, ws, rid, runPhaseString ph @ ''.log.gz'']"

definition PutRunPhaseLog ::
    "s3env \<Rightarrow> string \<Rightarrow> string \<Rightarrow> string \<Rightarrow> run_phase \<Rightarrow> string \<Rightarrow> (s3_call, string result) io" where
  "PutRunPhaseLog S ns ws rid ph body =
     (let key = RunPhaseLogKey ns ws rid ph in do {
        e \<leftarrow> withBucketEnsure S (perform (\<lambda>h. s3_putObject S h key body) (S3_PutObject key body));
        ret (case e of
               Some err \<Rightarrow> Inl (EWrap (''put log object '' @ quoteString key) err)
             | None \<Rightarrow> Inr key)
      })"

definition GetRunPhaseLogObject :: "s3env \<Rightarrow> string \<Rightarrow> (s3_call, string result) io" where
  "GetRunPhaseLogObject S key = do {
     r \<leftarrow> perform (\<lambda>h. s3_getObject S h key) (S3_GetObject key);
     ret (case r of
            Inl err \<Rightarrow> Inl (EWrap (''get log object '' @ quoteString key) err)
          | Inr body \<Rightarrow> Inr body)
   }"

section \<open>Run identifiers\<close>

definition isLowerHex :: "char \<Rightarrow> bool" where
  "isLowerHex c \<longleftrightarrow> isDigit c \<or> (97 \<le> (of_char c :: nat) \<and> (of_char c :: nat) \<le> 102)"

definition runIDPattern :: "(char \<Rightarrow> bool) list" where
  \<comment> \<open>the regular expression as the character classes of its positions\<close>
  "runIDPattern = replicate 8 isDigit @ [\<lambda>c. c = CHR ''T''] @ replicate 6 isDigit
     @ [\<lambda>c. c = CHR ''-''] @ replicate 8 isLowerHex"

definition isValidRunID :: "string \<Rightarrow> bool" where
  "isValidRunID s = list_all2 (\<lambda>p c. p c) runIDPattern s"

section \<open>Keys stay in place\<close>

definition segment :: "string \<Rightarrow> bool" where
  "segment s \<longleftrightarrow> s \<noteq> [] \<and> s \<noteq> ''.'' \<and> s \<noteq> ''..'' \<and> CHR ''/'' \<notin> set s"

lemma splitOn_join:
  "segs \<noteq> [] \<Longrightarrow> list_all segment segs \<Longrightarrow> splitOn (CHR ''/'') (joinStrings segs ''/'') = segs"
  by (induction segs "''/''" rule: joinStrings.induct)
    (auto simp: segment_def splitOn_plain splitOn_append)

lemma cleanSegments_plain: "list_all segment segs \<Longrightarrow> cleanSegments r acc segs = rev acc @ segs"
  by (induction segs arbitrary: acc) (auto simp: segment_def)

lemma join_head: "segs \<noteq> [] \<Longrightarrow> list_all segment segs \<Longrightarrow>
    joinStrings segs sep \<noteq> [] \<and> hd (joinStrings segs sep) \<noteq> CHR ''/''"
  by (cases "(segs, sep)" rule: joinStrings.cases) (auto simp: segment_def hd_append dest: hd_in_set)

lemma pathClean_segments:
  assumes "segs \<noteq> []" and "list_all segment segs"
  shows "pathClean (joinStrings segs ''/'') = joinStrings segs ''/''"
  using assms join_head [OF assms, of "''/''"]
  by (simp add: pathClean_def Let_def splitOn_join cleanSegments_plain)

lemma isValidRunID_segment:
  assumes "isValidRunID s"
  shows "segment s"
proof -
  have "list_all (\<lambda>p. \<not> p (CHR ''/'')) runIDPattern"
    by (auto simp: runIDPattern_def isDigit_def isLowerHex_def list_all_iff)
  then have "s ! i \<noteq> CHR ''/''" if "i < length s" for i
    using that list_all2_nthD2 [OF assms [unfolded isValidRunID_def] that] assms
    by (auto simp: isValidRunID_def list_all2_lengthD list_all_length)
  then have "\<forall>c \<in> set s. c \<noteq> CHR ''/''" by (auto simp: in_set_conv_nth)
  moreover have "length s = 24"
    using list_all2_lengthD [OF assms [unfolded isValidRunID_def]] by (simp add: runIDPattern_def)
  then have "s \<noteq> []" "s \<noteq> ''.''" "s \<noteq> ''..''" by (rule contrapos_pn, simp)+
  ultimately show ?thesis unfolding segment_def by blast
qed

lemma runPhaseString_inj:
  "a \<in> {RunPhasePlan, RunPhaseApply} \<Longrightarrow> b \<in> {RunPhasePlan, RunPhaseApply} \<Longrightarrow>
   runPhaseString a = runPhaseString b \<longleftrightarrow> a = b"
  by auto

lemma phaseFile_segment: "ph \<in> {RunPhasePlan, RunPhaseApply} \<Longrightarrow> segment (runPhaseString ph @ ''.log.gz'')"
  by (auto simp: segment_def)

lemma RunPhaseLogKey_segments:
  assumes "segment ns" and "segment ws" and "segment rid" and "ph \<in> {RunPhasePlan, RunPhaseApply}"
  shows "RunPhaseLogKey ns ws rid ph = joinStrings [''run-logs'', ns, ws, rid, runPhaseString ph @ ''.log.gz''] ''/''"
proof -
  let ?segs = "[''run-logs'', ns, ws, rid, runPhaseString ph @ ''.log.gz'']"
  have segs: "list_all segment ?segs" using assms(1-3) phaseFile_segment [OF assms(4)] by (simp add: segment_def)
  have "filter (\<lambda>e. e \<noteq> []) ?segs = ?segs" using assms by (simp add: segment_def)
  then show ?thesis
    unfolding RunPhaseLogKey_def pathJoin_def Let_def using pathClean_segments [OF _ segs] by simp
qed

text \<open>
  No log is read or written outside its place. For every run identifier that the API accepts
  and object names without path syntax, the key of a log consists of the given names in their
  order under the common prefix, and two logs with the same key belong to the same run and
  phase of the same workspace.
\<close>

theorem log_keys_confined:
  assumes "segment ns" and "segment ws" and "isValidRunID rid"
    and "segment ns'" and "segment ws'" and "isValidRunID rid'"
    and "ph \<in> {RunPhasePlan, RunPhaseApply}" and "ph' \<in> {RunPhasePlan, RunPhaseApply}"
  shows "RunPhaseLogKey ns ws rid ph = ''run-logs/'' @ ns @ ''/'' @ ws @ ''/'' @ rid @ ''/'' @ runPhaseString ph @ ''.log.gz''
    \<and> (RunPhaseLogKey ns ws rid ph = RunPhaseLogKey ns' ws' rid' ph' \<longrightarrow> (ns, ws, rid, ph) = (ns', ws', rid', ph'))"
proof
  note k = RunPhaseLogKey_segments [OF assms(1,2) isValidRunID_segment [OF assms(3)] assms(7)]
  note k' = RunPhaseLogKey_segments [OF assms(4,5) isValidRunID_segment [OF assms(6)] assms(8)]
  show "RunPhaseLogKey ns ws rid ph = ''run-logs/'' @ ns @ ''/'' @ ws @ ''/'' @ rid @ ''/'' @ runPhaseString ph @ ''.log.gz''"
    by (simp add: k)
  let ?segs = "[''run-logs'', ns, ws, rid, runPhaseString ph @ ''.log.gz'']"
    and ?segs' = "[''run-logs'', ns', ws', rid', runPhaseString ph' @ ''.log.gz'']"
  have "list_all segment ?segs" "list_all segment ?segs'"
    using assms(1-6) phaseFile_segment [OF assms(7)] phaseFile_segment [OF assms(8)] isValidRunID_segment
    by (simp_all add: segment_def)
  note inj = splitOn_join [OF _ this(1)] splitOn_join [OF _ this(2)]
  show "RunPhaseLogKey ns ws rid ph = RunPhaseLogKey ns' ws' rid' ph' \<longrightarrow> (ns, ws, rid, ph) = (ns', ws', rid', ph')"
  proof
    assume "RunPhaseLogKey ns ws rid ph = RunPhaseLogKey ns' ws' rid' ph'"
    then have "?segs = ?segs'" unfolding k k' using inj by (metis list.distinct(1))
    then show "(ns, ws, rid, ph) = (ns', ws', rid', ph')" using assms(7,8) by (simp add: runPhaseString_inj)
  qed
qed

lemma unchecked_key_escapes:
  "RunPhaseLogKey ''default'' ''ws'' ''../../../other'' RunPhasePlan = ''other/plan.log.gz''"
  by (simp add: RunPhaseLogKey_def pathJoin_def pathClean_def Let_def)

lemma hexDigit_lower: "n < 16 \<Longrightarrow> isLowerHex (hexDigit n)"
  by (auto simp: isLowerHex_def isDigit_def hexDigit_def)

lemma hexEncode_lower: "list_all isLowerHex (hexEncode bs)" "length (hexEncode bs) = 2 * length bs"
proof -
  have "(of_char c :: nat) < 16 * 16" for c :: char
    using range_nat_of_char by auto
  then have "(of_char c :: nat) div 16 < 16" for c :: char by (simp add: less_mult_imp_div_less)
  then show "list_all isLowerHex (hexEncode bs)"
    by (induction bs) (auto simp: hexEncode_def intro!: hexDigit_lower)
  show "length (hexEncode bs) = 2 * length bs" by (induction bs) (auto simp: hexEncode_def)
qed

lemma hexPad_lower: "list_all isLowerHex (hexPad w n)" "length (hexPad w n) = w"
  by (induction w n rule: hexPad.induct) (auto simp: hexDigit_lower)

lemma isValidRunID_parts:
  assumes "list_all2 (\<lambda>p c. p c) (replicate 8 isDigit @ [\<lambda>c. c = CHR ''T''] @ replicate 6 isDigit) t"
    and "list_all isLowerHex x" and "length x = 8"
  shows "isValidRunID (t @ ''-'' @ x)"
proof -
  have "list_all2 (\<lambda>p c. p c) (replicate 8 isLowerHex) x"
    using assms(2,3) by (auto simp: list_all2_conv_all_nth list_all_length)
  then have "list_all2 (\<lambda>p c. p c)
      ((replicate 8 isDigit @ [\<lambda>c. c = CHR ''T''] @ replicate 6 isDigit) @ [\<lambda>c. c = CHR ''-''] @ replicate 8 isLowerHex)
      (t @ ''-'' @ x)"
    by (intro list_all2_appendI assms(1)) simp_all
  then show ?thesis by (simp only: isValidRunID_def runIDPattern_def append_assoc)
qed

text \<open>
  Controller and API agree on run identifiers: if times are printed as eight digits, a T and
  six digits and the random source gives four bytes, every identifier the controller makes, with
  or without random bytes, passes the check of the API.
\<close>

theorem newRunID_accepted:
  assumes "\<And>t. list_all2 (\<lambda>p c. p c) (replicate 8 isDigit @ [\<lambda>c. c = CHR ''T''] @ replicate 6 isDigit) (runIDTime E t)"
    and "\<And>h bs. ev_randBytes E h = Inr bs \<Longrightarrow> length bs = 4"
  shows "isValidRunID (result_of (newRunID E) h)"
proof -
  have "isValidRunID (runIDTime E t @ ''-'' @ hexPad 8 n)" for t n
    using hexPad_lower by (rule isValidRunID_parts [OF assms(1)])
  moreover have "isValidRunID (runIDTime E t @ ''-'' @ hexEncode bs)" if "ev_randBytes E h = Inr bs" for t bs h
    using hexEncode_lower(1) by (rule isValidRunID_parts [OF assms(1)]) (simp add: hexEncode_lower(2) assms(2) [OF that])
  ultimately show ?thesis
    unfolding wp_result [symmetric] by (simp add: newRunID_def now_def randBytes_def wp_simps split: sum.split)
qed

section \<open>Storing a log\<close>

fun isPut :: "s3_call \<Rightarrow> bool" where
  "isPut (S3_PutObject k b) = True"
| "isPut c = False"

text \<open>
  A log that is reported as stored was stored: the key returned is the one that names the run
  and the phase, and the last request is a put of exactly the given body under that key, which
  the store answered without error. Whatever happens, the body is sent at most twice.
\<close>

theorem PutRunPhaseLog_stored:
  "length (filter isPut (calls_of (PutRunPhaseLog S ns ws rid ph body) h)) \<le> 2
   \<and> (case result_of (PutRunPhaseLog S ns ws rid ph body) h of
        Inl err \<Rightarrow> True
      | Inr key \<Rightarrow> key = RunPhaseLogKey ns ws rid ph
          \<and> (\<exists>cs. calls_of (PutRunPhaseLog S ns ws rid ph body) h = cs @ [S3_PutObject key body]
               \<and> s3_putObject S (h @ cs) key body = None))"
proof -
  let ?P = "PutRunPhaseLog S ns ws rid ph body" and ?k = "RunPhaseLogKey ns ws rid ph"
  have "wp ?P (\<lambda>r h'. \<exists>cs. h' = h @ cs \<and> length (filter isPut cs) \<le> 2 \<and> (\<forall>key. r = Inr key \<longrightarrow> key = ?k
      \<and> (\<exists>cs1. cs = cs1 @ [S3_PutObject key body] \<and> s3_putObject S (h @ cs1) key body = None))) h"
    by (auto simp: PutRunPhaseLog_def withBucketEnsure_def ensureBucket_def wp_simps Let_def split: option.split)
  then have "\<exists>cs. snd (run_state ?P h) = h @ cs \<and> length (filter isPut cs) \<le> 2 \<and> (\<forall>key. result_of ?P h = Inr key \<longrightarrow> key = ?k
      \<and> (\<exists>cs1. cs = cs1 @ [S3_PutObject key body] \<and> s3_putObject S (h @ cs1) key body = None))"
    by (simp add: wp_def result_of_def split: prod.splits)
  then show ?thesis by (auto simp: calls_of_def split: sum.split)
qed

section \<open>A concrete instance\<close>

lemma sampleRunID_valid: "isValidRunID ''20260101T000000-deadbeef''" "isValidRunID ''20260101T000001-deadbeef''"
  by (simp_all add: isValidRunID_def runIDPattern_def isDigit_def isLowerHex_def numeral_eq_Suc)

theorem log_keys_confined_witness:
  "RunPhaseLogKey ''default'' ''ws'' ''20260101T000000-deadbeef'' RunPhasePlan
     = ''run-logs/default/ws/20260101T000000-deadbeef/plan.log.gz''"
  using log_keys_confined [of "''default''" "''ws''" "''20260101T000000-deadbeef''" "''default''" "''ws''"
      "''20260101T000001-deadbeef''" RunPhasePlan RunPhaseApply] sampleRunID_valid
  by (simp add: segment_def)

theorem newRunID_accepted_witness:
  "isValidRunID (result_of (newRunID (sampleEnv\<lparr>ev_randBytes := (\<lambda>h. Inr ''abcd'')\<rparr>)) [])"
  by (rule newRunID_accepted) (auto simp: isDigit_def numeral_eq_Suc)

end
