(* ===== verification/Terraform_Client.thy ===== *)
theory Terraform_Client
  imports Git_Transport Log_Store
begin

text \<open>
  The Terraform client, \<open>src/internal/terraform\<close> (\<open>client.go\<close>, \<open>options.go\<close>, \<open>installer.go\<close>), and
  the calls a job makes: files, the Terraform executable through its library, Git, the policy
  command and the cluster. A call's answer is a function of the calls the job has made before.
  The client's state is its record; whether the library's instance exists is \<open>tc_tf\<close>, and the
  settings of that instance are the calls made on it. \<open>version.Must\<close> panics, which is the value
  \<open>None\<close> of \<open>Install\<close>.
\<close>

section \<open>The calls of a job\<close>

datatype git_auth =
    NoAuth
  | PublicKeys string
  | BasicAuth string string

datatype plan_option =
    VarFile string
  | Out string

datatype tf_source =
    ExactVersion string
  | FsVersion string
  | LatestVersion string
  | FsAnyVersion
  | LatestAny

datatype job_call =
    J_Log string
  | J_Print string
  | J_MkdirAll string
  | J_RemoveAll string
  | J_Remove string
  | J_Stat string
  | J_WriteFile string string
  | J_MkdirTemp string
  | J_Sleep duration
  | J_Git call
  | J_PlainClone string git_auth string
  | J_Worktree
  | J_ResolveRevision string
  | J_Checkout string
  | J_Install "tf_source list"
  | J_LookPath string
  | J_Abs string
  | J_StatDir string
  | J_NewTerraform string string
  | J_SetStdout string
  | J_SetStderr string
  | J_SetNoColor bool
  | J_SetEnv "(string \<times> string) list"
  | J_SetLog string
  | J_SetLogPath string
  | J_TfVersion
  | J_TfInit
  | J_TfPlan "plan_option list"
  | J_TfApply "string option"
  | J_TfDestroy
  | J_TfOutput
  | J_WorkspaceList
  | J_WorkspaceSelect string
  | J_WorkspaceNew string
  | J_ShowPlanFile string
  | J_InClusterConfig
  | J_NewDynamicClient
  | J_ListPolicies string
  | J_Kyverno "string list"

record policy_item =
  pit_name :: string
  pit_object :: string

record kyverno_result =
  ky_policy :: string
  ky_result :: string
  ky_message :: string

record jenv = env +
  je_environ :: "string list"
  je_lookupEnv :: "string \<Rightarrow> string option"
  je_isNotExist :: "goerr \<Rightarrow> bool"
  je_parseSSHKey :: "string \<Rightarrow> goerr option"
  je_validVersion :: "string \<Rightarrow> bool"
  je_constraint :: "string \<Rightarrow> (string \<Rightarrow> bool) result"
  je_marshalPlan :: "string \<Rightarrow> string result"
  je_marshalYAML :: "string \<Rightarrow> string result"
  je_unmarshalReport :: "string \<Rightarrow> kyverno_result list result"
  je_marshalPolicyResult :: "bool \<Rightarrow> policy_violation list \<Rightarrow> string"
  je_mkdirAll :: "job_call list \<Rightarrow> string \<Rightarrow> goerr option"
  je_removeAll :: "job_call list \<Rightarrow> string \<Rightarrow> goerr option"
  je_remove :: "job_call list \<Rightarrow> string \<Rightarrow> goerr option"
  je_stat :: "job_call list \<Rightarrow> string \<Rightarrow> goerr option"
  je_writeFile :: "job_call list \<Rightarrow> string \<Rightarrow> string \<Rightarrow> goerr option"
  je_mkdirTemp :: "job_call list \<Rightarrow> string \<Rightarrow> string result"
  je_plainClone :: "job_call list \<Rightarrow> string \<Rightarrow> git_auth \<Rightarrow> string \<Rightarrow> goerr option"
  je_worktree :: "job_call list \<Rightarrow> goerr option"
  je_resolveRevision :: "job_call list \<Rightarrow> string \<Rightarrow> string result"
  je_checkout :: "job_call list \<Rightarrow> string \<Rightarrow> goerr option"
  je_install :: "job_call list \<Rightarrow> tf_source list \<Rightarrow> string result"
  je_lookPath :: "job_call list \<Rightarrow> string \<Rightarrow> string result"
  je_abs :: "job_call list \<Rightarrow> string \<Rightarrow> string result"
  je_isDir :: "job_call list \<Rightarrow> string \<Rightarrow> bool"
  je_newTerraform :: "job_call list \<Rightarrow> string \<Rightarrow> string \<Rightarrow> goerr option"
  je_setEnv :: "job_call list \<Rightarrow> (string \<times> string) list \<Rightarrow> goerr option"
  je_setLog :: "job_call list \<Rightarrow> string \<Rightarrow> goerr option"
  je_setLogPath :: "job_call list \<Rightarrow> string \<Rightarrow> goerr option"
  je_tfVersion :: "job_call list \<Rightarrow> string result"
  je_tfInit :: "job_call list \<Rightarrow> goerr option"
  je_tfPlan :: "job_call list \<Rightarrow> plan_option list \<Rightarrow> bool result"
  je_tfApply :: "job_call list \<Rightarrow> string option \<Rightarrow> goerr option"
  je_tfDestroy :: "job_call list \<Rightarrow> goerr option"
  je_tfOutput :: "job_call list \<Rightarrow> (string \<times> string) list result"
  je_workspaceList :: "job_call list \<Rightarrow> string list result"
  je_workspaceSelect :: "job_call list \<Rightarrow> string \<Rightarrow> goerr option"
  je_workspaceNew :: "job_call list \<Rightarrow> string \<Rightarrow> goerr option"
  je_showPlanFile :: "job_call list \<Rightarrow> string \<Rightarrow> string result"
  je_inClusterConfig :: "job_call list \<Rightarrow> goerr option"
  je_newDynamicClient :: "job_call list \<Rightarrow> goerr option"
  je_listPolicies :: "job_call list \<Rightarrow> string \<Rightarrow> policy_item list result"
  je_kyverno :: "job_call list \<Rightarrow> string list \<Rightarrow> string \<times> goerr option"

type_synonym 'a job_prog = "(job_call, 'a) io"

definition logf :: "string \<Rightarrow> unit job_prog" where
  "logf line = perform (\<lambda>h. ()) (J_Log line)"

definition act :: "job_call \<Rightarrow> unit job_prog" where
  \<comment> \<open>a call without an answer\<close>
  "act c = perform (\<lambda>h. ()) c"

definition wrapErr :: "string \<Rightarrow> goerr option \<Rightarrow> goerr option" where
  "wrapErr what e = map_option (EWrap what) e"

section \<open>The client and its options\<close>

record tf_client =
  tc_workDir :: string
  tc_execPath :: string
  tc_tf :: bool
  tc_stdout :: "string option"
  tc_stderr :: "string option"
  tc_env :: "(string \<times> string) list option"
  tc_versionConstraint :: string
  tc_logLevel :: string
  tc_logPath :: string
  tc_color :: bool

type_synonym tf_option = "tf_client \<Rightarrow> tf_client"

definition WithExecPath :: "string \<Rightarrow> tf_option" where
  "WithExecPath p c = c\<lparr>tc_execPath := p\<rparr>"

definition WithOutput :: "string \<Rightarrow> string \<Rightarrow> tf_option" where
  "WithOutput out err c = c\<lparr>tc_stdout := Some out, tc_stderr := Some err\<rparr>"

definition WithStdout :: "string \<Rightarrow> tf_option" where
  "WithStdout w c = c\<lparr>tc_stdout := Some w\<rparr>"

definition WithStderr :: "string \<Rightarrow> tf_option" where
  "WithStderr w c = c\<lparr>tc_stderr := Some w\<rparr>"

definition WithEnv :: "(string \<times> string) list \<Rightarrow> tf_option" where
  "WithEnv vars c = c\<lparr>tc_env := Some vars\<rparr>"

definition WithVersionConstraint :: "string \<Rightarrow> tf_option" where
  "WithVersionConstraint constraint c = c\<lparr>tc_versionConstraint := constraint\<rparr>"

definition WithLog :: "string \<Rightarrow> string \<Rightarrow> tf_option" where
  "WithLog level path c = c\<lparr>tc_logLevel := level, tc_logPath := path\<rparr>"

definition WithColor :: tf_option where
  "WithColor c = c\<lparr>tc_color := True\<rparr>"

definition emptyClient :: "string \<Rightarrow> tf_client" where
  "emptyClient workDir =
     \<lparr>tc_workDir = workDir, tc_execPath = [], tc_tf = False, tc_stdout = None, tc_stderr = None,
      tc_env = None, tc_versionConstraint = [], tc_logLevel = [], tc_logPath = [], tc_color = False\<rparr>"

definition applyOptions :: "tf_option list \<Rightarrow> tf_client \<Rightarrow> tf_client" where
  "applyOptions opts c =
     (let c1 = fold (\<lambda>o' c. o' c) opts c;
          c2 = (if tc_stdout c1 = None then c1\<lparr>tc_stdout := Some ''stdout''\<rparr> else c1)
      in if tc_stderr c2 = None then c2\<lparr>tc_stderr := Some ''stderr''\<rparr> else c2)"

definition NewClient :: "jenv \<Rightarrow> string \<Rightarrow> tf_option list \<Rightarrow> tf_client result job_prog" where
  "NewClient J workDir opts =
     (let c = applyOptions opts (emptyClient workDir) in do {
        p \<leftarrow> (if tc_execPath c = [] then perform (\<lambda>h. je_lookPath J h ''terraform'') (J_LookPath ''terraform'')
              else ret (Inr (tc_execPath c)));
        case p of
          Inl err \<Rightarrow> ret (Inl (EWrap ''terraform binary not found in PATH'' err))
        | Inr execPath \<Rightarrow> do {
            a \<leftarrow> perform (\<lambda>h. je_abs J h workDir) (J_Abs workDir);
            ret (case a of
                   Inl err \<Rightarrow> Inl (EWrap ''failed to resolve work dir'' err)
                 | Inr dir \<Rightarrow> Inr (c\<lparr>tc_execPath := execPath, tc_workDir := dir\<rparr>))
          }
      })"

section \<open>Ensuring the instance\<close>

definition checkVersion :: "jenv \<Rightarrow> tf_client \<Rightarrow> goerr option job_prog" where
  "checkVersion J c =
     (if tc_versionConstraint c = [] then ret None
      else do {
        v \<leftarrow> perform (je_tfVersion J) J_TfVersion;
        ret (case v of
               Inl err \<Rightarrow> Some (EWrap ''failed to get terraform version'' err)
             | Inr ver \<Rightarrow>
                 (case je_constraint J (tc_versionConstraint c) of
                    Inl err \<Rightarrow> Some (EWrap (''invalid version constraint '' @ quoteString (tc_versionConstraint c)) err)
                  | Inr check \<Rightarrow>
                      if check ver then None
                      else Some (EMsg (''terraform version '' @ ver @ '' does not satisfy constraint ''
                        @ tc_versionConstraint c))))
      })"

definition setInstanceEnv :: "jenv \<Rightarrow> tf_client \<Rightarrow> goerr option job_prog" where
  "setInstanceEnv J c =
     (case tc_env c of
        None \<Rightarrow> ret None
      | Some vars \<Rightarrow> do {
          e \<leftarrow> perform (\<lambda>h. je_setEnv J h vars) (J_SetEnv vars);
          ret (wrapErr ''failed to set environment variables'' e)
        })"

definition setInstanceLog :: "jenv \<Rightarrow> tf_client \<Rightarrow> goerr option job_prog" where
  "setInstanceLog J c =
     (if tc_logPath c = [] then ret None
      else do {
        e \<leftarrow> (if tc_logLevel c = [] then ret None
              else perform (\<lambda>h. je_setLog J h (tc_logLevel c)) (J_SetLog (tc_logLevel c)));
        case e of
          Some err \<Rightarrow> ret (Some (EWrap ''failed to set terraform log level'' err))
        | None \<Rightarrow> do {
            p \<leftarrow> perform (\<lambda>h. je_setLogPath J h (tc_logPath c)) (J_SetLogPath (tc_logPath c));
            ret (wrapErr ''failed to set terraform log path'' p)
          }
      })"

definition configureInstance :: "jenv \<Rightarrow> tf_client \<Rightarrow> goerr option job_prog" where
  \<comment> \<open>the part of \<open>Ensure\<close> after the instance exists\<close>
  "configureInstance J c = do {
     act (J_SetStdout (the (tc_stdout c)));
     act (J_SetStderr (the (tc_stderr c)));
     act (J_SetNoColor (\<not> tc_color c));
     e \<leftarrow> setInstanceEnv J c;
     case e of
       Some err \<Rightarrow> ret (Some err)
     | None \<Rightarrow> do {
         l \<leftarrow> setInstanceLog J c;
         case l of
           Some err \<Rightarrow> ret (Some err)
         | None \<Rightarrow> checkVersion J c
       }
   }"

definition Ensure :: "jenv \<Rightarrow> tf_client \<Rightarrow> (goerr option \<times> tf_client) job_prog" where
  "Ensure J c =
     (if tc_tf c then ret (None, c)
      else do {
        d \<leftarrow> perform (\<lambda>h. je_isDir J h (tc_workDir c)) (J_StatDir (tc_workDir c));
        if \<not> d then ret (Some (EMsg (''workdir invalid: '' @ tc_workDir c)), c)
        else do {
          e \<leftarrow> perform (\<lambda>h. je_newTerraform J h (tc_workDir c) (tc_execPath c))
                (J_NewTerraform (tc_workDir c) (tc_execPath c));
          case e of
            Some err \<Rightarrow> ret (Some (EWrap ''failed to create terraform instance'' err), c)
          | None \<Rightarrow> do {
              r \<leftarrow> configureInstance J c;
              ret (r, c\<lparr>tc_tf := True\<rparr>)
            }
        }
      })"

definition ensured :: "jenv \<Rightarrow> tf_client \<Rightarrow> (goerr \<Rightarrow> 'a) \<Rightarrow> 'a job_prog \<Rightarrow> ('a \<times> tf_client) job_prog" where
  \<comment> \<open>every operation starts by ensuring the instance and returns its error\<close>
  "ensured J c failed body = do {
     (e, c1) \<leftarrow> Ensure J c;
     case e of
       Some err \<Rightarrow> ret (failed err, c1)
     | None \<Rightarrow> do { r \<leftarrow> body; ret (r, c1) }
   }"

section \<open>Operations\<close>

definition Init :: "jenv \<Rightarrow> tf_client \<Rightarrow> (goerr option \<times> tf_client) job_prog" where
  "Init J c = ensured J c Some (do {
     e \<leftarrow> perform (je_tfInit J) J_TfInit;
     ret (wrapErr ''failed to run terraform init'' e)
   })"

definition Plan :: "jenv \<Rightarrow> tf_client \<Rightarrow> string \<Rightarrow> plan_option list \<Rightarrow> (bool result \<times> tf_client) job_prog" where
  "Plan J c planOutPath extra = ensured J c Inl
     (let opts = extra @ (if planOutPath \<noteq> [] then [Out planOutPath] else []) in do {
        r \<leftarrow> perform (\<lambda>h. je_tfPlan J h opts) (J_TfPlan opts);
        ret (case r of Inl err \<Rightarrow> Inl (EWrap ''failed to run terraform plan'' err) | Inr changed \<Rightarrow> Inr changed)
      })"

definition Apply :: "jenv \<Rightarrow> tf_client \<Rightarrow> string \<Rightarrow> (goerr option \<times> tf_client) job_prog" where
  "Apply J c planPath = ensured J c Some
     (let target = (if planPath \<noteq> [] then Some planPath else None) in do {
        e \<leftarrow> perform (\<lambda>h. je_tfApply J h target) (J_TfApply target);
        ret (wrapErr ''failed to run terraform apply'' e)
      })"

definition Destroy :: "jenv \<Rightarrow> tf_client \<Rightarrow> (goerr option \<times> tf_client) job_prog" where
  "Destroy J c = ensured J c Some (do {
     e \<leftarrow> perform (je_tfDestroy J) J_TfDestroy;
     ret (wrapErr ''failed to run terraform destroy'' e)
   })"

definition Output :: "jenv \<Rightarrow> tf_client \<Rightarrow> ((string \<times> string) list result \<times> tf_client) job_prog" where
  "Output J c = ensured J c Inl (do {
     r \<leftarrow> perform (je_tfOutput J) J_TfOutput;
     ret (case r of Inl err \<Rightarrow> Inl (EWrap ''failed to get terraform output'' err) | Inr out \<Rightarrow> Inr out)
   })"

definition Version :: "jenv \<Rightarrow> tf_client \<Rightarrow> (string result \<times> tf_client) job_prog" where
  "Version J c = ensured J c Inl (do {
     r \<leftarrow> perform (je_tfVersion J) J_TfVersion;
     ret (case r of Inl err \<Rightarrow> Inl (EWrap ''failed to get terraform version'' err) | Inr v \<Rightarrow> Inr v)
   })"

definition WorkspaceSelectOrNew :: "jenv \<Rightarrow> tf_client \<Rightarrow> string \<Rightarrow> (goerr option \<times> tf_client) job_prog" where
  "WorkspaceSelectOrNew J c name = ensured J c Some
     (if name = [] \<or> name = ''default'' then ret None
      else do {
        l \<leftarrow> perform (je_workspaceList J) J_WorkspaceList;
        case l of
          Inl err \<Rightarrow> ret (Some (EWrap ''failed to list workspaces'' err))
        | Inr names \<Rightarrow>
            (if name \<in> set names then perform (\<lambda>h. je_workspaceSelect J h name) (J_WorkspaceSelect name)
             else do {
               e \<leftarrow> perform (\<lambda>h. je_workspaceNew J h name) (J_WorkspaceNew name);
               ret (wrapErr (''failed to create workspace '' @ name) e)
             })
      })"

definition ShowPlanFileRaw :: "jenv \<Rightarrow> tf_client \<Rightarrow> string \<Rightarrow> (string result \<times> tf_client) job_prog" where
  "ShowPlanFileRaw J c planFile = ensured J c Inl (do {
     act (J_SetStdout ''discard'');
     p \<leftarrow> perform (\<lambda>h. je_showPlanFile J h planFile) (J_ShowPlanFile planFile);
     act (J_SetStdout (the (tc_stdout c)));
     ret (case p of
            Inl err \<Rightarrow> Inl (EWrap ''failed to run terraform show -json'' err)
          | Inr plan \<Rightarrow>
              (case je_marshalPlan J plan of
                 Inl err \<Rightarrow> Inl (EWrap ''failed to marshal plan JSON'' err)
               | Inr b \<Rightarrow> Inr b))
   })"

definition SetEnv :: "jenv \<Rightarrow> tf_client \<Rightarrow> (string \<times> string) list \<Rightarrow> (goerr option \<times> tf_client) job_prog" where
  "SetEnv J c vars =
     (if \<not> tc_tf c then ret (None, c\<lparr>tc_env := Some vars\<rparr>)
      else do {
        e \<leftarrow> perform (\<lambda>h. je_setEnv J h vars) (J_SetEnv vars);
        ret (e, c)
      })"

section \<open>Installation\<close>

record binary_installer =
  bi_constraint :: string
  bi_exact :: string

definition NewBinaryInstaller :: "string \<Rightarrow> string \<Rightarrow> binary_installer" where
  "NewBinaryInstaller exactVersion constraint = \<lparr>bi_constraint = constraint, bi_exact = exactVersion\<rparr>"

definition Install :: "jenv \<Rightarrow> binary_installer \<Rightarrow> string result option job_prog" where
  "Install J b =
     (if bi_exact b = [] \<and> bi_constraint b = []
      then ret (Some (Inl (EMsg ''either exact version or constraint must be specified'')))
      else if bi_exact b \<noteq> [] \<and> \<not> je_validVersion J (bi_exact b) then ret None
      else if bi_exact b = [] \<and> (case je_constraint J (bi_constraint b) of Inl err \<Rightarrow> True | Inr check \<Rightarrow> False)
      then ret None
      else
        let sources = (if bi_exact b \<noteq> [] then [ExactVersion (bi_exact b)]
               else if bi_constraint b \<noteq> [] then [FsVersion (bi_constraint b), LatestVersion (bi_constraint b)]
               else [FsAnyVersion, LatestAny])
        in do {
          r \<leftarrow> perform (\<lambda>h. je_install J h sources) (J_Install sources);
          ret (Some (case r of Inl err \<Rightarrow> Inl (EWrap ''ensure terraform binary'' err) | Inr path \<Rightarrow> Inr path))
        })"

definition installedOptions :: "string \<Rightarrow> string \<Rightarrow> tf_option list \<Rightarrow> tf_option list" where
  "installedOptions execPath constraint opts =
     WithExecPath execPath # opts @ (if constraint \<noteq> [] then [WithVersionConstraint constraint] else [])"

definition NewClientFromInstall ::
    "jenv \<Rightarrow> string \<Rightarrow> string \<Rightarrow> string \<Rightarrow> tf_option list \<Rightarrow> tf_client result option job_prog" where
  "NewClientFromInstall J workDir exactVersion constraint opts = do {
     i \<leftarrow> Install J (NewBinaryInstaller exactVersion constraint);
     case i of
       None \<Rightarrow> ret None
     | Some (Inl err) \<Rightarrow> ret (Some (Inl err))
     | Some (Inr execPath) \<Rightarrow> do {
         m \<leftarrow> perform (\<lambda>h. je_mkdirAll J h workDir) (J_MkdirAll workDir);
         case m of
           Some err \<Rightarrow> ret (Some (Inl (EWrap ''create work dir'' err)))
         | None \<Rightarrow> do {
             a \<leftarrow> perform (\<lambda>h. je_abs J h workDir) (J_Abs workDir);
             n \<leftarrow> NewClient J (case a of Inl err \<Rightarrow> [] | Inr dir \<Rightarrow> dir) (installedOptions execPath constraint opts);
             case n of
               Inl err \<Rightarrow> ret (Some (Inl err))
             | Inr c \<Rightarrow> do {
                 (e, c1) \<leftarrow> Ensure J c;
                 ret (Some (case e of Some err \<Rightarrow> Inl err | None \<Rightarrow> Inr c1))
               }
           }
       }
   }"

definition ParseConstraint :: "jenv \<Rightarrow> string \<Rightarrow> string result" where
  "ParseConstraint J raw =
     (if raw = [] then Inr []
      else case je_constraint J raw of
             Inl err \<Rightarrow> Inl (EWrap ''invalid constraint'' err)
           | Inr check \<Rightarrow> Inr raw)"

end
