(* ===== verification/Job_Runner.thy ===== *)
theory Job_Runner
  imports Terraform_Client WS_Logs
begin

text \<open>
  The program of a plan or apply pod, \<open>src/cmd/job/main.go\<close>. A run ends in success, in an error
  that \<open>main\<close> logs before it exits non-zero, or in a panic of the version parser. The
  job types and the scanner's line limit are those of the controller's theories; the clone
  through native Git is \<open>Git_Transport.Clone\<close>, whose calls are embedded in those of the job.
\<close>

datatype job_end =
    Succeeded
  | Failed goerr
  | Panicked

record job_config =
  jcf_repoURL :: string
  jcf_targetRevision :: string
  jcf_tfVersion :: string
  jcf_tfPath :: string
  jcf_tfVarsPath :: string
  jcf_gitUser :: string
  jcf_gitPass :: string
  jcf_gitSSHKey :: string
  jcf_jobType :: string
  jcf_planFile :: string
  jcf_runID :: string
  jcf_policySelector :: string
  jcf_tfLogLevel :: string

definition envConfig :: "'z golib_scheme \<Rightarrow> job_config" where
  "envConfig L =
     \<lparr>jcf_repoURL = osGetenv L ''REPO_URL'', jcf_targetRevision = osGetenv L ''TARGET_REVISION'',
      jcf_tfVersion = osGetenv L ''TF_VERSION'', jcf_tfPath = osGetenv L ''TF_PATH'',
      jcf_tfVarsPath = osGetenv L ''TF_VAR_FILE'', jcf_gitUser = osGetenv L ''GIT_USERNAME'',
      jcf_gitPass = osGetenv L ''GIT_PASSWORD'', jcf_gitSSHKey = osGetenv L ''GIT_SSH_PRIVATE_KEY'',
      jcf_jobType = osGetenv L ''MAGOS_JOB_TYPE'', jcf_planFile = osGetenv L ''MAGOS_PLAN_FILE'',
      jcf_runID = osGetenv L ''MAGOS_RUN_ID'', jcf_policySelector = osGetenv L ''MAGOS_POLICY_SELECTOR'',
      jcf_tfLogLevel = osGetenv L ''MAGOS_TF_LOG_LEVEL''\<rparr>"

definition loadConfig :: "'z golib_scheme \<Rightarrow> job_config result" where
  "loadConfig L =
     (let cfg = envConfig L in
      if jcf_repoURL cfg = [] \<or> jcf_tfVersion cfg = [] \<or> jcf_jobType cfg = [] \<or> jcf_planFile cfg = [] \<or> jcf_runID cfg = []
      then Inl (EMsg ''REPO_URL, TF_VERSION, MAGOS_JOB_TYPE, MAGOS_PLAN_FILE, and MAGOS_RUN_ID are required'')
      else if jcf_jobType cfg \<noteq> jobTypePlan \<and> jcf_jobType cfg \<noteq> jobTypeApply
      then Inl (EMsg (''invalid MAGOS_JOB_TYPE: '' @ jcf_jobType cfg @ '' (must be 'plan' or 'apply')''))
      else if jcf_jobType cfg = jobTypePlan \<and> jcf_targetRevision cfg = []
      then Inl (EMsg ''TARGET_REVISION is required for plan jobs'')
      else Inr cfg)"

definition getAuthMethod :: "jenv \<Rightarrow> job_config \<Rightarrow> git_auth result" where
  "getAuthMethod J cfg =
     (if jcf_gitSSHKey cfg \<noteq> [] then
        (case je_parseSSHKey J (jcf_gitSSHKey cfg) of
           Some err \<Rightarrow> Inl (EWrap ''failed to parse SSH private key'' err)
         | None \<Rightarrow> Inr (PublicKeys (jcf_gitSSHKey cfg)))
      else if jcf_gitUser cfg \<noteq> [] \<or> jcf_gitPass cfg \<noteq> []
      then Inr (BasicAuth (jcf_gitUser cfg) (jcf_gitPass cfg))
      else Inr NoAuth)"

definition runsBase :: string where "runsBase = ''/workspace-data/runs''"
definition pluginCacheMount :: string where "pluginCacheMount = ''/workspace-data/plugin-cache''"

definition runDir :: "string \<Rightarrow> string" where
  "runDir runID = pathJoin [runsBase, runID]"

definition sourcePath :: "string \<Rightarrow> string" where
  "sourcePath runID = pathJoin [runDir runID, ''source'']"

definition validateSourceDir :: "jenv \<Rightarrow> string \<Rightarrow> goerr option job_prog" where
  "validateSourceDir J sourceDir = do {
     e \<leftarrow> perform (\<lambda>h. je_stat J h sourceDir) (J_Stat sourceDir);
     ret (case e of
            None \<Rightarrow> None
          | Some err \<Rightarrow>
              (if je_isNotExist J err
               then Some (EMsg (''source directory '' @ quoteString sourceDir
                 @ '' is missing; the plan pod did not prepare a working tree for this run''))
               else Some (EWrap (''failed to stat source directory '' @ quoteString sourceDir) err)))
   }"

section \<open>Cloning\<close>

fun gitCall :: "job_call \<Rightarrow> call option" where
  "gitCall (J_Git c) = Some c"
| "gitCall c = None"

definition viaGit :: "'a prog \<Rightarrow> 'a job_prog" where
  \<comment> \<open>a program over the calls of the cluster's environment, run as part of a job\<close>
  "viaGit = within J_Git gitCall"

definition checkoutRevision :: "jenv \<Rightarrow> job_config \<Rightarrow> goerr option job_prog" where
  "checkoutRevision J cfg = do {
     w \<leftarrow> perform (je_worktree J) J_Worktree;
     case w of
       Some err \<Rightarrow> ret (Some (EWrap ''failed to get worktree'' err))
     | None \<Rightarrow> do {
         r \<leftarrow> perform (\<lambda>h. je_resolveRevision J h (jcf_targetRevision cfg)) (J_ResolveRevision (jcf_targetRevision cfg));
         case r of
           Inl err \<Rightarrow> ret (Some (EWrap (''failed to resolve target revision '' @ quoteString (jcf_targetRevision cfg)) err))
         | Inr hash \<Rightarrow> do {
             k \<leftarrow> perform (\<lambda>h. je_checkout J h hash) (J_Checkout hash);
             case k of
               Some err \<Rightarrow> ret (Some (EWrap (''failed to checkout revision '' @ hash) err))
             | None \<Rightarrow> do {
                 logf (''Successfully checked out revision '' @ hash);
                 ret None
               }
           }
       }
   }"

definition cloneRepository :: "jenv \<Rightarrow> job_config \<Rightarrow> string \<Rightarrow> goerr option job_prog" where
  "cloneRepository J cfg dest =
     (if ModeForURL J (jcf_repoURL cfg) = NativeGit then do {
        logf (''Cloning helper-backed repository '' @ jcf_repoURL cfg @ '' into '' @ dest @ '' with native Git'');
        e \<leftarrow> viaGit (Clone (env.truncate J) (jcf_repoURL cfg) (jcf_targetRevision cfg) dest);
        case e of
          Some err \<Rightarrow> ret (Some (EWrap ''failed to clone helper-backed repository'' err))
        | None \<Rightarrow> do {
            logf (''Successfully checked out revision '' @ jcf_targetRevision cfg);
            ret None
          }
      }
      else case getAuthMethod J cfg of
             Inl err \<Rightarrow> ret (Some err)
           | Inr auth \<Rightarrow> do {
               logf (''Cloning repository '' @ jcf_repoURL cfg @ '' into '' @ dest);
               c \<leftarrow> perform (\<lambda>h. je_plainClone J h (jcf_repoURL cfg) auth dest) (J_PlainClone (jcf_repoURL cfg) auth dest);
               case c of
                 Some err \<Rightarrow> ret (Some (EWrap ''failed to clone repository'' err))
               | None \<Rightarrow> checkoutRevision J cfg
             })"

section \<open>Policies\<close>

fun reportViolations :: "jenv \<Rightarrow> string list \<Rightarrow> policy_violation list" where
  "reportViolations J [] = []"
| "reportViolations J (raw # raws) =
     (if length raw \<ge> maxScanTokenSize then []
      else
        let line = trimSpace (dropCR raw) in
        (if line = [] \<or> line = ''---'' then []
         else case je_unmarshalReport J line of
                Inl err \<Rightarrow> []
              | Inr results \<Rightarrow>
                  map (\<lambda>r. \<lparr>pv_policy = ky_policy r, pv_message = ky_message r\<rparr>)
                    (filter (\<lambda>r. ky_result r = ''fail'') results))
        @ reportViolations J raws)"

definition parseKyvernoReport :: "jenv \<Rightarrow> string \<Rightarrow> policy_violation list" where
  "parseKyvernoReport J output = reportViolations J (scanLines output)"

fun writePolicies :: "jenv \<Rightarrow> string \<Rightarrow> nat \<Rightarrow> policy_item list \<Rightarrow> goerr option job_prog" where
  "writePolicies J dir i [] = ret None"
| "writePolicies J dir i (item # items) =
     (case je_marshalYAML J (pit_object item) of
        Inl err \<Rightarrow> ret (Some (EWrap (''failed to marshal policy '' @ quoteString (pit_name item) @ '' to YAML'') err))
      | Inr yaml \<Rightarrow> do {
          e \<leftarrow> perform (\<lambda>h. je_writeFile J h (pathJoin [dir, ''policy-'' @ natString i @ ''.yaml'']) yaml)
                (J_WriteFile (pathJoin [dir, ''policy-'' @ natString i @ ''.yaml'']) yaml);
          case e of
            Some err \<Rightarrow> ret (Some (EWrap (''failed to write policy file for '' @ quoteString (pit_name item)) err))
          | None \<Rightarrow> writePolicies J dir (Suc i) items
        })"

definition kyvernoArgs :: "string \<Rightarrow> string \<Rightarrow> string list" where
  "kyvernoArgs policyDir planJSONFile =
     [''apply'', policyDir, ''--json'', planJSONFile, ''--policy-report'', ''--output-format'', ''json'']"

definition verdictLine :: "jenv \<Rightarrow> policy_violation list \<Rightarrow> string" where
  "verdictLine J violations = ''MAGOS_RESULT:'' @ je_marshalPolicyResult J (violations = []) violations"

definition evaluatePolicies :: "jenv \<Rightarrow> string \<Rightarrow> string \<Rightarrow> policy_item list \<Rightarrow> goerr option job_prog" where
  \<comment> \<open>the part of \<open>validatePolicies\<close> that runs while the policy directory exists\<close>
  "evaluatePolicies J policyDir planJSONFile items = do {
     w \<leftarrow> writePolicies J policyDir 0 items;
     case w of
       Some err \<Rightarrow> ret (Some err)
     | None \<Rightarrow> do {
         k \<leftarrow> perform (\<lambda>h. je_kyverno J h (kyvernoArgs policyDir planJSONFile)) (J_Kyverno (kyvernoArgs policyDir planJSONFile));
         let violations = parseKyvernoReport J (fst k);
         act (J_Print (verdictLine J violations));
         if violations \<noteq> []
         then ret (Some (EMsg (''policy validation failed: '' @ joinStrings (map pv_policy violations) '', '')))
         else do {
           logf ''Policy validation passed'';
           ret None
         }
       }
   }"

definition removePolicyDir :: "jenv \<Rightarrow> string \<Rightarrow> unit job_prog" where
  "removePolicyDir J policyDir = do {
     e \<leftarrow> perform (\<lambda>h. je_removeAll J h policyDir) (J_RemoveAll policyDir);
     case e of
       None \<Rightarrow> ret ()
     | Some err \<Rightarrow> logf (''Warning: failed to remove policy temp directory '' @ quoteString policyDir @ '': '' @ err_text err)
   }"

definition validatePolicies :: "jenv \<Rightarrow> job_config \<Rightarrow> string \<Rightarrow> goerr option job_prog" where
  "validatePolicies J cfg planJSONFile = do {
     logf (''Evaluating policies with selector '' @ quoteString (jcf_policySelector cfg));
     r \<leftarrow> perform (je_inClusterConfig J) J_InClusterConfig;
     case r of
       Some err \<Rightarrow> ret (Some (EWrap ''failed to get in-cluster config'' err))
     | None \<Rightarrow> do {
         d \<leftarrow> perform (je_newDynamicClient J) J_NewDynamicClient;
         case d of
           Some err \<Rightarrow> ret (Some (EWrap ''failed to create dynamic client'' err))
         | None \<Rightarrow> do {
             l \<leftarrow> perform (\<lambda>h. je_listPolicies J h (jcf_policySelector cfg)) (J_ListPolicies (jcf_policySelector cfg));
             case l of
               Inl err \<Rightarrow> ret (Some (EWrap ''failed to list ValidatingPolicy resources'' err))
             | Inr items \<Rightarrow>
                 (if items = [] then do {
                    logf ''No ValidatingPolicy resources match the selector, skipping validation'';
                    ret None
                  }
                  else do {
                    logf (''Found '' @ natString (length items) @ '' ValidatingPolicy resource(s) to evaluate'');
                    t \<leftarrow> perform (\<lambda>h. je_mkdirTemp J h ''magos-policies-*'') (J_MkdirTemp ''magos-policies-*'');
                    case t of
                      Inl err \<Rightarrow> ret (Some (EWrap ''failed to create policies temp directory'' err))
                    | Inr policyDir \<Rightarrow> do {
                        e \<leftarrow> evaluatePolicies J policyDir planJSONFile items;
                        removePolicyDir J policyDir;
                        ret e
                      }
                  })
           }
       }
   }"

section \<open>Terraform\<close>

definition workDirOf :: "job_config \<Rightarrow> string \<Rightarrow> string" where
  "workDirOf cfg cloneDir =
     (if jcf_tfPath cfg \<noteq> [] \<and> jcf_tfPath cfg \<noteq> ''.'' then pathJoin [cloneDir, jcf_tfPath cfg] else cloneDir)"

definition boolText :: "bool \<Rightarrow> string" where
  "boolText b = (if b then ''true'' else ''false'')"

definition clientOptions :: "jenv \<Rightarrow> job_config \<Rightarrow> bool \<Rightarrow> tf_option list" where
  "clientOptions J cfg cached =
     (if cached then [WithEnv [(''TF_PLUGIN_CACHE_DIR'', pluginCacheMount)]] else [])
     @ (if jcf_tfLogLevel cfg \<noteq> [] then [WithLog (jcf_tfLogLevel cfg) ''/dev/stderr''] else [])
     @ (if je_lookupEnv J ''NO_COLOR'' = None then [WithColor] else [])"

definition planOptions :: "job_config \<Rightarrow> string \<Rightarrow> plan_option list" where
  "planOptions cfg cloneDir =
     (if jcf_tfVarsPath cfg \<noteq> [] then [VarFile (pathJoin [cloneDir, jcf_tfVarsPath cfg])] else [])
     @ [Out (jcf_planFile cfg)]"

definition planJSONFileOf :: "job_config \<Rightarrow> string" where
  "planJSONFileOf cfg = trimSuffix (jcf_planFile cfg) ''.tfplan'' @ ''.plan.json''"

definition execPlan :: "jenv \<Rightarrow> job_config \<Rightarrow> string \<Rightarrow> tf_client \<Rightarrow> job_end job_prog" where
  \<comment> \<open>the plan branch of \<open>execTerraform\<close>\<close>
  "execPlan J cfg cloneDir c = do {
     logf ''Running 'terraform plan'...'';
     (p, c1) \<leftarrow> Plan J c [] (planOptions cfg cloneDir);
     case p of
       Inl err \<Rightarrow> ret (Failed (EWrap ''terraform plan failed'' err))
     | Inr hasChanges \<Rightarrow> do {
         logf (''Terraform plan completed successfully. Changes present: '' @ boolText hasChanges);
         if jcf_policySelector cfg = [] then ret Succeeded
         else do {
           logf ''Running 'terraform show -json' to produce plan JSON...'';
           (s, c2) \<leftarrow> ShowPlanFileRaw J c1 (jcf_planFile cfg);
           case s of
             Inl err \<Rightarrow> ret (Failed (EWrap ''terraform show -json failed'' err))
           | Inr planJSON \<Rightarrow> do {
               w \<leftarrow> perform (\<lambda>h. je_writeFile J h (planJSONFileOf cfg) planJSON) (J_WriteFile (planJSONFileOf cfg) planJSON);
               case w of
                 Some err \<Rightarrow> ret (Failed (EWrap ''failed to write plan JSON'' err))
               | None \<Rightarrow> do {
                   logf (''Plan JSON written to '' @ planJSONFileOf cfg);
                   v \<leftarrow> validatePolicies J cfg (planJSONFileOf cfg);
                   ret (case v of None \<Rightarrow> Succeeded | Some err \<Rightarrow> Failed err)
                 }
             }
         }
       }
   }"

fun waitForPlan :: "jenv \<Rightarrow> string \<Rightarrow> nat \<Rightarrow> bool job_prog" where
  \<comment> \<open>the polling loop of the apply branch, with the attempts that are left\<close>
  "waitForPlan J planFile 0 = ret False"
| "waitForPlan J planFile (Suc n) = do {
     e \<leftarrow> perform (\<lambda>h. je_stat J h planFile) (J_Stat planFile);
     if e = None then ret True
     else do {
       logf (''Waiting for plan file '' @ planFile @ '' to become available...'');
       act (J_Sleep 1000000000);
       waitForPlan J planFile n
     }
   }"

definition applyPlan :: "jenv \<Rightarrow> job_config \<Rightarrow> tf_client \<Rightarrow> job_end job_prog" where
  \<comment> \<open>the apply branch between the registration of the deferred removal and the return\<close>
  "applyPlan J cfg c = do {
     planExists \<leftarrow> waitForPlan J (jcf_planFile cfg) 10;
     if \<not> planExists
     then ret (Failed (EMsg (''terraform apply failed: plan file '' @ jcf_planFile cfg @ '' does not exist after waiting. ''
       @ ''The plan job may not have successfully written or shared the plan file via the PVC'')))
     else do {
       (e, c1) \<leftarrow> Apply J c (jcf_planFile cfg);
       case e of
         Some err \<Rightarrow> ret (Failed (EWrap ''terraform apply failed'' err))
       | None \<Rightarrow> do {
           logf ''Terraform apply completed successfully.'';
           logf (''Cleaning up plan file '' @ jcf_planFile cfg @ ''...'');
           r \<leftarrow> perform (\<lambda>h. je_remove J h (jcf_planFile cfg)) (J_Remove (jcf_planFile cfg));
           (case r of
              None \<Rightarrow> ret ()
            | Some err \<Rightarrow> if je_isNotExist J err then ret ()
                else logf (''Warning: failed to delete plan file: '' @ err_text err));
           ret Succeeded
         }
     }
   }"

definition removeRunDir :: "jenv \<Rightarrow> job_config \<Rightarrow> unit job_prog" where
  "removeRunDir J cfg = do {
     logf (''Removing run directory '' @ runDir (jcf_runID cfg) @ ''...'');
     e \<leftarrow> perform (\<lambda>h. je_removeAll J h (runDir (jcf_runID cfg))) (J_RemoveAll (runDir (jcf_runID cfg)));
     case e of
       None \<Rightarrow> ret ()
     | Some err \<Rightarrow> logf (''Warning: failed to remove run dir: '' @ err_text err)
   }"

definition execApply :: "jenv \<Rightarrow> job_config \<Rightarrow> tf_client \<Rightarrow> job_end job_prog" where
  "execApply J cfg c = do {
     logf (''Running 'terraform apply' using plan '' @ jcf_planFile cfg @ ''...'');
     r \<leftarrow> applyPlan J cfg c;
     removeRunDir J cfg;
     ret r
   }"

definition makePluginCache :: "jenv \<Rightarrow> bool job_prog" where
  "makePluginCache J = do {
     e \<leftarrow> perform (\<lambda>h. je_mkdirAll J h pluginCacheMount) (J_MkdirAll pluginCacheMount);
     case e of
       Some err \<Rightarrow> do {
         logf (''Warning: failed to create plugin cache dir '' @ quoteString pluginCacheMount @ '', caching disabled: '' @ err_text err);
         ret False
       }
     | None \<Rightarrow> do {
         logf (''Provider plugin cache enabled at '' @ pluginCacheMount);
         ret True
       }
   }"

definition execTerraform :: "jenv \<Rightarrow> job_config \<Rightarrow> string \<Rightarrow> job_end job_prog" where
  "execTerraform J cfg cloneDir = do {
     cached \<leftarrow> makePluginCache J;
     (if jcf_tfLogLevel cfg \<noteq> [] then logf (''Terraform log level set to '' @ jcf_tfLogLevel cfg) else ret ());
     logf (''Initializing Terraform '' @ jcf_tfVersion cfg @ '' in '' @ workDirOf cfg cloneDir);
     n \<leftarrow> NewClientFromInstall J (workDirOf cfg cloneDir) (jcf_tfVersion cfg) [] (clientOptions J cfg cached);
     case n of
       None \<Rightarrow> ret Panicked
     | Some (Inl err) \<Rightarrow> ret (Failed (EWrap ''failed to initialize terraform client'' err))
     | Some (Inr c) \<Rightarrow> do {
         logf ''Running 'terraform init'...'';
         (i, c1) \<leftarrow> Init J c;
         case i of
           Some err \<Rightarrow> ret (Failed (EWrap ''terraform init failed'' err))
         | None \<Rightarrow>
             (if jcf_jobType cfg = jobTypePlan then execPlan J cfg cloneDir c1
              else if jcf_jobType cfg = jobTypeApply then execApply J cfg c1
              else ret Succeeded)
       }
   }"

section \<open>The job\<close>

definition envName :: "string \<Rightarrow> string option" where
  \<comment> \<open>the name of a Terraform input in an entry of \<open>os.Environ\<close>\<close>
  "envName kv =
     (let key = takeWhile (\<lambda>c. c \<noteq> CHR ''='') kv in
      if key = [] \<or> key = kv \<or> \<not> hasPrefix key ''TF_VAR_'' then None
      else Some (trimPrefix key ''TF_VAR_''))"

definition inputNames :: "string list \<Rightarrow> string list" where
  "inputNames environ = sort (List.map_filter envName environ)"

definition inputsLine :: "string list \<Rightarrow> string" where
  "inputsLine environ =
     (let names = inputNames environ in
      if names = [] then ''No Terraform inputs from VariableSets attached to this run''
      else ''Loaded '' @ natString (length names) @ '' Terraform input(s) from VariableSets: '' @ joinStrings names '', '')"

definition logTerraformEnvVars :: "jenv \<Rightarrow> unit job_prog" where
  "logTerraformEnvVars J = logf (inputsLine (je_environ J))"

definition prepareSource :: "jenv \<Rightarrow> job_config \<Rightarrow> goerr option job_prog" where
  \<comment> \<open>the switch of \<open>run\<close>\<close>
  "prepareSource J cfg =
     (if jcf_jobType cfg = jobTypePlan then do {
        e \<leftarrow> perform (\<lambda>h. je_removeAll J h runsBase) (J_RemoveAll runsBase);
        case e of
          Some err \<Rightarrow> ret (Some (EWrap ''failed to clear runs dir'' err))
        | None \<Rightarrow> do {
            m \<leftarrow> perform (\<lambda>h. je_mkdirAll J h (runDir (jcf_runID cfg))) (J_MkdirAll (runDir (jcf_runID cfg)));
            case m of
              Some err \<Rightarrow> ret (Some (EWrap ''failed to create run dir'' err))
            | None \<Rightarrow> cloneRepository J cfg (sourcePath (jcf_runID cfg))
          }
      }
      else if jcf_jobType cfg = jobTypeApply then validateSourceDir J (sourcePath (jcf_runID cfg))
      else ret None)"

definition runJob :: "jenv \<Rightarrow> job_end job_prog" where
  "runJob J =
     (case loadConfig J of
        Inl err \<Rightarrow> ret (Failed err)
      | Inr cfg \<Rightarrow> do {
          logTerraformEnvVars J;
          e \<leftarrow> prepareSource J cfg;
          case e of
            Some err \<Rightarrow> ret (Failed err)
          | None \<Rightarrow> execTerraform J cfg (sourcePath (jcf_runID cfg))
        })"

definition exitCode :: "job_end \<Rightarrow> int" where
  \<comment> \<open>\<open>main\<close>: success, \<open>log.Fatalf\<close>, or a panic\<close>
  "exitCode r = (case r of Succeeded \<Rightarrow> 0 | Failed err \<Rightarrow> 1 | Panicked \<Rightarrow> 2)"

end
