(* ===== verification/Job_Safety.thy ===== *)
theory Job_Safety
  imports Job_Runner
begin

text \<open>
  What a job does to its surroundings: which calls it can make, what \<open>terraform apply\<close> is run on,
  how long it waits, what it removes, where its directories are, and what a failed set-up of the
  Terraform client leaves. The last section has the environment in which the witnesses of the
  job's theorems run.
\<close>

section \<open>The calls a job can make\<close>

definition jobAllowed :: "job_config \<Rightarrow> job_call \<Rightarrow> bool" where
  "jobAllowed cfg c =
     (case c of
        J_TfApply target \<Rightarrow> jcf_jobType cfg = jobTypeApply \<and> target = Some (jcf_planFile cfg)
      | J_TfPlan opts \<Rightarrow> jcf_jobType cfg = jobTypePlan \<and> last opts = Out (jcf_planFile cfg)
      | J_TfDestroy \<Rightarrow> False
      | J_WorkspaceNew n \<Rightarrow> False
      | J_PlainClone url auth dest \<Rightarrow>
          jcf_jobType cfg = jobTypePlan \<and> url = jcf_repoURL cfg \<and> dest = sourcePath (jcf_runID cfg)
      | J_Git g \<Rightarrow> jcf_jobType cfg = jobTypePlan
      | J_Print line \<Rightarrow> jcf_jobType cfg = jobTypePlan \<and> jcf_policySelector cfg \<noteq> []
      | J_Remove path \<Rightarrow> jcf_jobType cfg = jobTypeApply \<and> path = jcf_planFile cfg
      | _ \<Rightarrow> True)"

lemma wp_logf [wp_simps]: "wp (logf s) Q h = Q () (h @ [J_Log s])"
  by (simp add: logf_def wp_perform)

lemma wp_act [wp_simps]: "wp (act c) Q h = Q () (h @ [c])"
  by (simp add: act_def wp_perform)

lemma allowed_log [simp]: "jobAllowed cfg (J_Log s)"
  by (simp add: jobAllowed_def)

lemma emits_logf [emits_intros]: "P (J_Log s) \<Longrightarrow> emits P (logf s)"
  by (simp add: logf_def emits_perform)

lemma emits_act [emits_intros]: "P c \<Longrightarrow> emits P (act c)"
  by (simp add: act_def emits_perform)

fun neutralCall :: "job_call \<Rightarrow> bool" where
  \<comment> \<open>calls of the client's set-up, which change nothing but the client\<close>
  "neutralCall (J_StatDir d) = True"
| "neutralCall (J_NewTerraform d p) = True"
| "neutralCall (J_SetStdout w) = True"
| "neutralCall (J_SetStderr w) = True"
| "neutralCall (J_SetNoColor b) = True"
| "neutralCall (J_SetEnv vars) = True"
| "neutralCall (J_SetLog l) = True"
| "neutralCall (J_SetLogPath l) = True"
| "neutralCall J_TfVersion = True"
| "neutralCall (J_Install s) = True"
| "neutralCall (J_LookPath s) = True"
| "neutralCall (J_Abs s) = True"
| "neutralCall (J_MkdirAll s) = True"
| "neutralCall J_TfInit = True"
| "neutralCall (J_ShowPlanFile p) = True"
| "neutralCall (J_Log s) = True"
| "neutralCall c = False"

lemma neutral_allowed: "neutralCall c \<Longrightarrow> jobAllowed cfg c"
  by (cases c) (auto simp: jobAllowed_def)

lemma emits_Ensure [emits_intros]: "(\<And>c. neutralCall c \<Longrightarrow> P c) \<Longrightarrow> emits P (Ensure J c)"
  unfolding Ensure_def configureInstance_def setInstanceEnv_def setInstanceLog_def checkVersion_def
  by (auto intro!: emits_intros)

lemma emits_ensured [emits_intros]:
  "(\<And>c. neutralCall c \<Longrightarrow> P c) \<Longrightarrow> emits P m \<Longrightarrow> emits P (ensured J c f m)"
  unfolding ensured_def by (auto intro!: emits_intros)

lemma emits_client [emits_intros]:
  assumes "\<And>c. neutralCall c \<Longrightarrow> P c"
  shows "emits P (NewClientFromInstall J w v k opts)" "emits P (Init J c)" "emits P (ShowPlanFileRaw J c p)"
  unfolding NewClientFromInstall_def Install_def NewClient_def Init_def ShowPlanFileRaw_def Let_def
  using assms by (auto intro!: emits_intros split: option.splits sum.splits)

lemma emits_viaGit [emits_intros]:
  "emits (\<lambda>c. True) m \<Longrightarrow> (\<And>c. P (J_Git c)) \<Longrightarrow> emits P (viaGit m)"
  unfolding viaGit_def by (rule emits_within)

lemma emits_Clone: "emits (\<lambda>c. True) (Clone E u r d)"
  unfolding Clone_def run_git_def runGit_def by (auto intro!: emits_intros)

lemma emits_writePolicies [emits_intros]:
  "(\<And>p b. P (J_WriteFile p b)) \<Longrightarrow> emits P (writePolicies J d i items)"
  by (induction items arbitrary: i) (auto intro!: emits_intros)

lemma emits_waitForPlan [emits_intros]:
  "(\<And>s. P (J_Log s)) \<Longrightarrow> P (J_Stat f) \<Longrightarrow> (\<And>d. P (J_Sleep d)) \<Longrightarrow> emits P (waitForPlan J f n)"
  by (induction n) (auto intro!: emits_intros)

lemma emits_validatePolicies:
  "jcf_jobType cfg = jobTypePlan \<Longrightarrow> jcf_policySelector cfg \<noteq> [] \<Longrightarrow> emits (jobAllowed cfg) (validatePolicies J cfg f)"
  unfolding validatePolicies_def evaluatePolicies_def removePolicyDir_def Let_def
  by (auto intro!: emits_intros simp: jobAllowed_def)

lemma emits_execPlan:
  "jcf_jobType cfg = jobTypePlan \<Longrightarrow> emits (jobAllowed cfg) (execPlan J cfg d c)"
  unfolding execPlan_def Plan_def Let_def
  by (auto intro!: emits_intros emits_validatePolicies dest: neutral_allowed [where cfg = cfg])
     (auto simp: jobAllowed_def planOptions_def)

lemma emits_execApply:
  "jcf_jobType cfg = jobTypeApply \<Longrightarrow> jcf_planFile cfg \<noteq> [] \<Longrightarrow> emits (jobAllowed cfg) (execApply J cfg c)"
  unfolding execApply_def applyPlan_def removeRunDir_def Apply_def Let_def
  by (auto intro!: emits_intros dest: neutral_allowed [where cfg = cfg]) (auto simp: jobAllowed_def)

lemma emits_cloneRepository:
  "jcf_jobType cfg = jobTypePlan \<Longrightarrow> emits (jobAllowed cfg) (cloneRepository J cfg (sourcePath (jcf_runID cfg)))"
  unfolding cloneRepository_def checkoutRevision_def
  by (auto intro!: emits_intros emits_Clone) (auto simp: jobAllowed_def)

lemma loadConfig_valid:
  assumes "loadConfig L = Inr cfg"
  shows "cfg = envConfig L" "jcf_repoURL cfg \<noteq> []" "jcf_tfVersion cfg \<noteq> []" "jcf_planFile cfg \<noteq> []" "jcf_runID cfg \<noteq> []"
    "jcf_jobType cfg \<in> {jobTypePlan, jobTypeApply}" "jcf_jobType cfg = jobTypePlan \<longrightarrow> jcf_targetRevision cfg \<noteq> []"
  using assms by (auto simp: loadConfig_def Let_def split: if_splits)

lemma jobTypes_differ [simp]: "jobTypePlan \<noteq> jobTypeApply" "jobTypeApply \<noteq> jobTypePlan"
  by (simp_all add: jobTypePlan_def jobTypeApply_def)

lemma emits_runJob:
  assumes "loadConfig J = Inr cfg"
  shows "emits (jobAllowed cfg) (runJob J)"
proof -
  have "emits (jobAllowed cfg) (prepareSource J cfg)"
    unfolding prepareSource_def validateSourceDir_def
    by (auto intro!: emits_intros emits_cloneRepository) (auto simp: jobAllowed_def)
  moreover have "emits (jobAllowed cfg) (execTerraform J cfg d)" for d
    unfolding execTerraform_def makePluginCache_def
    using loadConfig_valid(4) [OF assms]
    by (auto intro!: emits_intros emits_execPlan emits_execApply dest: neutral_allowed [where cfg = cfg] split: option.splits sum.splits)
       (auto simp: jobAllowed_def)
  ultimately show ?thesis
    unfolding runJob_def logTerraformEnvVars_def using assms by (auto intro!: emits_intros)
qed


section \<open>Applying\<close>

fun notApply :: "job_call \<Rightarrow> bool" where
  "notApply (J_TfApply t) = False"
| "notApply c = True"

lemma neutral_notApply: "neutralCall c \<Longrightarrow> notApply c"
  by (cases c) auto

lemma waitForPlan_False: "\<forall>h. je_stat J h f \<noteq> None \<Longrightarrow> wp (waitForPlan J f n) (\<lambda>a h'. \<not> a) h"
  by (induction n arbitrary: h) (auto simp: wp_simps logf_def act_def)

lemma applyPlan_needs_file:
  assumes "\<forall>h. je_stat J h (jcf_planFile cfg) \<noteq> None"
  shows "emits notApply (applyPlan J cfg c)"
  unfolding applyPlan_def
  by (rule emits_bind_wp, (intro emits_intros; simp), rule wp_mono [OF waitForPlan_False [OF assms]], simp add: emits_ret)

lemma execTerraform_needs_file:
  assumes "\<forall>h. je_stat J h (jcf_planFile cfg) \<noteq> None"
  shows "emits notApply (execTerraform J cfg d)"
proof -
  have "emits notApply (execPlan J cfg d c)" for c
    unfolding execPlan_def Plan_def Let_def validatePolicies_def evaluatePolicies_def removePolicyDir_def
    by (auto intro!: emits_intros dest: neutral_notApply)
  moreover have "emits notApply (execApply J cfg c)" for c
    unfolding execApply_def removeRunDir_def
    by (auto intro!: emits_intros applyPlan_needs_file [OF assms])
  ultimately show ?thesis
    unfolding execTerraform_def makePluginCache_def
    by (auto intro!: emits_intros dest: neutral_notApply split: option.splits sum.splits)
qed

lemma prepareSource_notApply: "emits notApply (prepareSource J cfg)"
  unfolding prepareSource_def validateSourceDir_def cloneRepository_def checkoutRevision_def
  by (auto intro!: emits_intros emits_Clone)

lemma runJob_needs_source:
  assumes "loadConfig J = Inr cfg" and "jcf_jobType cfg = jobTypeApply"
    and "\<forall>h. je_stat J h (sourcePath (jcf_runID cfg)) \<noteq> None"
  shows "emits notApply (runJob J)"
proof -
  have never: "wp (prepareSource J cfg) (\<lambda>e h'. e \<noteq> None) h" for h
    using assms(2,3) by (auto simp: prepareSource_def validateSourceDir_def wp_simps split: option.splits)
  have "emits notApply (do { e \<leftarrow> prepareSource J cfg;
      case e of Some err \<Rightarrow> ret (Failed err) | None \<Rightarrow> execTerraform J cfg (sourcePath (jcf_runID cfg)) })"
    by (intro emits_bind_wp [OF prepareSource_notApply] wp_mono [OF never]) (auto intro: emits_ret)
  then show ?thesis
    unfolding runJob_def logTerraformEnvVars_def using assms(1) by (auto intro!: emits_intros)
qed

lemma runJob_needs_file:
  assumes "loadConfig J = Inr cfg" and "\<forall>h. je_stat J h (jcf_planFile cfg) \<noteq> None"
  shows "emits notApply (runJob J)"
  unfolding runJob_def logTerraformEnvVars_def using assms
  by (auto intro!: emits_intros prepareSource_notApply execTerraform_needs_file)

text \<open>
  C16. What an apply pod applies: \<open>terraform apply\<close> is called only in a job of type apply, only on
  the configured plan file, and only when the working tree of the plan pod and the plan
  file were seen to exist; a plan pod never applies, and no job ever destroys.
\<close>

theorem apply_uses_saved_plan:
  assumes "call \<in> set (calls_of (runJob J) [])"
  shows "call \<noteq> J_TfDestroy \<and> (\<forall>target. call = J_TfApply target \<longrightarrow>
     (\<exists>cfg h1 h2. loadConfig J = Inr cfg \<and> jcf_jobType cfg = jobTypeApply \<and> target = Some (jcf_planFile cfg) \<and>
        je_stat J h1 (sourcePath (jcf_runID cfg)) = None \<and> je_stat J h2 (jcf_planFile cfg) = None))"
proof (cases "loadConfig J")
  case (Inl err)
  then have "calls_of (runJob J) [] = []" by (simp add: runJob_def)
  with assms show ?thesis by simp
next
  case (Inr cfg)
  have allowed: "jobAllowed cfg call" using emits_call [OF emits_runJob [OF Inr] assms] .
  have "\<exists>h1 h2. je_stat J h1 (sourcePath (jcf_runID cfg)) = None \<and> je_stat J h2 (jcf_planFile cfg) = None"
    if "call = J_TfApply target" for target
  proof -
    have "\<not> notApply call" and t: "jcf_jobType cfg = jobTypeApply" using that allowed by (simp_all add: jobAllowed_def)
    then show ?thesis
      using emits_call [OF runJob_needs_source [OF Inr t] assms] emits_call [OF runJob_needs_file [OF Inr] assms] by fast
  qed
  then show ?thesis using Inr allowed by (auto simp: jobAllowed_def)
qed

text \<open>The wait for the plan file: it ends, with at most as many looks and pauses as attempts.\<close>

definition looks :: "string \<Rightarrow> job_call list \<Rightarrow> nat" where
  "looks f h = length (filter (\<lambda>c. c = J_Stat f) h)"

definition pauses :: "job_call list \<Rightarrow> nat" where
  "pauses h = length (filter (\<lambda>c. c = J_Sleep 1000000000) h)"

lemma looks_simps [simp]:
  "looks f (h @ h') = looks f h + looks f h'" "looks f [] = 0"
  "looks f (c # h) = (if c = J_Stat f then 1 else 0) + looks f h"
  by (simp_all add: looks_def)

lemma pauses_simps [simp]:
  "pauses (h @ h') = pauses h + pauses h'" "pauses [] = 0"
  "pauses (c # h) = (if c = J_Sleep 1000000000 then 1 else 0) + pauses h"
  by (simp_all add: pauses_def)

lemma waitForPlan_bound:
  "wp (waitForPlan J f n) (\<lambda>a h'. looks f h' \<le> looks f h + n \<and> pauses h' \<le> pauses h + n \<and>
     (a \<longrightarrow> (\<exists>h1. je_stat J h1 f = None)) \<and> (\<not> a \<longrightarrow> pauses h' = pauses h + n)) h"
proof (induction n arbitrary: h)
  case (Suc n)
  have "wp (waitForPlan J f n) (\<lambda>a h'. looks f h' \<le> looks f h + Suc n \<and> pauses h' \<le> pauses h + Suc n \<and>
     (a \<longrightarrow> (\<exists>h1. je_stat J h1 f = None)) \<and> (\<not> a \<longrightarrow> pauses h' = pauses h + Suc n))
     (((h @ [J_Stat f]) @ [J_Log line]) @ [J_Sleep 1000000000])" for line
    by (rule wp_mono [OF Suc]) auto
  then show ?case
    by (cases "je_stat J h f") (simp_all only: waitForPlan.simps wp_bind wp_perform wp_if wp_ret logf_def act_def, auto)
qed (simp add: wp_simps)

section \<open>Cleaning up\<close>

lemma reaches_logf_skip: "reaches Q m \<Longrightarrow> reaches Q (do { logf s; m })"
  by (rule reaches_after) (auto intro: emits_intros)

lemma execApply_removes: "reaches (\<lambda>c. c = J_RemoveAll (runDir (jcf_runID cfg))) (execApply J cfg c)"
proof -
  have "reaches (\<lambda>c. c = J_RemoveAll (runDir (jcf_runID cfg))) (removeRunDir J cfg)"
    unfolding removeRunDir_def
    by (rule reaches_logf_skip, rule reaches_first, rule reaches_perform) (auto intro!: emits_intros split: option.split)
  then show ?thesis
    unfolding execApply_def applyPlan_def Apply_def Let_def
    by (intro reaches_logf_skip reaches_after reaches_first) (auto intro!: emits_intros)
qed

lemma execApply_success:
  "wp (execApply J cfg c) (\<lambda>r h'. r = Succeeded \<longrightarrow> J_Remove (jcf_planFile cfg) \<in> set h') h"
proof -
  have keeps: "wp (removeRunDir J cfg) (\<lambda>x h'. J_Remove p \<in> set h') h1" if "J_Remove p \<in> set h1" for p h1
    using that by (simp add: removeRunDir_def wp_simps split: option.splits)
  have applied: "wp (applyPlan J cfg c) (\<lambda>r h'. r = Succeeded \<longrightarrow> J_Remove (jcf_planFile cfg) \<in> set h') h1" for h1
    unfolding applyPlan_def
    by (rule wp_skip, rule wp_branch, simp add: wp_ret, rule wp_skip)
       (auto simp: wp_simps split: prod.split option.split)
  show ?thesis
    unfolding execApply_def
  proof (rule wp_skip, rule wp_then [OF applied])
    fix r h'
    assume "r = Succeeded \<longrightarrow> J_Remove (jcf_planFile cfg) \<in> set h'"
    then show "wp (do { removeRunDir J cfg; ret r }) (\<lambda>r h'. r = Succeeded \<longrightarrow> J_Remove (jcf_planFile cfg) \<in> set h') h'"
      by (cases "r = Succeeded") (auto intro: wp_then [OF keeps] wp_skip simp: wp_ret)
  qed
qed

text \<open>
  Once an apply pod has initialised Terraform it removes the directory of its run, whether
  the plan file is missing, the apply fails or it succeeds, and a success removes the plan file.
\<close>

theorem apply_cleans_up:
  "list_ex (\<lambda>call. call = J_RemoveAll (runDir (jcf_runID cfg))) (calls_of (execApply J cfg c) []) \<and>
   (result_of (execApply J cfg c) [] = Succeeded \<longrightarrow>
      J_Remove (jcf_planFile cfg) \<in> set (calls_of (execApply J cfg c) []))"
proof
  show "list_ex (\<lambda>call. call = J_RemoveAll (runDir (jcf_runID cfg))) (calls_of (execApply J cfg c) [])"
    by (rule reaches_calls_of [OF execApply_removes])
  show "result_of (execApply J cfg c) [] = Succeeded \<longrightarrow> J_Remove (jcf_planFile cfg) \<in> set (calls_of (execApply J cfg c) [])"
    using execApply_success [of J cfg c "[]"] by (simp add: wp_def result_of_def calls_of_def split: prod.splits)
qed

section \<open>The client\<close>

text \<open>
  A failed set-up of the client is forgotten: the instance is stored before its settings and
  its version are checked, so after a version that violates the constraint the first call
  fails and every later call passes.
\<close>

theorem failed_version_check_forgotten:
  assumes "result_of (Ensure J c) h = (Some err, c1)" and "\<forall>h. je_isDir J h (tc_workDir c)"
    and "\<forall>h. je_newTerraform J h (tc_workDir c) (tc_execPath c) = None"
  shows "result_of (Ensure J c1) h' = (None, c1) \<and> calls_of (Ensure J c1) h' = []"
proof -
  have "wp (Ensure J c) (\<lambda>(e, c1) h'. tc_tf c1) h"
    unfolding Ensure_def using assms(2,3)
    by (auto intro!: wp_branch wp_step wp_skip [where m = "configureInstance J c"] simp: wp_ret)
  then have "tc_tf c1" using assms(1) by (simp add: wp_result_pair)
  then show ?thesis by (simp add: Ensure_def result_ofI wp_ret)
qed

section \<open>Directories\<close>

text \<open>
  A job stays in its place: for every run identifier that has the form the controller makes,
  the directory of the run is the entry of that name under the common directory, different
  runs have different directories, and the source tree lies in it.
\<close>

lemma pathClean_rooted:
  assumes "segs \<noteq> []" and "list_all segment segs"
  shows "pathClean (CHR ''/'' # joinStrings segs ''/'') = CHR ''/'' # joinStrings segs ''/''"
  using assms by (simp add: pathClean_def Let_def splitOn_join cleanSegments_plain)

lemma runs_segments: "list_all segment [''workspace-data'', ''runs'']"
  by (simp add: segment_def)

lemma runDir_segments:
  assumes "segment runID"
  shows "runDir runID = runsBase @ ''/'' @ runID" and "sourcePath runID = runDir runID @ ''/source''"
proof -
  have "runID \<noteq> []" using assms by (simp add: segment_def)
  moreover have "pathClean (CHR ''/'' # joinStrings [''workspace-data'', ''runs'', runID] ''/'') =
      CHR ''/'' # joinStrings [''workspace-data'', ''runs'', runID] ''/''"
    by (rule pathClean_rooted) (use assms runs_segments in simp_all)
  ultimately show dir: "runDir runID = runsBase @ ''/'' @ runID"
    by (simp add: runDir_def pathJoin_def runsBase_def Let_def)
  have "pathClean (CHR ''/'' # joinStrings [''workspace-data'', ''runs'', runID, ''source''] ''/'') =
      CHR ''/'' # joinStrings [''workspace-data'', ''runs'', runID, ''source''] ''/''"
    by (rule pathClean_rooted) (use assms runs_segments in \<open>simp_all add: segment_def\<close>)
  then show "sourcePath runID = runDir runID @ ''/source''"
    unfolding sourcePath_def dir by (simp add: pathJoin_def runsBase_def Let_def)
qed

theorem run_directories_confined:
  assumes "isValidRunID a" and "isValidRunID b"
  shows "runDir a = runsBase @ ''/'' @ a \<and> sourcePath a = runsBase @ ''/'' @ a @ ''/source'' \<and> (runDir a = runDir b \<longleftrightarrow> a = b)"
  using assms [THEN isValidRunID_segment] by (simp add: runDir_segments)

section \<open>Instances\<close>

definition jobGetenv :: "string \<Rightarrow> string \<Rightarrow> string" where
  "jobGetenv jobType name =
     (if name = ''REPO_URL'' then ''https://git.example/infra'' else if name = ''TF_VERSION'' then ''1.9.0''
      else if name = ''MAGOS_JOB_TYPE'' then jobType else if name = ''MAGOS_PLAN_FILE'' then ''/workspace-data/run.tfplan''
      else if name = ''MAGOS_RUN_ID'' then ''r1'' else if name = ''TARGET_REVISION'' then ''main''
      else if name = ''MAGOS_POLICY_SELECTOR'' then ''env=prod'' else [])"

definition sampleJobEnv :: "string \<Rightarrow> jenv" where
  \<comment> \<open>everything succeeds but the policy command, which cannot be started\<close>
  "sampleJobEnv jobType = env.extend (sampleEnv\<lparr>osGetenv := jobGetenv jobType\<rparr>)
     (jenv.fields [] (\<lambda>n. None) (\<lambda>e. False) (\<lambda>k. None) (\<lambda>v. True) (\<lambda>s. Inr (\<lambda>v. False)) Inr Inr (\<lambda>s. Inr [])
        (\<lambda>b vs. ''{}'') (\<lambda>h s. None) (\<lambda>h s. None) (\<lambda>h s. None) (\<lambda>h s. None) (\<lambda>h s b. None) (\<lambda>h s. Inr ''/tmp/p'')
        (\<lambda>h u a d. None) (\<lambda>h. None) (\<lambda>h r. Inr ''0a'') (\<lambda>h r. None) (\<lambda>h s. Inr ''/bin/terraform'') (\<lambda>h s. Inr s)
        (\<lambda>h s. Inr s) (\<lambda>h d. True) (\<lambda>h w p. None) (\<lambda>h v. None) (\<lambda>h l. None) (\<lambda>h l. None) (\<lambda>h. Inr ''1.0.0'')
        (\<lambda>h. None) (\<lambda>h opts. Inr True) (\<lambda>h t. None) (\<lambda>h. None) (\<lambda>h. Inr []) (\<lambda>h. Inr []) (\<lambda>h n. None) (\<lambda>h n. None)
        (\<lambda>h p. Inr p) (\<lambda>h. None) (\<lambda>h. None) (\<lambda>h s. Inr [\<lparr>pit_name = ''p'', pit_object = ''o''\<rparr>])
        (\<lambda>h args. ([], Some (EMsg ''executable file not found''))))"

lemma sampleJobEnv_simps [simp]:
  "osGetenv (sampleJobEnv t) = jobGetenv t" "urlScheme (sampleJobEnv t) = (\<lambda>u. Inr ''https'')"
  "je_environ (sampleJobEnv t) = []" "je_lookupEnv (sampleJobEnv t) = (\<lambda>n. None)"
  "je_validVersion (sampleJobEnv t) = (\<lambda>v. True)" "je_constraint (sampleJobEnv t) = (\<lambda>s. Inr (\<lambda>v. False))"
  "je_marshalPlan (sampleJobEnv t) = Inr" "je_marshalYAML (sampleJobEnv t) = Inr" "je_unmarshalReport (sampleJobEnv t) = (\<lambda>s. Inr [])"
  "je_marshalPolicyResult (sampleJobEnv t) = (\<lambda>b vs. ''{}'')"
  "je_mkdirAll (sampleJobEnv t) = (\<lambda>h s. None)" "je_removeAll (sampleJobEnv t) = (\<lambda>h s. None)"
  "je_remove (sampleJobEnv t) = (\<lambda>h s. None)" "je_stat (sampleJobEnv t) = (\<lambda>h s. None)"
  "je_writeFile (sampleJobEnv t) = (\<lambda>h s b. None)" "je_mkdirTemp (sampleJobEnv t) = (\<lambda>h s. Inr ''/tmp/p'')"
  "je_plainClone (sampleJobEnv t) = (\<lambda>h u a d. None)" "je_worktree (sampleJobEnv t) = (\<lambda>h. None)"
  "je_resolveRevision (sampleJobEnv t) = (\<lambda>h r. Inr ''0a'')" "je_checkout (sampleJobEnv t) = (\<lambda>h r. None)"
  "je_install (sampleJobEnv t) = (\<lambda>h s. Inr ''/bin/terraform'')" "je_abs (sampleJobEnv t) = (\<lambda>h s. Inr s)"
  "je_isDir (sampleJobEnv t) = (\<lambda>h d. True)" "je_newTerraform (sampleJobEnv t) = (\<lambda>h w p. None)"
  "je_setEnv (sampleJobEnv t) = (\<lambda>h v. None)" "je_tfVersion (sampleJobEnv t) = (\<lambda>h. Inr ''1.0.0'')"
  "je_tfInit (sampleJobEnv t) = (\<lambda>h. None)" "je_tfPlan (sampleJobEnv t) = (\<lambda>h opts. Inr True)"
  "je_tfApply (sampleJobEnv t) = (\<lambda>h p. None)" "je_showPlanFile (sampleJobEnv t) = (\<lambda>h p. Inr p)"
  "je_inClusterConfig (sampleJobEnv t) = (\<lambda>h. None)" "je_newDynamicClient (sampleJobEnv t) = (\<lambda>h. None)"
  "je_listPolicies (sampleJobEnv t) = (\<lambda>h s. Inr [\<lparr>pit_name = ''p'', pit_object = ''o''\<rparr>])"
  "je_kyverno (sampleJobEnv t) = (\<lambda>h args. ([], Some (EMsg ''executable file not found'')))"
  by (simp_all add: sampleJobEnv_def env.defs jenv.defs)

definition sampleJobConfig :: "string \<Rightarrow> job_config" where
  "sampleJobConfig t =
     \<lparr>jcf_repoURL = ''https://git.example/infra'', jcf_targetRevision = ''main'', jcf_tfVersion = ''1.9.0'', jcf_tfPath = [],
      jcf_tfVarsPath = [], jcf_gitUser = [], jcf_gitPass = [], jcf_gitSSHKey = [], jcf_jobType = t,
      jcf_planFile = ''/workspace-data/run.tfplan'', jcf_runID = ''r1'', jcf_policySelector = ''env=prod'', jcf_tfLogLevel = []\<rparr>"

lemma sampleJob_config: "t \<in> {jobTypePlan, jobTypeApply} \<Longrightarrow> loadConfig (sampleJobEnv t) = Inr (sampleJobConfig t)"
  by (auto simp: loadConfig_def envConfig_def jobGetenv_def Let_def sampleJobConfig_def jobTypePlan_def jobTypeApply_def)

lemmas client_defs =
  NewClientFromInstall_def Install_def NewBinaryInstaller_def NewClient_def applyOptions_def emptyClient_def
  installedOptions_def WithExecPath_def WithEnv_def WithColor_def Ensure_def configureInstance_def setInstanceEnv_def
  setInstanceLog_def checkVersion_def ensured_def Init_def Plan_def Apply_def ShowPlanFileRaw_def wrapErr_def

lemmas job_defs = runJob_def logTerraformEnvVars_def prepareSource_def execTerraform_def makePluginCache_def
  clientOptions_def

lemma sample_source: "wp (prepareSource (sampleJobEnv t) (sampleJobConfig t)) (\<lambda>e h'. e = None) h"
  by (simp add: prepareSource_def validateSourceDir_def cloneRepository_def checkoutRevision_def getAuthMethod_def
      ModeForURL_def Scheme_def knownGoGitSchemes_def toLower_def toLowerChar_def sampleJobConfig_def wp_simps)

lemma sample_client:
  "wp (NewClientFromInstall (sampleJobEnv t) w ''1.9.0'' [] [WithEnv [(''TF_PLUGIN_CACHE_DIR'', pluginCacheMount)], WithColor])
     (\<lambda>n h'. \<exists>c. n = Some (Inr c) \<and> tc_tf c) h"
  by (simp add: client_defs wp_simps)

lemma sample_apply:
  assumes "tc_tf c"
  shows "wp (execApply (sampleJobEnv t) (sampleJobConfig t) c)
    (\<lambda>r h'. r = Succeeded \<and> J_TfApply (Some ''/workspace-data/run.tfplan'') \<in> set h') h"
proof -
  have wait: "wp (waitForPlan (sampleJobEnv t) p 10) (\<lambda>a h'. a) h" for p h
    using waitForPlan.simps(2) [of "sampleJobEnv t" p 9] by (simp add: wp_simps)
  have applied: "wp (applyPlan (sampleJobEnv t) (sampleJobConfig t) c)
      (\<lambda>r h'. r = Succeeded \<and> J_TfApply (Some ''/workspace-data/run.tfplan'') \<in> set h') h" for h
    unfolding applyPlan_def using assms
    by (intro wp_then [OF wait]) (simp add: wp_simps client_defs sampleJobConfig_def)
  have removed: "wp (removeRunDir (sampleJobEnv t) cfg) (\<lambda>x h'. call \<in> set h') h1" if "call \<in> set h1" for call h1 cfg
    using that by (simp add: removeRunDir_def wp_simps)
  show ?thesis
    unfolding execApply_def
    by (rule wp_skip, rule wp_then [OF applied], clarify, rule wp_then [OF removed]) (auto simp: wp_ret)
qed

lemma sample_terraform:
  assumes "\<And>c h. tc_tf c \<Longrightarrow> wp (if t = jobTypePlan then execPlan (sampleJobEnv t) (sampleJobConfig t) d c
      else if t = jobTypeApply then execApply (sampleJobEnv t) (sampleJobConfig t) c else ret Succeeded) Q h"
  shows "wp (execTerraform (sampleJobEnv t) (sampleJobConfig t) d) Q h"
proof -
  have cache: "wp (makePluginCache (sampleJobEnv t)) (\<lambda>b h'. b) h" for h
    by (simp add: makePluginCache_def wp_simps)
  have client: "wp (NewClientFromInstall (sampleJobEnv t) w (jcf_tfVersion (sampleJobConfig t)) []
      (clientOptions (sampleJobEnv t) (sampleJobConfig t) True)) (\<lambda>n h'. \<exists>c. n = Some (Inr c) \<and> tc_tf c) h" for w h
    using sample_client by (simp add: clientOptions_def sampleJobConfig_def)
  have init: "wp (Init (sampleJobEnv t) c) (\<lambda>(i, c1) h'. i = None \<and> tc_tf c1) h" if "tc_tf c" for c h
    using that by (simp add: client_defs wp_simps)
  have type: "jcf_jobType (sampleJobConfig t) = t" by (simp add: sampleJobConfig_def)
  have start: "wp (do { logf x; (i, c1) \<leftarrow> Init (sampleJobEnv t) c;
      case i of Some err \<Rightarrow> ret (Failed (EWrap y err))
      | None \<Rightarrow> (if t = jobTypePlan then execPlan (sampleJobEnv t) (sampleJobConfig t) d c1
          else if t = jobTypeApply then execApply (sampleJobEnv t) (sampleJobConfig t) c1 else ret Succeeded) }) Q h"
    if "tc_tf c" for c h x y
    by (rule wp_skip, rule wp_then [OF init [OF that]]) (use assms in \<open>auto split: prod.splits\<close>)
  show ?thesis
    unfolding execTerraform_def type
    by (rule wp_then [OF cache], rule wp_skip, rule wp_skip, simp, rule wp_then [OF client]) (use start in auto)
qed

lemma sample_run:
  assumes "t \<in> {jobTypePlan, jobTypeApply}"
    and "\<And>h. wp (execTerraform (sampleJobEnv t) (sampleJobConfig t) (sourcePath ''r1'')) Q h"
  shows "wp (runJob (sampleJobEnv t)) Q h"
proof -
  have id: "jcf_runID (sampleJobConfig t) = ''r1''" by (simp add: sampleJobConfig_def)
  show ?thesis
    unfolding runJob_def sampleJob_config [OF assms(1)] sum.case id
    by (rule wp_skip, rule wp_then [OF sample_source]) (use assms(2) in simp)
qed

theorem apply_uses_saved_plan_witness:
  "J_TfApply (Some ''/workspace-data/run.tfplan'') \<in> set (calls_of (runJob (sampleJobEnv jobTypeApply)) []) \<and>
   (\<exists>cfg h1. loadConfig (sampleJobEnv jobTypeApply) = Inr cfg \<and> jcf_jobType cfg = jobTypeApply \<and>
      je_stat (sampleJobEnv jobTypeApply) h1 (jcf_planFile cfg) = None)"
proof -
  have "wp (runJob (sampleJobEnv jobTypeApply))
      (\<lambda>r h'. r = Succeeded \<and> J_TfApply (Some ''/workspace-data/run.tfplan'') \<in> set h') []"
    by (rule sample_run, simp, rule sample_terraform) (simp add: sample_apply)
  then have "J_TfApply (Some ''/workspace-data/run.tfplan'') \<in> set (calls_of (runJob (sampleJobEnv jobTypeApply)) [])"
    by (simp add: wp_def calls_of_def split: prod.splits)
  then show ?thesis using apply_uses_saved_plan by blast
qed

theorem apply_cleans_up_witness:
  "J_Remove ''/workspace-data/run.tfplan'' \<in> set (calls_of (execApply (sampleJobEnv jobTypeApply) (sampleJobConfig jobTypeApply)
     ((emptyClient ''w'')\<lparr>tc_tf := True\<rparr>)) [])"
proof -
  let ?c = "(emptyClient ''w'')\<lparr>tc_tf := True\<rparr>" and ?cfg = "sampleJobConfig jobTypeApply"
  have "wp (execApply (sampleJobEnv jobTypeApply) ?cfg ?c) (\<lambda>r h'. r = Succeeded) []"
    by (rule wp_mono [OF sample_apply]) simp_all
  then have "result_of (execApply (sampleJobEnv jobTypeApply) ?cfg ?c) [] = Succeeded" by (simp add: wp_result)
  then show ?thesis
    using apply_cleans_up [of ?cfg "sampleJobEnv jobTypeApply" ?c] by (simp add: sampleJobConfig_def)
qed

theorem failed_version_check_forgotten_witness:
  "let c = (emptyClient ''w'')\<lparr>tc_versionConstraint := ''>= 2'', tc_stdout := Some [], tc_stderr := Some []\<rparr> in
   \<exists>err c1. result_of (Ensure (sampleJobEnv jobTypePlan) c) [] = (Some err, c1) \<and>
     result_of (Ensure (sampleJobEnv jobTypePlan) c1) [] = (None, c1)"
proof -
  let ?c = "(emptyClient ''w'')\<lparr>tc_versionConstraint := ''>= 2'', tc_stdout := Some [], tc_stderr := Some []\<rparr>"
  have "wp (Ensure (sampleJobEnv jobTypePlan) ?c) (\<lambda>x h'. \<exists>err c1. x = (Some err, c1)) []"
    by (simp add: client_defs wp_simps)
  then obtain err c1 where e: "result_of (Ensure (sampleJobEnv jobTypePlan) ?c) [] = (Some err, c1)"
    by (auto simp: wp_result)
  then show ?thesis using failed_version_check_forgotten [OF e, of "[]"] by simp
qed

theorem run_directories_confined_witness:
  "runDir ''20260101T000000-deadbeef'' = ''/workspace-data/runs/20260101T000000-deadbeef''"
  using run_directories_confined [of "''20260101T000000-deadbeef''" "''20260101T000000-deadbeef''"]
  by (simp add: isValidRunID_def runIDPattern_def isDigit_def isLowerHex_def numeral_nat runsBase_def)

end
