(* ===== verification/Job_Policy.thy ===== *)
theory Job_Policy
  imports Job_Safety
begin

text \<open>
  The policy gate of a plan pod, the verdict it prints for the controller, and the line of its log that
  names the inputs.
\<close>

section \<open>The policy gate\<close>

definition gatePassed :: "jenv \<Rightarrow> job_config \<Rightarrow> string \<Rightarrow> bool" where
  \<comment> \<open>no policy matched, or the report of the policy command has no failing result that was read\<close>
  "gatePassed J cfg f \<longleftrightarrow>
     (\<exists>h1 items. je_listPolicies J h1 (jcf_policySelector cfg) = Inr items \<and>
        (items = [] \<or> (\<exists>h2 dir. parseKyvernoReport J (fst (je_kyverno J h2 (kyvernoArgs dir f))) = [])))"

lemma evaluatePolicies_gate:
  "wp (evaluatePolicies J dir f items) (\<lambda>e h'. e = None \<longrightarrow>
     (\<exists>h2. parseKyvernoReport J (fst (je_kyverno J h2 (kyvernoArgs dir f))) = [])) h"
  unfolding evaluatePolicies_def wp_bind
  by (rule wp_all) (auto simp: wp_simps Let_def split: option.splits)

lemma validatePolicies_gate: "wp (validatePolicies J cfg f) (\<lambda>e h'. e = None \<longrightarrow> gatePassed J cfg f) h"
proof -
  have eval: "wp (do { e \<leftarrow> evaluatePolicies J dir f items; removePolicyDir J dir; ret e })
      (\<lambda>e h'. e = None \<longrightarrow> gatePassed J cfg f) h1"
    if "je_listPolicies J h0 (jcf_policySelector cfg) = Inr items" for h0 h1 dir items
    by (rule wp_then [OF evaluatePolicies_gate], rule wp_skip) (use that in \<open>auto simp: gatePassed_def wp_ret\<close>)
  have none: "gatePassed J cfg f" if "je_listPolicies J h0 (jcf_policySelector cfg) = Inr []" for h0
    using that by (auto simp: gatePassed_def)
  show ?thesis
    unfolding validatePolicies_def
    by (rule wp_skip, rule wp_err, rule wp_err, rule wp_res, rule wp_branch, rule wp_skip,
        simp add: wp_ret none, rule wp_skip, rule wp_res, erule eval) (simp_all add: wp_ret)
qed

lemma execPlan_gate:
  assumes "jcf_policySelector cfg \<noteq> []"
  shows "wp (execPlan J cfg d c) (\<lambda>r h'. r = Succeeded \<longrightarrow> gatePassed J cfg (planJSONFileOf cfg)) h"
proof -
  have check: "wp (do { v \<leftarrow> validatePolicies J cfg (planJSONFileOf cfg);
      ret (case v of None \<Rightarrow> Succeeded | Some err \<Rightarrow> Failed err) })
      (\<lambda>r h'. r = Succeeded \<longrightarrow> gatePassed J cfg (planJSONFileOf cfg)) h1" for h1
    by (rule wp_then [OF validatePolicies_gate]) (simp add: wp_ret split: option.splits)
  have json: "wp (case s of Inl err \<Rightarrow> ret (Failed (EWrap ''terraform show -json failed'' err))
           | Inr planJSON \<Rightarrow> do {
               w \<leftarrow> perform (\<lambda>h. je_writeFile J h (planJSONFileOf cfg) planJSON) (J_WriteFile (planJSONFileOf cfg) planJSON);
               case w of
                 Some err \<Rightarrow> ret (Failed (EWrap ''failed to write plan JSON'' err))
               | None \<Rightarrow> do {
                   logf (''Plan JSON written to '' @ planJSONFileOf cfg);
                   v \<leftarrow> validatePolicies J cfg (planJSONFileOf cfg);
                   ret (case v of None \<Rightarrow> Succeeded | Some err \<Rightarrow> Failed err)
                 }
             }) (\<lambda>r h'. r = Succeeded \<longrightarrow> gatePassed J cfg (planJSONFileOf cfg)) h1" for s h1
    by (cases s) (auto simp: wp_ret intro!: wp_err wp_skip [where m = "logf x" for x] check)
  show ?thesis
    unfolding execPlan_def using assms json
    by (auto intro!: wp_skip simp: wp_ret split: prod.split sum.split)
qed

lemma runJob_gate:
  assumes "loadConfig J = Inr cfg" and "jcf_jobType cfg = jobTypePlan" and "jcf_policySelector cfg \<noteq> []"
  shows "wp (runJob J) (\<lambda>r h'. r = Succeeded \<longrightarrow> gatePassed J cfg (planJSONFileOf cfg)) h"
proof -
  have "wp (execTerraform J cfg d) (\<lambda>r h'. r = Succeeded \<longrightarrow> gatePassed J cfg (planJSONFileOf cfg)) h1" for d h1
    unfolding execTerraform_def using assms(2) execPlan_gate [OF assms(3)]
    by (auto intro!: wp_skip simp: wp_ret split: prod.split sum.split option.split)
  then show ?thesis
    unfolding runJob_def using assms(1) by (auto intro!: wp_skip simp: wp_ret split: option.split)
qed


lemma writePolicies_ok:
  assumes "\<forall>h p b. je_writeFile J h p b = None" and "\<forall>x. \<exists>y. je_marshalYAML J x = Inr y"
  shows "wp (writePolicies J d i items) (\<lambda>e h'. e = None) h"
proof (induction items arbitrary: i h)
  case (Cons item items)
  obtain y where "je_marshalYAML J (pit_object item) = Inr y" using assms(2) by blast
  then show ?case using Cons assms(1) by (simp add: wp_simps)
qed (simp add: wp_ret)

lemma evaluatePolicies_passes:
  assumes "\<forall>h p b. je_writeFile J h p b = None" and "\<forall>x. \<exists>y. je_marshalYAML J x = Inr y"
    and "\<forall>h args. je_kyverno J h args = (out, Some err)" and "parseKyvernoReport J out = []"
  shows "wp (evaluatePolicies J d f items) (\<lambda>e h'. e = None \<and> J_Print (verdictLine J []) \<in> set h') h"
  unfolding evaluatePolicies_def
  by (rule wp_then [OF writePolicies_ok [OF assms(1,2)]]) (simp add: wp_simps assms(3,4) Let_def)

lemma removePolicyDir_keeps: "c \<in> set h \<Longrightarrow> wp (removePolicyDir J d) (\<lambda>x h'. c \<in> set h') h"
  by (simp add: removePolicyDir_def wp_simps split: option.splits)

text \<open>
  C36. The exit status of the policy command is not part of the gate. When the policies were
  listed and written, and the command fails without printing a failing result, for example
  because it cannot be started or crashes, the validation passes and the verdict says so.
\<close>

theorem policy_command_failure_passes:
  assumes "\<forall>h p b. je_writeFile J h p b = None" and "\<forall>x. \<exists>y. je_marshalYAML J x = Inr y"
    and "\<forall>h. je_inClusterConfig J h = None" and "\<forall>h. je_newDynamicClient J h = None"
    and "\<forall>h p. je_mkdirTemp J h p = Inr dir"
    and "\<forall>h s. je_listPolicies J h s = Inr (item # items)"
    and "\<forall>h args. je_kyverno J h args = (out, Some err)" and "parseKyvernoReport J out = []"
  shows "result_of (validatePolicies J cfg f) [] = None \<and>
    J_Print (verdictLine J []) \<in> set (calls_of (validatePolicies J cfg f) [])"
proof -
  have eval: "wp (do { e \<leftarrow> evaluatePolicies J dir f (item # items); removePolicyDir J dir; ret e })
      (\<lambda>e h'. e = None \<and> J_Print (verdictLine J []) \<in> set h') h" for h
    by (rule wp_then [OF evaluatePolicies_passes [OF assms(1,2,7,8)]], clarify,
        rule wp_then [OF removePolicyDir_keeps]) (simp_all add: wp_ret)
  have "wp (validatePolicies J cfg f) (\<lambda>e h'. e = None \<and> J_Print (verdictLine J []) \<in> set h') []"
    unfolding validatePolicies_def
    by (rule wp_skip, rule wp_err, rule wp_err, rule wp_res)
       (use assms(3-6) eval in \<open>auto intro!: wp_skip [where m = "logf x" for x] wp_res\<close>)
  then show ?thesis by (simp add: wp_def result_of_def calls_of_def split: prod.splits)
qed

text \<open>
  A report line of 65536 bytes or more ends the reading of the report: the failing results
  of that line and of all later lines are lost without an error.
\<close>

theorem long_report_line_hides_failures:
  assumes "length line \<ge> 65536" and "CHR 0x0A \<notin> set line"
  shows "parseKyvernoReport J (line @ CHR 0x0A # rest) = []"
  using assms scanLines_line [of line rest] by (simp add: parseKyvernoReport_def maxScanTokenSize_def)

section \<open>The verdict on its way to the controller\<close>

definition podLog :: "string list \<Rightarrow> string" where
  "podLog ls = concat (map (\<lambda>l. l @ [CHR 0x0A]) ls)"

definition plainLine :: "string \<Rightarrow> bool" where
  "plainLine l \<longleftrightarrow> CHR 0x0A \<notin> set l \<and> length l < maxScanTokenSize"

lemma scanLines_podLog: "\<forall>l\<in>set ls. CHR 0x0A \<notin> set l \<Longrightarrow> scanLines (podLog ls @ s) = ls @ scanLines s"
  by (induction ls) (simp_all add: podLog_def scanLines_line)

lemma scan_skips:
  "\<forall>l\<in>set ls. length l < maxScanTokenSize \<and> \<not> hasPrefix (dropCR l) ''MAGOS_RESULT:'' \<Longrightarrow>
   scanPolicyResult L e (ls @ rest) = scanPolicyResult L e rest"
  by (induction ls) auto

lemma dropCR_id: "CHR 0x0D \<notin> set l \<Longrightarrow> dropCR l = l"
  by (auto simp: dropCR_def trimSuffix_def hasSuffix_def)
     (metis append_is_Nil_conv diff_Suc_1 last_ConsL last_drop last_in_set length_0_conv length_drop list.set_intros(1) set_drop_subset subsetD)


section \<open>Names, not values\<close>

lemma envName_key:
  "envName (k @ CHR ''='' # v) = envName (k @ CHR ''='' # w)" if "CHR ''='' \<notin> set k" for k v w
proof -
  have t: "takeWhile (\<lambda>c. c \<noteq> CHR ''='') (k @ CHR ''='' # x) = k" for x
    using that by (induction k) auto
  show ?thesis unfolding envName_def t Let_def by simp
qed

text \<open>
  The log of the inputs does not depend on a value: two environments with the same names, in
  any values, give the same line.
\<close>

definition environ :: "(string \<times> string) list \<Rightarrow> string list" where
  "environ vars = map (\<lambda>(k, v). k @ CHR ''='' # v) vars"

theorem inputs_line_hides_values:
  assumes "map fst vars = map fst vars'" and "\<forall>k\<in>fst ` set vars. CHR ''='' \<notin> set k"
  shows "inputsLine (environ vars) = inputsLine (environ vars')"
proof -
  have "List.map_filter envName (environ vars) = List.map_filter envName (environ vars')"
    using assms
  proof (induction vars arbitrary: vars')
    case (Cons a vars)
    then obtain b vs where vars': "vars' = b # vs" "fst b = fst a" "map fst vs = map fst vars" by (cases vars') auto
    have "envName (fst a @ CHR ''='' # snd a) = envName (fst a @ CHR ''='' # snd b)"
      by (rule envName_key) (use Cons.prems in simp)
    then show ?case using Cons.IH [of vs] Cons.prems vars'
      by (cases a; cases b) (auto simp: environ_def List.map_filter_simps split: option.split)
  qed (simp add: environ_def)
  then show ?thesis by (simp add: inputsLine_def inputNames_def)
qed

text \<open>
  The path of the variables file counts as an input: the environment variable that carries it
  has the prefix of the inputs, so the log line names an input \<open>FILE\<close> that no VariableSet has.
\<close>

theorem tfvars_path_logged_as_input:
  "inputsLine [''TF_VAR_FILE='' @ path] = ''Loaded 1 Terraform input(s) from VariableSets: FILE''"
proof -
  have "natString (Suc 0) = ''1''" by code_simp
  then show ?thesis
    by (simp add: inputsLine_def inputNames_def envName_def hasPrefix_def trimPrefix_def List.map_filter_simps Let_def)
qed

lemma empty_report [simp]: "parseKyvernoReport J [] = []"
  by (simp add: parseKyvernoReport_def scanLines.simps)


theorem policy_command_failure_passes_witness:
  "result_of (validatePolicies (sampleJobEnv jobTypePlan) (sampleJobConfig jobTypePlan) ''p.json'') [] = None"
  using policy_command_failure_passes [of "sampleJobEnv jobTypePlan" "''/tmp/p''" "\<lparr>pit_name = ''p'', pit_object = ''o''\<rparr>"
      "[]" "[]" "EMsg ''executable file not found''" "sampleJobConfig jobTypePlan" "''p.json''"] by simp

theorem long_report_line_hides_failures_witness:
  "\<forall>J. parseKyvernoReport J (replicate 65536 CHR ''x'' @ CHR 0x0A # ''{}'') = []"
  using long_report_line_hides_failures [of "replicate 65536 CHR ''x''"] by simp


theorem inputs_line_hides_values_witness:
  "inputsLine (environ [(''TF_VAR_password'', ''a'')]) = inputsLine (environ [(''TF_VAR_password'', ''b'')])"
  by (rule inputs_line_hides_values) simp_all

end
