(* ===== verification/Job_Start.thy ===== *)
theory Job_Start
  imports Job_Safety
begin

text \<open>
  The environment of a pod, from the Job that the controller constructs to the configuration that
  the job program reads.
\<close>

section \<open>From the controller's Job to the job's configuration\<close>

definition lastVar :: "string \<Rightarrow> env_var list \<Rightarrow> env_var option" where
  "lastVar name vars = find (\<lambda>v. env_name v = name) (rev vars)"

definition podEnvironment :: "env_var list \<Rightarrow> (string \<Rightarrow> string) \<Rightarrow> bool" where
  \<comment> \<open>what Kubernetes documents of a container's environment: the last entry of a name counts, a
      literal value without a reference is passed as it is, and other names are unset\<close>
  "podEnvironment vars getenv \<longleftrightarrow>
     (\<forall>name. case lastVar name vars of
        None \<Rightarrow> getenv name = []
      | Some v \<Rightarrow> env_valueFrom v = None \<longrightarrow> CHR ''$'' \<notin> set (env_value v) \<longrightarrow> getenv name = env_value v)"

lemma find_append: "find P (xs @ ys) = (case find P xs of None \<Rightarrow> find P ys | Some x \<Rightarrow> Some x)"
  by (induction xs) auto

lemma lastVar_simps [simp]:
  "lastVar name [] = None"
  "lastVar name (xs @ ys) = (case lastVar name ys of None \<Rightarrow> lastVar name xs | Some v \<Rightarrow> Some v)"
  "lastVar name (literal n v # ys) =
     (case lastVar name ys of None \<Rightarrow> if n = name then Some (literal n v) else None | Some w \<Rightarrow> Some w)"
  by (simp_all add: lastVar_def find_append literal_def split: option.split)

lemma lastVar_None: "(\<And>v. v \<in> set vars \<Longrightarrow> env_name v \<noteq> name) \<Longrightarrow> lastVar name vars = None"
  by (auto simp: lastVar_def find_None_iff)

lemma variable_names: "v \<in> set (variableEnvVars vars) \<Longrightarrow> \<exists>x\<in>set vars. env_name v = ''TF_VAR_'' @ rv_name x"
  by (auto simp: variableEnvVars_def variableEnvVar_def Let_def split: option.splits) blast+

lemma lastVar_variables: "\<not> hasPrefix name ''TF_VAR_'' \<Longrightarrow> lastVar name (variableEnvVars vars) = None"
  by (rule lastVar_None) (auto dest!: variable_names simp: hasPrefix_def)

lemma lastVar_file: "\<forall>x\<in>set vars. rv_name x \<noteq> ''FILE'' \<Longrightarrow> lastVar ''TF_VAR_FILE'' (variableEnvVars vars) = None"
  by (rule lastVar_None) (auto dest!: variable_names)

lemma lastVar_credentials:
  "name \<notin> {''GIT_SSH_PRIVATE_KEY'', ''GIT_USERNAME'', ''GIT_PASSWORD''} \<Longrightarrow> lastVar name (credentialEnv s) = None"
  by (rule lastVar_None) (auto simp: credentialEnv_def fromSecret_def split: option.splits if_splits)

lemma podEnvironment_value:
  assumes "podEnvironment vars getenv"
  shows "lastVar name vars = Some (literal name v) \<Longrightarrow> CHR ''$'' \<notin> set v \<Longrightarrow> getenv name = v"
    and "lastVar name vars = None \<Longrightarrow> getenv name = []"
  using assms [unfolded podEnvironment_def, rule_format, of name] by (simp_all add: literal_def)

definition literalsPlain :: "workspace \<Rightarrow> run_context \<Rightarrow> string \<Rightarrow> bool" where
  \<comment> \<open>no value contains a dollar sign, which Kubernetes may read as a reference\<close>
  "literalsPlain ws rc runID \<longleftrightarrow> (\<forall>s\<in>{ss_repoURL (wsp_source (ws_spec ws)), ss_targetRevision (wsp_source (ws_spec ws)),
     ss_path (wsp_source (ws_spec ws)), tf_version (wsp_terraform (ws_spec ws)), tf_tfvarsPath (wsp_terraform (ws_spec ws)),
     rc_planFile rc, runID}. CHR ''$'' \<notin> set s)"

lemma jobEnv_values:
  assumes "podEnvironment (baseEnv E ws rc jobType runID @ policy @ credentialEnv s) getenv"
    and "literalsPlain ws rc runID" and "jobType \<in> {jobTypePlan, jobTypeApply}"
    and "policy = [] \<or> (\<exists>p. policy = [literal ''MAGOS_POLICY_SELECTOR'' p])"
    and "\<forall>x\<in>set (rc_resolvedVars rc). rv_name x \<noteq> ''FILE''"
  shows "getenv ''REPO_URL'' = ss_repoURL (wsp_source (ws_spec ws))"
    "getenv ''TF_VERSION'' = tf_version (wsp_terraform (ws_spec ws))"
    "getenv ''MAGOS_JOB_TYPE'' = jobType" "getenv ''MAGOS_PLAN_FILE'' = rc_planFile rc" "getenv ''MAGOS_RUN_ID'' = runID"
    "getenv ''TF_PATH'' = ss_path (wsp_source (ws_spec ws))"
    "getenv ''TF_VAR_FILE'' = tf_tfvarsPath (wsp_terraform (ws_spec ws))"
    "jobType = jobTypePlan \<Longrightarrow> getenv ''TARGET_REVISION'' = ss_targetRevision (wsp_source (ws_spec ws))"
proof -
  note val = podEnvironment_value [OF assms(1)]
  note last = lastVar_variables lastVar_file [OF assms(5)] lastVar_credentials hasPrefix_def baseEnv_def
  note plain = assms(2) [unfolded literalsPlain_def]
  have pol: "lastVar name policy = None" if "name \<noteq> ''MAGOS_POLICY_SELECTOR''" for name
    using assms(4) that by auto
  have "CHR ''$'' \<notin> set jobType" using assms(3) by (auto simp: jobTypePlan_def jobTypeApply_def)
  show "getenv ''REPO_URL'' = ss_repoURL (wsp_source (ws_spec ws))"
    by (rule val(1)) (use plain in \<open>simp_all add: last pol\<close>)
  show "getenv ''TF_VERSION'' = tf_version (wsp_terraform (ws_spec ws))"
    by (rule val(1)) (use plain in \<open>simp_all add: last pol\<close>)
  show "getenv ''MAGOS_JOB_TYPE'' = jobType"
    by (rule val(1)) (use plain \<open>CHR ''$'' \<notin> set jobType\<close> in \<open>simp_all add: last pol\<close>)
  show "getenv ''MAGOS_PLAN_FILE'' = rc_planFile rc"
    by (rule val(1)) (use plain in \<open>simp_all add: last pol\<close>)
  show "getenv ''MAGOS_RUN_ID'' = runID"
    by (rule val(1)) (use plain in \<open>simp_all add: last pol\<close>)
  show "getenv ''TF_PATH'' = ss_path (wsp_source (ws_spec ws))"
    using val(1) [of "''TF_PATH''" "ss_path (wsp_source (ws_spec ws))"] val(2) [of "''TF_PATH''"] plain
    by (cases "ss_path (wsp_source (ws_spec ws)) = []") (simp_all add: last pol)
  show "getenv ''TF_VAR_FILE'' = tf_tfvarsPath (wsp_terraform (ws_spec ws))"
    using val(1) [of "''TF_VAR_FILE''" "tf_tfvarsPath (wsp_terraform (ws_spec ws))"]
      val(2) [of "''TF_VAR_FILE''"] plain
    by (cases "tf_tfvarsPath (wsp_terraform (ws_spec ws)) = []") (simp_all add: last pol)
  show "getenv ''TARGET_REVISION'' = ss_targetRevision (wsp_source (ws_spec ws))" if "jobType = jobTypePlan"
    by (rule val(1)) (use plain that in \<open>simp_all add: last pol\<close>)
qed

lemma constructed_env:
  assumes "result_of (constructJobForWorkspace E R ws rc jobType runID) h = Inr j"
  shows "\<exists>policy s. jsp_env (job_spec_of j) = baseEnv E ws rc jobType runID @ policy @ credentialEnv s \<and>
    (policy = [] \<or> (\<exists>p. policy = [literal ''MAGOS_POLICY_SELECTOR'' p]))"
proof -
  have r: "wp (ret a) Q = Q a" for a :: "env_var list" and Q :: "_ \<Rightarrow> hist \<Rightarrow> bool"
    by (rule ext) (rule wp_ret)
  have policy: "wp (if jobType = jobTypePlan then do {
         policySelector \<leftarrow> resolveEffectivePolicySelector E ws;
         ret (if policySelector \<noteq> [] then [literal ''MAGOS_POLICY_SELECTOR'' policySelector] else [])
       } else ret []) (\<lambda>policy h'. policy = [] \<or> (\<exists>p. policy = [literal ''MAGOS_POLICY_SELECTOR'' p])) h1" for h1
    by (auto simp: wp_ret intro!: wp_skip)
  have "wp (constructJobForWorkspace E R ws rc jobType runID) (\<lambda>x h'. \<forall>j. x = Inr j \<longrightarrow>
     (\<exists>policy s. jsp_env (job_spec_of j) = baseEnv E ws rc jobType runID @ policy @ credentialEnv s \<and>
        (policy = [] \<or> (\<exists>p. policy = [literal ''MAGOS_POLICY_SELECTOR'' p])))) h"
    unfolding constructJobForWorkspace_def Let_def
    by (rule wp_then [OF policy], rule wp_skip) (auto simp: wp_ret split: sum.split)
  then show ?thesis using assms by (simp add: wp_result)
qed


text \<open>
  A variable called \<open>FILE\<close> takes the place of the variables file: its environment variable has
  the same name and comes later, so its value is used as the path.
\<close>

theorem variable_FILE_replaces_tfvars:
  assumes "podEnvironment (baseEnv E ws rc jobType runID @ policy @ credentialEnv s) (osGetenv L)"
    and "rc_resolvedVars rc = vars @ [v]" and "rv_name v = ''FILE''" and "rv_inline v = Some path"
    and "CHR ''$'' \<notin> set path" and "policy = [] \<or> (\<exists>p. policy = [literal ''MAGOS_POLICY_SELECTOR'' p])"
  shows "jcf_tfVarsPath (envConfig L) = path"
proof -
  have "lastVar ''TF_VAR_FILE'' policy = None" using assms(6) by auto
  moreover have "variableEnvVars (rc_resolvedVars rc) = variableEnvVars vars @ [literal ''TF_VAR_FILE'' path]"
    using assms(2-4) by (simp add: variableEnvVars_def variableEnvVar_def literal_def)
  ultimately have "osGetenv L ''TF_VAR_FILE'' = path"
    using assms(5) by (intro podEnvironment_value(1) [OF assms(1)]) (simp_all add: baseEnv_def lastVar_credentials)
  then show ?thesis by (simp add: envConfig_def)
qed

definition getenvOf :: "env_var list \<Rightarrow> string \<Rightarrow> string" where
  "getenvOf vars name = (case lastVar name vars of None \<Rightarrow> [] | Some v \<Rightarrow> env_value v)"

lemma podEnvironment_getenvOf: "podEnvironment vars (getenvOf vars)"
  by (auto simp: podEnvironment_def getenvOf_def split: option.split)

definition sampleRunContext :: "resolved_variable list \<Rightarrow> run_context" where
  "sampleRunContext vars =
     \<lparr>rc_planJobName = ''plan'', rc_applyJobName = ''apply'', rc_planFile = ''/workspace-data/run.tfplan'', rc_pvcName = ''pvc'',
      rc_planJob = None, rc_applyJob = None, rc_resolvedVars = vars, rc_variablesHash = []\<rparr>"


definition fileVariable :: resolved_variable where
  "fileVariable = \<lparr>rv_name = ''FILE'', rv_inline = Some ''x'', rv_secretRef = None, rv_configMapRef = None,
     rv_missing = None, rv_optionalMissing = False\<rparr>"

theorem variable_FILE_replaces_tfvars_witness:
  "jcf_tfVarsPath (envConfig (sampleEnv\<lparr>osGetenv := getenvOf (baseEnv sampleEnv sampleWorkspace
     (sampleRunContext [fileVariable]) jobTypePlan ''r1'' @ [] @ credentialEnv None)\<rparr>)) = ''x''"
  by (rule variable_FILE_replaces_tfvars [where E = sampleEnv and ws = sampleWorkspace and rc = "sampleRunContext [fileVariable]" and
        jobType = jobTypePlan and runID = "''r1''" and vars = "[]" and v = fileVariable and policy = "[]" and s = None])
     (simp_all add: podEnvironment_getenvOf sampleRunContext_def fileVariable_def)

end
