(* ===== verification/Runs_Store.thy ===== *)
theory Runs_Store
  imports Samples "HOL-Library.List_Lexorder" "HOL-Library.Char_ord"
    "HOL-Library.Product_Lexorder"
begin

text \<open>
  The run records of the API server, \<open>src/api/internal/runs/store.go\<close>. The table is the list of
  its rows, and every SQL statement of the source is a function on it. The database may answer
  any statement with an error instead, which is an argument of the operations. Text columns
  compare by their bytes. Formatting of times, JSON, base64 and the normal form in which the
  database stores JSON documents are parameters, collected in \<open>dblib\<close>.
\<close>

record list_cursor =
  lc_sortTime :: string
  lc_runID :: string

record dblib =
  db_formatTime :: "time \<Rightarrow> string"
  db_parseTime :: "string \<Rightarrow> time result"
  db_parseRunTime :: "string \<Rightarrow> time option"
  db_marshalSummary :: "run_phase_summary \<Rightarrow> string result"
  db_unmarshalSummary :: "string \<Rightarrow> run_phase_summary result"
  db_marshalApproval :: "run_approval \<Rightarrow> string result"
  db_unmarshalApproval :: "string \<Rightarrow> run_approval result"
  db_marshalCursor :: "list_cursor \<Rightarrow> string result"
  db_unmarshalCursor :: "string \<Rightarrow> list_cursor result"
  db_base64 :: "string \<Rightarrow> string"
  db_unbase64 :: "string \<Rightarrow> string result"
  db_jsonb :: "string \<Rightarrow> string"

record run_row =
  rn_namespace :: string
  rn_workspace :: string
  rn_runID :: string
  rn_trigger :: string
  rn_targetRevision :: string
  rn_observedRevision :: string
  rn_startedAt :: "string option"
  rn_finishedAt :: "string option"
  rn_scheduledAt :: "string option"
  rn_sortTime :: string
  rn_createdAt :: string
  rn_updatedAt :: string
  rn_plan :: "string option"
  rn_apply :: "string option"
  rn_approval :: "string option"

type_synonym table = "run_row list"

definition ErrInvalidCursor :: goerr where "ErrInvalidCursor = EMsg ''invalid run list cursor''"
definition ErrRunNotFound :: goerr where "ErrRunNotFound = EMsg ''run not found''"
definition ErrConflictingDecision :: goerr where
  "ErrConflictingDecision = EMsg ''approval decision conflicts with existing record''"

definition defaultListLimit :: int where
  "defaultListLimit = 30"

section \<open>Times\<close>

definition formatMetaTime :: "dblib \<Rightarrow> time ptr \<Rightarrow> string" where
  "formatMetaTime L t = (if timeIsZero t then [] else db_formatTime L (the t))"

definition parseMetaTime :: "dblib \<Rightarrow> string option \<Rightarrow> time ptr result" where
  "parseMetaTime L v =
     (case v of
        None \<Rightarrow> Inr None
      | Some s \<Rightarrow>
          (if s = [] then Inr None
           else case db_parseTime L s of
                  Inl err \<Rightarrow> Inl (EWrap (''parse stored timestamp '' @ quoteString s) err)
                | Inr t \<Rightarrow> Inr (Some t)))"

fun firstNonEmpty :: "string list \<Rightarrow> string" where
  "firstNonEmpty [] = []"
| "firstNonEmpty (v # vs) = (if v \<noteq> [] then v else firstNonEmpty vs)"

definition nullEmpty :: "string \<Rightarrow> string option" where
  "nullEmpty v = (if v = [] then None else Some v)"

definition runStartedAt :: "dblib \<Rightarrow> run \<Rightarrow> string" where
  "runStartedAt L r =
     (if formatMetaTime L (run_startedAt r) \<noteq> [] then formatMetaTime L (run_startedAt r)
      else case run_plan r of Some p \<Rightarrow> formatMetaTime L (rps_startedAt p) | None \<Rightarrow> [])"

definition runFinishedAt :: "dblib \<Rightarrow> run \<Rightarrow> string" where
  "runFinishedAt L r =
     (if formatMetaTime L (run_finishedAt r) \<noteq> [] then formatMetaTime L (run_finishedAt r)
      else case run_apply r of
             Some a \<Rightarrow> formatMetaTime L (rps_finishedAt a)
           | None \<Rightarrow>
               (case run_plan r of
                  Some p \<Rightarrow> if rps_result p = RunLogResultFailed then formatMetaTime L (rps_finishedAt p) else []
                | None \<Rightarrow> []))"

definition phaseStartedAt :: "dblib \<Rightarrow> run \<Rightarrow> string" where
  "phaseStartedAt L r =
     (case run_plan r of
        Some p \<Rightarrow> formatMetaTime L (rps_startedAt p)
      | None \<Rightarrow> (case run_apply r of Some a \<Rightarrow> formatMetaTime L (rps_startedAt a) | None \<Rightarrow> []))"

definition phaseFinishedAt :: "dblib \<Rightarrow> run \<Rightarrow> string" where
  "phaseFinishedAt L r =
     (case run_plan r of
        Some p \<Rightarrow> formatMetaTime L (rps_finishedAt p)
      | None \<Rightarrow> (case run_apply r of Some a \<Rightarrow> formatMetaTime L (rps_finishedAt a) | None \<Rightarrow> []))"

definition runIDSortTime :: "dblib \<Rightarrow> string \<Rightarrow> string" where
  "runIDSortTime L runID =
     (let prefix = takeWhile (\<lambda>c. c \<noteq> CHR ''-'') runID in
      if CHR ''-'' \<notin> set runID \<or> prefix = [] then []
      else case db_parseRunTime L prefix of None \<Rightarrow> [] | Some t \<Rightarrow> db_formatTime L t)"

section \<open>Phase summaries\<close>

definition marshalPhaseSummary :: "dblib \<Rightarrow> run_phase_summary ptr \<Rightarrow> string option result" where
  "marshalPhaseSummary L s =
     (case s of
        None \<Rightarrow> Inr None
      | Some x \<Rightarrow>
          (case db_marshalSummary L x of
             Inl err \<Rightarrow> Inl (EWrap ''marshal phase summary'' err)
           | Inr body \<Rightarrow> Inr (Some body)))"

definition unmarshalPhaseSummary :: "dblib \<Rightarrow> string option \<Rightarrow> run_phase_summary ptr result" where
  "unmarshalPhaseSummary L raw =
     (case raw of
        None \<Rightarrow> Inr None
      | Some s \<Rightarrow>
          (if s = [] then Inr None
           else case db_unmarshalSummary L s of
                  Inl err \<Rightarrow> Inl (EWrap ''unmarshal phase summary'' err)
                | Inr x \<Rightarrow> Inr (Some x)))"

definition requiredPhaseSummary :: "dblib \<Rightarrow> string option \<Rightarrow> run_phase_summary result" where
  "requiredPhaseSummary L raw =
     (case unmarshalPhaseSummary L raw of
        Inl err \<Rightarrow> Inl err
      | Inr None \<Rightarrow> Inl ErrRunNotFound
      | Inr (Some x) \<Rightarrow> Inr x)"

section \<open>Upsert\<close>

definition rowKey :: "run_row \<Rightarrow> string \<times> string \<times> string" where
  "rowKey r = (rn_namespace r, rn_workspace r, rn_runID r)"

definition findRow :: "string \<Rightarrow> string \<Rightarrow> string \<Rightarrow> table \<Rightarrow> run_row option" where
  "findRow ns ws rid tb = find (\<lambda>r. rowKey r = (ns, ws, rid)) tb"

definition coalesce :: "'a option \<Rightarrow> 'a option \<Rightarrow> 'a option" where
  "coalesce a b = (case a of Some x \<Rightarrow> Some x | None \<Rightarrow> b)"

definition insertedRow ::
    "dblib \<Rightarrow> time \<Rightarrow> string \<Rightarrow> string \<Rightarrow> run \<Rightarrow> string option \<Rightarrow> string option \<Rightarrow> run_row" where
  "insertedRow L t ns ws r plan applied =
     \<lparr>rn_namespace = ns, rn_workspace = ws, rn_runID = run_id r,
      rn_trigger = (if triggerString (run_trigger_of r) = [] then ''unknown'' else triggerString (run_trigger_of r)),
      rn_targetRevision = run_targetRevision r, rn_observedRevision = run_observedRevision r,
      rn_startedAt = nullEmpty (runStartedAt L r), rn_finishedAt = nullEmpty (runFinishedAt L r),
      rn_scheduledAt = nullEmpty (formatMetaTime L (run_scheduledAt r)),
      rn_sortTime = firstNonEmpty [runStartedAt L r, phaseStartedAt L r, phaseFinishedAt L r,
        runIDSortTime L (run_id r), db_formatTime L t],
      rn_createdAt = db_formatTime L t, rn_updatedAt = db_formatTime L t,
      rn_plan = map_option (db_jsonb L) plan, rn_apply = map_option (db_jsonb L) applied, rn_approval = None\<rparr>"

definition mergedRow :: "string \<Rightarrow> run_row \<Rightarrow> run_row \<Rightarrow> run_row" where
  \<comment> \<open>the clause \<open>ON CONFLICT DO UPDATE\<close>, with the given trigger, the excluded row and the stored one\<close>
  "mergedRow trigger ex old = old
     \<lparr>rn_trigger := (if trigger \<noteq> [] then rn_trigger ex
        else if rn_trigger old = [] then ''unknown'' else rn_trigger old),
      rn_targetRevision := (if rn_targetRevision ex \<noteq> [] then rn_targetRevision ex else rn_targetRevision old),
      rn_observedRevision := (if rn_observedRevision ex \<noteq> [] then rn_observedRevision ex else rn_observedRevision old),
      rn_startedAt := coalesce (rn_startedAt ex) (rn_startedAt old),
      rn_finishedAt := coalesce (rn_finishedAt ex) (rn_finishedAt old),
      rn_scheduledAt := coalesce (rn_scheduledAt old) (rn_scheduledAt ex),
      rn_plan := coalesce (rn_plan ex) (rn_plan old),
      rn_apply := coalesce (rn_apply ex) (rn_apply old),
      rn_sortTime := (case rn_startedAt ex of Some s \<Rightarrow> s | None \<Rightarrow> rn_sortTime old),
      rn_updatedAt := rn_updatedAt ex\<rparr>"

definition upsertRow :: "string \<Rightarrow> run_row \<Rightarrow> table \<Rightarrow> table" where
  "upsertRow trigger ex tb =
     (if rowKey ex \<in> set (map rowKey tb)
      then map (\<lambda>old. if rowKey old = rowKey ex then mergedRow trigger ex old else old) tb
      else tb @ [ex])"

definition UpsertRun ::
    "dblib \<Rightarrow> goerr option \<Rightarrow> time \<Rightarrow> string \<Rightarrow> string \<Rightarrow> run \<Rightarrow> table \<Rightarrow> goerr option \<times> table" where
  "UpsertRun L dbErr t ns ws r tb =
     (if ns = [] \<or> ws = [] \<or> run_id r = []
      then (Some (EMsg ''namespace, workspace, and runID are required''), tb)
      else case marshalPhaseSummary L (run_plan r) of
             Inl err \<Rightarrow> (Some err, tb)
           | Inr plan \<Rightarrow>
               (case marshalPhaseSummary L (run_apply r) of
                  Inl err \<Rightarrow> (Some err, tb)
                | Inr applied \<Rightarrow>
                    (case dbErr of
                       Some err \<Rightarrow> (Some (EWrap (''upsert run '' @ quoteString (run_id r)) err), tb)
                     | None \<Rightarrow> (None, upsertRow (triggerString (run_trigger_of r))
                         (insertedRow L t ns ws r plan applied) tb))))"

section \<open>Listing\<close>

definition triggerOf :: "string \<Rightarrow> run_trigger" where
  "triggerOf s = (case find (\<lambda>t. triggerString t = s) [RunTriggerNone, RunTriggerUnknown, RunTriggerConfig,
       RunTriggerManual, RunTriggerScheduled, RunTriggerRevision, RunTriggerRetry] of
     Some t \<Rightarrow> t | None \<Rightarrow> RunTriggerUnknown)"

definition scanApproval :: "dblib \<Rightarrow> string option \<Rightarrow> run_approval ptr result" where
  "scanApproval L raw =
     (case raw of
        None \<Rightarrow> Inr None
      | Some s \<Rightarrow>
          (if s = [] then Inr None
           else case db_unmarshalApproval L s of
                  Inl err \<Rightarrow> Inl (EWrap ''decode approval'' err)
                | Inr a \<Rightarrow> Inr (Some a)))"

definition bindResult :: "'a result \<Rightarrow> ('a \<Rightarrow> 'b result) \<Rightarrow> 'b result" where
  "bindResult r f = (case r of Inl err \<Rightarrow> Inl err | Inr a \<Rightarrow> f a)"

definition scanRun :: "dblib \<Rightarrow> run_row \<Rightarrow> run result" where
  "scanRun L row =
     bindResult (parseMetaTime L (rn_startedAt row)) (\<lambda>startedAt.
     bindResult (parseMetaTime L (rn_finishedAt row)) (\<lambda>finishedAt.
     bindResult (parseMetaTime L (rn_scheduledAt row)) (\<lambda>scheduledAt.
     bindResult (unmarshalPhaseSummary L (rn_plan row)) (\<lambda>plan.
     bindResult (unmarshalPhaseSummary L (rn_apply row)) (\<lambda>applied.
     bindResult (scanApproval L (rn_approval row)) (\<lambda>approval.
     Inr \<lparr>run_id = rn_runID row, run_trigger_of = triggerOf (rn_trigger row),
       run_targetRevision = rn_targetRevision row, run_observedRevision = rn_observedRevision row,
       run_plan = plan, run_apply = applied, run_startedAt = startedAt, run_finishedAt = finishedAt,
       run_scheduledAt = scheduledAt, run_approval_of = approval\<rparr>))))))"

fun scanRows :: "dblib \<Rightarrow> run_row list \<Rightarrow> run list result" where
  "scanRows L [] = Inr []"
| "scanRows L (row # rows) =
     bindResult (scanRun L row) (\<lambda>r. bindResult (scanRows L rows) (\<lambda>rs. Inr (r # rs)))"

definition encodeCursor :: "dblib \<Rightarrow> list_cursor \<Rightarrow> string result" where
  "encodeCursor L c =
     (case db_marshalCursor L c of
        Inl err \<Rightarrow> Inl (EWrap ''marshal cursor'' err)
      | Inr body \<Rightarrow> Inr (db_base64 L body))"

definition decodeCursor :: "dblib \<Rightarrow> string \<Rightarrow> list_cursor result" where
  "decodeCursor L raw =
     (case db_unbase64 L raw of
        Inl err \<Rightarrow> Inl ErrInvalidCursor
      | Inr body \<Rightarrow>
          (case db_unmarshalCursor L body of
             Inl err \<Rightarrow> Inl ErrInvalidCursor
           | Inr c \<Rightarrow> if lc_sortTime c = [] \<or> lc_runID c = [] then Inl ErrInvalidCursor else Inr c))"

definition sortKey :: "run_row \<Rightarrow> string \<times> string" where
  "sortKey r = (rn_sortTime r, rn_runID r)"

definition beforeCursor :: "list_cursor option \<Rightarrow> run_row \<Rightarrow> bool" where
  "beforeCursor cur r =
     (case cur of
        None \<Rightarrow> True
      | Some c \<Rightarrow> rn_sortTime r < lc_sortTime c
          \<or> (rn_sortTime r = lc_sortTime c \<and> rn_runID r < lc_runID c))"

definition selectRuns :: "string \<Rightarrow> string \<Rightarrow> list_cursor option \<Rightarrow> nat \<Rightarrow> table \<Rightarrow> run_row list" where
  "selectRuns ns ws cur n tb = take n (rev (sort_key sortKey (filter (beforeCursor cur)
     (filter (\<lambda>r. rn_namespace r = ns \<and> rn_workspace r = ws) tb))))"

definition nextCursor :: "dblib \<Rightarrow> nat \<Rightarrow> run_row list \<Rightarrow> string result" where
  "nextCursor L limit rows =
     (if length rows > limit \<and> rn_sortTime (rows ! (limit - 1)) \<noteq> [] \<and> rn_runID (rows ! (limit - 1)) \<noteq> []
      then encodeCursor L \<lparr>lc_sortTime = rn_sortTime (rows ! (limit - 1)), lc_runID = rn_runID (rows ! (limit - 1))\<rparr>
      else Inr [])"

definition decodeOptCursor :: "dblib \<Rightarrow> string \<Rightarrow> list_cursor option result" where
  "decodeOptCursor L cursor =
     (if cursor = [] then Inr None
      else case decodeCursor L cursor of Inl err \<Rightarrow> Inl err | Inr c \<Rightarrow> Inr (Some c))"

definition ListRuns ::
    "dblib \<Rightarrow> goerr option \<Rightarrow> goerr option \<Rightarrow> string \<Rightarrow> string \<Rightarrow> int \<Rightarrow> string \<Rightarrow> table \<Rightarrow> (run list \<times> string) result" where
  "ListRuns L dbErr iterErr ns ws limit0 cursor tb =
     (let limit = nat (if limit0 \<le> 0 then defaultListLimit else limit0) in
      bindResult (decodeOptCursor L cursor) (\<lambda>cur.
        case dbErr of
          Some err \<Rightarrow> Inl (EWrap ''list runs'' err)
        | None \<Rightarrow>
            (let rows = selectRuns ns ws cur (limit + 1) tb in
             bindResult (scanRows L rows) (\<lambda>rs.
             case iterErr of Some err \<Rightarrow> Inl (EWrap ''iterate runs'' err) | None \<Rightarrow>
             bindResult (nextCursor L limit rows) (\<lambda>next. Inr (take limit rs, next))))))"

definition GetRunPhase ::
    "dblib \<Rightarrow> goerr option \<Rightarrow> string \<Rightarrow> string \<Rightarrow> string \<Rightarrow> run_phase \<Rightarrow> table \<Rightarrow> run_phase_summary result" where
  "GetRunPhase L dbErr ns ws rid ph tb =
     (case dbErr of
        Some err \<Rightarrow> Inl (EWrap (''get '' @ runPhaseString ph @ '' phase summary for run '' @ quoteString rid) err)
      | None \<Rightarrow>
          (case findRow ns ws rid tb of
             None \<Rightarrow> Inl ErrRunNotFound
           | Some row \<Rightarrow>
               (case ph of
                  RunPhasePlan \<Rightarrow> requiredPhaseSummary L (rn_plan row)
                | RunPhaseApply \<Rightarrow> requiredPhaseSummary L (rn_apply row)
                | RunPhaseOther s \<Rightarrow> Inl (EMsg ''phase must be plan or apply''))))"

section \<open>Approvals\<close>

definition GetApproval ::
    "dblib \<Rightarrow> goerr option \<Rightarrow> string \<Rightarrow> string \<Rightarrow> string \<Rightarrow> table \<Rightarrow> run_approval ptr result" where
  "GetApproval L dbErr ns ws rid tb =
     (case dbErr of
        Some err \<Rightarrow> Inl (EWrap ''get approval'' err)
      | None \<Rightarrow>
          (case findRow ns ws rid tb of
             None \<Rightarrow> Inl ErrRunNotFound
           | Some row \<Rightarrow>
               (case rn_approval row of
                  None \<Rightarrow> Inr None
                | Some raw \<Rightarrow>
                    (if raw = [] then Inr None
                     else case db_unmarshalApproval L raw of
                            Inl err \<Rightarrow> Inl (EWrap ''unmarshal approval'' err)
                          | Inr a \<Rightarrow> Inr (Some a)))))"

definition setApproval :: "string \<Rightarrow> string \<Rightarrow> string \<Rightarrow> string \<Rightarrow> table \<Rightarrow> table" where
  "setApproval ns ws rid doc tb =
     map (\<lambda>r. if rowKey r = (ns, ws, rid) \<and> rn_approval r = None then r\<lparr>rn_approval := Some doc\<rparr> else r) tb"

definition approvable :: "string \<Rightarrow> string \<Rightarrow> string \<Rightarrow> table \<Rightarrow> nat" where
  "approvable ns ws rid tb = length (filter (\<lambda>r. rowKey r = (ns, ws, rid) \<and> rn_approval r = None) tb)"

definition RecordApproval ::
    "dblib \<Rightarrow> goerr option \<Rightarrow> goerr option \<Rightarrow> goerr option \<Rightarrow> string \<Rightarrow> string \<Rightarrow> string \<Rightarrow> run_approval \<Rightarrow> table \<Rightarrow>
     goerr option \<times> table" where
  \<comment> \<open>the three errors are the answers of the database to the update, to the question how many rows
      it changed, and to the query\<close>
  "RecordApproval L updErr affErr getErr ns ws rid a tb =
     (if ns = [] \<or> ws = [] \<or> rid = []
      then (Some (EMsg ''namespace, workspace, and runID are required''), tb)
      else if ra_decision a \<noteq> ApprovalDecisionApproved \<and> ra_decision a \<noteq> ApprovalDecisionRejected
      then (Some (EMsg (''invalid decision '' @ quoteString (ra_decision a))), tb)
      else case db_marshalApproval L a of
             Inl err \<Rightarrow> (Some (EWrap ''marshal approval'' err), tb)
           | Inr payload \<Rightarrow>
               (case updErr of
                  Some err \<Rightarrow> (Some (EWrap ''record approval'' err), tb)
                | None \<Rightarrow>
                    (let tb' = setApproval ns ws rid (db_jsonb L payload) tb in
                     case affErr of Some err \<Rightarrow> (Some (EWrap ''record approval rows affected'' err), tb') | None \<Rightarrow>
                     if approvable ns ws rid tb = 1 then (None, tb')
                     else case GetApproval L getErr ns ws rid tb' of
                            Inl err \<Rightarrow> (Some err, tb')
                          | Inr None \<Rightarrow> (Some ErrRunNotFound, tb')
                          | Inr (Some existing) \<Rightarrow>
                              (if ra_decision existing \<noteq> ra_decision a then (Some ErrConflictingDecision, tb')
                               else (None, tb')))))"

section \<open>The table\<close>

definition tableOK :: "table \<Rightarrow> bool" where
  "tableOK tb \<longleftrightarrow> distinct (map rowKey tb) \<and> (\<forall>r \<in> set tb. rn_runID r \<noteq> [] \<and> rn_sortTime r \<noteq> []
     \<and> rn_approval r \<noteq> Some [])"

lemma rowKey_simps [simp]:
  "rowKey (mergedRow trigger ex old) = rowKey old" "rowKey (r\<lparr>rn_approval := a\<rparr>) = rowKey r"
  by (simp_all add: rowKey_def mergedRow_def)

lemma rowKey_upsert: "map rowKey (upsertRow trigger ex tb) =
    (if rowKey ex \<in> set (map rowKey tb) then map rowKey tb else map rowKey tb @ [rowKey ex])"
  by (auto simp: upsertRow_def)

lemma rowKey_setApproval: "map rowKey (setApproval ns ws rid doc tb) = map rowKey tb"
  by (simp add: setApproval_def)

lemma find_map_key:
  assumes "\<And>r. rowKey (f r) = rowKey r"
  shows "find (\<lambda>r. rowKey r = k) (map f tb) = map_option f (find (\<lambda>r. rowKey r = k) tb)"
  by (induction tb) (auto simp: assms)

lemma findRow_setApproval:
  "findRow ns ws rid (setApproval ns' ws' rid' doc tb) =
     map_option (\<lambda>r. if (ns, ws, rid) = (ns', ws', rid') \<and> rn_approval r = None then r\<lparr>rn_approval := Some doc\<rparr> else r)
       (findRow ns ws rid tb)"
proof -
  have "findRow ns ws rid (setApproval ns' ws' rid' doc tb) =
     map_option (\<lambda>r. if rowKey r = (ns', ws', rid') \<and> rn_approval r = None then r\<lparr>rn_approval := Some doc\<rparr> else r)
       (findRow ns ws rid tb)"
    unfolding findRow_def setApproval_def by (rule find_map_key) simp
  also have "\<dots> = map_option (\<lambda>r. if (ns, ws, rid) = (ns', ws', rid') \<and> rn_approval r = None
      then r\<lparr>rn_approval := Some doc\<rparr> else r) (findRow ns ws rid tb)"
    by (rule map_option_cong [OF refl]) (auto simp: findRow_def find_Some_iff)
  finally show ?thesis .
qed

lemma findRow_None: "findRow ns ws rid tb = None \<longleftrightarrow> (ns, ws, rid) \<notin> set (map rowKey tb)"
  by (force simp: findRow_def find_None_iff)

lemma findRow_key: "findRow ns ws rid tb = Some r \<Longrightarrow> rowKey r = (ns, ws, rid)"
  by (auto simp: findRow_def find_Some_iff)

lemma findRow_upsert:
  "findRow ns ws rid (upsertRow trigger ex tb) =
     (if rowKey ex = (ns, ws, rid)
      then (case findRow ns ws rid tb of None \<Rightarrow> Some ex | Some old \<Rightarrow> Some (mergedRow trigger ex old))
      else findRow ns ws rid tb)"
proof (cases "rowKey ex \<in> set (map rowKey tb)")
  case True
  have "findRow ns ws rid (upsertRow trigger ex tb) =
      map_option (\<lambda>old. if rowKey old = rowKey ex then mergedRow trigger ex old else old) (findRow ns ws rid tb)"
    unfolding findRow_def upsertRow_def using True by (simp add: find_map_key)
  moreover have "rowKey ex = (ns, ws, rid) \<Longrightarrow> findRow ns ws rid tb \<noteq> None"
    using True by (simp add: findRow_None)
  ultimately show ?thesis
    by (cases "findRow ns ws rid tb") (auto dest: findRow_key)
next
  case False
  have "find P (tb @ [ex]) = (case find P tb of None \<Rightarrow> if P ex then Some ex else None | Some r \<Rightarrow> Some r)" for P
    by (induction tb) auto
  moreover have "rowKey ex = (ns, ws, rid) \<Longrightarrow> findRow ns ws rid tb = None"
    using False by (simp add: findRow_None)
  ultimately show ?thesis
    using False by (auto simp: findRow_def upsertRow_def split: option.split)
qed

lemma firstNonEmpty_last: "x \<noteq> [] \<Longrightarrow> firstNonEmpty (xs @ [x]) \<noteq> []"
  by (induction xs) auto

lemma tableOK_kept:
  assumes "tableOK tb" and "\<And>t. db_formatTime L t \<noteq> []" and "\<And>d. db_jsonb L d \<noteq> []"
  shows "tableOK (snd (UpsertRun L dbErr t ns ws r tb))
    \<and> tableOK (snd (RecordApproval L updErr affErr getErr ns ws rid a tb))"
proof
  have ex: "rn_sortTime (insertedRow L t ns ws r plan applied) \<noteq> []" for plan applied
    using firstNonEmpty_last [OF assms(2), of "[a, b, c, d]" t for a b c d] by (simp add: insertedRow_def)
  have "tableOK (upsertRow trigger (insertedRow L t ns ws r plan applied) tb)" if "run_id r \<noteq> []" for trigger plan applied
    unfolding tableOK_def rowKey_upsert
  proof
    show "distinct (if rowKey (insertedRow L t ns ws r plan applied) \<in> set (map rowKey tb) then map rowKey tb
        else map rowKey tb @ [rowKey (insertedRow L t ns ws r plan applied)])"
      using assms(1) by (auto simp: tableOK_def)
    have "rn_startedAt (insertedRow L t ns ws r plan applied) \<noteq> Some []" by (simp add: insertedRow_def nullEmpty_def)
    then show "\<forall>x \<in> set (upsertRow trigger (insertedRow L t ns ws r plan applied) tb).
        rn_runID x \<noteq> [] \<and> rn_sortTime x \<noteq> [] \<and> rn_approval x \<noteq> Some []"
      using assms(1) ex [of plan applied] that
      by (auto simp: tableOK_def upsertRow_def mergedRow_def split: option.splits) (simp_all add: insertedRow_def)
  qed
  then show "tableOK (snd (UpsertRun L dbErr t ns ws r tb))"
    using assms(1) by (auto simp: UpsertRun_def split: sum.split option.split)
  have "tableOK (setApproval ns ws rid doc tb)" if "doc \<noteq> []" for doc
    unfolding tableOK_def rowKey_setApproval using assms(1) that by (auto simp: tableOK_def setApproval_def)
  then show "tableOK (snd (RecordApproval L updErr affErr getErr ns ws rid a tb))"
    using assms(1,3) by (auto simp: RecordApproval_def Let_def split: sum.split option.split)
qed

text \<open>
  The table stays well formed: if formatting a time and storing a JSON document give nonempty
  texts, every upsert and every approval keeps the primary key unique and each row with an
  identifier, a sort time and no empty approval document, whatever the database answers.
\<close>

theorem runs_table_wellformed:
  assumes "tableOK tb" and "\<And>t. db_formatTime L t \<noteq> []" and "\<And>d. db_jsonb L d \<noteq> []"
  shows "tableOK (snd (UpsertRun L dbErr t ns ws r tb))
    \<and> tableOK (snd (RecordApproval L updErr affErr getErr ns ws rid a tb))"
  using assms by (rule tableOK_kept)


section \<open>Upserts\<close>

text \<open>
  An upsert never forgets. A successful upsert leaves a row for the run; if there was one
  before, its phase summaries, its times, its revisions and its approval are kept or replaced
  by newer values, but never cleared, and the planned time and the approval are not changed
  once they are set.
\<close>

theorem upsert_never_forgets:
  assumes "fst (UpsertRun L dbErr t ns ws r tb) = None"
  shows "\<exists>new. findRow ns ws (run_id r) (snd (UpsertRun L dbErr t ns ws r tb)) = Some new
    \<and> (run_plan r \<noteq> None \<longrightarrow> rn_plan new \<noteq> None) \<and> (run_apply r \<noteq> None \<longrightarrow> rn_apply new \<noteq> None)
    \<and> (\<forall>old. findRow ns ws (run_id r) tb = Some old \<longrightarrow>
         (rn_plan old \<noteq> None \<longrightarrow> rn_plan new \<noteq> None) \<and> (rn_apply old \<noteq> None \<longrightarrow> rn_apply new \<noteq> None)
         \<and> (rn_startedAt old \<noteq> None \<longrightarrow> rn_startedAt new \<noteq> None)
         \<and> (rn_finishedAt old \<noteq> None \<longrightarrow> rn_finishedAt new \<noteq> None)
         \<and> (rn_targetRevision old \<noteq> [] \<longrightarrow> rn_targetRevision new \<noteq> [])
         \<and> (rn_observedRevision old \<noteq> [] \<longrightarrow> rn_observedRevision new \<noteq> [])
         \<and> (rn_scheduledAt old \<noteq> None \<longrightarrow> rn_scheduledAt new = rn_scheduledAt old)
         \<and> rn_approval new = rn_approval old \<and> rn_createdAt new = rn_createdAt old)"
proof -
  obtain plan applied where m: "marshalPhaseSummary L (run_plan r) = Inr plan"
      "marshalPhaseSummary L (run_apply r) = Inr applied"
    and u: "snd (UpsertRun L dbErr t ns ws r tb) =
      upsertRow (triggerString (run_trigger_of r)) (insertedRow L t ns ws r plan applied) tb"
    using assms by (auto simp: UpsertRun_def split: if_splits sum.splits option.splits)
  let ?ex = "insertedRow L t ns ws r plan applied"
  have ex: "rowKey ?ex = (ns, ws, run_id r)" "rn_plan ?ex = map_option (db_jsonb L) plan"
    "rn_apply ?ex = map_option (db_jsonb L) applied" by (simp_all add: insertedRow_def rowKey_def)
  have p: "run_plan r \<noteq> None \<longrightarrow> plan \<noteq> None" "run_apply r \<noteq> None \<longrightarrow> applied \<noteq> None"
    using m by (auto simp: marshalPhaseSummary_def split: option.splits sum.splits)
  show ?thesis
    unfolding u findRow_upsert using ex p
    by (cases "findRow ns ws (run_id r) tb") (auto simp: mergedRow_def coalesce_def split: option.splits)
qed

definition sameButUpdated :: "run_row \<Rightarrow> run_row \<Rightarrow> bool" where
  "sameButUpdated a b \<longleftrightarrow> (\<exists>u. b = a\<lparr>rn_updatedAt := u\<rparr>)"

text \<open>A row that has all the values an excluded row would give it.\<close>

definition absorbed :: "string \<Rightarrow> run_row \<Rightarrow> run_row \<Rightarrow> bool" where
  "absorbed tr ex new \<longleftrightarrow> (if tr \<noteq> [] then rn_trigger new = rn_trigger ex else rn_trigger new \<noteq> [])
     \<and> rn_targetRevision ex \<in> {[], rn_targetRevision new} \<and> rn_observedRevision ex \<in> {[], rn_observedRevision new}
     \<and> rn_startedAt ex \<in> {None, rn_startedAt new} \<and> rn_finishedAt ex \<in> {None, rn_finishedAt new}
     \<and> (rn_scheduledAt new = None \<longrightarrow> rn_scheduledAt ex = None)
     \<and> rn_plan ex \<in> {None, rn_plan new} \<and> rn_apply ex \<in> {None, rn_apply new}
     \<and> rn_startedAt ex \<in> {None, Some (rn_sortTime new)}"

lemma mergedRow_absorbed:
  assumes "absorbed tr ex new"
  shows "mergedRow tr ex new = new\<lparr>rn_updatedAt := rn_updatedAt ex\<rparr>"
proof -
  have c: "a \<in> {None, b} \<Longrightarrow> coalesce a b = b" for a b :: "string option"
    by (auto simp: coalesce_def split: option.split)
  have "coalesce (rn_scheduledAt new) (rn_scheduledAt ex) = rn_scheduledAt new"
    using assms by (auto simp: absorbed_def coalesce_def split: option.split)
  moreover have "rn_startedAt ex \<in> {None, Some (rn_sortTime new)}" using assms by (simp add: absorbed_def)
  then have "(case rn_startedAt ex of Some s \<Rightarrow> s | None \<Rightarrow> rn_sortTime new) = rn_sortTime new" by auto
  moreover have "(if tr \<noteq> [] then rn_trigger ex else if rn_trigger new = [] then ''unknown'' else rn_trigger new)
      = rn_trigger new"
    using assms by (simp add: absorbed_def)
  moreover have "rn_targetRevision ex \<in> {[], rn_targetRevision new}" "rn_observedRevision ex \<in> {[], rn_observedRevision new}"
    using assms by (simp_all add: absorbed_def)
  then have "(if rn_targetRevision ex \<noteq> [] then rn_targetRevision ex else rn_targetRevision new) = rn_targetRevision new"
    "(if rn_observedRevision ex \<noteq> [] then rn_observedRevision ex else rn_observedRevision new) = rn_observedRevision new"
    by auto
  ultimately show ?thesis using assms by (simp add: mergedRow_def absorbed_def c)
qed

lemma absorbed_inserted:
  "tr = triggerString (run_trigger_of r) \<Longrightarrow>
   absorbed tr (insertedRow L t' ns ws r plan applied) (insertedRow L t ns ws r plan applied)"
  by (simp add: absorbed_def insertedRow_def nullEmpty_def)

lemma absorbed_merged:
  assumes "tr = triggerString (run_trigger_of r)"
  shows "absorbed tr (insertedRow L t' ns ws r plan applied) (mergedRow tr (insertedRow L t ns ws r plan applied) old)"
proof -
  define ex where "ex = insertedRow L t ns ws r plan applied"
  define ex' where "ex' = insertedRow L t' ns ws r plan applied"
  have e: "rn_trigger ex' = rn_trigger ex" "rn_targetRevision ex' = rn_targetRevision ex"
    "rn_observedRevision ex' = rn_observedRevision ex" "rn_startedAt ex' = rn_startedAt ex"
    "rn_finishedAt ex' = rn_finishedAt ex" "rn_scheduledAt ex' = rn_scheduledAt ex"
    "rn_plan ex' = rn_plan ex" "rn_apply ex' = rn_apply ex"
    by (simp_all add: ex_def ex'_def insertedRow_def)
  have c: "a \<in> {None, coalesce a b}" for a b :: "string option"
    by (auto simp: coalesce_def split: option.split)
  have "rn_scheduledAt (mergedRow tr ex old) = None \<longrightarrow> rn_scheduledAt ex = None"
    by (auto simp: mergedRow_def coalesce_def split: option.split)
  moreover have "rn_startedAt ex \<in> {None, Some (rn_sortTime (mergedRow tr ex old))}"
    by (cases "rn_startedAt ex") (auto simp: mergedRow_def)
  ultimately show ?thesis
    unfolding ex_def [symmetric] ex'_def [symmetric] absorbed_def e
    using c by (simp add: mergedRow_def)
qed

text \<open>
  Recording the same run twice, as a controller does when it repeats a reconcile, changes
  nothing but the time of the last update.
\<close>

theorem upsert_idempotent:
  assumes "UpsertRun L None t ns ws r tb = (None, tb1)" and "UpsertRun L None t' ns ws r tb1 = (None, tb2)"
  shows "\<exists>a b. findRow ns ws (run_id r) tb1 = Some a \<and> findRow ns ws (run_id r) tb2 = Some b \<and> sameButUpdated a b
    \<and> (\<forall>ns' ws' rid. (ns', ws', rid) \<noteq> (ns, ws, run_id r) \<longrightarrow> findRow ns' ws' rid tb2 = findRow ns' ws' rid tb1)"
proof -
  let ?tr = "triggerString (run_trigger_of r)"
  obtain plan applied where m: "marshalPhaseSummary L (run_plan r) = Inr plan"
      "marshalPhaseSummary L (run_apply r) = Inr applied"
    and tb1: "tb1 = upsertRow ?tr (insertedRow L t ns ws r plan applied) tb"
    using assms(1) by (auto simp: UpsertRun_def split: if_splits sum.splits)
  have tb2: "tb2 = upsertRow ?tr (insertedRow L t' ns ws r plan applied) tb1"
    using assms(2) m by (auto simp: UpsertRun_def split: if_splits)
  have k: "rowKey (insertedRow L t ns ws r plan applied) = (ns, ws, run_id r)" for t
    by (simp add: insertedRow_def rowKey_def)
  obtain a where a: "findRow ns ws (run_id r) tb1 = Some a"
    "\<exists>old. a = mergedRow ?tr (insertedRow L t ns ws r plan applied) old \<or> a = insertedRow L t ns ws r plan applied"
    unfolding tb1 findRow_upsert k by (cases "findRow ns ws (run_id r) tb") auto
  then have "absorbed ?tr (insertedRow L t' ns ws r plan applied) a"
    using absorbed_inserted [OF refl] absorbed_merged [OF refl] by blast
  then have "sameButUpdated a (mergedRow ?tr (insertedRow L t' ns ws r plan applied) a)"
    by (auto simp: sameButUpdated_def mergedRow_absorbed)
  with a(1) show ?thesis unfolding tb2 findRow_upsert k by auto
qed

section \<open>Decisions\<close>

inductive storeStep :: "dblib \<Rightarrow> table \<Rightarrow> table \<Rightarrow> bool" for L :: dblib where
  Upserted: "storeStep L tb (snd (UpsertRun L dbErr t ns ws r tb))"
| Decided: "storeStep L tb (snd (RecordApproval L updErr affErr getErr ns ws rid a tb))"

lemma storeStep_approval:
  assumes "storeStep L tb tb'" and "findRow ns ws rid tb = Some row" and "rn_approval row = Some doc"
  shows "\<exists>row'. findRow ns ws rid tb' = Some row' \<and> rn_approval row' = Some doc"
  using assms
proof (cases rule: storeStep.cases)
  case (Upserted dbErr t ns' ws' r)
  then show ?thesis
    using assms(2,3)
    by (auto simp: UpsertRun_def findRow_upsert mergedRow_def split: sum.splits option.splits)
next
  case (Decided updErr affErr getErr ns' ws' rid' a)
  then show ?thesis
    using assms(2,3)
    by (auto simp: RecordApproval_def Let_def findRow_setApproval split: sum.splits option.splits)
qed

lemma rows_stay:
  assumes "(storeStep L)\<^sup>*\<^sup>* tb tb'" and "findRow ns ws rid tb = Some row" and "rn_approval row = Some doc"
  shows "\<exists>row'. findRow ns ws rid tb' = Some row' \<and> rn_approval row' = Some doc"
  using assms(1)
proof (induction rule: rtranclp_induct)
  case base
  then show ?case using assms(2,3) by blast
next
  case (step y z)
  then show ?case using storeStep_approval by blast
qed

text \<open>
  A decision is final. Once a run has an approval record, no sequence of upserts and further
  decisions changes it or removes the row.
\<close>

theorem decisions_are_final:
  assumes "(storeStep L)\<^sup>*\<^sup>* tb tb'" and "findRow ns ws rid tb = Some row" and "rn_approval row = Some doc"
  shows "\<exists>row'. findRow ns ws rid tb' = Some row' \<and> rn_approval row' = Some doc"
  using assms by (rule rows_stay)

lemma approvable_one:
  assumes "tableOK tb"
  shows "approvable ns ws rid tb =
    (case findRow ns ws rid tb of Some row \<Rightarrow> if rn_approval row = None then 1 else 0 | None \<Rightarrow> 0)"
proof -
  have "distinct (map rowKey tb)" using assms by (simp add: tableOK_def)
  then show ?thesis
  proof (induction tb)
    case (Cons r tb)
    have "filter (\<lambda>r. rowKey r = (ns, ws, rid) \<and> rn_approval r = None) tb = []" if "rowKey r = (ns, ws, rid)"
      using Cons.prems that by (force simp: filter_empty_conv)
    with Cons show ?case by (auto simp: approvable_def findRow_def)
  qed (simp add: approvable_def findRow_def)
qed

lemma setApproval_decided:
  assumes "tableOK tb" and "approvable ns ws rid tb = 0"
  shows "setApproval ns ws rid doc tb = tb"
proof -
  have "\<forall>r \<in> set tb. \<not> (rowKey r = (ns, ws, rid) \<and> rn_approval r = None)"
    using assms(2) by (auto simp: approvable_def filter_empty_conv)
  then show ?thesis unfolding setApproval_def by (intro map_idI) auto
qed

text \<open>
  Recording a decision. On an undecided run the decision is stored and read back as it was
  given; on a decided one the same decision is accepted without effect and the opposite one
  is refused; a run that does not exist is reported as such. JSON documents are assumed to
  survive the database.
\<close>

theorem RecordApproval_outcomes:
  assumes "tableOK tb" and "ns \<noteq> []" and "ws \<noteq> []" and "rid \<noteq> []"
    and "ra_decision a \<in> {ApprovalDecisionApproved, ApprovalDecisionRejected}"
    and "db_marshalApproval L a = Inr p" and "db_jsonb L p \<noteq> []" and "db_unmarshalApproval L (db_jsonb L p) = Inr a"
  shows "case GetApproval L None ns ws rid tb of
       Inl err \<Rightarrow> RecordApproval L None None None ns ws rid a tb = (Some err, tb)
     | Inr (Some existing) \<Rightarrow> RecordApproval L None None None ns ws rid a tb =
         ((if ra_decision existing = ra_decision a then None else Some ErrConflictingDecision), tb)
     | Inr None \<Rightarrow> fst (RecordApproval L None None None ns ws rid a tb) = None
         \<and> GetApproval L None ns ws rid (snd (RecordApproval L None None None ns ws rid a tb)) = Inr (Some a)"
proof -
  let ?R = "RecordApproval L None None None ns ws rid a tb"
  have R: "?R = (if approvable ns ws rid tb = 1 then (None, setApproval ns ws rid (db_jsonb L p) tb)
      else case GetApproval L None ns ws rid (setApproval ns ws rid (db_jsonb L p) tb) of
        Inl err \<Rightarrow> (Some err, setApproval ns ws rid (db_jsonb L p) tb)
      | Inr None \<Rightarrow> (Some ErrRunNotFound, setApproval ns ws rid (db_jsonb L p) tb)
      | Inr (Some existing) \<Rightarrow> ((if ra_decision existing = ra_decision a then None else Some ErrConflictingDecision),
          setApproval ns ws rid (db_jsonb L p) tb))"
  proof -
    have "\<not> (ra_decision a \<noteq> ApprovalDecisionApproved \<and> ra_decision a \<noteq> ApprovalDecisionRejected)"
      using assms(5) by blast
    then have "?R = (let tb' = setApproval ns ws rid (db_jsonb L p) tb in
         if approvable ns ws rid tb = 1 then (None, tb')
         else case GetApproval L None ns ws rid tb' of
                Inl err \<Rightarrow> (Some err, tb')
              | Inr None \<Rightarrow> (Some ErrRunNotFound, tb')
              | Inr (Some existing) \<Rightarrow>
                  (if ra_decision existing \<noteq> ra_decision a then (Some ErrConflictingDecision, tb') else (None, tb')))"
      unfolding RecordApproval_def using assms(2-4,6) by (simp only: if_False simp_thms sum.case option.case)
    then show ?thesis by (simp add: Let_def split: sum.split option.split)
  qed
  show ?thesis
  proof (cases "approvable ns ws rid tb = 1")
    case True
    then obtain row where "findRow ns ws rid tb = Some row" "rn_approval row = None"
      unfolding approvable_one [OF assms(1)] by (cases "findRow ns ws rid tb") (simp_all split: if_splits)
    with True assms(7,8) show ?thesis by (simp add: R GetApproval_def findRow_setApproval)
  next
    case False
    then have z: "approvable ns ws rid tb = 0"
      unfolding approvable_one [OF assms(1)] by (cases "findRow ns ws rid tb") (simp_all split: if_splits)
    have "GetApproval L None ns ws rid tb \<noteq> Inr None"
    proof (cases "findRow ns ws rid tb")
      case (Some row)
      then have "row \<in> set tb" by (auto simp: findRow_def find_Some_iff)
      then have "rn_approval row \<noteq> Some []" using assms(1) by (auto simp: tableOK_def)
      with Some obtain doc where "rn_approval row = Some doc" "doc \<noteq> []"
        using z unfolding approvable_one [OF assms(1)] by (cases "rn_approval row") auto
      with Some show ?thesis by (simp add: GetApproval_def split: sum.split)
    qed (simp add: GetApproval_def)
    with z show ?thesis
      unfolding R setApproval_decided [OF assms(1) z] by (simp split: sum.split option.split)
  qed
qed

section \<open>Pagination\<close>

definition listing :: "string \<Rightarrow> string \<Rightarrow> table \<Rightarrow> run_row list" where
  "listing ns ws tb = rev (sort_key sortKey (filter (\<lambda>r. rn_namespace r = ns \<and> rn_workspace r = ws) tb))"

lemma selectRuns_listing: "selectRuns ns ws cur n tb = take n (filter (beforeCursor cur) (listing ns ws tb))"
  unfolding selectRuns_def listing_def filter_sort [symmetric] rev_filter ..

lemma beforeCursor_key: "beforeCursor (Some \<lparr>lc_sortTime = fst k, lc_runID = snd k\<rparr>) r \<longleftrightarrow> sortKey r < k"
  by (cases k) (auto simp: beforeCursor_def sortKey_def less_prod_def)

lemma listing_descending:
  assumes "tableOK tb"
  shows "sorted_wrt (\<lambda>a b. sortKey b < sortKey a) (listing ns ws tb)"
proof -
  let ?xs = "filter (\<lambda>r. rn_namespace r = ns \<and> rn_workspace r = ws) tb"
  have "inj_on rowKey (set tb)" "distinct tb"
    using assms by (auto simp: tableOK_def distinct_map)
  then have "distinct (map sortKey ?xs)"
    by (auto simp: distinct_map inj_on_def sortKey_def rowKey_def)
  then have "distinct (map sortKey (sort_key sortKey ?xs))"
    by (simp add: distinct_map)
  then have "sorted_wrt (<) (map sortKey (sort_key sortKey ?xs))"
    by (simp add: strict_sorted_iff)
  then show ?thesis by (simp add: listing_def sorted_wrt_rev sorted_wrt_map)
qed

lemma filter_below:
  fixes f :: "'a \<Rightarrow> 'b::linorder"
  assumes "sorted_wrt (\<lambda>a b. f b < f a) xs" and "i < length xs"
  shows "filter (\<lambda>x. f x < f (xs ! i)) xs = drop (Suc i) xs"
  using assms
proof (induction xs arbitrary: i)
  case (Cons x xs)
  show ?case
  proof (cases i)
    case 0
    then show ?thesis using Cons.prems(1) by (auto simp: filter_id_conv)
  next
    case (Suc j)
    then have "f (xs ! j) < f x" using Cons.prems by auto
    then have "\<not> f x < f (xs ! j)" by simp
    moreover have "filter (\<lambda>x. f x < f (xs ! j)) xs = drop (Suc j) xs" using Suc Cons by simp
    ultimately show ?thesis using Suc by simp
  qed
qed simp

lemma scanRows_append:
  "scanRows L (xs @ ys) = bindResult (scanRows L xs) (\<lambda>a. bindResult (scanRows L ys) (\<lambda>b. Inr (a @ b)))"
  by (induction xs) (auto simp: bindResult_def split: sum.split)

lemma scanRows_length: "scanRows L xs = Inr rs \<Longrightarrow> length rs = length xs"
  by (induction xs arbitrary: rs) (auto simp: bindResult_def split: sum.splits)

lemma scanRows_take: "scanRows L xs = Inr rs \<Longrightarrow> scanRows L (take n xs) = Inr (take n rs)"
proof -
  assume a: "scanRows L xs = Inr rs"
  then obtain u v where uv: "scanRows L (take n xs) = Inr u" "rs = u @ v"
    using scanRows_append [of L "take n xs" "drop n xs"] by (auto simp: bindResult_def split: sum.splits)
  with scanRows_length [OF uv(1)] scanRows_length [OF a] show ?thesis by (cases "n \<le> length xs") auto
qed

lemma scanRows_drop: "scanRows L xs = Inr rs \<Longrightarrow> scanRows L (drop n xs) = Inr (drop n rs)"
proof -
  assume a: "scanRows L xs = Inr rs"
  then obtain v where "scanRows L (drop n xs) = Inr v" "rs = take n rs @ v"
    using scanRows_append [of L "take n xs" "drop n xs"] scanRows_take [OF a, of n]
    by (auto simp: bindResult_def split: sum.splits)
  moreover from this(2) have "v = drop n rs" using append_take_drop_id [of n rs] by (metis same_append_eq)
  ultimately show ?thesis by simp
qed

fun followCursors ::
    "nat \<Rightarrow> dblib \<Rightarrow> string \<Rightarrow> string \<Rightarrow> int \<Rightarrow> string \<Rightarrow> table \<Rightarrow> run list option" where
  "followCursors 0 L ns ws limit cursor tb = None"
| "followCursors (Suc n) L ns ws limit cursor tb =
     (case ListRuns L None None ns ws limit cursor tb of
        Inl err \<Rightarrow> None
      | Inr (rs, next) \<Rightarrow>
          if next = [] then Some rs else map_option (\<lambda>more. rs @ more) (followCursors n L ns ws limit next tb))"

definition cursorLaws :: "dblib \<Rightarrow> bool" where
  "cursorLaws L \<longleftrightarrow> (\<forall>c. \<exists>raw. db_marshalCursor L c = Inr raw \<and> db_unmarshalCursor L raw = Inr c)
     \<and> (\<forall>s. db_unbase64 L (db_base64 L s) = Inr s \<and> db_base64 L s \<noteq> [])"

lemma cursor_roundtrip:
  assumes "cursorLaws L" and "lc_sortTime c \<noteq> []" and "lc_runID c \<noteq> []"
  shows "\<exists>raw. encodeCursor L c = Inr raw \<and> raw \<noteq> [] \<and> decodeOptCursor L raw = Inr (Some c)"
proof -
  obtain body where "db_marshalCursor L c = Inr body" "db_unmarshalCursor L body = Inr c"
    using assms(1) by (auto simp: cursorLaws_def)
  moreover have "db_unbase64 L (db_base64 L body) = Inr body" "db_base64 L body \<noteq> []"
    using assms(1) by (auto simp: cursorLaws_def)
  ultimately show ?thesis
    using assms(2,3) by (simp add: encodeCursor_def decodeOptCursor_def decodeCursor_def)
qed

text \<open>One page of the listing, and where the next one starts.\<close>

lemma ListRuns_page:
  assumes "tableOK tb" and "cursorLaws L" and "scanRows L (listing ns ws tb) = Inr rs" and "limit > 0"
    and "decodeOptCursor L cursor = Inr cur"
    and "filter (beforeCursor cur) (listing ns ws tb) = drop i (listing ns ws tb)"
  shows "if i + nat limit < length rs
    then \<exists>next cur'. ListRuns L None None ns ws limit cursor tb = Inr (take (nat limit) (drop i rs), next) \<and> next \<noteq> []
      \<and> decodeOptCursor L next = Inr (Some cur')
      \<and> filter (beforeCursor (Some cur')) (listing ns ws tb) = drop (i + nat limit) (listing ns ws tb)
    else ListRuns L None None ns ws limit cursor tb = Inr (drop i rs, [])"
proof -
  let ?xs = "listing ns ws tb" and ?l = "nat limit"
  let ?rows = "take (Suc ?l) (drop i ?xs)"
  have len: "length rs = length ?xs" by (rule scanRows_length [OF assms(3)])
  have scan: "scanRows L ?rows = Inr (take (Suc ?l) (drop i rs))"
    by (rule scanRows_take [OF scanRows_drop [OF assms(3)]])
  have L: "ListRuns L None None ns ws limit cursor tb =
      bindResult (nextCursor L ?l ?rows) (\<lambda>next. Inr (take ?l (drop i rs), next))"
    using assms(4-6) scan by (simp add: ListRuns_def bindResult_def selectRuns_listing Let_def split: sum.split)
  show ?thesis
  proof (cases "i + ?l < length rs")
    case True
    define k where "k = i + ?l - 1"
    have k: "k < length ?xs" "Suc k = i + ?l" "?rows ! (?l - 1) = ?xs ! k" "length ?rows > ?l"
      using True len assms(4) by (auto simp: k_def)
    let ?c = "\<lparr>lc_sortTime = fst (sortKey (?xs ! k)), lc_runID = snd (sortKey (?xs ! k))\<rparr>"
    have "?xs ! k \<in> set ?xs" using k(1) by simp
    then have ne: "rn_sortTime (?xs ! k) \<noteq> []" "rn_runID (?xs ! k) \<noteq> []"
      using assms(1) by (auto simp: listing_def tableOK_def)
    then obtain raw where raw: "encodeCursor L ?c = Inr raw" "raw \<noteq> []" "decodeOptCursor L raw = Inr (Some ?c)"
      using cursor_roundtrip [OF assms(2), of ?c] by (auto simp: sortKey_def)
    have "nextCursor L ?l ?rows = Inr raw"
      using k(3,4) ne raw(1) by (simp add: nextCursor_def sortKey_def)
    moreover have "filter (beforeCursor (Some ?c)) ?xs = drop (i + ?l) ?xs"
    proof -
      have "beforeCursor (Some ?c) = (\<lambda>r. sortKey r < sortKey (?xs ! k))"
        by (rule ext) (rule beforeCursor_key)
      then show ?thesis using filter_below [OF listing_descending [OF assms(1)] k(1)] k(2) by simp
    qed
    ultimately show ?thesis using True raw(2,3) L by (auto simp: bindResult_def)
  next
    case False
    then have "\<not> length ?rows > ?l" using len by auto
    then have "nextCursor L ?l ?rows = Inr []" by (simp only: nextCursor_def simp_thms if_False)
    moreover have "take ?l (drop i rs) = drop i rs" using False by simp
    ultimately show ?thesis using False L by (simp add: bindResult_def min_def)
  qed
qed



section \<open>A concrete instance\<close>

fun sampleUnmarshalCursor :: "string \<Rightarrow> list_cursor result" where
  "sampleUnmarshalCursor (a # b # s) =
     (if a = CHR ''c'' then map_sum id (\<lambda>c. c\<lparr>lc_sortTime := b # lc_sortTime c\<rparr>) (sampleUnmarshalCursor s)
      else Inr \<lparr>lc_sortTime = [], lc_runID = b # s\<rparr>)"
| "sampleUnmarshalCursor _ = Inr \<lparr>lc_sortTime = [], lc_runID = []\<rparr>"

definition sampleDB :: dblib where
  "sampleDB = \<lparr>db_formatTime = (\<lambda>t. ''2026-01-01T00:00:00Z''), db_parseTime = (\<lambda>s. Inr 1767225600),
     db_parseRunTime = (\<lambda>s. None), db_marshalSummary = (\<lambda>s. Inr ''{}''),
     db_unmarshalSummary = (\<lambda>s. Inl (EMsg ''unexpected end of JSON input'')),
     db_marshalApproval = (\<lambda>a. if ra_reason a = [] \<and> ra_decidedAt a = 0 then Inr (ra_decision a)
       else Inl (EMsg ''unsupported value'')),
     db_unmarshalApproval = (\<lambda>s. Inr \<lparr>ra_decision = tl s, ra_reason = [], ra_decidedAt = 0\<rparr>),
     db_marshalCursor = (\<lambda>c. Inr (concat (map (\<lambda>x. [CHR ''c'', x]) (lc_sortTime c)) @ CHR ''.'' # lc_runID c)),
     db_unmarshalCursor = sampleUnmarshalCursor,
     db_base64 = (\<lambda>s. CHR ''b'' # s), db_unbase64 = (\<lambda>s. Inr (tl s)), db_jsonb = (\<lambda>d. CHR ''j'' # d)\<rparr>"

lemma sampleDB_simps [simp]:
  "db_formatTime sampleDB = (\<lambda>t. ''2026-01-01T00:00:00Z'')" "db_parseTime sampleDB = (\<lambda>s. Inr 1767225600)"
  "db_parseRunTime sampleDB = (\<lambda>s. None)" "db_marshalSummary sampleDB = (\<lambda>s. Inr ''{}'')"
  "db_marshalApproval sampleDB = (\<lambda>a. if ra_reason a = [] \<and> ra_decidedAt a = 0 then Inr (ra_decision a)
     else Inl (EMsg ''unsupported value''))"
  "db_unmarshalApproval sampleDB = (\<lambda>s. Inr \<lparr>ra_decision = tl s, ra_reason = [], ra_decidedAt = 0\<rparr>)"
  "db_jsonb sampleDB = (\<lambda>d. CHR ''j'' # d)"
  by (simp_all add: sampleDB_def)

lemma sampleUnmarshalCursor_inverse:
  "sampleUnmarshalCursor (concat (map (\<lambda>x. [CHR ''c'', x]) s) @ CHR ''.'' # r) = Inr \<lparr>lc_sortTime = s, lc_runID = r\<rparr>"
  by (induction s) (cases r, simp_all)

lemma sampleDB_cursorLaws: "cursorLaws sampleDB"
  by (auto simp: cursorLaws_def sampleDB_def sampleUnmarshalCursor_inverse)

definition sampleRunRow :: "string \<Rightarrow> run_row" where
  "sampleRunRow rid = \<lparr>rn_namespace = ''default'', rn_workspace = ''ws'', rn_runID = rid, rn_trigger = ''manual'',
     rn_targetRevision = ''main'', rn_observedRevision = ''abc'', rn_startedAt = None, rn_finishedAt = None,
     rn_scheduledAt = None, rn_sortTime = ''2026-01-01T00:00:00Z'', rn_createdAt = ''2026-01-01T00:00:00Z'',
     rn_updatedAt = ''2026-01-01T00:00:00Z'', rn_plan = None, rn_apply = None, rn_approval = None\<rparr>"

definition sampleRecordedRun :: run where
  "sampleRecordedRun = \<lparr>run_id = ''r2'', run_trigger_of = RunTriggerManual, run_targetRevision = ''main'',
     run_observedRevision = ''abc'', run_plan = None, run_apply = None, run_startedAt = Some 7, run_finishedAt = None,
     run_scheduledAt = None, run_approval_of = None\<rparr>"

definition sampleTable :: table where
  "sampleTable = [sampleRunRow ''r1'', (sampleRunRow ''r2'')\<lparr>rn_approval := Some ''jApproved''\<rparr>, sampleRunRow ''r3'']"

lemma sampleTable_ok: "tableOK sampleTable"
  by (simp add: tableOK_def sampleTable_def sampleRunRow_def rowKey_def)

theorem runs_table_wellformed_witness:
  "tableOK (snd (UpsertRun sampleDB None 7 ''default'' ''ws'' sampleRecordedRun sampleTable))
   \<and> tableOK (snd (RecordApproval sampleDB None None None ''default'' ''ws'' ''r1'' \<lparr>ra_decision = ApprovalDecisionApproved, ra_reason = [], ra_decidedAt = 0\<rparr> sampleTable))"
  by (rule runs_table_wellformed [OF sampleTable_ok]) simp_all

lemma sampleUpsert:
  "UpsertRun sampleDB None t ''default'' ''ws'' sampleRecordedRun tb =
     (None, upsertRow (triggerString RunTriggerManual)
       (insertedRow sampleDB t ''default'' ''ws'' sampleRecordedRun None None) tb)"
  by (simp add: UpsertRun_def sampleRecordedRun_def marshalPhaseSummary_def)

theorem upsert_never_forgets_witness:
  "\<exists>new. findRow ''default'' ''ws'' ''r2'' (snd (UpsertRun sampleDB None 7 ''default'' ''ws'' sampleRecordedRun sampleTable)) = Some new
    \<and> rn_approval new = Some ''jApproved''"
proof -
  have "findRow ''default'' ''ws'' ''r2'' sampleTable = Some ((sampleRunRow ''r2'')\<lparr>rn_approval := Some ''jApproved''\<rparr>)"
    by (simp add: findRow_def sampleTable_def sampleRunRow_def rowKey_def)
  moreover have "fst (UpsertRun sampleDB None 7 ''default'' ''ws'' sampleRecordedRun sampleTable) = None"
    by (simp add: sampleUpsert)
  moreover have "run_id sampleRecordedRun = ''r2''" by (simp add: sampleRecordedRun_def)
  ultimately show ?thesis
    using upsert_never_forgets [of sampleDB None 7 "''default''" "''ws''" sampleRecordedRun sampleTable] by auto
qed

theorem upsert_idempotent_witness:
  "\<exists>a b. findRow ''default'' ''ws'' (run_id sampleRecordedRun) (snd (UpsertRun sampleDB None 7 ''default'' ''ws'' sampleRecordedRun sampleTable)) = Some a
    \<and> findRow ''default'' ''ws'' (run_id sampleRecordedRun) (snd (UpsertRun sampleDB None 8 ''default'' ''ws'' sampleRecordedRun
        (snd (UpsertRun sampleDB None 7 ''default'' ''ws'' sampleRecordedRun sampleTable)))) = Some b \<and> sameButUpdated a b"
  using upsert_idempotent [OF sampleUpsert [of 7 sampleTable] sampleUpsert [of 8]] by (auto simp: sampleUpsert)

theorem decisions_are_final_witness:
  "\<exists>row'. findRow ''default'' ''ws'' ''r2''
      (snd (RecordApproval sampleDB None None None ''default'' ''ws'' ''r2''
         \<lparr>ra_decision = ApprovalDecisionRejected, ra_reason = [], ra_decidedAt = 0\<rparr> sampleTable)) = Some row'
    \<and> rn_approval row' = Some ''jApproved''"
proof (rule decisions_are_final)
  show "(storeStep sampleDB)\<^sup>*\<^sup>* sampleTable (snd (RecordApproval sampleDB None None None ''default'' ''ws'' ''r2''
         \<lparr>ra_decision = ApprovalDecisionRejected, ra_reason = [], ra_decidedAt = 0\<rparr> sampleTable))"
    by (intro r_into_rtranclp storeStep.Decided)
  show "findRow ''default'' ''ws'' ''r2'' sampleTable = Some ((sampleRunRow ''r2'')\<lparr>rn_approval := Some ''jApproved''\<rparr>)"
    by (simp add: findRow_def sampleTable_def sampleRunRow_def rowKey_def)
qed (simp add: sampleRunRow_def)

theorem RecordApproval_outcomes_witness:
  "fst (RecordApproval sampleDB None None None ''default'' ''ws'' ''r1''
     \<lparr>ra_decision = ApprovalDecisionApproved, ra_reason = [], ra_decidedAt = 0\<rparr> sampleTable) = None"
proof -
  have "GetApproval sampleDB None ''default'' ''ws'' ''r1'' sampleTable = Inr None"
    by (simp add: GetApproval_def findRow_def sampleTable_def sampleRunRow_def rowKey_def)
  then show ?thesis
    using RecordApproval_outcomes [OF sampleTable_ok, of "''default''" "''ws''" "''r1''"
      "\<lparr>ra_decision = ApprovalDecisionApproved, ra_reason = [], ra_decidedAt = 0\<rparr>" sampleDB ApprovalDecisionApproved]
    by simp
qed


end
