(* ===== verification/Ledger.thy ===== *)
theory Ledger
  imports Prelude
begin

text \<open>
  The contract of a table in which decisions are recorded, as the workspace service relies on
  it: what is recorded under a key stays, and a key has one decision. The run store interprets
  it.
\<close>

locale decision_ledger =
  fixes ok :: "'t \<Rightarrow> bool" and step :: "'t \<Rightarrow> 't \<Rightarrow> bool" and holds :: "'k \<Rightarrow> 'd \<Rightarrow> 't \<Rightarrow> bool"
  assumes step_ok: "ok t \<Longrightarrow> step t t' \<Longrightarrow> ok t'"
    and step_keeps: "step t t' \<Longrightarrow> holds k d t \<Longrightarrow> holds k d t'"
    and one_decision: "holds k d t \<Longrightarrow> holds k d' t \<Longrightarrow> d = d'"
begin

lemma steps_ok: "step\<^sup>*\<^sup>* t t' \<Longrightarrow> ok t \<Longrightarrow> ok t'"
  by (induction rule: rtranclp_induct) (auto intro: step_ok)

lemma steps_keep: "step\<^sup>*\<^sup>* t t' \<Longrightarrow> holds k d t \<Longrightarrow> holds k d t'"
  by (induction rule: rtranclp_induct) (auto intro: step_keeps)

text \<open>Two decisions under one key, however far apart, are the same.\<close>

lemma exclusive: "holds k d1 t \<Longrightarrow> step\<^sup>*\<^sup>* t t' \<Longrightarrow> holds k d2 t' \<Longrightarrow> d1 = d2"
  using steps_keep one_decision by blast

end

end
