(* ===== verification/WS_Service.thy ===== *)
theory WS_Service
  imports Runs_Store Log_Store Ledger
begin

text \<open>
  The Workspace service of the API server, \<open>src/api/internal/service/workspace_service.go\<close>. The
  table of runs is passed explicitly; the cluster, the object store, the pods, the clock and
  the client that receives a stream answer through the record \<open>svc\<close>, as functions of the
  history of the calls. The database may answer each statement of an operation with an error.
\<close>

datatype pod_phase = PodPending | PodRunning | PodSucceeded | PodFailed | PodUnknown

record run_pod =
  rp_name :: string
  rp_created :: time
  rp_phase :: pod_phase

datatype run_log_event_type = EvPhaseStart | EvStatus | EvLine | EvError | EvEOF

record run_log_event =
  le_type :: run_log_event_type
  le_runID :: string
  le_phase :: string
  le_podName :: string
  le_line :: string
  le_message :: string

type_synonym annot_patch = "(string \<times> string option) list"

datatype svc_call =
    V_Get string string
  | V_List
  | V_Patch string string annot_patch
  | V_Now
  | V_Upsert string string run
  | V_ListRuns string string
  | V_GetRunPhase string string string
  | V_RecordApproval string string string run_approval
  | V_GetLog string
  | V_ListPods string string string run_phase
  | V_OpenLogs string string
  | V_Tick
  | V_Send run_log_event

record svc =
  sv_db :: dblib
  sv_get :: "svc_call list \<Rightarrow> string \<Rightarrow> string \<Rightarrow> workspace result"
  sv_list :: "svc_call list \<Rightarrow> workspace list result"
  sv_patch :: "svc_call list \<Rightarrow> string \<Rightarrow> string \<Rightarrow> annot_patch \<Rightarrow> workspace result"
  sv_now :: "svc_call list \<Rightarrow> time"
  sv_dbErr :: "svc_call list \<Rightarrow> nat \<Rightarrow> goerr option"
  sv_hasLogStore :: bool
  sv_getLog :: "svc_call list \<Rightarrow> string \<Rightarrow> (string \<times> goerr option) result"
  sv_gunzip :: "string \<Rightarrow> string result"
  sv_hasKube :: bool
  sv_listPods :: "svc_call list \<Rightarrow> string \<Rightarrow> string \<Rightarrow> string \<Rightarrow> run_phase \<Rightarrow> run_pod list result"
  sv_openLogs :: "svc_call list \<Rightarrow> string \<Rightarrow> string \<Rightarrow> (string list \<times> goerr option) result"
  sv_tick :: "svc_call list \<Rightarrow> goerr option"
  sv_send :: "svc_call list \<Rightarrow> run_log_event \<Rightarrow> bool"
  sv_cancelled :: "svc_call list \<Rightarrow> bool"

type_synonym 'a svc_prog = "(svc_call, 'a) io"

definition observe :: "('c list \<Rightarrow> 'a) \<Rightarrow> ('c, 'a) io" where
  \<comment> \<open>a look at the state of the world without a call\<close>
  "observe f = State (\<lambda>h. (f h, h))"

lemma wp_observe [wp_simps]: "wp (observe f) Q h = Q (f h) h"
  by (simp add: wp_def observe_def)

lemma emits_observe [emits_intros]: "emits P (observe f)"
  by (simp add: emits_def observe_def)

definition ErrApprovalNotPending :: goerr where
  "ErrApprovalNotPending = EMsg ''workspace has no approval pending''"
definition ErrRunIDMismatch :: goerr where
  "ErrRunIDMismatch = EMsg ''runID does not match current run''"
definition ErrReasonRequired :: goerr where
  "ErrReasonRequired = EMsg ''reason is required for reject''"
definition ErrReasonTooLong :: goerr where
  "ErrReasonTooLong = EMsg ''reason exceeds 1024 characters''"
definition errRunEnded :: goerr where
  "errRunEnded = EMsg ''run ended''"

definition approvalReasonMaxLen :: nat where
  "approvalReasonMaxLen = 1024"

section \<open>Reading and patching\<close>

definition validLogLevels :: "string list" where
  "validLogLevels = [''TRACE'', ''DEBUG'', ''INFO'', ''WARN'', ''ERROR'']"

definition ValidatePatch :: "annot_patch option \<Rightarrow> goerr option" where
  "ValidatePatch p =
     (case p of
        None \<Rightarrow> None
      | Some annots \<Rightarrow>
          (case map_of annots TFLogLevelAnnotation of
             Some (Some v) \<Rightarrow>
               (if v \<noteq> [] \<and> v \<notin> set validLogLevels
                then Some (EMsg (''invalid tf-log-level '' @ quoteString v
                       @ '': must be one of TRACE, DEBUG, INFO, WARN, ERROR''))
                else None)
           | _ \<Rightarrow> None))"

definition ServiceList :: "svc \<Rightarrow> workspace list result svc_prog" where
  "ServiceList V = perform (sv_list V) V_List"

definition ServiceGet :: "svc \<Rightarrow> string \<Rightarrow> string \<Rightarrow> workspace result svc_prog" where
  "ServiceGet V ns name = perform (\<lambda>h. sv_get V h ns name) (V_Get ns name)"

definition ServicePatch :: "svc \<Rightarrow> string \<Rightarrow> string \<Rightarrow> annot_patch option \<Rightarrow> workspace result svc_prog" where
  "ServicePatch V ns name p =
     (let annots = (case p of None \<Rightarrow> [] | Some a \<Rightarrow> a) in
      perform (\<lambda>h. sv_patch V h ns name annots) (V_Patch ns name annots))"

definition ServiceRequestReconcile :: "svc \<Rightarrow> string \<Rightarrow> string \<Rightarrow> workspace result svc_prog" where
  "ServiceRequestReconcile V ns name = do {
     t \<leftarrow> perform (sv_now V) V_Now;
     ServicePatch V ns name (Some [(ReconcileRequestAnnotation, Some (db_formatTime (sv_db V) t))])
   }"

section \<open>Runs\<close>

definition ServiceListRuns ::
    "svc \<Rightarrow> table \<Rightarrow> string \<Rightarrow> string \<Rightarrow> int \<Rightarrow> string \<Rightarrow> (run list \<times> string) result svc_prog" where
  "ServiceListRuns V tb ns name limit cursor = do {
     g \<leftarrow> ServiceGet V ns name;
     case g of
       Inl err \<Rightarrow> ret (Inl err)
     | Inr ws \<Rightarrow>
         perform (\<lambda>h. ListRuns (sv_db V) (sv_dbErr V h 0) (sv_dbErr V h 1) (ws_namespace ws) (ws_name ws)
             limit cursor tb)
           (V_ListRuns (ws_namespace ws) (ws_name ws))
   }"

definition decodeRunPhaseLog :: "svc \<Rightarrow> string \<times> goerr option \<Rightarrow> string result" where
  "decodeRunPhaseLog V body =
     (case body of (content, readErr) \<Rightarrow>
        if length content < 2 \<and> readErr \<noteq> None then Inl (the readErr)
        else if length content \<ge> 2 \<and> content ! 0 = CHR 0x1F \<and> content ! 1 = CHR 0x8B then
          (case sv_gunzip V content of
             Inl err \<Rightarrow> Inl (EWrap ''open gzip run log'' err)
           | Inr text \<Rightarrow> Inr text)
        else Inr content)"

definition ServiceGetRunPhaseLog ::
    "svc \<Rightarrow> table \<Rightarrow> string \<Rightarrow> string \<Rightarrow> string \<Rightarrow> run_phase \<Rightarrow> string result svc_prog" where
  "ServiceGetRunPhaseLog V tb ns name rid ph =
     (if \<not> sv_hasLogStore V then ret (Inl (EMsg ''run log storage is not configured''))
      else do {
        g \<leftarrow> ServiceGet V ns name;
        case g of
          Inl err \<Rightarrow> ret (Inl err)
        | Inr ws \<Rightarrow> do {
            p \<leftarrow> perform (\<lambda>h. GetRunPhase (sv_db V) (sv_dbErr V h 0) (ws_namespace ws) (ws_name ws) rid ph tb)
                  (V_GetRunPhase (ws_namespace ws) (ws_name ws) rid);
            case p of
              Inl err \<Rightarrow> ret (Inl err)
            | Inr summary \<Rightarrow>
                (let key = (if rps_logKey summary \<noteq> [] then rps_logKey summary
                            else RunPhaseLogKey (ws_namespace ws) (ws_name ws) rid ph) in do {
                   b \<leftarrow> perform (\<lambda>h. sv_getLog V h key) (V_GetLog key);
                   ret (case b of Inl err \<Rightarrow> Inl err | Inr body \<Rightarrow> decodeRunPhaseLog V body)
                 })
          }
      })"

definition storeUpsert ::
    "svc \<Rightarrow> table \<Rightarrow> string \<Rightarrow> string \<Rightarrow> run \<Rightarrow> (goerr option \<times> table) svc_prog" where
  "storeUpsert V tb ns name r =
     perform (\<lambda>h. UpsertRun (sv_db V) (sv_dbErr V h 0) (sv_now V h) ns name r tb) (V_Upsert ns name r)"

definition ServiceRecordRun ::
    "svc \<Rightarrow> table \<Rightarrow> string \<Rightarrow> string \<Rightarrow> run \<Rightarrow> (goerr option \<times> table) svc_prog" where
  "ServiceRecordRun V tb ns name r =
     (if run_id r = [] then ret (Some (EMsg ''runID is required''), tb) else storeUpsert V tb ns name r)"

definition ServiceRecordRunPhase ::
    "svc \<Rightarrow> table \<Rightarrow> string \<Rightarrow> string \<Rightarrow> string \<Rightarrow> run_phase \<Rightarrow> run \<Rightarrow> (goerr option \<times> table) svc_prog" where
  "ServiceRecordRunPhase V tb ns name rid ph r =
     (if run_id r \<noteq> rid then ret (Some (EMsg ''runID in path and payload do not match''), tb)
      else case ph of
             RunPhasePlan \<Rightarrow>
               (if run_plan r = None then ret (Some (EMsg ''plan phase summary is required''), tb)
                else storeUpsert V tb ns name r)
           | RunPhaseApply \<Rightarrow>
               (if run_apply r = None then ret (Some (EMsg ''apply phase summary is required''), tb)
                else storeUpsert V tb ns name r)
           | RunPhaseOther s \<Rightarrow> ret (Some (EMsg ''phase must be plan or apply''), tb))"

section \<open>Decisions\<close>

definition recordAndSignal ::
    "svc \<Rightarrow> table \<Rightarrow> string \<Rightarrow> string \<Rightarrow> string \<Rightarrow> string \<Rightarrow> string \<Rightarrow> (workspace result \<times> table) svc_prog" where
  "recordAndSignal V tb ns name rid reason decision = do {
     t \<leftarrow> perform (sv_now V) V_Now;
     let approval = \<lparr>ra_decision = decision, ra_reason = reason, ra_decidedAt = t\<rparr>;
     (err, tb1) \<leftarrow> perform (\<lambda>h. RecordApproval (sv_db V) (sv_dbErr V h 0) (sv_dbErr V h 1) (sv_dbErr V h 2)
                      ns name rid approval tb)
                   (V_RecordApproval ns name rid approval);
     case err of
       Some x \<Rightarrow> ret (Inl x, tb1)
     | None \<Rightarrow> do {
         p \<leftarrow> ServicePatch V ns name (Some [(ApprovalDecisionAnnotation, Some decision)]);
         ret (p, tb1)
       }
   }"

definition decide ::
    "svc \<Rightarrow> table \<Rightarrow> string \<Rightarrow> string \<Rightarrow> string \<Rightarrow> string \<Rightarrow> string \<Rightarrow> (workspace result \<times> table) svc_prog" where
  "decide V tb ns name rid reason0 decision =
     (let reason = trimSpace reason0 in
      if length reason > approvalReasonMaxLen then ret (Inl ErrReasonTooLong, tb)
      else do {
        g \<leftarrow> ServiceGet V ns name;
        case g of
          Inl err \<Rightarrow> ret (Inl err, tb)
        | Inr ws \<Rightarrow>
            (if \<not> IsApprovalPending (Some ws) then ret (Inl ErrApprovalNotPending, tb)
             else if wst_currentRunID (ws_status ws) \<noteq> rid then ret (Inl ErrRunIDMismatch, tb)
             else recordAndSignal V tb ns name rid reason decision)
      })"

definition Approve ::
    "svc \<Rightarrow> table \<Rightarrow> string \<Rightarrow> string \<Rightarrow> string \<Rightarrow> string \<Rightarrow> (workspace result \<times> table) svc_prog" where
  "Approve V tb ns name rid reason = decide V tb ns name rid reason ApprovalDecisionApproved"

definition Reject ::
    "svc \<Rightarrow> table \<Rightarrow> string \<Rightarrow> string \<Rightarrow> string \<Rightarrow> string \<Rightarrow> (workspace result \<times> table) svc_prog" where
  "Reject V tb ns name rid reason =
     (if trimSpace reason = [] then ret (Inl ErrReasonRequired, tb)
      else decide V tb ns name rid reason ApprovalDecisionRejected)"

section \<open>Live logs\<close>

definition podStarted :: "run_pod \<Rightarrow> bool" where
  "podStarted p \<longleftrightarrow> rp_phase p \<in> {PodRunning, PodSucceeded, PodFailed}"

definition findRunPod ::
    "svc \<Rightarrow> string \<Rightarrow> string \<Rightarrow> string \<Rightarrow> run_phase \<Rightarrow> run_pod result svc_prog" where
  "findRunPod V ns name rid ph = do {
     l \<leftarrow> perform (\<lambda>h. sv_listPods V h ns name rid ph) (V_ListPods ns name rid ph);
     ret (case l of
            Inl err \<Rightarrow> Inl err
          | Inr pods \<Rightarrow>
              (if pods = [] then Inl (EMsg (''no pod found for current '' @ runPhaseString ph @ '' run yet''))
               else case find podStarted (sort_key (\<lambda>p. - rp_created p) pods) of
                      Some p \<Rightarrow> Inr p
                    | None \<Rightarrow> Inl (EMsg (''no running pod found for current '' @ runPhaseString ph @ '' run yet''))))
   }"

fun waitForRunPod ::
    "svc \<Rightarrow> nat \<Rightarrow> string \<Rightarrow> string \<Rightarrow> string \<Rightarrow> run_phase \<Rightarrow> run_pod result option svc_prog" where
  \<comment> \<open>the number bounds the polls; \<open>None\<close> means that it was used up\<close>
  "waitForRunPod V 0 ns name rid ph = ret None"
| "waitForRunPod V (Suc n) ns name rid ph = do {
     g \<leftarrow> ServiceGet V ns name;
     case g of
       Inl err \<Rightarrow> ret (Some (Inl err))
     | Inr ws \<Rightarrow>
         (if wst_currentRunID (ws_status ws) \<noteq> rid then ret (Some (Inl errRunEnded))
          else do {
            f \<leftarrow> findRunPod V ns name rid ph;
            case f of
              Inr p \<Rightarrow> ret (Some (Inr p))
            | Inl err \<Rightarrow> do {
                c \<leftarrow> perform (sv_tick V) V_Tick;
                case c of Some e \<Rightarrow> ret (Some (Inl e)) | None \<Rightarrow> waitForRunPod V n ns name rid ph
              }
          })
   }"

definition sendRunLogEvent :: "svc \<Rightarrow> run_log_event \<Rightarrow> bool svc_prog" where
  "sendRunLogEvent V ev = perform (\<lambda>h. sv_send V h ev) (V_Send ev)"

definition plainEvent :: "run_log_event_type \<Rightarrow> string \<Rightarrow> run_log_event" where
  "plainEvent ty message = \<lparr>le_type = ty, le_runID = [], le_phase = [], le_podName = [], le_line = [],
     le_message = message\<rparr>"

definition phaseEvent :: "run_log_event_type \<Rightarrow> string \<Rightarrow> run_phase \<Rightarrow> string \<Rightarrow> string \<Rightarrow> run_log_event" where
  "phaseEvent ty rid ph podName message = \<lparr>le_type = ty, le_runID = rid, le_phase = runPhaseString ph,
     le_podName = podName, le_line = [], le_message = message\<rparr>"

fun sendLines :: "svc \<Rightarrow> string \<Rightarrow> run_phase \<Rightarrow> string \<Rightarrow> string list \<Rightarrow> bool svc_prog" where
  "sendLines V rid ph podName [] = ret True"
| "sendLines V rid ph podName (l # ls) = do {
     ok \<leftarrow> sendRunLogEvent V ((phaseEvent EvLine rid ph podName [])\<lparr>le_line := l\<rparr>);
     if ok then sendLines V rid ph podName ls else ret False
   }"

definition streamPod :: "svc \<Rightarrow> string \<Rightarrow> string \<Rightarrow> run_phase \<Rightarrow> run_pod \<Rightarrow> bool svc_prog" where
  \<comment> \<open>the result says whether the stream goes on\<close>
  "streamPod V ns rid ph p = do {
     ok \<leftarrow> sendRunLogEvent V (phaseEvent EvPhaseStart rid ph [] []);
     if \<not> ok then ret False
     else do {
       ignored \<leftarrow> sendRunLogEvent V (phaseEvent EvStatus rid ph (rp_name p) ''streaming'');
       s \<leftarrow> perform (\<lambda>h. sv_openLogs V h ns (rp_name p)) (V_OpenLogs ns (rp_name p));
       case s of
         Inl err \<Rightarrow> do {
           ignored \<leftarrow> sendRunLogEvent V (phaseEvent EvError rid ph (rp_name p) (''open pod logs: '' @ err_text err));
           ret False
         }
       | Inr (ls, scanErr) \<Rightarrow> do {
           sent \<leftarrow> sendLines V rid ph (rp_name p) ls;
           if \<not> sent then ret False
           else do {
             cancelled \<leftarrow> observe (sv_cancelled V);
             case scanErr of
               None \<Rightarrow> ret True
             | Some err \<Rightarrow>
                 (if cancelled then ret True
                  else do {
                    ignored \<leftarrow> sendRunLogEvent V (phaseEvent EvError rid ph (rp_name p)
                                 (''read pod logs: '' @ err_text err));
                    ret False
                  })
           }
         }
     }
   }"

fun streamPhases ::
    "svc \<Rightarrow> nat \<Rightarrow> string \<Rightarrow> string \<Rightarrow> string \<Rightarrow> run_phase list \<Rightarrow> bool option svc_prog" where
  "streamPhases V n ns name rid [] = ret (Some True)"
| "streamPhases V n ns name rid (ph # phs) = do {
     w \<leftarrow> waitForRunPod V n ns name rid ph;
     case w of
       None \<Rightarrow> ret None
     | Some (Inl err) \<Rightarrow>
         (if err = errRunEnded then ret (Some True)
          else do {
            ignored \<leftarrow> sendRunLogEvent V (phaseEvent EvError rid ph [] (err_text err));
            ret (Some False)
          })
     | Some (Inr p) \<Rightarrow> do {
         ok \<leftarrow> streamPod V ns rid ph p;
         if ok then streamPhases V n ns name rid phs else ret (Some False)
       }
   }"

definition StreamCurrentRunLogs :: "svc \<Rightarrow> nat \<Rightarrow> string \<Rightarrow> string \<Rightarrow> unit option svc_prog" where
  "StreamCurrentRunLogs V n ns name =
     (if \<not> sv_hasKube V
      then do { ignored \<leftarrow> sendRunLogEvent V (plainEvent EvError ''kubernetes client is not configured''); ret (Some ()) }
      else do {
        g \<leftarrow> ServiceGet V ns name;
        case g of
          Inl err \<Rightarrow> do { ignored \<leftarrow> sendRunLogEvent V (plainEvent EvError ''workspace not found''); ret (Some ()) }
        | Inr ws \<Rightarrow>
            (let rid = wst_currentRunID (ws_status ws) in
             if rid = []
             then do { ignored \<leftarrow> sendRunLogEvent V (plainEvent EvStatus ''no active run''); ret (Some ()) }
             else do {
               r \<leftarrow> streamPhases V n ns name rid [RunPhasePlan, RunPhaseApply];
               case r of
                 None \<Rightarrow> ret None
               | Some goOn \<Rightarrow>
                   (if goOn
                    then do {
                      ignored \<leftarrow> sendRunLogEvent V ((plainEvent EvEOF ''log stream completed'')\<lparr>le_runID := rid\<rparr>);
                      ret (Some ())
                    }
                    else ret (Some ()))
             })
      })"


section \<open>Decisions are audited and exclusive\<close>

definition recorded :: "dblib \<Rightarrow> string \<Rightarrow> string \<Rightarrow> string \<Rightarrow> string \<Rightarrow> table \<Rightarrow> bool" where
  "recorded L ns ws rid decision tb \<longleftrightarrow>
     (\<exists>a. GetApproval L None ns ws rid tb = Inr (Some a) \<and> ra_decision a = decision)"

definition dbLaws :: "dblib \<Rightarrow> bool" where
  "dbLaws L \<longleftrightarrow> (\<forall>t. db_formatTime L t \<noteq> []) \<and> (\<forall>d. db_jsonb L d \<noteq> [])
     \<and> (\<forall>a p. db_marshalApproval L a = Inr p \<longrightarrow> db_unmarshalApproval L (db_jsonb L p) = Inr a)"

lemma RecordApproval_success:
  assumes "RecordApproval L updErr affErr getErr ns ws rid a tb = (None, tb')"
  obtains p where "db_marshalApproval L a = Inr p" "tb' = setApproval ns ws rid (db_jsonb L p) tb"
    "approvable ns ws rid tb = 1 \<or> recorded L ns ws rid (ra_decision a) tb'"
proof -
  obtain p where p: "db_marshalApproval L a = Inr p"
    using assms by (auto simp: RecordApproval_def split: if_splits sum.splits)
  let ?tb = "setApproval ns ws rid (db_jsonb L p) tb"
  have e: "updErr = None" "affErr = None" "tb' = ?tb"
    using assms p by (auto simp: RecordApproval_def Let_def split: if_splits sum.splits option.splits)
  have "approvable ns ws rid tb = 1 \<or> (\<exists>x. GetApproval L getErr ns ws rid ?tb = Inr (Some x) \<and> ra_decision x = ra_decision a)"
    using assms p e by (auto simp: RecordApproval_def Let_def split: if_splits sum.splits option.splits)
  moreover have "GetApproval L getErr ns ws rid ?tb = Inr x \<Longrightarrow> GetApproval L None ns ws rid ?tb = Inr x" for x
    by (auto simp: GetApproval_def split: option.splits)
  ultimately show ?thesis using that p e by (auto simp: recorded_def)
qed

lemma RecordApproval_recorded:
  assumes "RecordApproval L updErr affErr getErr ns ws rid a tb = (None, tb')" and "tableOK tb" and "dbLaws L"
  shows "recorded L ns ws rid (ra_decision a) tb'"
proof -
  obtain p where p: "db_marshalApproval L a = Inr p" "tb' = setApproval ns ws rid (db_jsonb L p) tb"
    "approvable ns ws rid tb = 1 \<or> recorded L ns ws rid (ra_decision a) tb'"
    using assms(1) by (rule RecordApproval_success)
  show ?thesis
  proof (cases "approvable ns ws rid tb = 1")
    case True
    then obtain row where "findRow ns ws rid tb = Some row" "rn_approval row = None"
      unfolding approvable_one [OF assms(2)] by (cases "findRow ns ws rid tb") (simp_all split: if_splits)
    then have "GetApproval L None ns ws rid tb' = Inr (Some a)"
      using assms(3) p(1,2) by (simp add: GetApproval_def findRow_setApproval dbLaws_def)
    then show ?thesis by (simp add: recorded_def)
  next
    case False
    with p(3) show ?thesis by simp
  qed
qed

lemma recorded_step:
  assumes "storeStep L tb tb'" and "recorded L ns ws rid d tb"
  shows "recorded L ns ws rid d tb'"
proof -
  obtain row doc a where "findRow ns ws rid tb = Some row" "rn_approval row = Some doc" "doc \<noteq> []"
    "db_unmarshalApproval L doc = Inr a" "ra_decision a = d"
    using assms(2) by (auto simp: recorded_def GetApproval_def split: option.splits if_splits sum.splits)
  moreover obtain row' where "findRow ns ws rid tb' = Some row'" "rn_approval row' = Some doc"
    using storeStep_approval [OF assms(1)] calculation(1,2) by blast
  ultimately show ?thesis by (auto simp: recorded_def GetApproval_def)
qed

lemma tableOK_step:
  assumes "tableOK tb \<and> dbLaws L" and "storeStep L tb tb'"
  shows "tableOK tb' \<and> dbLaws L"
proof -
  have "tableOK (snd (UpsertRun L dbErr t ns ws r tb))" "tableOK (snd (RecordApproval L updErr affErr getErr ns ws rid a tb))"
    for dbErr t ns ws r updErr affErr getErr rid a
    using tableOK_kept [of tb] assms(1) by (simp_all add: dbLaws_def)
  with assms show ?thesis by (auto elim: storeStep.cases)
qed

text \<open>The run store keeps the contract of a ledger; its keys are namespace, workspace and run.\<close>

interpretation run_ledger: decision_ledger "\<lambda>tb. tableOK tb \<and> dbLaws L" "storeStep L"
    "\<lambda>(ns, ws, rid) d tb. recorded L ns ws rid d tb" for L
proof unfold_locales
  show "tableOK t' \<and> dbLaws L" if "tableOK t \<and> dbLaws L" "storeStep L t t'" for t t'
    using that by (rule tableOK_step)
  show "(case k of (ns, ws, rid) \<Rightarrow> \<lambda>d tb. recorded L ns ws rid d tb) d t'"
    if "storeStep L t t'" "(case k of (ns, ws, rid) \<Rightarrow> \<lambda>d tb. recorded L ns ws rid d tb) d t" for t t' k d
    using that by (cases k) (auto intro: recorded_step)
  show "d = d'" if "(case k of (ns, ws, rid) \<Rightarrow> \<lambda>d tb. recorded L ns ws rid d tb) d t"
    "(case k of (ns, ws, rid) \<Rightarrow> \<lambda>d tb. recorded L ns ws rid d tb) d' t" for k d d' t
    using that by (cases k) (auto simp: recorded_def)
qed

definition audited :: "svc \<Rightarrow> string \<Rightarrow> string \<Rightarrow> string \<Rightarrow> string \<Rightarrow> svc_call list \<Rightarrow> table \<Rightarrow> svc_call \<Rightarrow> bool" where
  "audited V ns name rid decision h tb' c \<longleftrightarrow>
     (\<forall>ns' n' p. c = V_Patch ns' n' p \<longrightarrow>
        ns' = ns \<and> n' = name \<and> p = [(ApprovalDecisionAnnotation, Some decision)]
        \<and> (\<exists>ws. sv_get V h ns name = Inr ws \<and> IsApprovalPending (Some ws) \<and> wst_currentRunID (ws_status ws) = rid)
        \<and> recorded (sv_db V) ns name rid decision tb')"

lemma wp_decide:
  assumes "tableOK tb" and "dbLaws (sv_db V)"
  shows "wp (decide V tb ns name rid reason d) (\<lambda>r h'. \<exists>cs. h' = h @ cs \<and> (\<forall>c \<in> set cs. audited V ns name rid d h (snd r) c)
     \<and> (storeStep (sv_db V))\<^sup>*\<^sup>* tb (snd r)
     \<and> (\<forall>ws. fst r = Inr ws \<longrightarrow> (\<exists>cs1. cs = cs1 @ [V_Patch ns name [(ApprovalDecisionAnnotation, Some d)]]
          \<and> sv_patch V (h @ cs1) ns name [(ApprovalDecisionAnnotation, Some d)] = Inr ws))) h"
proof -
  let ?Q = "\<lambda>r h'. \<exists>cs. h' = h @ cs \<and> (\<forall>c \<in> set cs. audited V ns name rid d h (snd r) c)
     \<and> (storeStep (sv_db V))\<^sup>*\<^sup>* tb (snd r)
     \<and> (\<forall>ws. fst r = Inr ws \<longrightarrow> (\<exists>cs1. cs = cs1 @ [V_Patch ns name [(ApprovalDecisionAnnotation, Some d)]]
          \<and> sv_patch V (h @ cs1) ns name [(ApprovalDecisionAnnotation, Some d)] = Inr ws))"
  have rec: "recorded (sv_db V) ns name rid d tb1 \<and> storeStep (sv_db V) tb tb1"
    if "RecordApproval (sv_db V) e1 e2 e3 ns name rid \<lparr>ra_decision = d, ra_reason = x, ra_decidedAt = t\<rparr> tb = (None, tb1)"
    for e1 e2 e3 x t tb1
    using RecordApproval_recorded [OF that assms] storeStep.Decided [of "sv_db V" tb e1 e2 e3 ns name rid] that
    by (metis run_approval.select_convs(1) snd_conv)
  have step: "storeStep (sv_db V) tb tb1"
    if "RecordApproval (sv_db V) e1 e2 e3 ns name rid a tb = (e, tb1)" for e1 e2 e3 a e tb1
    using storeStep.Decided [of "sv_db V" tb e1 e2 e3 ns name rid a] that by simp
  have "wp (recordAndSignal V tb ns name rid reason' d) ?Q (h @ [V_Get ns name])"
    if "sv_get V h ns name = Inr ws" "IsApprovalPending (Some ws)" "wst_currentRunID (ws_status ws) = rid" for ws reason'
    using that rec step
    by (auto simp: recordAndSignal_def ServicePatch_def wp_simps Let_def audited_def intro!: r_into_rtranclp
      split: prod.split option.split)
  then show ?thesis
    by (auto simp: decide_def ServiceGet_def wp_simps Let_def audited_def split: sum.split)
qed

lemma decide_calls:
  assumes "tableOK tb" and "dbLaws (sv_db V)"
  shows "c \<in> set (calls_of (decide V tb ns name rid reason d) h) \<Longrightarrow>
      audited V ns name rid d h (snd (result_of (decide V tb ns name rid reason d) h)) c"
    and "(storeStep (sv_db V))\<^sup>*\<^sup>* tb (snd (result_of (decide V tb ns name rid reason d) h))"
    and "fst (result_of (decide V tb ns name rid reason d) h) = Inr ws \<Longrightarrow>
      \<exists>cs. calls_of (decide V tb ns name rid reason d) h = cs @ [V_Patch ns name [(ApprovalDecisionAnnotation, Some d)]]
        \<and> sv_patch V (h @ cs) ns name [(ApprovalDecisionAnnotation, Some d)] = Inr ws"
  using wp_decide [OF assms, of ns name rid reason d h]
  by (auto simp: wp_def result_of_def calls_of_def split: prod.splits)

text \<open>
  Every decision that reaches the controller is audited. The service patches the annotation of
  a workspace only with the decision of the request, only when the workspace it read waits for
  a decision on exactly the given run, and only after that decision is in the table of runs;
  and it reports success only when the cluster accepted the patch.
\<close>

theorem decide_audited:
  assumes "tableOK tb" and "dbLaws (sv_db V)"
  shows "(\<forall>ns' n' p. V_Patch ns' n' p \<in> set (calls_of (decide V tb ns name rid reason d) h) \<longrightarrow>
        ns' = ns \<and> n' = name \<and> p = [(ApprovalDecisionAnnotation, Some d)]
        \<and> (\<exists>ws. sv_get V h ns name = Inr ws \<and> IsApprovalPending (Some ws) \<and> wst_currentRunID (ws_status ws) = rid)
        \<and> recorded (sv_db V) ns name rid d (snd (result_of (decide V tb ns name rid reason d) h)))
    \<and> (\<forall>ws. fst (result_of (decide V tb ns name rid reason d) h) = Inr ws \<longrightarrow>
        (\<exists>h'. sv_patch V h' ns name [(ApprovalDecisionAnnotation, Some d)] = Inr ws))"
proof (rule conjI; intro allI impI)
  fix ns' n' p
  assume "V_Patch ns' n' p \<in> set (calls_of (decide V tb ns name rid reason d) h)"
  from decide_calls(1) [OF assms this]
  show "ns' = ns \<and> n' = name \<and> p = [(ApprovalDecisionAnnotation, Some d)]
    \<and> (\<exists>ws. sv_get V h ns name = Inr ws \<and> IsApprovalPending (Some ws) \<and> wst_currentRunID (ws_status ws) = rid)
    \<and> recorded (sv_db V) ns name rid d (snd (result_of (decide V tb ns name rid reason d) h))"
    by (simp add: audited_def)
next
  fix ws
  assume "fst (result_of (decide V tb ns name rid reason d) h) = Inr ws"
  from decide_calls(3) [OF assms this]
  show "\<exists>h'. sv_patch V h' ns name [(ApprovalDecisionAnnotation, Some d)] = Inr ws" by blast
qed


section \<open>Logs\<close>

lemma UpsertRun_row:
  assumes "UpsertRun L dbErr t ns ws r tb = (None, tb')" and "marshalPhaseSummary L (run_plan r) = Inr plan"
    and "marshalPhaseSummary L (run_apply r) = Inr applied"
  shows "\<exists>row. findRow ns ws (run_id r) tb' = Some row
    \<and> (plan \<noteq> None \<longrightarrow> rn_plan row = map_option (db_jsonb L) plan)
    \<and> (applied \<noteq> None \<longrightarrow> rn_apply row = map_option (db_jsonb L) applied)"
proof -
  have "tb' = upsertRow (triggerString (run_trigger_of r)) (insertedRow L t ns ws r plan applied) tb"
    using assms by (auto simp: UpsertRun_def split: if_splits option.splits)
  moreover have "rowKey (insertedRow L t ns ws r plan applied) = (ns, ws, run_id r)"
    by (simp add: insertedRow_def rowKey_def)
  ultimately show ?thesis
    by (auto simp: findRow_upsert mergedRow_def insertedRow_def coalesce_def split: option.split)
qed

definition summaryLaws :: "dblib \<Rightarrow> bool" where
  "summaryLaws L \<longleftrightarrow> (\<forall>s p. db_marshalSummary L s = Inr p \<longrightarrow>
     db_unmarshalSummary L (db_jsonb L p) = Inr s \<and> db_jsonb L p \<noteq> [])"

lemma summary_roundtrip:
  assumes "summaryLaws L" and "marshalPhaseSummary L (Some s) = Inr p"
  shows "\<exists>d. p = Some d \<and> requiredPhaseSummary L (Some (db_jsonb L d)) = Inr s"
proof -
  obtain d where "db_marshalSummary L s = Inr d" "p = Some d"
    using assms(2) by (auto simp: marshalPhaseSummary_def split: sum.splits)
  moreover have "db_unmarshalSummary L (db_jsonb L d) = Inr s" "db_jsonb L d \<noteq> []"
    using assms(1) calculation(1) by (simp_all add: summaryLaws_def)
  ultimately show ?thesis by (simp add: requiredPhaseSummary_def unmarshalPhaseSummary_def)
qed

definition phaseSummaryOf :: "run_phase \<Rightarrow> run \<Rightarrow> run_phase_summary ptr" where
  "phaseSummaryOf ph r = (case ph of RunPhasePlan \<Rightarrow> run_plan r | RunPhaseApply \<Rightarrow> run_apply r | RunPhaseOther s \<Rightarrow> None)"

lemma GetRunPhase_recorded:
  assumes "summaryLaws L" and "UpsertRun L dbErr t ns ws r tb = (None, tb')" and "phaseSummaryOf ph r = Some s"
  shows "GetRunPhase L None ns ws (run_id r) ph tb' = Inr s"
proof -
  obtain plan applied where m: "marshalPhaseSummary L (run_plan r) = Inr plan" "marshalPhaseSummary L (run_apply r) = Inr applied"
    using assms(2) by (auto simp: UpsertRun_def split: if_splits sum.splits)
  obtain row where row: "findRow ns ws (run_id r) tb' = Some row"
    "plan \<noteq> None \<longrightarrow> rn_plan row = map_option (db_jsonb L) plan"
    "applied \<noteq> None \<longrightarrow> rn_apply row = map_option (db_jsonb L) applied"
    using UpsertRun_row [OF assms(2) m] by blast
  with m assms(3) show ?thesis
    by (cases ph) (auto simp: GetRunPhase_def phaseSummaryOf_def dest!: summary_roundtrip [OF assms(1)])
qed


text \<open>
  The pod whose log is streamed is the newest one of the run that has started; if none has
  started, none is chosen.
\<close>

theorem findRunPod_newest:
  "sv_listPods V h ns name rid ph = Inr pods \<Longrightarrow>
   (case result_of (findRunPod V ns name rid ph) h of
      Inl err \<Rightarrow> \<forall>p \<in> set pods. \<not> podStarted p
    | Inr p \<Rightarrow> p \<in> set pods \<and> podStarted p \<and> (\<forall>q \<in> set pods. podStarted q \<longrightarrow> rp_created q \<le> rp_created p))"
proof -
  assume pods: "sv_listPods V h ns name rid ph = Inr pods"
  let ?s = "sort_key (\<lambda>p. - rp_created p) pods"
  have newest: "rp_created q \<le> rp_created p" if f: "find podStarted ?s = Some p" and q: "q \<in> set pods" "podStarted q" for p q
  proof -
    obtain ys zs where s: "?s = ys @ p # zs" "\<forall>y \<in> set ys. \<not> podStarted y"
      using find_Some_split [OF f] by blast
    have "sorted (map (\<lambda>p. - rp_created p) ?s)" by simp
    then have "\<forall>z \<in> set zs. rp_created z \<le> rp_created p" unfolding s(1) by (auto simp: sorted_append)
    moreover have "q \<in> set (p # zs)" using q s by (metis Un_iff set_append set_sort)
    ultimately show ?thesis by auto
  qed
  have "result_of (findRunPod V ns name rid ph) h = (case find podStarted ?s of
      Some p \<Rightarrow> Inr p
    | None \<Rightarrow> Inl (EMsg (if pods = [] then ''no pod found for current '' @ runPhaseString ph @ '' run yet''
        else ''no running pod found for current '' @ runPhaseString ph @ '' run yet'')))"
    using pods by (intro result_ofI) (auto simp: findRunPod_def wp_simps split: option.split)
  moreover have "find podStarted ?s = None \<longleftrightarrow> (\<forall>p \<in> set pods. \<not> podStarted p)" by (auto simp: find_None_iff)
  moreover have "find podStarted ?s = Some p \<Longrightarrow> p \<in> set pods \<and> podStarted p" for p
    by (metis find_Some_iff nth_mem set_sort)
  ultimately show ?thesis using newest by (auto split: option.split)
qed

section \<open>A concrete instance\<close>

definition parkedWorkspace :: workspace where
  "parkedWorkspace = sampleWorkspace\<lparr>ws_status := (ws_status sampleWorkspace)
     \<lparr>wst_phase := PhasePlanned, wst_currentRunID := ''r1''\<rparr>\<rparr>"

definition sampleSummary :: run_phase_summary where
  "sampleSummary = \<lparr>rps_jobName = ''plan-job'', rps_podName = ''plan-pod'', rps_startedAt = None, rps_finishedAt = None,
     rps_result = RunLogResultSucceeded, rps_logKey = ''run-logs/default/ws/r1/plan.log.gz'', rps_logSizeBytes = 2\<rparr>"

definition sampleSvc :: svc where
  "sampleSvc = \<lparr>sv_db = sampleDB\<lparr>db_marshalSummary := (\<lambda>s. if s = sampleSummary then Inr ''{}'' else Inl (EMsg ''unsupported value'')),
       db_unmarshalSummary := (\<lambda>d. Inr sampleSummary)\<rparr>,
     sv_get = (\<lambda>h ns n. Inr parkedWorkspace), sv_list = (\<lambda>h. Inr []),
     sv_patch = (\<lambda>h ns n p. Inr parkedWorkspace), sv_now = (\<lambda>h. 0), sv_dbErr = (\<lambda>h n. None),
     sv_hasLogStore = True, sv_getLog = (\<lambda>h k. Inr ([CHR 0x1F, CHR 0x8B] @ ''ok'', None)),
     sv_gunzip = (\<lambda>z. Inr (drop 2 z)), sv_hasKube = True,
     sv_listPods = (\<lambda>h ns n r ph. Inr [\<lparr>rp_name = ''a'', rp_created = 1, rp_phase = PodFailed\<rparr>,
       \<lparr>rp_name = ''b'', rp_created = 2, rp_phase = PodRunning\<rparr>, \<lparr>rp_name = ''c'', rp_created = 3, rp_phase = PodPending\<rparr>]),
     sv_openLogs = (\<lambda>h ns p. Inr ([], None)), sv_tick = (\<lambda>h. None), sv_send = (\<lambda>h ev. True),
     sv_cancelled = (\<lambda>h. False)\<rparr>"

lemma sampleSvc_simps [simp]:
  "sv_get sampleSvc h ns n = Inr parkedWorkspace" "sv_now sampleSvc h = 0" "sv_dbErr sampleSvc h k = None"
  "sv_patch sampleSvc h ns n p = Inr parkedWorkspace" "sv_hasLogStore sampleSvc"
  "sv_getLog sampleSvc h key = Inr ([CHR 0x1F, CHR 0x8B] @ ''ok'', None)" "sv_gunzip sampleSvc z = Inr (drop 2 z)"
  "db_marshalApproval (sv_db sampleSvc) = db_marshalApproval sampleDB"
  "db_unmarshalApproval (sv_db sampleSvc) = db_unmarshalApproval sampleDB"
  "db_jsonb (sv_db sampleSvc) = db_jsonb sampleDB" "db_formatTime (sv_db sampleSvc) = db_formatTime sampleDB"
  by (simp_all add: sampleSvc_def)

lemma sampleSvc_laws: "dbLaws (sv_db sampleSvc)" "summaryLaws (sv_db sampleSvc)"
proof -
  show "dbLaws (sv_db sampleSvc)"
    by (auto simp: dbLaws_def intro!: run_approval.equality)
  show "summaryLaws (sv_db sampleSvc)"
    by (simp add: summaryLaws_def sampleSvc_def)
qed

lemma parked_pending: "IsApprovalPending (Some parkedWorkspace)" "wst_currentRunID (ws_status parkedWorkspace) = ''r1''"
  "ws_namespace parkedWorkspace = ''default''" "ws_name parkedWorkspace = ''ws''"
  by (simp_all add: IsApprovalPending_def parkedWorkspace_def sampleWorkspace_def sampleSpec_def sampleMeta_def
    emptyStatus_def)

lemma sample_approve:
  "V_Patch ''default'' ''ws'' [(ApprovalDecisionAnnotation, Some ApprovalDecisionApproved)]
     \<in> set (calls_of (decide sampleSvc sampleTable ''default'' ''ws'' ''r1'' [] ApprovalDecisionApproved) [])"
proof -
  have a: "approvable ''default'' ''ws'' ''r1'' sampleTable = 1"
    by (simp add: approvable_def sampleTable_def sampleRunRow_def rowKey_def)
  have "wp (decide sampleSvc sampleTable ''default'' ''ws'' ''r1'' [] ApprovalDecisionApproved)
      (\<lambda>r h. V_Patch ''default'' ''ws'' [(ApprovalDecisionAnnotation, Some ApprovalDecisionApproved)] \<in> set h) []"
    using parked_pending
    by (simp add: decide_def recordAndSignal_def ServiceGet_def ServicePatch_def wp_simps Let_def trimSpace_def
      approvalReasonMaxLen_def RecordApproval_def a)
  then show ?thesis by (rule calls_of_start)
qed

theorem decide_audited_witness:
  "recorded (sv_db sampleSvc) ''default'' ''ws'' ''r1'' ApprovalDecisionApproved
     (snd (result_of (decide sampleSvc sampleTable ''default'' ''ws'' ''r1'' [] ApprovalDecisionApproved) []))"
  using decide_audited [OF sampleTable_ok sampleSvc_laws(1)] sample_approve by blast



theorem findRunPod_newest_witness:
  "\<exists>p. result_of (findRunPod sampleSvc ''default'' ''ws'' ''r1'' RunPhasePlan) [] = Inr p \<and> rp_created p = 2"
  using findRunPod_newest [of sampleSvc "[]" "''default''" "''ws''" "''r1''" RunPhasePlan]
  by (auto simp: sampleSvc_def podStarted_def split: sum.splits)

end
