(* ===== verification/Http.thy ===== *)
theory Http
  imports API_Types
begin

text \<open>
  Requests and responses of the API server, as far as the handlers look at them, and the parts of
  Go's standard library the handlers use on them: \<open>errors.Is\<close> and \<open>strconv.Atoi\<close>.
\<close>

record http_request =
  rq_method :: string
  rq_path :: string
  rq_pathValue :: "string \<Rightarrow> string"
  rq_query :: "string \<Rightarrow> string"
  rq_header :: "string \<Rightarrow> string"
  rq_cookie :: "string \<Rightarrow> string option"
  rq_body :: string
  rq_contentLength :: int

datatype 'b payload =
    PNone
  | PError string
  | PBody 'b

record 'b http_response =
  rs_status :: nat
  rs_payload :: "'b payload"

definition writeJSON :: "nat \<Rightarrow> 'b \<Rightarrow> 'b http_response" where
  "writeJSON status v = \<lparr>rs_status = status, rs_payload = PBody v\<rparr>"

definition writeError :: "nat \<Rightarrow> string \<Rightarrow> 'b http_response" where
  "writeError status message = \<lparr>rs_status = status, rs_payload = PError message\<rparr>"

definition writeHeader :: "nat \<Rightarrow> 'b http_response" where
  "writeHeader status = \<lparr>rs_status = status, rs_payload = PNone\<rparr>"

lemma response_simps [simp]:
  "rs_status (writeJSON n v) = n" "rs_status (writeError n m) = n" "rs_status (writeHeader n) = n"
  "rs_payload (writeJSON n v) = PBody v" "rs_payload (writeError n m) = PError m"
  by (simp_all add: writeJSON_def writeError_def writeHeader_def)

text \<open>What a JSON decoder makes of a body: a value, the end of the input, or an error.\<close>

datatype 'a decoded =
    Decoded 'a
  | DecodeEOF
  | DecodeError

fun errorsIs :: "goerr \<Rightarrow> goerr \<Rightarrow> bool" where
  "errorsIs (EWrap p e) target \<longleftrightarrow> EWrap p e = target \<or> errorsIs e target"
| "errorsIs e target \<longleftrightarrow> e = target"

section \<open>Numbers\<close>

definition digitValue :: "char \<Rightarrow> int" where
  "digitValue c = int (of_char c) - 48"

definition decimalValue :: "string \<Rightarrow> int" where
  "decimalValue s = fold (\<lambda>c n. 10 * n + digitValue c) s 0"

definition atoi :: "string \<Rightarrow> int option" where
  "atoi s =
     (let neg = (s \<noteq> [] \<and> hd s = CHR ''-'');
          digits = (if s \<noteq> [] \<and> hd s \<in> {CHR ''+'', CHR ''-''} then tl s else s);
          n = (if neg then - decimalValue digits else decimalValue digits)
      in if digits = [] \<or> \<not> list_all isDigit digits then None
         else if n < - (2 ^ 63) \<or> n > 2 ^ 63 - 1 then None
         else Some n)"

end
