(* ===== verification/WS_Handler.thy ===== *)
theory WS_Handler
  imports WS_Service Http
begin

text \<open>
  The HTTP handlers for Workspaces, \<open>src/api/internal/api/handlers/workspace_handler.go\<close>: the checks
  of a request, the call of the service and the status of the response. Decoding JSON bodies is a
  parameter; the table of runs is passed to the service and back.
\<close>

record weblib =
  wl_decodePatch :: "string \<Rightarrow> annot_patch option decoded"
  wl_decodeRun :: "string \<Rightarrow> run decoded"
  wl_decodeReason :: "string \<Rightarrow> string decoded"

section \<open>Parameters of a request\<close>

definition parseRunPhase :: "string \<Rightarrow> run_phase" where
  "parseRunPhase raw = (if raw = ''plan'' then RunPhasePlan else RunPhaseApply)"

definition parseRequiredRunPhase :: "string \<Rightarrow> run_phase option" where
  "parseRequiredRunPhase raw =
     (if raw = ''plan'' then Some RunPhasePlan else if raw = ''apply'' then Some RunPhaseApply else None)"

definition parseListLimit :: "string \<Rightarrow> int result" where
  "parseListLimit raw =
     (if raw = [] then Inr 20
      else case atoi raw of
             None \<Rightarrow> Inl (EMsg ''limit must be a positive integer'')
           | Some v \<Rightarrow>
               (if v \<le> 0 then Inl (EMsg ''limit must be a positive integer'')
                else if v > 100 then Inr 100
                else Inr v))"

section \<open>Reading\<close>

definition HandleList :: "svc \<Rightarrow> workspace list http_response svc_prog" where
  "HandleList V = do {
     l \<leftarrow> ServiceList V;
     ret (case l of Inl err \<Rightarrow> writeError 500 ''failed to list workspaces'' | Inr ws \<Rightarrow> writeJSON 200 ws)
   }"

definition HandleGet :: "svc \<Rightarrow> http_request \<Rightarrow> workspace http_response svc_prog" where
  "HandleGet V r =
     (if rq_pathValue r ''namespace'' = [] \<or> rq_pathValue r ''name'' = []
      then ret (writeError 400 ''namespace and name are required'')
      else do {
        g \<leftarrow> ServiceGet V (rq_pathValue r ''namespace'') (rq_pathValue r ''name'');
        ret (case g of Inl err \<Rightarrow> writeError 404 ''workspace not found'' | Inr ws \<Rightarrow> writeJSON 200 ws)
      })"

definition patchedResponse :: "string \<Rightarrow> workspace result \<Rightarrow> workspace http_response" where
  "patchedResponse failure p =
     (case p of
        Inl err \<Rightarrow> if isNotFound err then writeError 404 ''workspace not found'' else writeError 500 failure
      | Inr ws \<Rightarrow> writeJSON 200 ws)"

definition HandlePatch :: "svc \<Rightarrow> weblib \<Rightarrow> http_request \<Rightarrow> workspace http_response svc_prog" where
  "HandlePatch V W r =
     (if rq_pathValue r ''namespace'' = [] \<or> rq_pathValue r ''name'' = []
      then ret (writeError 400 ''namespace and name are required'')
      else case wl_decodePatch W (rq_body r) of
             Decoded patch \<Rightarrow>
               (case ValidatePatch patch of
                  Some err \<Rightarrow> ret (writeError 400 (err_text err))
                | None \<Rightarrow> do {
                    p \<leftarrow> ServicePatch V (rq_pathValue r ''namespace'') (rq_pathValue r ''name'') patch;
                    ret (patchedResponse ''failed to patch workspace'' p)
                  })
           | _ \<Rightarrow> ret (writeError 400 ''invalid request body''))"

definition HandleRequestReconcile :: "svc \<Rightarrow> http_request \<Rightarrow> workspace http_response svc_prog" where
  "HandleRequestReconcile V r =
     (if rq_pathValue r ''namespace'' = [] \<or> rq_pathValue r ''name'' = []
      then ret (writeError 400 ''namespace and name are required'')
      else do {
        p \<leftarrow> ServiceRequestReconcile V (rq_pathValue r ''namespace'') (rq_pathValue r ''name'');
        ret (patchedResponse ''failed to request workspace reconcile'' p)
      })"

definition HandleListRuns ::
    "svc \<Rightarrow> table \<Rightarrow> http_request \<Rightarrow> (run list \<times> string) http_response svc_prog" where
  "HandleListRuns V tb r =
     (if rq_pathValue r ''namespace'' = [] \<or> rq_pathValue r ''name'' = []
      then ret (writeError 400 ''namespace and name are required'')
      else case parseListLimit (rq_query r ''limit'') of
             Inl err \<Rightarrow> ret (writeError 400 (err_text err))
           | Inr limit \<Rightarrow> do {
               l \<leftarrow> ServiceListRuns V tb (rq_pathValue r ''namespace'') (rq_pathValue r ''name'') limit
                     (rq_query r ''cursor'');
               ret (case l of
                      Inl err \<Rightarrow>
                        (if errorsIs err ErrInvalidCursor then writeError 400 ''invalid cursor''
                         else if isNotFound err then writeError 404 ''workspace not found''
                         else writeError 500 ''failed to list workspace reconcile runs'')
                    | Inr items \<Rightarrow> writeJSON 200 items)
             })"

definition HandleGetRunPhaseLog :: "svc \<Rightarrow> table \<Rightarrow> http_request \<Rightarrow> string http_response svc_prog" where
  "HandleGetRunPhaseLog V tb r =
     (if rq_pathValue r ''namespace'' = [] \<or> rq_pathValue r ''name'' = [] \<or> rq_pathValue r ''runID'' = []
      then ret (writeError 400 ''namespace, name, and runID are required'')
      else if \<not> isValidRunID (rq_pathValue r ''runID'') then ret (writeError 400 ''invalid runID'')
      else do {
        b \<leftarrow> ServiceGetRunPhaseLog V tb (rq_pathValue r ''namespace'') (rq_pathValue r ''name'')
              (rq_pathValue r ''runID'') (parseRunPhase (rq_query r ''phase''));
        ret (case b of
               Inl err \<Rightarrow>
                 (if isNotFound err then writeError 404 ''workspace not found''
                  else writeError 404 ''workspace run log not found'')
             | Inr text \<Rightarrow> writeJSON 200 text)
      })"

section \<open>Recording runs\<close>

definition HandleRecordRun ::
    "svc \<Rightarrow> weblib \<Rightarrow> table \<Rightarrow> http_request \<Rightarrow> (unit http_response \<times> table) svc_prog" where
  "HandleRecordRun V W tb r =
     (let ns = rq_pathValue r ''namespace''; name = rq_pathValue r ''name''; rid = rq_pathValue r ''runID'' in
      if ns = [] \<or> name = [] \<or> rid = []
      then ret (writeError 400 ''namespace, name, and runID are required'', tb)
      else if \<not> isValidRunID rid then ret (writeError 400 ''invalid runID'', tb)
      else case wl_decodeRun W (rq_body r) of
             Decoded x \<Rightarrow>
               (if run_id x \<noteq> rid then ret (writeError 400 ''runID in path and payload do not match'', tb)
                else do {
                  (err, tb1) \<leftarrow> ServiceRecordRun V tb ns name x;
                  ret (case err of
                         Some e \<Rightarrow> writeError 500 ''failed to record workspace run''
                       | None \<Rightarrow> writeHeader 204, tb1)
                })
           | _ \<Rightarrow> ret (writeError 400 ''invalid request body'', tb))"

definition recordPhase ::
    "svc \<Rightarrow> table \<Rightarrow> string \<Rightarrow> string \<Rightarrow> string \<Rightarrow> run_phase \<Rightarrow> run \<Rightarrow> (unit http_response \<times> table) svc_prog" where
  "recordPhase V tb ns name rid ph x =
     (if run_id x \<noteq> rid then ret (writeError 400 ''runID in path and payload do not match'', tb)
      else if ph = RunPhasePlan \<and> run_plan x = None then ret (writeError 400 ''plan phase summary is required'', tb)
      else if ph = RunPhaseApply \<and> run_apply x = None then ret (writeError 400 ''apply phase summary is required'', tb)
      else do {
        (err, tb1) \<leftarrow> ServiceRecordRunPhase V tb ns name rid ph x;
        ret (case err of
               Some e \<Rightarrow> writeError 500 ''failed to record workspace run phase''
             | None \<Rightarrow> writeHeader 204, tb1)
      })"

definition HandleRecordRunPhase ::
    "svc \<Rightarrow> weblib \<Rightarrow> table \<Rightarrow> http_request \<Rightarrow> (unit http_response \<times> table) svc_prog" where
  "HandleRecordRunPhase V W tb r =
     (let ns = rq_pathValue r ''namespace''; name = rq_pathValue r ''name''; rid = rq_pathValue r ''runID'' in
      if ns = [] \<or> name = [] \<or> rid = []
      then ret (writeError 400 ''namespace, name, and runID are required'', tb)
      else if \<not> isValidRunID rid then ret (writeError 400 ''invalid runID'', tb)
      else case parseRequiredRunPhase (rq_pathValue r ''phase'') of
             None \<Rightarrow> ret (writeError 400 ''phase must be plan or apply'', tb)
           | Some ph \<Rightarrow>
               (case wl_decodeRun W (rq_body r) of
                  Decoded x \<Rightarrow> recordPhase V tb ns name rid ph x
                | _ \<Rightarrow> ret (writeError 400 ''invalid request body'', tb)))"

section \<open>Decisions\<close>

definition decisionResponse :: "workspace result \<Rightarrow> workspace http_response" where
  "decisionResponse res =
     (case res of
        Inr ws \<Rightarrow> writeJSON 200 ws
      | Inl err \<Rightarrow>
          (if errorsIs err ErrApprovalNotPending then writeError 409 ''no approval pending''
           else if errorsIs err ErrRunIDMismatch then writeError 404 ''run not found''
           else if errorsIs err ErrReasonRequired then writeError 400 ''reason is required for reject''
           else if errorsIs err ErrReasonTooLong then writeError 400 ''reason exceeds 1024 characters''
           else if errorsIs err ErrConflictingDecision then writeError 409 ''already decided''
           else if isNotFound err then writeError 404 ''workspace not found''
           else writeError 500 ''approval decision failed''))"

definition requestReason :: "weblib \<Rightarrow> http_request \<Rightarrow> string option" where
  "requestReason W r =
     (if rq_contentLength r = 0 then Some []
      else case wl_decodeReason W (rq_body r) of
             Decoded reason \<Rightarrow> Some reason
           | DecodeEOF \<Rightarrow> Some []
           | DecodeError \<Rightarrow> None)"

definition HandleDecide ::
    "svc \<Rightarrow> weblib \<Rightarrow> table \<Rightarrow> http_request \<Rightarrow> bool \<Rightarrow> (workspace http_response \<times> table) svc_prog" where
  "HandleDecide V W tb r approve =
     (let ns = rq_pathValue r ''namespace''; name = rq_pathValue r ''name''; rid = rq_pathValue r ''runID'' in
      if ns = [] \<or> name = [] \<or> rid = []
      then ret (writeError 400 ''namespace, name, and runID are required'', tb)
      else case requestReason W r of
             None \<Rightarrow> ret (writeError 400 ''invalid JSON body'', tb)
           | Some reason \<Rightarrow> do {
               (res, tb1) \<leftarrow> (if approve then Approve V tb ns name rid reason else Reject V tb ns name rid reason);
               ret (decisionResponse res, tb1)
             })"

section \<open>Events\<close>

definition eventFilter :: "http_request \<Rightarrow> (workspace ptr \<Rightarrow> bool) option" where
  "eventFilter r =
     (let ns = rq_query r ''namespace''; name = rq_query r ''name''; projectRef = rq_query r ''projectRef'' in
      if ns \<noteq> [] \<and> name \<noteq> []
      then Some (\<lambda>o1. case o1 of None \<Rightarrow> False | Some ws \<Rightarrow> ws_namespace ws = ns \<and> ws_name ws = name)
      else if projectRef \<noteq> []
      then Some (\<lambda>o1. case o1 of None \<Rightarrow> False | Some ws \<Rightarrow> wsp_projectRef (ws_spec ws) = projectRef)
      else None)"

section \<open>Properties\<close>

text \<open>
  The page size of a listing is always between one and a hundred, whatever the query says;
  anything that is not a positive number is refused.
\<close>

theorem parseListLimit_bounds:
  "case parseListLimit raw of Inl err \<Rightarrow> (\<forall>n. atoi raw = Some n \<longrightarrow> n \<le> 0) \<and> raw \<noteq> []
   | Inr n \<Rightarrow> 1 \<le> n \<and> n \<le> 100"
  by (auto simp: parseListLimit_def split: option.split)

lemma result_of_ret [simp]: "result_of (ret a) h = a"
  by (simp add: result_of_def ret_def)

lemma HandleDecide_service:
  assumes "fst (result_of (HandleDecide V W tb r approve) h) = writeJSON 200 ws"
  shows "\<exists>reason. result_of (decide V tb (rq_pathValue r ''namespace'') (rq_pathValue r ''name'') (rq_pathValue r ''runID'') reason
       (if approve then ApprovalDecisionApproved else ApprovalDecisionRejected)) h
     = (Inr ws, snd (result_of (HandleDecide V W tb r approve) h))"
proof -
  let ?d = "\<lambda>reason. decide V tb (rq_pathValue r ''namespace'') (rq_pathValue r ''name'') (rq_pathValue r ''runID'') reason
       (if approve then ApprovalDecisionApproved else ApprovalDecisionRejected)"
  have ok: "decisionResponse res = writeJSON 200 ws \<longleftrightarrow> res = Inr ws" for res
    by (auto simp: decisionResponse_def writeJSON_def writeError_def split: sum.split)
  have bad: "writeError n m \<noteq> writeJSON 200 ws" for n m by (simp add: writeError_def writeJSON_def)
  have "wp (HandleDecide V W tb r approve) (\<lambda>x h'. fst x = writeJSON 200 ws \<longrightarrow>
      (\<exists>reason. result_of (?d reason) h = (Inr ws, snd x))) h"
  proof (cases "requestReason W r")
    case None
    then show ?thesis by (simp add: HandleDecide_def Let_def wp_simps bad)
  next
    case (Some reason)
    have d: "wp (decide V tb ns n rid reason d) Q h = Q (result_of (decide V tb ns n rid reason d) h)
        (snd (run_state (decide V tb ns n rid reason d) h))" for ns n rid d Q
      by (simp add: wp_def result_of_def split: prod.split)
    show ?thesis
      using Some
      by (cases approve) (auto simp: HandleDecide_def Approve_def Reject_def Let_def wp_simps ok bad d
        decisionResponse_def [of "Inl e" for e] split: prod.split intro!: exI [of _ reason])
  qed
  then show ?thesis using assms by (simp add: wp_result)
qed

lemma HandleDecide_sound:
  assumes "tableOK tb" and "dbLaws (sv_db V)"
    and "fst (result_of (HandleDecide V W tb r approve) h) = writeJSON 200 ws"
  shows "let ns = rq_pathValue r ''namespace''; name = rq_pathValue r ''name''; rid = rq_pathValue r ''runID'';
      d = (if approve then ApprovalDecisionApproved else ApprovalDecisionRejected) in
    (\<exists>ws0. sv_get V h ns name = Inr ws0 \<and> IsApprovalPending (Some ws0) \<and> wst_currentRunID (ws_status ws0) = rid)
    \<and> recorded (sv_db V) ns name rid d (snd (result_of (HandleDecide V W tb r approve) h))
    \<and> (\<exists>h'. sv_patch V h' ns name [(ApprovalDecisionAnnotation, Some d)] = Inr ws)"
proof -
  let ?ns = "rq_pathValue r ''namespace''" and ?n = "rq_pathValue r ''name''" and ?rid = "rq_pathValue r ''runID''"
    and ?d = "if approve then ApprovalDecisionApproved else ApprovalDecisionRejected"
  obtain reason where res: "result_of (decide V tb ?ns ?n ?rid reason ?d) h
      = (Inr ws, snd (result_of (HandleDecide V W tb r approve) h))"
    using HandleDecide_service [OF assms(3)] by blast
  then obtain cs where cs: "calls_of (decide V tb ?ns ?n ?rid reason ?d) h = cs @ [V_Patch ?ns ?n [(ApprovalDecisionAnnotation, Some ?d)]]"
    "sv_patch V (h @ cs) ?ns ?n [(ApprovalDecisionAnnotation, Some ?d)] = Inr ws"
    using decide_calls(3) [OF assms(1,2), of ?ns ?n ?rid reason ?d h ws] by auto
  then have "V_Patch ?ns ?n [(ApprovalDecisionAnnotation, Some ?d)] \<in> set (calls_of (decide V tb ?ns ?n ?rid reason ?d) h)"
    by simp
  from decide_calls(1) [OF assms(1,2) this] cs(2) show ?thesis
    unfolding audited_def res snd_conv Let_def by blast
qed

text \<open>
  C12. A reviewer is told the truth. When a request to approve or reject is answered with 200, the
  workspace was waiting for a decision on exactly the run of the request, the decision is in the
  table of runs, and the cluster has accepted the annotation that tells the controller.
\<close>

theorem decided_request_sound:
  assumes "tableOK tb" and "dbLaws (sv_db V)"
    and "fst (result_of (HandleDecide V W tb r approve) h) = writeJSON 200 ws"
  shows "let ns = rq_pathValue r ''namespace''; name = rq_pathValue r ''name''; rid = rq_pathValue r ''runID'';
      d = (if approve then ApprovalDecisionApproved else ApprovalDecisionRejected) in
    (\<exists>ws0. sv_get V h ns name = Inr ws0 \<and> IsApprovalPending (Some ws0) \<and> wst_currentRunID (ws_status ws0) = rid)
    \<and> recorded (sv_db V) ns name rid d (snd (result_of (HandleDecide V W tb r approve) h))
    \<and> (\<exists>h'. sv_patch V h' ns name [(ApprovalDecisionAnnotation, Some d)] = Inr ws)"
  using assms by (rule HandleDecide_sound)

fun signals :: "svc_call \<Rightarrow> bool" where
  "signals (V_Patch ns name p) = True"
| "signals c = False"

text \<open>
  A run without a record cannot be decided. When the table has no row for the run, which is so
  whenever the archive of logs is not configured, a request to decide a waiting run is answered
  with an internal error and the controller is not told, although the documentation of the
  endpoint promises 404 for a missing run.
\<close>

theorem decision_needs_record:
  assumes "findRow ns name rid tb = None" and "ns \<noteq> []" and "name \<noteq> []" and "rid \<noteq> []"
    and "rq_pathValue r ''namespace'' = ns" and "rq_pathValue r ''name'' = name" and "rq_pathValue r ''runID'' = rid"
    and "requestReason W r = Some reason" and "trimSpace reason \<noteq> []" and "length (trimSpace reason) \<le> approvalReasonMaxLen"
    and "sv_get V h ns name = Inr ws" and "IsApprovalPending (Some ws)" and "wst_currentRunID (ws_status ws) = rid"
    and "\<And>h' n. sv_dbErr V h' n = None" and "\<And>a. \<exists>p. db_marshalApproval (sv_db V) a = Inr p"
  shows "rs_status (fst (result_of (HandleDecide V W tb r approve) h)) = 500
    \<and> \<not> list_ex signals (calls_of (HandleDecide V W tb r approve) h)"
proof -
  have rec: "\<exists>tb'. RecordApproval (sv_db V) None None None ns name rid a tb = (Some ErrRunNotFound, tb')"
    if "ra_decision a \<in> {ApprovalDecisionApproved, ApprovalDecisionRejected}" for a
  proof -
    obtain p where p: "db_marshalApproval (sv_db V) a = Inr p" using assms(15) by blast
    have "approvable ns name rid tb = 0"
      using assms(1) by (force simp: approvable_def findRow_None filter_empty_conv)
    moreover have "GetApproval (sv_db V) None ns name rid (setApproval ns name rid d tb) = Inl ErrRunNotFound" for d
      using assms(1) by (simp add: GetApproval_def findRow_setApproval)
    ultimately show ?thesis using p assms(2-4) that by (auto simp: RecordApproval_def Let_def)
  qed
  have resp: "rs_status (decisionResponse (Inl ErrRunNotFound)) = 500"
    by (simp add: decisionResponse_def ErrRunNotFound_def ErrApprovalNotPending_def ErrRunIDMismatch_def
      ErrReasonRequired_def ErrReasonTooLong_def ErrConflictingDecision_def)
  let ?Q = "\<lambda>x h'. rs_status (decisionResponse (fst x)) = 500 \<and> (\<exists>cs. h' = h @ cs \<and> \<not> list_ex signals cs)"
  have d: "wp (decide V tb ns name rid reason d) ?Q h"
    if d: "d \<in> {ApprovalDecisionApproved, ApprovalDecisionRejected}" for d
  proof -
    let ?a = "\<lambda>h. \<lparr>ra_decision = d, ra_reason = trimSpace reason, ra_decidedAt = sv_now V h\<rparr>"
    obtain tb' where "RecordApproval (sv_db V) None None None ns name rid (?a (h @ [V_Get ns name])) tb = (Some ErrRunNotFound, tb')"
      using rec [of "?a (h @ [V_Get ns name])"] d by auto
    then show ?thesis
      using assms(10-14) resp by (simp add: decide_def recordAndSignal_def ServiceGet_def wp_simps Let_def)
  qed
  have r: "wp (ret a) Q = Q a" for a :: "workspace http_response \<times> table" and Q :: "_ \<Rightarrow> svc_call list \<Rightarrow> bool"
    by (rule ext) (rule wp_ret)
  have "wp (HandleDecide V W tb r approve) (\<lambda>x h'. rs_status (fst x) = 500
      \<and> (\<exists>cs. h' = h @ cs \<and> \<not> list_ex signals cs)) h"
    using assms(2-9) d [of ApprovalDecisionApproved] d [of ApprovalDecisionRejected]
    by (cases approve) (simp_all add: HandleDecide_def Approve_def Reject_def Let_def wp_simps case_prod_beta r)
  then show ?thesis by (auto simp: wp_def result_of_def calls_of_def split: prod.splits)
qed

text \<open>
  C14. The patch endpoint decides without a record. A request to patch a workspace whose body sets the
  approval decision is sent to the cluster as it is: the workspace is not read, so neither its
  phase nor its run is looked at, and nothing is written to the table of runs. If the cluster
  accepts the patch the answer is 200.
\<close>

theorem patch_decides_unrecorded:
  assumes "rq_pathValue r ''namespace'' = ns" and "rq_pathValue r ''name'' = name" and "ns \<noteq> []" and "name \<noteq> []"
    and "wl_decodePatch W (rq_body r) = Decoded (Some [(ApprovalDecisionAnnotation, Some d)])"
    and "sv_patch V h ns name [(ApprovalDecisionAnnotation, Some d)] = Inr ws"
  shows "calls_of (HandlePatch V W r) h = [V_Patch ns name [(ApprovalDecisionAnnotation, Some d)]]
    \<and> result_of (HandlePatch V W r) h = writeJSON 200 ws"
proof -
  have "ValidatePatch (Some [(ApprovalDecisionAnnotation, Some d)]) = None"
    by (simp add: ValidatePatch_def annotation_keys)
  then have "wp (HandlePatch V W r) (\<lambda>x h'. x = writeJSON 200 ws
      \<and> (\<exists>cs. h' = h @ cs \<and> cs = [V_Patch ns name [(ApprovalDecisionAnnotation, Some d)]])) h"
    using assms by (simp add: HandlePatch_def ServicePatch_def wp_simps Let_def patchedResponse_def)
  then show ?thesis by (auto simp: wp_def calls_of_def result_of_def split: prod.splits)
qed

section \<open>A concrete instance\<close>

definition sampleHTTP :: "string \<Rightarrow> http_request" where
  "sampleHTTP rid = \<lparr>rq_method = ''POST'', rq_path = ''/apis/'',
     rq_pathValue = (\<lambda>k. if k = ''namespace'' then ''default'' else if k = ''name'' then ''ws'' else if k = ''runID'' then rid else []),
     rq_query = (\<lambda>k. []), rq_header = (\<lambda>k. []), rq_cookie = (\<lambda>k. None), rq_body = [], rq_contentLength = 12\<rparr>"

definition sampleWeb :: weblib where
  "sampleWeb = \<lparr>wl_decodePatch = (\<lambda>b. DecodeEOF), wl_decodeRun = (\<lambda>b. DecodeError), wl_decodeReason = (\<lambda>b. Decoded '' '')\<rparr>"

lemma sample_requestReason: "requestReason sampleWeb (sampleHTTP rid) = Some '' ''"
  by (simp add: requestReason_def sampleWeb_def sampleHTTP_def)

theorem decided_request_sound_witness:
  "recorded (sv_db sampleSvc) ''default'' ''ws'' ''r1'' ApprovalDecisionApproved
     (snd (result_of (HandleDecide sampleSvc sampleWeb sampleTable (sampleHTTP ''r1'') True) []))"
proof -
  have a: "approvable ''default'' ''ws'' ''r1'' sampleTable = 1"
    by (simp add: approvable_def sampleTable_def sampleRunRow_def rowKey_def)
  have "fst (result_of (HandleDecide sampleSvc sampleWeb sampleTable (sampleHTTP ''r1'') True) []) = writeJSON 200 parkedWorkspace"
  proof -
    have "wp (HandleDecide sampleSvc sampleWeb sampleTable (sampleHTTP ''r1'') True)
        (\<lambda>x h. fst x = writeJSON 200 parkedWorkspace) []"
      using parked_pending sample_requestReason [of "''r1''"]
      by (simp add: HandleDecide_def Approve_def decide_def recordAndSignal_def ServiceGet_def ServicePatch_def wp_simps Let_def
        trimSpace_def isSpace_def approvalReasonMaxLen_def RecordApproval_def decisionResponse_def)
        (simp add: sampleHTTP_def a)
    then show ?thesis by (simp add: wp_result)
  qed
  from decided_request_sound [OF sampleTable_ok sampleSvc_laws(1) this] show ?thesis
    by (simp add: sampleHTTP_def Let_def)
qed

definition jsonSvc :: svc where
  "jsonSvc = sampleSvc\<lparr>sv_db := (sv_db sampleSvc)\<lparr>db_marshalApproval := (\<lambda>a. Inr ''{}'')\<rparr>\<rparr>"

theorem decision_needs_record_witness:
  "rs_status (fst (result_of (HandleDecide jsonSvc (sampleWeb\<lparr>wl_decodeReason := (\<lambda>b. Decoded ''ok'')\<rparr>) [] (sampleHTTP ''r1'') True) [])) = 500"
proof -
  have reason: "requestReason (sampleWeb\<lparr>wl_decodeReason := (\<lambda>b. Decoded ''ok'')\<rparr>) (sampleHTTP ''r1'') = Some ''ok''"
    by (simp add: requestReason_def sampleHTTP_def)
  have t: "trimSpace ''ok'' = ''ok''" by (rule trimSpace_id) (simp add: isSpace_def)
  have "rs_status (fst (result_of (HandleDecide jsonSvc (sampleWeb\<lparr>wl_decodeReason := (\<lambda>b. Decoded ''ok'')\<rparr>) []
      (sampleHTTP ''r1'') True) [])) = 500 \<and> \<not> list_ex signals (calls_of (HandleDecide jsonSvc
      (sampleWeb\<lparr>wl_decodeReason := (\<lambda>b. Decoded ''ok'')\<rparr>) [] (sampleHTTP ''r1'') True) [])"
    using parked_pending reason t
    by (intro decision_needs_record [where ns = "''default''" and name = "''ws''" and rid = "''r1''" and ws = parkedWorkspace
        and reason = "''ok''"])
      (simp_all add: findRow_def sampleHTTP_def jsonSvc_def approvalReasonMaxLen_def)
  then show ?thesis ..
qed

theorem patch_decides_unrecorded_witness:
  "result_of (HandlePatch sampleSvc (sampleWeb\<lparr>wl_decodePatch := (\<lambda>b. Decoded (Some [(ApprovalDecisionAnnotation, Some ''approved'')]))\<rparr>)
     (sampleHTTP []) ) [] = writeJSON 200 parkedWorkspace"
  using patch_decides_unrecorded [of "sampleHTTP []" "''default''" "''ws''"
      "sampleWeb\<lparr>wl_decodePatch := (\<lambda>b. Decoded (Some [(ApprovalDecisionAnnotation, Some ''approved'')]))\<rparr>" "''approved''"
      sampleSvc "[]" parkedWorkspace]
  by (simp add: sampleHTTP_def)

end
