(* ===== verification/Auth_Session.thy ===== *)
theory Auth_Session
  imports Cluster Http
begin

text \<open>
  Authentication of the API server: configuration, identities and sessions, from
  \<open>src/api/internal/auth/config.go\<close>, \<open>identity.go\<close>, \<open>types.go\<close> and \<open>session.go\<close>. The JWT library is
  a parameter: signing, parsing with a function that gives the key for an algorithm, and the
  rounding of a time to the precision of a token. The
  clock, the random source and the identity provider answer as functions of the history.
\<close>

section \<open>Data\<close>

datatype json =
    JNull
  | JBool bool
  | JNumber string
  | JString string
  | JArray "json list"
  | JObject "(string \<times> json) list"

record identity =
  id_provider :: string
  id_subject :: string
  id_username :: string
  id_groups :: "string list"
  id_claims :: "(string \<times> json) list"
  id_isAdmin :: bool

definition ProviderAdmin :: string where "ProviderAdmin = ''admin''"
definition ProviderOIDC :: string where "ProviderOIDC = ''oidc''"
definition ProviderService :: string where "ProviderService = ''service''"

record operation =
  op_method :: string
  op_verb :: string
  op_path :: string
  op_resource :: string
  op_namespace :: string
  op_name :: string
  op_internal :: bool

definition AllowAuthenticatedAuthorizer :: "identity \<Rightarrow> operation \<Rightarrow> goerr option" where
  "AllowAuthenticatedAuthorizer i operation = None"

record oidc_config =
  oc_enabled :: bool
  oc_issuerURL :: string
  oc_clientID :: string
  oc_clientSecret :: string
  oc_usernameClaim :: string
  oc_groupsClaim :: string
  oc_additionalScopes :: "string list"
  oc_loginURL :: string

record auth_config =
  ac_enabled :: bool
  ac_baseURL :: string
  ac_cookieSecure :: bool
  ac_allowedOrigins :: "string list"
  ac_sessionTTL :: duration
  ac_signingKey :: string
  ac_adminEnabled :: bool
  ac_adminPasswordHash :: string
  ac_oidc :: oidc_config
  ac_internalToken :: string

record registered_claims =
  jc_subject :: string
  jc_issuer :: string
  jc_audience :: "string list"
  jc_issuedAt :: time
  jc_notBefore :: time
  jc_expiresAt :: time

record session_claims = registered_claims +
  sc_provider :: string
  sc_username :: string
  sc_groups :: "string list"
  sc_claims :: "(string \<times> json) list"
  sc_isAdmin :: bool

record oidc_state_claims = registered_claims +
  st_redirectTo :: string
  st_state :: string
  st_codeVerifier :: string

record cookie =
  ck_name :: string
  ck_value :: string
  ck_path :: string
  ck_maxAge :: int
  ck_httpOnly :: bool
  ck_secure :: bool
  ck_sameSite :: string

section \<open>The environment\<close>

record id_token =
  it_subject :: string
  it_claims :: "(string \<times> json) list result"

record url_parts =
  up_isAbs :: bool
  up_host :: string

datatype auth_call =
    A_Now
  | A_Random nat
  | A_NewProvider string
  | A_Exchange string string
  | A_VerifyIDToken string
  | A_Authorize identity operation
  | A_Next "identity option"

record authlib =
  al_parseRequestURI :: "string \<Rightarrow> goerr option"
  al_parseURL :: "string \<Rightarrow> url_parts result"
  al_base64url :: "string \<Rightarrow> string"
  al_sha256 :: "string \<Rightarrow> string"
  al_sprint :: "json \<Rightarrow> string"
  al_bcryptMatches :: "string \<Rightarrow> string \<Rightarrow> bool"
  al_decodePassword :: "string \<Rightarrow> string option"
  al_numericDate :: "time \<Rightarrow> time"
  al_signSession :: "string \<Rightarrow> session_claims \<Rightarrow> string result"
  al_parseSession :: "(string \<Rightarrow> string option) \<Rightarrow> string \<Rightarrow> string \<Rightarrow> time \<Rightarrow> string \<Rightarrow> session_claims option"
  al_signState :: "string \<Rightarrow> oidc_state_claims \<Rightarrow> string result"
  al_parseState :: "(string \<Rightarrow> string option) \<Rightarrow> string \<Rightarrow> string \<Rightarrow> time \<Rightarrow> string \<Rightarrow> oidc_state_claims option"
  al_authCodeURL :: "oidc_config \<Rightarrow> string \<Rightarrow> string list \<Rightarrow> string \<Rightarrow> string \<Rightarrow> string"

record authenv = authlib +
  ae_now :: "auth_call list \<Rightarrow> time"
  ae_random :: "auth_call list \<Rightarrow> nat \<Rightarrow> string result"
  ae_newProvider :: "auth_call list \<Rightarrow> string \<Rightarrow> goerr option"
  ae_exchange :: "auth_call list \<Rightarrow> string \<Rightarrow> string \<Rightarrow> string option result"
  ae_verify :: "auth_call list \<Rightarrow> string \<Rightarrow> id_token result"
  ae_authorize :: "auth_call list \<Rightarrow> identity \<Rightarrow> operation \<Rightarrow> goerr option"

type_synonym 'a auth_prog = "(auth_call, 'a) io"

section \<open>Configuration\<close>

definition parseBool :: "string \<Rightarrow> bool option" where
  "parseBool s =
     (if s \<in> {''1'', ''t'', ''T'', ''TRUE'', ''true'', ''True''} then Some True
      else if s \<in> {''0'', ''f'', ''F'', ''FALSE'', ''false'', ''False''} then Some False
      else None)"

definition parseBoolEnv :: "'z golib_scheme \<Rightarrow> string \<Rightarrow> bool" where
  "parseBoolEnv G name = (case parseBool (osGetenv G name) of None \<Rightarrow> False | Some b \<Rightarrow> b)"

definition splitCSV :: "string \<Rightarrow> string list" where
  "splitCSV raw =
     (if raw = [] then []
      else filter (\<lambda>part. part \<noteq> []) (map trimSpace (splitOn (CHR '','') raw)))"

definition orDefault :: "string \<Rightarrow> string \<Rightarrow> string" where
  "orDefault v d = (if v \<noteq> [] then v else d)"

definition defaultSessionTTL :: duration where
  "defaultSessionTTL = 86400000000000"

definition ValidateAuth :: "'a authlib_scheme \<Rightarrow> auth_config \<Rightarrow> goerr option" where
  "ValidateAuth A c =
     (if \<not> ac_enabled c then None
      else if length (ac_signingKey c) < 32
      then Some (EMsg ''MAGOS_AUTH_SESSION_SIGNING_KEY must be at least 32 bytes when auth is enabled'')
      else if ac_sessionTTL c \<le> 0 then Some (EMsg ''MAGOS_AUTH_SESSION_TTL must be positive'')
      else if \<not> ac_adminEnabled c \<and> \<not> oc_enabled (ac_oidc c)
      then Some (EMsg ''at least one interactive auth provider must be enabled when auth is enabled'')
      else if ac_adminEnabled c \<and> ac_adminPasswordHash c = []
      then Some (EMsg ''MAGOS_AUTH_ADMIN_PASSWORD_HASH is required when admin auth is enabled'')
      else if \<not> oc_enabled (ac_oidc c) then None
      else if oc_issuerURL (ac_oidc c) = []
      then Some (EMsg ''MAGOS_AUTH_OIDC_ISSUER_URL is required when OIDC is enabled'')
      else case al_parseRequestURI A (oc_issuerURL (ac_oidc c)) of
             Some err \<Rightarrow> Some (EWrap (''MAGOS_AUTH_OIDC_ISSUER_URL '' @ quoteString (oc_issuerURL (ac_oidc c)) @ '' is invalid'') err)
           | None \<Rightarrow>
               (if oc_clientID (ac_oidc c) = []
                then Some (EMsg ''MAGOS_AUTH_OIDC_CLIENT_ID is required when OIDC is enabled'')
                else if oc_usernameClaim (ac_oidc c) = []
                then Some (EMsg ''MAGOS_AUTH_OIDC_USERNAME_CLAIM must not be empty'')
                else None))"

definition envAuthConfig :: "'z golib_scheme \<Rightarrow> auth_config" where
  "envAuthConfig G =
     \<lparr>ac_enabled = parseBoolEnv G ''MAGOS_AUTH_ENABLED'',
      ac_baseURL = trimRight (CHR ''/'') (osGetenv G ''MAGOS_AUTH_BASE_URL''),
      ac_cookieSecure = parseBoolEnv G ''MAGOS_AUTH_COOKIE_SECURE'',
      ac_allowedOrigins = splitCSV (osGetenv G ''MAGOS_AUTH_ALLOWED_ORIGINS''),
      ac_sessionTTL = defaultSessionTTL,
      ac_signingKey = osGetenv G ''MAGOS_AUTH_SESSION_SIGNING_KEY'',
      ac_adminEnabled = parseBoolEnv G ''MAGOS_AUTH_ADMIN_ENABLED'',
      ac_adminPasswordHash = osGetenv G ''MAGOS_AUTH_ADMIN_PASSWORD_HASH'',
      ac_oidc =
        \<lparr>oc_enabled = parseBoolEnv G ''MAGOS_AUTH_OIDC_ENABLED'',
         oc_issuerURL = trimRight (CHR ''/'') (osGetenv G ''MAGOS_AUTH_OIDC_ISSUER_URL''),
         oc_clientID = osGetenv G ''MAGOS_AUTH_OIDC_CLIENT_ID'',
         oc_clientSecret = osGetenv G ''MAGOS_AUTH_OIDC_CLIENT_SECRET'',
         oc_usernameClaim = orDefault (osGetenv G ''MAGOS_AUTH_OIDC_USERNAME_CLAIM'') ''email'',
         oc_groupsClaim = orDefault (osGetenv G ''MAGOS_AUTH_OIDC_GROUPS_CLAIM'') ''groups'',
         oc_additionalScopes = splitCSV (osGetenv G ''MAGOS_AUTH_OIDC_ADDITIONAL_SCOPES''),
         oc_loginURL = []\<rparr>,
      ac_internalToken = osGetenv G ''MAGOS_AUTH_INTERNAL_TOKEN''\<rparr>"

definition LoadAuthConfigFromEnv ::
    "'z golib_scheme \<Rightarrow> 'a authlib_scheme \<Rightarrow> auth_config result" where
  "LoadAuthConfigFromEnv G A =
     (let raw = osGetenv G ''MAGOS_AUTH_SESSION_TTL'';
          checked = (\<lambda>c. case ValidateAuth A c of Some err \<Rightarrow> Inl err | None \<Rightarrow> Inr c)
      in if raw = [] then checked (envAuthConfig G)
         else case parseDuration G raw of
                None \<Rightarrow> Inl (EMsg (''MAGOS_AUTH_SESSION_TTL '' @ quoteString raw @ '' is invalid''))
              | Some ttl \<Rightarrow> checked ((envAuthConfig G)\<lparr>ac_sessionTTL := ttl\<rparr>))"

section \<open>Sessions\<close>

definition sessionCookieName :: string where "sessionCookieName = ''magos_session''"
definition csrfCookieName :: string where "csrfCookieName = ''magos_csrf''"
definition stateCookieName :: string where "stateCookieName = ''magos_oidc_state''"

definition issuerOf :: "auth_config \<Rightarrow> string" where
  "issuerOf c = (if ac_baseURL c \<noteq> [] then ac_baseURL c else ''magos'')"

definition baseURLOf :: "auth_config \<Rightarrow> string" where
  "baseURLOf c = (if ac_baseURL c \<noteq> [] then ac_baseURL c else ''http://localhost:8080'')"

definition mkCookie :: "auth_config \<Rightarrow> string \<Rightarrow> string \<Rightarrow> bool \<Rightarrow> duration \<Rightarrow> cookie" where
  "mkCookie c name value httpOnly ttl =
     \<lparr>ck_name = name, ck_value = value, ck_path = ''/'', ck_maxAge = ttl div 1000000000,
      ck_httpOnly = httpOnly, ck_secure = ac_cookieSecure c, ck_sameSite = ''Lax''\<rparr>"

definition expiredCookie :: "auth_config \<Rightarrow> string \<Rightarrow> bool \<Rightarrow> cookie" where
  "expiredCookie c name httpOnly =
     \<lparr>ck_name = name, ck_value = [], ck_path = ''/'', ck_maxAge = -1,
      ck_httpOnly = httpOnly, ck_secure = ac_cookieSecure c, ck_sameSite = ''Lax''\<rparr>"

definition randomToken :: "authenv \<Rightarrow> nat \<Rightarrow> string result auth_prog" where
  "randomToken A n = do {
     b \<leftarrow> perform (\<lambda>h. ae_random A h n) (A_Random n);
     ret (case b of Inl err \<Rightarrow> Inl err | Inr bytes \<Rightarrow> Inr (al_base64url A bytes))
   }"

definition registeredFor ::
    "'a authlib_scheme \<Rightarrow> auth_config \<Rightarrow> string \<Rightarrow> time \<Rightarrow> duration \<Rightarrow> registered_claims" where
  "registeredFor A c subject t ttl =
     \<lparr>jc_subject = subject, jc_issuer = issuerOf c, jc_audience = [issuerOf c],
      jc_issuedAt = al_numericDate A t, jc_notBefore = al_numericDate A t,
      jc_expiresAt = al_numericDate A (t + ttl)\<rparr>"

definition sessionClaimsOf :: "'a authlib_scheme \<Rightarrow> auth_config \<Rightarrow> identity \<Rightarrow> time \<Rightarrow> session_claims" where
  "sessionClaimsOf A c i t = registered_claims.extend (registeredFor A c (id_subject i) t (ac_sessionTTL c))
     (session_claims.fields (id_provider i) (id_username i) (id_groups i) (id_claims i) (id_isAdmin i))"

definition setSession :: "authenv \<Rightarrow> auth_config \<Rightarrow> identity \<Rightarrow> (goerr option \<times> cookie list) auth_prog" where
  \<comment> \<open>the error and the cookies set on the response\<close>
  "setSession A c i = do {
     t \<leftarrow> perform (ae_now A) A_Now;
     case al_signSession A (ac_signingKey c) (sessionClaimsOf A c i t) of
       Inl err \<Rightarrow> ret (Some (EWrap ''sign session'' err), [])
     | Inr token \<Rightarrow> do {
         r \<leftarrow> randomToken A 32;
         case r of
           Inl err \<Rightarrow> ret (Some (EWrap ''generate csrf token'' err),
             [mkCookie c sessionCookieName token True (ac_sessionTTL c)])
         | Inr csrf \<Rightarrow> ret (None,
             [mkCookie c sessionCookieName token True (ac_sessionTTL c),
              mkCookie c csrfCookieName csrf False (ac_sessionTTL c)])
       }
   }"

definition clearSession :: "auth_config \<Rightarrow> cookie list" where
  "clearSession c = [expiredCookie c sessionCookieName True, expiredCookie c csrfCookieName False]"

definition keyForHS256 :: "auth_config \<Rightarrow> string \<Rightarrow> string option" where
  "keyForHS256 c alg = (if alg \<noteq> ''HS256'' then None else Some (ac_signingKey c))"

definition identityOfClaims :: "session_claims \<Rightarrow> identity" where
  "identityOfClaims s =
     \<lparr>id_provider = sc_provider s, id_subject = jc_subject s, id_username = sc_username s,
      id_groups = sc_groups s, id_claims = sc_claims s, id_isAdmin = sc_isAdmin s\<rparr>"

definition identityFromRequest :: "authenv \<Rightarrow> auth_config \<Rightarrow> http_request \<Rightarrow> identity option auth_prog" where
  "identityFromRequest A c r =
     (case rq_cookie r sessionCookieName of
        None \<Rightarrow> ret None
      | Some value \<Rightarrow>
          (if value = [] then ret None
           else do {
             t \<leftarrow> perform (ae_now A) A_Now;
             ret (map_option identityOfClaims
               (al_parseSession A (keyForHS256 c) (issuerOf c) (issuerOf c) t value))
           }))"

definition csrfValid :: "http_request \<Rightarrow> bool" where
  "csrfValid r =
     (case rq_cookie r csrfCookieName of
        None \<Rightarrow> False
      | Some value \<Rightarrow>
          value \<noteq> [] \<and> rq_header r ''X-CSRF-Token'' \<noteq> [] \<and> rq_header r ''X-CSRF-Token'' = value)"

end
