(* ===== verification/Auth_Manager.thy ===== *)
theory Auth_Manager
  imports Auth_Session
begin

text \<open>
  The authentication manager, \<open>src/api/internal/auth/manager.go\<close>, and the OpenID Connect login,
  \<open>oidc.go\<close>. The manager's state is its configuration and whether the identity provider has been
  initialised. The middleware's outcome says whether the request is passed on, and with which
  identity.
\<close>

record manager =
  mg_cfg :: auth_config
  mg_ready :: bool

record auth_reply =
  ar_status :: nat
  ar_error :: "string option"
  ar_identity :: "identity option"
  ar_location :: string
  ar_cookies :: "cookie list"

datatype outcome =
    Pass "identity option"
  | Respond nat string
  | Dropped

definition failReply :: "nat \<Rightarrow> string \<Rightarrow> cookie list \<Rightarrow> auth_reply" where
  "failReply status message cookies =
     \<lparr>ar_status = status, ar_error = Some message, ar_identity = None, ar_location = [], ar_cookies = cookies\<rparr>"

definition okReply :: "nat \<Rightarrow> identity option \<Rightarrow> cookie list \<Rightarrow> auth_reply" where
  "okReply status i cookies =
     \<lparr>ar_status = status, ar_error = None, ar_identity = i, ar_location = [], ar_cookies = cookies\<rparr>"

definition redirectReply :: "string \<Rightarrow> cookie list \<Rightarrow> auth_reply" where
  "redirectReply url cookies =
     \<lparr>ar_status = 302, ar_error = None, ar_identity = None, ar_location = url, ar_cookies = cookies\<rparr>"

section \<open>Initialisation\<close>

definition initOIDC :: "authenv \<Rightarrow> manager \<Rightarrow> (goerr option \<times> manager) auth_prog" where
  "initOIDC A m =
     (if \<not> ac_enabled (mg_cfg m) \<or> \<not> oc_enabled (ac_oidc (mg_cfg m)) then ret (None, m)
      else do {
        e \<leftarrow> perform (\<lambda>h. ae_newProvider A h (oc_issuerURL (ac_oidc (mg_cfg m))))
              (A_NewProvider (oc_issuerURL (ac_oidc (mg_cfg m))));
        ret (case e of
               Some err \<Rightarrow> (Some (EWrap ''initialize oidc provider'' err), m)
             | None \<Rightarrow> (None, m\<lparr>mg_ready := True\<rparr>))
      })"

definition ensureOIDC :: "authenv \<Rightarrow> manager \<Rightarrow> (goerr option \<times> manager) auth_prog" where
  "ensureOIDC A m = (if mg_ready m then ret (None, m) else initOIDC A m)"

definition NewManager :: "authenv \<Rightarrow> auth_config \<Rightarrow> manager result auth_prog" where
  "NewManager A cfg =
     (case ValidateAuth A cfg of
        Some err \<Rightarrow> ret (Inl err)
      | None \<Rightarrow> do {
          (ignored, m) \<leftarrow> initOIDC A \<lparr>mg_cfg = cfg, mg_ready = False\<rparr>;
          ret (Inr m)
        })"

definition AllowsOrigin :: "manager option \<Rightarrow> string \<Rightarrow> bool" where
  "AllowsOrigin p origin =
     (case p of None \<Rightarrow> False | Some m \<Rightarrow> origin \<noteq> [] \<and> origin \<in> set (ac_allowedOrigins (mg_cfg m)))"

section \<open>Requests\<close>

definition isPublic :: "http_request \<Rightarrow> bool" where
  "isPublic r \<longleftrightarrow> rq_path r \<in> {''/healthz'', ''/readyz'', ''/openapi.json'', ''/docs'', ''/auth/config'',
     ''/auth/admin/login'', ''/auth/logout'', ''/auth/me'', ''/auth/oidc/login'', ''/auth/oidc/callback''}"

definition bearerToken :: "http_request \<Rightarrow> string" where
  "bearerToken r =
     (let header = rq_header r ''Authorization'' in
      if \<not> hasPrefix header ''Bearer '' then [] else trimSpace (trimPrefix header ''Bearer ''))"

definition unsafeMethod :: "string \<Rightarrow> bool" where
  "unsafeMethod method \<longleftrightarrow> method \<notin> {''GET'', ''HEAD'', ''OPTIONS'', ''TRACE''}"

definition verbFromRequest :: "http_request \<Rightarrow> string" where
  "verbFromRequest r =
     (if rq_method r = ''GET'' then (if rq_pathValue r ''name'' \<noteq> [] then ''get'' else ''list'')
      else if rq_method r = ''POST'' then ''create''
      else if rq_method r = ''PUT'' then ''update''
      else if rq_method r = ''PATCH'' then ''patch''
      else if rq_method r = ''DELETE'' then ''delete''
      else toLower (rq_method r))"

fun afterVersion :: "string list \<Rightarrow> string" where
  "afterVersion (part # next # parts) = (if part = ''v1alpha1'' then next else afterVersion (next # parts))"
| "afterVersion _ = []"

definition resourceFromPath :: "string \<Rightarrow> string" where
  "resourceFromPath path = afterVersion (splitOn (CHR ''/'') (trimChar (CHR ''/'') path))"

definition operationFromRequest :: "http_request \<Rightarrow> bool \<Rightarrow> operation" where
  "operationFromRequest r internal =
     \<lparr>op_method = rq_method r, op_verb = verbFromRequest r, op_path = rq_path r,
      op_resource = resourceFromPath (rq_path r), op_namespace = rq_pathValue r ''namespace'',
      op_name = rq_pathValue r ''name'', op_internal = internal\<rparr>"

section \<open>The middleware\<close>

definition errUnauthenticated :: goerr where "errUnauthenticated = EMsg ''authentication required''"
definition errCanceled :: goerr where "errCanceled = EMsg ''context canceled''"

definition serviceIdentity :: identity where
  "serviceIdentity = \<lparr>id_provider = ProviderService, id_subject = ''workspace-controller'',
     id_username = ''workspace-controller'', id_groups = [], id_claims = [], id_isAdmin = False\<rparr>"

definition passOn :: "identity option \<Rightarrow> outcome auth_prog" where
  "passOn i = do { perform (\<lambda>h. ()) (A_Next i); ret (Pass i) }"

definition authenticateInternal :: "authenv \<Rightarrow> manager \<Rightarrow> http_request \<Rightarrow> outcome auth_prog" where
  "authenticateInternal A m r =
     (if ac_internalToken (mg_cfg m) = [] then ret (Respond 401 ''internal authentication is not configured'')
      else if bearerToken r = [] \<or> bearerToken r \<noteq> ac_internalToken (mg_cfg m)
      then ret (Respond 401 ''internal authentication required'')
      else do {
        e \<leftarrow> perform (\<lambda>h. ae_authorize A h serviceIdentity (operationFromRequest r True))
              (A_Authorize serviceIdentity (operationFromRequest r True));
        case e of
          Some err \<Rightarrow> ret (Respond 403 ''forbidden'')
        | None \<Rightarrow> passOn (Some serviceIdentity)
      })"

definition authenticateUser :: "authenv \<Rightarrow> manager \<Rightarrow> http_request \<Rightarrow> outcome auth_prog" where
  "authenticateUser A m r = do {
     i \<leftarrow> identityFromRequest A (mg_cfg m) r;
     case i of
       None \<Rightarrow> ret (Respond 401 ''authentication required'')
     | Some ident \<Rightarrow>
         (if unsafeMethod (rq_method r) \<and> \<not> csrfValid r then ret (Respond 403 ''csrf token is required'')
          else do {
            e \<leftarrow> perform (\<lambda>h. ae_authorize A h ident (operationFromRequest r False))
                  (A_Authorize ident (operationFromRequest r False));
            case e of
              None \<Rightarrow> passOn (Some ident)
            | Some err \<Rightarrow>
                (if errorsIs err errCanceled then ret Dropped
                 else if errorsIs err errUnauthenticated then ret (Respond 401 ''authentication required'')
                 else ret (Respond 403 ''forbidden''))
          })
   }"

definition Middleware :: "authenv \<Rightarrow> manager option \<Rightarrow> http_request \<Rightarrow> outcome auth_prog" where
  "Middleware A p r =
     (case p of
        None \<Rightarrow> passOn None
      | Some m \<Rightarrow>
          (if \<not> ac_enabled (mg_cfg m) then passOn None
           else if isPublic r then passOn None
           else if hasPrefix (rq_path r) ''/internal/apis/'' then authenticateInternal A m r
           else if hasPrefix (rq_path r) ''/apis/'' then authenticateUser A m r
           else passOn None))"

section \<open>Logging in and out\<close>

definition configReply :: "manager \<Rightarrow> bool \<times> bool \<times> oidc_config" where
  "configReply m =
     (let c = mg_cfg m in
      (ac_enabled c, ac_enabled c \<and> ac_adminEnabled c,
       \<lparr>oc_enabled = (ac_enabled c \<and> oc_enabled (ac_oidc c)), oc_issuerURL = oc_issuerURL (ac_oidc c),
        oc_clientID = oc_clientID (ac_oidc c), oc_clientSecret = [],
        oc_usernameClaim = oc_usernameClaim (ac_oidc c), oc_groupsClaim = oc_groupsClaim (ac_oidc c),
        oc_additionalScopes = oc_additionalScopes (ac_oidc c), oc_loginURL = ''/auth/oidc/login''\<rparr>))"

definition me :: "authenv \<Rightarrow> manager \<Rightarrow> http_request \<Rightarrow> auth_reply auth_prog" where
  "me A m r =
     (if \<not> ac_enabled (mg_cfg m) then ret (okReply 200 None [])
      else do {
        i \<leftarrow> identityFromRequest A (mg_cfg m) r;
        ret (case i of
               None \<Rightarrow> failReply 401 ''authentication required'' []
             | Some ident \<Rightarrow> okReply 200 (Some ident) [])
      })"

definition adminIdentity :: identity where
  "adminIdentity = \<lparr>id_provider = ProviderAdmin, id_subject = ''admin'', id_username = ''admin'',
     id_groups = [], id_claims = [], id_isAdmin = True\<rparr>"

definition adminLogin :: "authenv \<Rightarrow> manager \<Rightarrow> http_request \<Rightarrow> auth_reply auth_prog" where
  "adminLogin A m r =
     (if \<not> ac_enabled (mg_cfg m) \<or> \<not> ac_adminEnabled (mg_cfg m)
      then ret (failReply 403 ''admin login is not enabled'' [])
      else case al_decodePassword A (rq_body r) of
             None \<Rightarrow> ret (failReply 400 ''password is required'' [])
           | Some password \<Rightarrow>
               (if password = [] then ret (failReply 400 ''password is required'' [])
                else if \<not> al_bcryptMatches A (ac_adminPasswordHash (mg_cfg m)) password
                then ret (failReply 403 ''invalid password'' [])
                else do {
                  (e, cookies) \<leftarrow> setSession A (mg_cfg m) adminIdentity;
                  ret (case e of
                         Some err \<Rightarrow> failReply 500 ''failed to create session'' cookies
                       | None \<Rightarrow> okReply 200 (Some adminIdentity) cookies)
                }))"

definition logout :: "manager \<Rightarrow> http_request \<Rightarrow> auth_reply" where
  "logout m r =
     (if \<not> ac_enabled (mg_cfg m) then okReply 204 None []
      else if rq_cookie r sessionCookieName = None then okReply 204 None []
      else if \<not> csrfValid r then failReply 403 ''csrf token is required'' []
      else okReply 204 None (clearSession (mg_cfg m)))"

section \<open>OpenID Connect\<close>

definition pkceChallenge :: "'a authlib_scheme \<Rightarrow> string \<Rightarrow> string" where
  "pkceChallenge A verifier = al_base64url A (al_sha256 A verifier)"

definition safeRedirectPath :: "'a authlib_scheme \<Rightarrow> string \<Rightarrow> string" where
  "safeRedirectPath A raw =
     (if raw = [] \<or> \<not> hasPrefix raw ''/'' \<or> hasPrefix raw ''//'' then []
      else case al_parseURL A raw of
             Inl err \<Rightarrow> []
           | Inr u \<Rightarrow> if up_isAbs u \<or> up_host u \<noteq> [] then [] else raw)"

definition claimString :: "'a authlib_scheme \<Rightarrow> (string \<times> json) list \<Rightarrow> string \<Rightarrow> string" where
  "claimString A claims name =
     (if name = [] then []
      else case map_of claims name of
             None \<Rightarrow> []
           | Some (JString s) \<Rightarrow> s
           | Some v \<Rightarrow> al_sprint A v)"

definition claimStringSlice :: "(string \<times> json) list \<Rightarrow> string \<Rightarrow> string list" where
  "claimStringSlice claims name =
     (if name = [] then []
      else case map_of claims name of
             Some (JArray items) \<Rightarrow> concat (map (\<lambda>v. case v of JString s \<Rightarrow> [s] | _ \<Rightarrow> []) items)
           | Some (JString s) \<Rightarrow> if s = [] then [] else [s]
           | _ \<Rightarrow> [])"

definition identityFromOIDCToken :: "'a authlib_scheme \<Rightarrow> auth_config \<Rightarrow> id_token \<Rightarrow> identity result" where
  "identityFromOIDCToken A c tok =
     (case it_claims tok of
        Inl err \<Rightarrow> Inl err
      | Inr claims \<Rightarrow>
          (let username = claimString A claims (oc_usernameClaim (ac_oidc c)) in
           Inr \<lparr>id_provider = ProviderOIDC, id_subject = it_subject tok,
                id_username = (if username = [] then it_subject tok else username),
                id_groups = claimStringSlice claims (oc_groupsClaim (ac_oidc c)),
                id_claims = claims, id_isAdmin = False\<rparr>))"

definition oidcScopes :: "auth_config \<Rightarrow> string list" where
  "oidcScopes c = [''openid'', ''profile'', ''email''] @ oc_additionalScopes (ac_oidc c)"

definition tenMinutes :: duration where
  "tenMinutes = 600000000000"

definition stateClaimsFor :: "'a authlib_scheme \<Rightarrow> auth_config \<Rightarrow> string \<Rightarrow> string \<Rightarrow> string \<Rightarrow> time \<Rightarrow> oidc_state_claims" where
  "stateClaimsFor A c redirectTo state verifier t =
     registered_claims.extend (registeredFor A c [] t tenMinutes) (oidc_state_claims.fields redirectTo state verifier)"

definition redirectToProvider ::
    "authenv \<Rightarrow> manager \<Rightarrow> http_request \<Rightarrow> string \<Rightarrow> string \<Rightarrow> auth_reply auth_prog" where
  "redirectToProvider A m r state verifier = do {
     t \<leftarrow> perform (ae_now A) A_Now;
     case al_signState A (ac_signingKey (mg_cfg m))
            (stateClaimsFor A (mg_cfg m) (safeRedirectPath A (rq_query r ''redirectTo'')) state verifier t) of
       Inl err \<Rightarrow> ret (failReply 500 ''failed to start oidc login'' [])
     | Inr signedState \<Rightarrow>
         ret (redirectReply (al_authCodeURL A (ac_oidc (mg_cfg m)) (baseURLOf (mg_cfg m) @ ''/auth/oidc/callback'')
                (oidcScopes (mg_cfg m)) state (pkceChallenge A verifier))
              [mkCookie (mg_cfg m) stateCookieName signedState True tenMinutes])
   }"

definition startOIDC :: "authenv \<Rightarrow> manager \<Rightarrow> http_request \<Rightarrow> (auth_reply \<times> manager) auth_prog" where
  "startOIDC A m r =
     (if \<not> ac_enabled (mg_cfg m) \<or> \<not> oc_enabled (ac_oidc (mg_cfg m))
      then ret (failReply 404 ''oidc is not enabled'' [], m)
      else do {
        (e, m1) \<leftarrow> ensureOIDC A m;
        case e of
          Some err \<Rightarrow> ret (failReply 503 ''oidc provider is unavailable'' [], m1)
        | None \<Rightarrow> do {
            s \<leftarrow> randomToken A 32;
            case s of
              Inl err \<Rightarrow> ret (failReply 500 ''failed to start oidc login'' [], m1)
            | Inr state \<Rightarrow> do {
                v \<leftarrow> randomToken A 64;
                case v of
                  Inl err \<Rightarrow> ret (failReply 500 ''failed to start oidc login'' [], m1)
                | Inr verifier \<Rightarrow> do {
                    reply \<leftarrow> redirectToProvider A m1 r state verifier;
                    ret (reply, m1)
                  }
              }
          }
      })"

definition finishLogin ::
    "authenv \<Rightarrow> manager \<Rightarrow> oidc_state_claims \<Rightarrow> cookie list \<Rightarrow> string \<Rightarrow> auth_reply auth_prog" where
  \<comment> \<open>the exchange of the code, the verification of the token and the session\<close>
  "finishLogin A m st cookies code = do {
     x \<leftarrow> perform (\<lambda>h. ae_exchange A h code (st_codeVerifier st)) (A_Exchange code (st_codeVerifier st));
     case x of
       Inl err \<Rightarrow> ret (failReply 401 ''oidc token exchange failed'' cookies)
     | Inr raw \<Rightarrow>
         (if raw = None \<or> raw = Some [] then ret (failReply 401 ''oidc response did not include an id token'' cookies)
          else do {
            v \<leftarrow> perform (\<lambda>h. ae_verify A h (the raw)) (A_VerifyIDToken (the raw));
            case v of
              Inl err \<Rightarrow> ret (failReply 401 ''oidc token verification failed'' cookies)
            | Inr tok \<Rightarrow>
                (case identityFromOIDCToken A (mg_cfg m) tok of
                   Inl err \<Rightarrow> ret (failReply 401 ''oidc claims are invalid'' cookies)
                 | Inr i \<Rightarrow> do {
                     (e, session) \<leftarrow> setSession A (mg_cfg m) i;
                     ret (case e of
                            Some err \<Rightarrow> failReply 500 ''failed to create session'' (cookies @ session)
                          | None \<Rightarrow> redirectReply (if st_redirectTo st = [] then ''/'' else st_redirectTo st)
                              (cookies @ session))
                   })
          })
   }"

definition checkState :: "authenv \<Rightarrow> manager \<Rightarrow> http_request \<Rightarrow> oidc_state_claims option auth_prog" where
  "checkState A m r =
     (case rq_cookie r stateCookieName of
        None \<Rightarrow> ret None
      | Some value \<Rightarrow> do {
          t \<leftarrow> perform (ae_now A) A_Now;
          ret (case al_parseState A (keyForHS256 (mg_cfg m)) (issuerOf (mg_cfg m)) (issuerOf (mg_cfg m)) t value of
                 None \<Rightarrow> None
               | Some st \<Rightarrow> if st_state st = [] \<or> st_codeVerifier st = [] then None else Some st)
        })"

definition completeOIDC :: "authenv \<Rightarrow> manager \<Rightarrow> http_request \<Rightarrow> (auth_reply \<times> manager) auth_prog" where
  "completeOIDC A m r =
     (if \<not> ac_enabled (mg_cfg m) \<or> \<not> oc_enabled (ac_oidc (mg_cfg m))
      then ret (failReply 404 ''oidc is not enabled'' [], m)
      else do {
        (e, m1) \<leftarrow> ensureOIDC A m;
        case e of
          Some err \<Rightarrow> ret (failReply 503 ''oidc provider is unavailable'' [], m1)
        | None \<Rightarrow>
            (if rq_cookie r stateCookieName = None \<or> rq_cookie r stateCookieName = Some []
             then ret (failReply 400 ''missing oidc state'' [], m1)
             else do {
               s \<leftarrow> checkState A m1 r;
               case s of
                 None \<Rightarrow> ret (failReply 400 ''invalid oidc state'' [], m1)
               | Some st \<Rightarrow>
                   (let expired = [expiredCookie (mg_cfg m1) stateCookieName True] in
                    if rq_query r ''state'' \<noteq> st_state st then ret (failReply 400 ''invalid oidc state'' expired, m1)
                    else if rq_query r ''code'' = [] then ret (failReply 400 ''missing oidc code'' expired, m1)
                    else do {
                      reply \<leftarrow> finishLogin A m1 st expired (rq_query r ''code'');
                      ret (reply, m1)
                    })
             })
      })"

end
