(* ===== verification/Auth_Safety.thy ===== *)
theory Auth_Safety
  imports Auth_Manager
begin

text \<open>
  What authentication guarantees: who gets past the middleware, for how long a session
  identifies its owner, that an admin login gives access, when a callback of the identity
  provider opens a session, where a login redirects to, and that the configuration is well formed.
\<close>

section \<open>Who gets through\<close>

lemmas auth_defs = Middleware_def authenticateInternal_def authenticateUser_def passOn_def identityFromRequest_def

lemma apis_not_public: "hasPrefix (rq_path r) ''/apis/'' \<Longrightarrow> \<not> isPublic r"
  by (auto simp: isPublic_def hasPrefix_def)

lemma internal_not_public: "hasPrefix (rq_path r) ''/internal/apis/'' \<Longrightarrow> \<not> isPublic r"
  by (auto simp: isPublic_def hasPrefix_def)

lemma apis_not_internal: "hasPrefix path ''/apis/'' \<Longrightarrow> \<not> hasPrefix path ''/internal/apis/''"
  by (auto simp: hasPrefix_iff)

definition admitted :: "authenv \<Rightarrow> auth_config \<Rightarrow> http_request \<Rightarrow> identity \<Rightarrow> bool" where
  "admitted A c r i \<longleftrightarrow>
     (case rq_cookie r sessionCookieName of
        None \<Rightarrow> False
      | Some value \<Rightarrow> value \<noteq> [] \<and>
          map_option identityOfClaims
            (al_parseSession A (keyForHS256 c) (issuerOf c) (issuerOf c) (ae_now A []) value) = Some i) \<and>
     (unsafeMethod (rq_method r) \<longrightarrow> csrfValid r) \<and>
     ae_authorize A [A_Now] i (operationFromRequest r False) = None"

lemma user_admitted:
  "wp (authenticateUser A m r) (\<lambda>out h. A_Next i \<in> set h \<longleftrightarrow> (\<exists>ident. i = Some ident \<and> admitted A (mg_cfg m) r ident)) []"
  by (auto simp: authenticateUser_def identityFromRequest_def passOn_def admitted_def wp_simps
      split: option.splits)

lemma internal_admitted:
  "wp (authenticateInternal A m r) (\<lambda>out h. A_Next i \<in> set h \<longleftrightarrow>
     i = Some serviceIdentity \<and> ac_internalToken (mg_cfg m) \<noteq> [] \<and> bearerToken r = ac_internalToken (mg_cfg m) \<and>
     ae_authorize A [] serviceIdentity (operationFromRequest r True) = None) []"
  by (auto simp: authenticateInternal_def passOn_def wp_simps split: option.splits)

lemma middleware_admits:
  assumes "ac_enabled (mg_cfg m)"
  shows "hasPrefix (rq_path r) ''/apis/'' \<Longrightarrow> A_Next i \<in> set (calls_of (Middleware A (Some m) r) []) \<longleftrightarrow>
      (\<exists>ident. i = Some ident \<and> admitted A (mg_cfg m) r ident)"
    and "hasPrefix (rq_path r) ''/internal/apis/'' \<Longrightarrow>
      A_Next i \<in> set (calls_of (Middleware A (Some m) r) []) \<longleftrightarrow>
      i = Some serviceIdentity \<and> ac_internalToken (mg_cfg m) \<noteq> [] \<and> bearerToken r = ac_internalToken (mg_cfg m) \<and>
      ae_authorize A [] serviceIdentity (operationFromRequest r True) = None"
  using assms calls_of_start [OF user_admitted, of i A m r] calls_of_start [OF internal_admitted, of i A m r]
  by (simp_all add: Middleware_def apis_not_public apis_not_internal internal_not_public)


section \<open>Sessions\<close>

definition tokenLaws :: "authenv \<Rightarrow> bool" where
  \<comment> \<open>documented behaviour of the JWT library: what it signs it accepts again under the same key,
      for the same issuer and audience, from \<open>nbf\<close> until before \<open>exp\<close>; what it accepts has not
      expired; times are cut to seconds\<close>
  "tokenLaws A \<longleftrightarrow>
     (\<forall>key c tok keyOf issuer t. al_signSession A key c = Inr tok \<longrightarrow> keyOf ''HS256'' = Some key \<longrightarrow>
        jc_issuer c = issuer \<longrightarrow> issuer \<in> set (jc_audience c) \<longrightarrow> jc_notBefore c \<le> t \<longrightarrow> t < jc_expiresAt c \<longrightarrow>
        tok \<noteq> [] \<and> al_parseSession A keyOf issuer issuer t tok = Some c) \<and>
     (\<forall>key c tok keyOf issuer t. al_signSession A key c = Inr tok \<longrightarrow> jc_expiresAt c \<le> t \<longrightarrow>
        al_parseSession A keyOf issuer issuer t tok = None) \<and>
     (\<forall>t. al_numericDate A t \<le> t \<and> t < al_numericDate A t + 1000000000)"

lemma sessionClaims_fields [simp]:
  "jc_issuer (sessionClaimsOf A c i t) = issuerOf c" "jc_audience (sessionClaimsOf A c i t) = [issuerOf c]"
  "jc_notBefore (sessionClaimsOf A c i t) = al_numericDate A t"
  "jc_expiresAt (sessionClaimsOf A c i t) = al_numericDate A (t + ac_sessionTTL c)"
  by (simp_all add: sessionClaimsOf_def registeredFor_def registered_claims.defs session_claims.defs)

lemma identity_of_sessionClaims [simp]: "identityOfClaims (sessionClaimsOf A c i t) = i"
  by (simp add: identityOfClaims_def sessionClaimsOf_def registeredFor_def registered_claims.defs session_claims.defs)

lemma keyForHS256_HS256 [simp]: "keyForHS256 c ''HS256'' = Some (ac_signingKey c)"
  by (simp add: keyForHS256_def)

lemma setSession_result:
  "wp (setSession A c i) (\<lambda>(e, cookies) h'. e = None \<longrightarrow>
     (\<exists>token csrf. al_signSession A (ac_signingKey c) (sessionClaimsOf A c i (ae_now A h)) = Inr token \<and>
        cookies = [mkCookie c sessionCookieName token True (ac_sessionTTL c),
                   mkCookie c csrfCookieName csrf False (ac_sessionTTL c)] \<and>
        (\<exists>b. ae_random A (h @ [A_Now]) 32 = Inr b \<and> csrf = al_base64url A b))) h"
  by (auto simp: setSession_def randomToken_def wp_simps split: sum.splits)

definition carries :: "http_request \<Rightarrow> cookie list \<Rightarrow> bool" where
  \<comment> \<open>the browser sends the cookies it was given\<close>
  "carries r cookies \<longleftrightarrow> list_all (\<lambda>k. rq_cookie r (ck_name k) = Some (ck_value k)) cookies"

lemma session_identifies:
  assumes "tokenLaws A" and set: "result_of (setSession A c i) h = (None, cookies)" and "carries r cookies"
  shows "ae_now A h \<le> ae_now A h' \<Longrightarrow> ae_now A h' + 1000000000 \<le> ae_now A h + ac_sessionTTL c \<Longrightarrow>
      result_of (identityFromRequest A c r) h' = Some i"
    and "ae_now A h + ac_sessionTTL c \<le> ae_now A h' \<Longrightarrow> result_of (identityFromRequest A c r) h' = None"
proof -
  let ?s = "sessionClaimsOf A c i (ae_now A h)"
  obtain token csrf where sign: "al_signSession A (ac_signingKey c) ?s = Inr token"
    and cookies: "cookies = [mkCookie c sessionCookieName token True (ac_sessionTTL c),
                   mkCookie c csrfCookieName csrf False (ac_sessionTTL c)]"
    using setSession_result [of A c i h] set unfolding wp_result_pair by auto
  have ck: "rq_cookie r sessionCookieName = Some token"
    using assms(3) cookies by (simp add: carries_def mkCookie_def)
  have date: "al_numericDate A t \<le> t" "t < al_numericDate A t + 1000000000" for t
    using assms(1) unfolding tokenLaws_def by blast+
  show "result_of (identityFromRequest A c r) h' = Some i"
    if "ae_now A h \<le> ae_now A h'" "ae_now A h' + 1000000000 \<le> ae_now A h + ac_sessionTTL c"
  proof -
    have "al_numericDate A (ae_now A h) \<le> ae_now A h'" using date(1) [of "ae_now A h"] that by linarith
    moreover have "ae_now A h' < al_numericDate A (ae_now A h + ac_sessionTTL c)"
      using date(2) [of "ae_now A h + ac_sessionTTL c"] that by linarith
    ultimately have "token \<noteq> [] \<and> al_parseSession A (keyForHS256 c) (issuerOf c) (issuerOf c) (ae_now A h') token = Some ?s"
      using assms(1) sign unfolding tokenLaws_def by fastforce
    then show ?thesis using ck by (intro result_ofI) (simp add: identityFromRequest_def wp_simps)
  qed
  show "result_of (identityFromRequest A c r) h' = None" if "ae_now A h + ac_sessionTTL c \<le> ae_now A h'"
  proof -
    have "jc_expiresAt ?s \<le> ae_now A h'" using date(1) [of "ae_now A h + ac_sessionTTL c"] that by simp
    then have "al_parseSession A (keyForHS256 c) (issuerOf c) (issuerOf c) (ae_now A h') token = None"
      using assms(1) sign unfolding tokenLaws_def by blast
    then show ?thesis using ck by (intro result_ofI) (simp add: identityFromRequest_def wp_simps)
  qed
qed

text \<open>
  C26. A session identifies its owner, and only for its time to live: the cookies of
  \<open>setSession\<close>, sent back before the time to live has passed (less the second the token's
  precision may take), give the very identity they were made for; from the time to live on
  they give none.
\<close>

theorem session_roundtrip:
  assumes "tokenLaws A" and "result_of (setSession A c i) h = (None, cookies)" and "carries r cookies"
  shows "(ae_now A h \<le> ae_now A h' \<and> ae_now A h' + 1000000000 \<le> ae_now A h + ac_sessionTTL c \<longrightarrow>
      result_of (identityFromRequest A c r) h' = Some i) \<and>
    (ae_now A h + ac_sessionTTL c \<le> ae_now A h' \<longrightarrow> result_of (identityFromRequest A c r) h' = None)"
  using session_identifies [OF assms] by blast


definition requestWith :: "http_request \<Rightarrow> cookie list \<Rightarrow> bool" where
  \<comment> \<open>a client that sends its cookies and repeats the CSRF cookie in the header\<close>
  "requestWith r cookies \<longleftrightarrow> carries r cookies \<and> rq_cookie r csrfCookieName = Some (rq_header r ''X-CSRF-Token'')"

lemma adminLogin_session:
  assumes "result_of (adminLogin A m r) h = reply" and "ar_status reply = 200"
  shows "result_of (setSession A (mg_cfg m) adminIdentity) h = (None, ar_cookies reply) \<and> ac_enabled (mg_cfg m)"
proof -
  have "wp (adminLogin A m r) (\<lambda>a h'. ar_status a = 200 \<longrightarrow> ac_enabled (mg_cfg m) \<and>
     result_of (setSession A (mg_cfg m) adminIdentity) h = (None, ar_cookies a)) h"
    by (auto simp: adminLogin_def wp_simps failReply_def okReply_def wp_result_pair split: option.splits)
       (auto simp: wp_def result_of_def ret_def okReply_def failReply_def split: prod.splits option.splits)
  then show ?thesis using assms by (simp add: wp_result)
qed

lemma login_admits:
  assumes "tokenLaws A" and "result_of (adminLogin A m q) h = reply" and "ar_status reply = 200"
    and "requestWith r (ar_cookies reply)"
    and "ae_now A h \<le> ae_now A []" and "ae_now A [] + 1000000000 \<le> ae_now A h + ac_sessionTTL (mg_cfg m)"
    and "\<forall>h i operation. ae_authorize A h i operation = AllowAuthenticatedAuthorizer i operation"
    and "\<forall>h n b. ae_random A h n = Inr b \<longrightarrow> length b = n" and "\<forall>b. b \<noteq> [] \<longrightarrow> al_base64url A b \<noteq> []"
  shows "admitted A (mg_cfg m) r adminIdentity"
proof -
  have set: "result_of (setSession A (mg_cfg m) adminIdentity) h = (None, ar_cookies reply)"
    using adminLogin_session [OF assms(2,3)] by simp
  have car: "carries r (ar_cookies reply)" using assms(4) by (simp add: requestWith_def)
  have id: "result_of (identityFromRequest A (mg_cfg m) r) [] = Some adminIdentity"
    by (rule session_identifies(1) [OF assms(1) set car assms(5,6)])
  obtain token csrf b where ck: "ar_cookies reply = [mkCookie (mg_cfg m) sessionCookieName token True (ac_sessionTTL (mg_cfg m)),
      mkCookie (mg_cfg m) csrfCookieName csrf False (ac_sessionTTL (mg_cfg m))]"
    and b: "ae_random A (h @ [A_Now]) 32 = Inr b" "csrf = al_base64url A b"
    using setSession_result [of A "mg_cfg m" adminIdentity h] set unfolding wp_result_pair by auto
  have "length b = 32" using b(1) assms(8) by blast
  then have "b \<noteq> []" by auto
  then have "csrf \<noteq> []" using b(2) assms(9) by simp
  then have "csrfValid r"
    using assms(4) ck by (auto simp: csrfValid_def requestWith_def carries_def mkCookie_def)
  moreover have "wp (identityFromRequest A (mg_cfg m) r) (\<lambda>a h. a = Some adminIdentity) []"
    using id by (simp add: wp_result)
  ultimately show ?thesis using assms(7)
    by (auto simp: admitted_def identityFromRequest_def wp_simps AllowAuthenticatedAuthorizer_def
        split: option.splits if_splits)
qed

text \<open>
  A login gives access: the cookies of a successful admin login, sent with the CSRF token
  as header within the session's time to live, let every request of the API through as the
  administrator when every authenticated user is authorized.
\<close>

theorem login_grants_access:
  assumes "tokenLaws A" and "result_of (adminLogin A m q) h = reply" and "ar_status reply = 200"
    and "requestWith r (ar_cookies reply)" and "hasPrefix (rq_path r) ''/apis/''"
    and "ae_now A h \<le> ae_now A []" and "ae_now A [] + 1000000000 \<le> ae_now A h + ac_sessionTTL (mg_cfg m)"
    and "\<forall>h i operation. ae_authorize A h i operation = AllowAuthenticatedAuthorizer i operation"
    and "\<forall>h n b. ae_random A h n = Inr b \<longrightarrow> length b = n" and "\<forall>b. b \<noteq> [] \<longrightarrow> al_base64url A b \<noteq> []"
  shows "A_Next (Some adminIdentity) \<in> set (calls_of (Middleware A (Some m) r) [])"
proof -
  have "admitted A (mg_cfg m) r adminIdentity"
    using assms by (intro login_admits [where q = q and h = h and reply = reply]) auto
  moreover have "ac_enabled (mg_cfg m)" using adminLogin_session [OF assms(2,3)] by simp
  ultimately show ?thesis
    using calls_of_start [OF user_admitted, of "Some adminIdentity" A m r] assms(5)
    by (simp add: Middleware_def apis_not_public apis_not_internal)
qed

section \<open>The OpenID Connect login\<close>

definition sessionToken :: "authenv \<Rightarrow> auth_config \<Rightarrow> identity \<Rightarrow> string \<Rightarrow> bool" where
  \<comment> \<open>a token signed for this identity at some time\<close>
  "sessionToken A c i token \<longleftrightarrow> (\<exists>t. al_signSession A (ac_signingKey c) (sessionClaimsOf A c i t) = Inr token)"

lemma setSession_cookie:
  "wp (setSession A c i) (\<lambda>(e, cookies) h'. (\<exists>cs. h' = h @ cs) \<and>
     (\<forall>k\<in>set cookies. ck_name k = sessionCookieName \<longrightarrow> sessionToken A c i (ck_value k))) h"
  by (auto simp: setSession_def randomToken_def sessionToken_def wp_simps mkCookie_def sessionCookieName_def
      csrfCookieName_def split: sum.splits)

definition oidcLogin :: "authenv \<Rightarrow> auth_config \<Rightarrow> oidc_state_claims \<Rightarrow> string \<Rightarrow> string \<Rightarrow> auth_call list \<Rightarrow> bool" where
  \<comment> \<open>the code was exchanged with the verifier of the state, and the token is for the verified identity\<close>
  "oidcLogin A c st code token h \<longleftrightarrow>
     (\<exists>raw tok i h1 h2. A_Exchange code (st_codeVerifier st) \<in> set h \<and>
        ae_exchange A h1 code (st_codeVerifier st) = Inr (Some raw) \<and>
        A_VerifyIDToken raw \<in> set h \<and> ae_verify A h2 raw = Inr tok \<and>
        identityFromOIDCToken A c tok = Inr i \<and> id_provider i = ProviderOIDC \<and> \<not> id_isAdmin i \<and>
        sessionToken A c i token)"

lemma oidc_identity: "identityFromOIDCToken A c tok = Inr i \<Longrightarrow> id_provider i = ProviderOIDC \<and> \<not> id_isAdmin i"
  by (auto simp: identityFromOIDCToken_def Let_def split: sum.splits)

lemma finishLogin_sound:
  assumes "\<forall>k\<in>set cookies. ck_name k \<noteq> sessionCookieName"
  shows "wp (finishLogin A m st cookies code) (\<lambda>reply h'. \<forall>k\<in>set (ar_cookies reply).
     ck_name k = sessionCookieName \<longrightarrow> oidcLogin A (mg_cfg m) st code (ck_value k) h') h"
    (is "wp _ ?Q h")
proof -
  have fail: "?Q (failReply n msg cookies) h'" for n msg h' using assms by (simp add: failReply_def)
  have reply: "?Q (case e of Some err \<Rightarrow> failReply 500 msg (cookies @ session) | None \<Rightarrow> redirectReply url (cookies @ session)) h'"
    if "\<forall>k\<in>set session. ck_name k = sessionCookieName \<longrightarrow> oidcLogin A (mg_cfg m) st code (ck_value k) h'"
    for e :: "goerr option" and msg url session h'
    using assms that by (auto simp: failReply_def redirectReply_def split: option.splits)
  have session: "wp (setSession A (mg_cfg m) i) (\<lambda>(e, session) h'. \<forall>k\<in>set session.
      ck_name k = sessionCookieName \<longrightarrow> oidcLogin A (mg_cfg m) st code (ck_value k) h')
      ((h @ [A_Exchange code (st_codeVerifier st)]) @ [A_VerifyIDToken raw])"
    if "ae_exchange A h code (st_codeVerifier st) = Inr (Some raw)"
      and "ae_verify A (h @ [A_Exchange code (st_codeVerifier st)]) raw = Inr tok"
      and "identityFromOIDCToken A (mg_cfg m) tok = Inr i" for raw tok i
    by (rule wp_mono [OF setSession_cookie]) (use that oidc_identity [OF that(3)] in \<open>fastforce simp: oidcLogin_def\<close>)
  have login: "wp (setSession A (mg_cfg m) i) (\<lambda>x h'. case x of (e, session) \<Rightarrow>
      ?Q (case e of Some err \<Rightarrow> failReply 500 msg (cookies @ session) | None \<Rightarrow> redirectReply url (cookies @ session)) h')
      (h @ [A_Exchange code (st_codeVerifier st), A_VerifyIDToken raw])"
    if "ae_exchange A h code (st_codeVerifier st) = Inr (Some raw)"
      and "ae_verify A (h @ [A_Exchange code (st_codeVerifier st)]) raw = Inr tok"
      and "identityFromOIDCToken A (mg_cfg m) tok = Inr i" for raw tok i msg url
    by (rule wp_mono [OF session [OF that, unfolded append_assoc append.simps]]) (use reply in \<open>auto split: prod.splits\<close>)
  show ?thesis
    unfolding finishLogin_def wp_simps
    by (auto intro!: fail split: sum.splits) (erule notE, rule login, assumption+)+
qed


lemma failReply_cookies: "ar_cookies (failReply status msg cookies) = cookies"
  by (simp add: failReply_def)

lemma checkState_result:
  "wp (checkState A m r) (\<lambda>s h'. case s of
      None \<Rightarrow> True
    | Some st \<Rightarrow> st_state st \<noteq> [] \<and> st_codeVerifier st \<noteq> [] \<and>
        (\<exists>value t. rq_cookie r stateCookieName = Some value \<and>
           al_parseState A (keyForHS256 (mg_cfg m)) (issuerOf (mg_cfg m)) (issuerOf (mg_cfg m)) t value = Some st)) h"
  by (auto simp: checkState_def wp_simps split: option.splits)

lemma ensureOIDC_cfg: "wp (ensureOIDC A m) (\<lambda>(e, m') h'. mg_cfg m' = mg_cfg m) h"
  by (auto simp: ensureOIDC_def initOIDC_def wp_simps split: option.splits)

definition soundCallback :: "authenv \<Rightarrow> auth_config \<Rightarrow> http_request \<Rightarrow> string \<Rightarrow> auth_call list \<Rightarrow> bool" where
  "soundCallback A c r token h \<longleftrightarrow>
     (\<exists>value t st. rq_cookie r stateCookieName = Some value \<and>
        al_parseState A (keyForHS256 c) (issuerOf c) (issuerOf c) t value = Some st \<and>
        st_state st \<noteq> [] \<and> rq_query r ''state'' = st_state st \<and> rq_query r ''code'' \<noteq> [] \<and>
        oidcLogin A c st (rq_query r ''code'') token h)"

lemma completeOIDC_sessions:
  "wp (completeOIDC A m r) (\<lambda>(reply, m') h'. \<forall>k\<in>set (ar_cookies reply).
     ck_name k = sessionCookieName \<longrightarrow> soundCallback A (mg_cfg m) r (ck_value k) h') h"
proof -
  have r: "wp (ret a) Q = Q a" for a :: "auth_reply \<times> manager" and Q :: "_ \<Rightarrow> auth_call list \<Rightarrow> bool"
    by (rule ext) (rule wp_ret)
  have none: "ck_name (expiredCookie c stateCookieName b) \<noteq> sessionCookieName" for c b
    by (simp add: expiredCookie_def stateCookieName_def sessionCookieName_def)
  have finish: "wp (finishLogin A m1 st [expiredCookie (mg_cfg m1) stateCookieName True] code)
      (\<lambda>reply h'. \<forall>k\<in>set (ar_cookies reply). ck_name k = sessionCookieName \<longrightarrow>
         oidcLogin A (mg_cfg m1) st code (ck_value k) h') h1" for m1 st code h1
    by (rule finishLogin_sound) (simp add: none)
  have callback: "wp (finishLogin A m1 st [expiredCookie (mg_cfg m1) stateCookieName True] (rq_query r ''code''))
      (\<lambda>reply h'. \<forall>k\<in>set (ar_cookies reply). ck_name k = sessionCookieName \<longrightarrow>
         soundCallback A (mg_cfg m) r (ck_value k) h') h1"
    if "mg_cfg m1 = mg_cfg m" "st_state st \<noteq> []" "rq_cookie r stateCookieName = Some v"
      "al_parseState A (keyForHS256 (mg_cfg m)) (issuerOf (mg_cfg m)) (issuerOf (mg_cfg m)) t v = Some st"
      "rq_query r ''state'' = st_state st" "rq_query r ''code'' \<noteq> []" for m1 st v t h1
    by (rule wp_mono [OF finish]) (use that in \<open>auto simp: soundCallback_def\<close>)
  have state: "wp (checkState A m1 r) (\<lambda>s. wp (case s of
        None \<Rightarrow> ret (failReply 400 ''invalid oidc state'' [], m1)
      | Some st \<Rightarrow>
         (let expired = [expiredCookie (mg_cfg m) stateCookieName True] in
          if rq_query r ''state'' \<noteq> st_state st then ret (failReply 400 ''invalid oidc state'' expired, m1)
          else if rq_query r ''code'' = [] then ret (failReply 400 ''missing oidc code'' expired, m1)
          else do { reply \<leftarrow> finishLogin A m1 st expired (rq_query r ''code''); ret (reply, m1) }))
      (\<lambda>(reply, m') h'. \<forall>k\<in>set (ar_cookies reply).
     ck_name k = sessionCookieName \<longrightarrow> soundCallback A (mg_cfg m) r (ck_value k) h')) h1"
    if "mg_cfg m1 = mg_cfg m" for m1 h1
    by (rule wp_mono [OF checkState_result])
       (use callback that in \<open>auto simp: wp_simps r failReply_def none Let_def split: option.splits\<close>)
  show ?thesis
    unfolding completeOIDC_def wp_if wp_ret wp_bind
    by (auto simp: failReply_cookies wp_case_prod wp_case_option wp_if wp_ret wp_bind[of "checkState A m1 r" for m1] intro!: wp_mono [OF ensureOIDC_cfg] state split: option.splits)
qed

text \<open>
  C25. A callback of the identity provider opens a session only for a state that this server
  signed and the provider repeated, after the exchange of the code with the verifier kept in
  that state and the verification of the identity token; the session is for the identity of
  that token, which is never the administrator.
\<close>

theorem oidc_session_sound:
  assumes "result_of (completeOIDC A m r) [] = (reply, m')" and "k \<in> set (ar_cookies reply)"
    and "ck_name k = sessionCookieName"
  shows "soundCallback A (mg_cfg m) r (ck_value k) (calls_of (completeOIDC A m r) [])"
proof -
  obtain h where run: "run_state (completeOIDC A m r) [] = ((reply, m'), h)"
    using assms(1) by (cases "run_state (completeOIDC A m r) []") (auto simp: result_of_def)
  have "\<forall>k\<in>set (ar_cookies reply). ck_name k = sessionCookieName \<longrightarrow> soundCallback A (mg_cfg m) r (ck_value k) h"
    using run_state_wp [OF run completeOIDC_sessions [of A m r]] by simp
  then show ?thesis using assms(2,3) run by (simp add: calls_of_def)
qed

text \<open>
  A redirect after login stays on the server as far as slashes go: the target is empty, or a
  path whose second character is not another slash.
\<close>

theorem redirect_is_path:
  "safeRedirectPath A raw = [] \<or>
   (\<exists>t. safeRedirectPath A raw = CHR ''/'' # t \<and> (t = [] \<or> hd t \<noteq> CHR ''/'') \<and> safeRedirectPath A raw = raw)"
  by (cases raw; cases "tl raw") (auto simp: safeRedirectPath_def hasPrefix_def split: sum.splits)

text \<open>
  A path that continues with a backslash is accepted whenever the library parses it as a path
  without a host, which browsers read as the start of a host name.
\<close>

theorem backslash_redirect_accepted:
  assumes "al_parseURL A (CHR ''/'' # CHR 92 # t) = Inr \<lparr>up_isAbs = False, up_host = []\<rparr>"
  shows "safeRedirectPath A (CHR ''/'' # CHR 92 # t) = CHR ''/'' # CHR 92 # t"
  using assms by (simp add: safeRedirectPath_def hasPrefix_def)

section \<open>The configuration\<close>

definition soundAuthConfig :: "auth_config \<Rightarrow> bool" where
  "soundAuthConfig c \<longleftrightarrow> (ac_enabled c \<longrightarrow>
     32 \<le> length (ac_signingKey c) \<and> 0 < ac_sessionTTL c \<and> (ac_adminEnabled c \<or> oc_enabled (ac_oidc c)) \<and>
     (ac_adminEnabled c \<longrightarrow> ac_adminPasswordHash c \<noteq> []) \<and>
     (oc_enabled (ac_oidc c) \<longrightarrow> oc_issuerURL (ac_oidc c) \<noteq> [] \<and> oc_clientID (ac_oidc c) \<noteq> [] \<and>
        oc_usernameClaim (ac_oidc c) \<noteq> []))"

lemma ValidateAuth_sound: "ValidateAuth A c = None \<Longrightarrow> soundAuthConfig c"
  by (auto simp: ValidateAuth_def soundAuthConfig_def split: if_splits option.splits)

lemma NewManager_sound: "wp (NewManager A cfg) (\<lambda>x h'. \<forall>m. x = Inr m \<longrightarrow> mg_cfg m = cfg \<and> soundAuthConfig cfg) h"
  by (auto simp: NewManager_def initOIDC_def wp_simps ValidateAuth_sound split: option.splits)

text \<open>
  C39. Every manager the server starts with, and every configuration read from the environment,
  is well formed: when authentication is enabled the signing key has 32 bytes or more, the
  time to live is positive, at least one way to log in exists and its settings are there.
\<close>

theorem auth_config_wellformed:
  "(\<forall>c. LoadAuthConfigFromEnv G A = Inr c \<longrightarrow> soundAuthConfig c) \<and>
   (\<forall>m. result_of (NewManager B cfg) h = Inr m \<longrightarrow> mg_cfg m = cfg \<and> soundAuthConfig cfg)"
proof (intro conjI allI impI)
  show "soundAuthConfig c" if "LoadAuthConfigFromEnv G A = Inr c" for c
    using that by (auto simp: LoadAuthConfigFromEnv_def Let_def ValidateAuth_sound split: if_splits option.splits)
  show "mg_cfg m = cfg" "soundAuthConfig cfg" if "result_of (NewManager B cfg) h = Inr m" for m
    using NewManager_sound [of B cfg h] that unfolding wp_result by auto
qed

section \<open>Instances\<close>

definition sampleAuthConfig :: auth_config where
  "sampleAuthConfig =
     \<lparr>ac_enabled = True, ac_baseURL = ''https://m'', ac_cookieSecure = True, ac_allowedOrigins = [],
      ac_sessionTTL = 86400000000000, ac_signingKey = replicate 32 CHR ''k'', ac_adminEnabled = True,
      ac_adminPasswordHash = ''hash'',
      ac_oidc = \<lparr>oc_enabled = True, oc_issuerURL = ''https://i'', oc_clientID = ''magos'', oc_clientSecret = [],
         oc_usernameClaim = ''email'', oc_groupsClaim = ''groups'', oc_additionalScopes = [], oc_loginURL = []\<rparr>,
      ac_internalToken = ''t''\<rparr>"

definition sampleManager :: manager where
  "sampleManager = \<lparr>mg_cfg = sampleAuthConfig, mg_ready = True\<rparr>"

definition sampleToken :: "identity \<Rightarrow> session_claims" where
  "sampleToken i =
     \<lparr>jc_subject = id_subject i, jc_issuer = ''https://m'', jc_audience = [''https://m''],
      jc_issuedAt = 0, jc_notBefore = 0, jc_expiresAt = 86400000000000,
      sc_provider = id_provider i, sc_username = id_username i, sc_groups = id_groups i,
      sc_claims = id_claims i, sc_isAdmin = id_isAdmin i\<rparr>"

definition sampleState :: oidc_state_claims where
  "sampleState =
     \<lparr>jc_subject = [], jc_issuer = ''https://m'', jc_audience = [''https://m''],
      jc_issuedAt = 0, jc_notBefore = 0, jc_expiresAt = 600000000000,
      st_redirectTo = ''/runs'', st_state = ''s'', st_codeVerifier = ''v''\<rparr>"

definition sampleAuth :: "identity \<Rightarrow> authenv" where
  \<comment> \<open>a library that can sign one session, that of the given identity\<close>
  "sampleAuth i =
     \<lparr>al_parseRequestURI = (\<lambda>s. None), al_parseURL = (\<lambda>s. Inr \<lparr>up_isAbs = False, up_host = []\<rparr>),
      al_base64url = id, al_sha256 = id, al_sprint = (\<lambda>j. []), al_bcryptMatches = (\<lambda>x p. p = ''secret''),
      al_decodePassword = Some, al_numericDate = (\<lambda>t. t div 1000000000 * 1000000000),
      al_signSession = (\<lambda>k c. if k = replicate 32 CHR ''k'' \<and> c = sampleToken i then Inr ''session'' else Inl (EMsg [])),
      al_parseSession = (\<lambda>k iss aud t tok. if tok = ''session'' \<and> k ''HS256'' = Some (replicate 32 CHR ''k'') \<and>
         iss = ''https://m'' \<and> aud = ''https://m'' \<and> 0 \<le> t \<and> t < 86400000000000 then Some (sampleToken i) else None),
      al_signState = (\<lambda>k c. Inr ''state''),
      al_parseState = (\<lambda>k iss aud t tok. if tok = ''state'' then Some sampleState else None),
      al_authCodeURL = (\<lambda>c u sc st ch. ''https://i/auth''),
      ae_now = (\<lambda>h. 0), ae_random = (\<lambda>h n. Inr (replicate n CHR ''r'')), ae_newProvider = (\<lambda>h u. None),
      ae_exchange = (\<lambda>h c v. Inr (Some ''idtoken'')),
      ae_verify = (\<lambda>h t. Inr \<lparr>it_subject = ''u1'', it_claims = Inr []\<rparr>),
      ae_authorize = (\<lambda>h. AllowAuthenticatedAuthorizer)\<rparr>"

definition sampleRequest :: http_request where
  "sampleRequest =
     \<lparr>rq_method = ''POST'', rq_path = ''/apis/magosproject.io/v1alpha1/workspaces'', rq_pathValue = (\<lambda>k. []),
      rq_query = (\<lambda>k. if k = ''state'' then ''s'' else if k = ''code'' then ''c'' else []),
      rq_header = (\<lambda>k. if k = ''X-CSRF-Token'' then replicate 32 CHR ''r'' else []),
      rq_cookie = (\<lambda>k. if k = sessionCookieName then Some ''session'' else if k = csrfCookieName then Some (replicate 32 CHR ''r'')
         else if k = stateCookieName then Some ''state'' else None),
      rq_body = ''secret'', rq_contentLength = 6\<rparr>"

definition oidcUser :: identity where
  "oidcUser = \<lparr>id_provider = ProviderOIDC, id_subject = ''u1'', id_username = ''u1'', id_groups = [], id_claims = [], id_isAdmin = False\<rparr>"

lemma sample_tokenLaws: "tokenLaws (sampleAuth i)"
proof -
  have cut: "(t::int) div 1000000000 * 1000000000 \<le> t \<and> t < t div 1000000000 * 1000000000 + 1000000000" for t
    by presburger
  show ?thesis
    unfolding tokenLaws_def using cut
    by (auto simp: sampleAuth_def sampleToken_def split: if_splits)
qed

lemma sample_session:
  "result_of (setSession (sampleAuth i) sampleAuthConfig i) h =
     (None, [mkCookie sampleAuthConfig sessionCookieName ''session'' True 86400000000000,
             mkCookie sampleAuthConfig csrfCookieName (replicate 32 CHR ''r'') False 86400000000000])"
  by (rule result_ofI) (simp add: setSession_def randomToken_def wp_simps sampleAuth_def sampleAuthConfig_def
      sessionClaimsOf_def registeredFor_def registered_claims.defs session_claims.defs sampleToken_def issuerOf_def)

lemma sample_carries:
  "carries sampleRequest [mkCookie sampleAuthConfig sessionCookieName ''session'' True d,
     mkCookie sampleAuthConfig csrfCookieName (replicate 32 CHR ''r'') False d]"
  by (simp add: carries_def sampleRequest_def mkCookie_def sessionCookieName_def csrfCookieName_def)



theorem session_roundtrip_witness:
  "result_of (identityFromRequest (sampleAuth oidcUser) sampleAuthConfig sampleRequest) [A_Now] = Some oidcUser"
  using session_roundtrip [OF sample_tokenLaws sample_session sample_carries, where i = oidcUser and h = "[]" and h' = "[A_Now]"]
  by (simp add: sampleAuth_def sampleAuthConfig_def)

lemma sample_login:
  "result_of (adminLogin (sampleAuth adminIdentity) sampleManager sampleRequest) [] =
     okReply 200 (Some adminIdentity)
       [mkCookie sampleAuthConfig sessionCookieName ''session'' True 86400000000000,
        mkCookie sampleAuthConfig csrfCookieName (replicate 32 CHR ''r'') False 86400000000000]"
  by (rule result_ofI)
     (simp add: adminLogin_def wp_simps sampleManager_def sampleRequest_def setSession_def randomToken_def
      sampleAuth_def sampleAuthConfig_def sessionClaimsOf_def registeredFor_def registered_claims.defs
      session_claims.defs sampleToken_def issuerOf_def adminIdentity_def)

theorem login_grants_access_witness:
  "A_Next (Some adminIdentity) \<in> set (calls_of (Middleware (sampleAuth adminIdentity) (Some sampleManager) sampleRequest) [])"
proof (rule login_grants_access [OF sample_tokenLaws sample_login])
  show "requestWith sampleRequest (ar_cookies (okReply 200 (Some adminIdentity)
       [mkCookie sampleAuthConfig sessionCookieName ''session'' True 86400000000000,
        mkCookie sampleAuthConfig csrfCookieName (replicate 32 CHR ''r'') False 86400000000000]))"
    using sample_carries [of 86400000000000]
    by (simp add: requestWith_def okReply_def sampleRequest_def sessionCookieName_def csrfCookieName_def)
qed (simp_all add: okReply_def sampleRequest_def hasPrefix_def sampleAuth_def sampleManager_def sampleAuthConfig_def)

lemma sample_callback:
  "result_of (completeOIDC (sampleAuth oidcUser) sampleManager sampleRequest) [] =
     (redirectReply ''/runs'' [expiredCookie sampleAuthConfig stateCookieName True,
        mkCookie sampleAuthConfig sessionCookieName ''session'' True 86400000000000,
        mkCookie sampleAuthConfig csrfCookieName (replicate 32 CHR ''r'') False 86400000000000], sampleManager)"
  by (rule result_ofI)
     (simp add: completeOIDC_def ensureOIDC_def checkState_def finishLogin_def identityFromOIDCToken_def
      claimString_def claimStringSlice_def wp_simps sampleManager_def sampleRequest_def stateCookieName_def
      sessionCookieName_def csrfCookieName_def setSession_def randomToken_def sampleAuth_def sampleAuthConfig_def
      sessionClaimsOf_def registeredFor_def registered_claims.defs session_claims.defs sampleToken_def
      issuerOf_def sampleState_def oidcUser_def)

theorem oidc_session_sound_witness:
  "soundCallback (sampleAuth oidcUser) sampleAuthConfig sampleRequest ''session''
     (calls_of (completeOIDC (sampleAuth oidcUser) sampleManager sampleRequest) [])"
  using oidc_session_sound [OF sample_callback,
      of "mkCookie sampleAuthConfig sessionCookieName ''session'' True 86400000000000"]
  by (simp add: redirectReply_def mkCookie_def sampleManager_def)

theorem backslash_redirect_accepted_witness:
  "safeRedirectPath (sampleAuth oidcUser) (CHR ''/'' # CHR 92 # ''evil.example'') = CHR ''/'' # CHR 92 # ''evil.example''"
  by (rule backslash_redirect_accepted) (simp add: sampleAuth_def)

theorem auth_config_wellformed_witness:
  "result_of (NewManager (sampleAuth oidcUser) sampleAuthConfig) [] = Inr sampleManager \<and> soundAuthConfig sampleAuthConfig"
proof -
  have "result_of (NewManager (sampleAuth oidcUser) sampleAuthConfig) [] = Inr sampleManager"
    by (rule result_ofI) (simp add: NewManager_def initOIDC_def ValidateAuth_def wp_simps sampleAuth_def
        sampleAuthConfig_def sampleManager_def)
  then show ?thesis using auth_config_wellformed [where B = "sampleAuth oidcUser" and cfg = sampleAuthConfig and h = "[]"] by blast
qed

end
