(* ===== verification/Broadcast.thy ===== *)
theory Broadcast
  imports API_Types Channels
begin

text \<open>
  Event delivery of the API server: \<open>src/api/internal/service/broadcaster.go\<close> and
  \<open>src/api/internal/api/handlers/sse.go\<close>. A channel is its buffer and whether it is closed; the
  broadcaster's subscribers are the set of the channels it sends to. Each operation holds the
  broadcaster's lock, so a run is a sequence of operations.
\<close>

record 'a channel =
  ch_buffer :: "'a list"
  ch_closed :: bool

record 'a broadcaster =
  bc_chans :: "'a channel list"
  bc_subscribers :: "nat set"

definition NewBroadcaster :: "'a broadcaster" where
  "NewBroadcaster = \<lparr>bc_chans = [], bc_subscribers = {}\<rparr>"

definition bufferSize :: nat where
  "bufferSize = 64"

definition Subscribe :: "'a broadcaster \<Rightarrow> nat \<times> 'a broadcaster" where
  "Subscribe b = (length (bc_chans b),
     b\<lparr>bc_chans := bc_chans b @ [\<lparr>ch_buffer = [], ch_closed = False\<rparr>],
       bc_subscribers := insert (length (bc_chans b)) (bc_subscribers b)\<rparr>)"

definition Unsubscribe :: "nat \<Rightarrow> 'a broadcaster \<Rightarrow> 'a broadcaster" where
  \<comment> \<open>what the goroutine of a subscription does when its context ends\<close>
  "Unsubscribe i b = b\<lparr>bc_subscribers := bc_subscribers b - {i},
     bc_chans := (bc_chans b)[i := (bc_chans b ! i)\<lparr>ch_closed := True\<rparr>]\<rparr>"

definition trySend :: "'a \<Rightarrow> 'a channel \<Rightarrow> 'a channel" where
  "trySend ev ch = (if length (ch_buffer ch) < bufferSize then ch\<lparr>ch_buffer := ch_buffer ch @ [ev]\<rparr> else ch)"

definition receiveEvent :: "'a channel \<Rightarrow> 'a channel" where
  "receiveEvent ch = ch\<lparr>ch_buffer := tl (ch_buffer ch)\<rparr>"

interpretation event_chan: bounded_channel "\<lambda>ch. bufferSize" ch_buffer trySend receiveEvent
  by unfold_locales (simp_all add: trySend_def receiveEvent_def)

declare receiveEvent_def [simp]

definition Send :: "'a \<Rightarrow> 'a broadcaster \<Rightarrow> 'a broadcaster" where
  "Send ev b = b\<lparr>bc_chans := map (\<lambda>i. if i \<in> bc_subscribers b then trySend ev (bc_chans b ! i) else bc_chans b ! i)
     [0..<length (bc_chans b)]\<rparr>"

definition Receive :: "nat \<Rightarrow> 'a broadcaster \<Rightarrow> 'a broadcaster" where
  "Receive i b = b\<lparr>bc_chans := (bc_chans b)[i := receiveEvent (bc_chans b ! i)]\<rparr>"

definition bufferOf :: "'a broadcaster \<Rightarrow> nat \<Rightarrow> 'a list" where
  "bufferOf b i = (if i < length (bc_chans b) then ch_buffer (bc_chans b ! i) else [])"

definition bcOK :: "'a broadcaster \<Rightarrow> bool" where
  "bcOK b \<longleftrightarrow> (\<forall>i \<in> bc_subscribers b. i < length (bc_chans b) \<and> \<not> ch_closed (bc_chans b ! i))
     \<and> (\<forall>i. length (bufferOf b i) \<le> bufferSize)"

lemma nth_update: "xs[i := x] ! j = (if i = j \<and> i < length xs then x else xs ! j)"
  by (cases "i < length xs") (auto simp: nth_list_update not_less list_update_beyond)

lemma bufferOf_simps [simp]:
  "bufferOf NewBroadcaster = (\<lambda>i. [])"
  "bufferOf (snd (Subscribe b)) = bufferOf b"
  "bufferOf (Unsubscribe i b) = bufferOf b"
  "bufferOf (Receive i b) = (bufferOf b)(i := tl (bufferOf b i))"
  by (auto simp: fun_eq_iff bufferOf_def NewBroadcaster_def Subscribe_def Unsubscribe_def Receive_def nth_append
    nth_update less_Suc_eq)

lemma bufferOf_Send: "bcOK b \<Longrightarrow>
    bufferOf (Send ev b) i =
      (if i \<in> bc_subscribers b \<and> length (bufferOf b i) < bufferSize then bufferOf b i @ [ev] else bufferOf b i)"
  by (auto simp: bufferOf_def Send_def event_chan.buffer_put bcOK_def)

lemma subscribers_simps [simp]:
  "bc_subscribers (Send ev b) = bc_subscribers b" "bc_subscribers (Receive i b) = bc_subscribers b"
  "length (bc_chans (Send ev b)) = length (bc_chans b)" "length (bc_chans (Receive i b)) = length (bc_chans b)"
  by (simp_all add: Send_def Receive_def)

lemma closed_Send: "i < length (bc_chans b) \<Longrightarrow> ch_closed (bc_chans (Send ev b) ! i) = ch_closed (bc_chans b ! i)"
  by (simp add: Send_def trySend_def)

lemma closed_Receive: "ch_closed (bc_chans (Receive i b) ! j) = ch_closed (bc_chans b ! j)"
  by (simp add: Receive_def nth_update)

lemma bcOK_Send: "bcOK b \<Longrightarrow> bcOK (Send ev b)"
  unfolding bcOK_def [of "Send ev b"]
  by (auto simp: bufferOf_Send) (auto simp: bcOK_def closed_Send not_less Suc_le_eq intro: antisym)

lemma bcOK_Subscribe: "bcOK b \<Longrightarrow> bcOK (snd (Subscribe b))"
  unfolding bcOK_def [of "snd (Subscribe b)"] by (auto simp: bcOK_def) (auto simp: Subscribe_def nth_append)

lemma bcOK_Unsubscribe: "bcOK b \<Longrightarrow> bcOK (Unsubscribe i b)"
  unfolding bcOK_def [of "Unsubscribe i b"] by (auto simp: bcOK_def) (auto simp: Unsubscribe_def)

lemma bcOK_Receive: "bcOK b \<Longrightarrow> bcOK (Receive i b)"
  unfolding bcOK_def [of "Receive i b"] by (auto simp: closed_Receive) (auto simp: bcOK_def intro: diff_le_self le_trans)

section \<open>Runs\<close>

text \<open>
  A run with its history: for every channel the events that reached its consumer, the events
  sent while it was subscribed, and how many of them met a full buffer.
\<close>

record 'a history =
  hi_bc :: "'a broadcaster"
  hi_received :: "nat \<Rightarrow> 'a list"
  hi_offered :: "nat \<Rightarrow> 'a list"
  hi_dropped :: "nat \<Rightarrow> nat"

definition startHistory :: "'a history" where
  "startHistory = \<lparr>hi_bc = NewBroadcaster, hi_received = (\<lambda>i. []), hi_offered = (\<lambda>i. []), hi_dropped = (\<lambda>i. 0)\<rparr>"

definition noteSend :: "'a \<Rightarrow> 'a history \<Rightarrow> 'a history" where
  "noteSend ev H = H\<lparr>hi_bc := Send ev (hi_bc H),
     hi_offered := (\<lambda>i. if i \<in> bc_subscribers (hi_bc H) then hi_offered H i @ [ev] else hi_offered H i),
     hi_dropped := (\<lambda>i. if i \<in> bc_subscribers (hi_bc H) \<and> \<not> length (bufferOf (hi_bc H) i) < bufferSize
       then Suc (hi_dropped H i) else hi_dropped H i)\<rparr>"

definition noteReceive :: "nat \<Rightarrow> 'a history \<Rightarrow> 'a history" where
  "noteReceive i H = H\<lparr>hi_bc := Receive i (hi_bc H),
     hi_received := (hi_received H)(i := hi_received H i @ [hd (bufferOf (hi_bc H) i)])\<rparr>"

inductive delivery :: "'a history \<Rightarrow> bool" where
  New: "delivery startHistory"
| Joined: "delivery H \<Longrightarrow> delivery (H\<lparr>hi_bc := snd (Subscribe (hi_bc H))\<rparr>)"
| Left: "delivery H \<Longrightarrow> i \<in> bc_subscribers (hi_bc H) \<Longrightarrow> delivery (H\<lparr>hi_bc := Unsubscribe i (hi_bc H)\<rparr>)"
| Sent: "delivery H \<Longrightarrow> delivery (noteSend ev H)"
| Received: "delivery H \<Longrightarrow> bufferOf (hi_bc H) i \<noteq> [] \<Longrightarrow> delivery (noteReceive i H)"

definition deliveredOK :: "'a history \<Rightarrow> nat \<Rightarrow> bool" where
  "deliveredOK H i \<longleftrightarrow> subseq (hi_received H i @ bufferOf (hi_bc H) i) (hi_offered H i)
     \<and> length (hi_offered H i) = length (hi_received H i @ bufferOf (hi_bc H) i) + hi_dropped H i"

lemma delivery_bcOK: "delivery H \<Longrightarrow> bcOK (hi_bc H)"
proof (induction rule: delivery.induct)
  case New
  then show ?case by (simp add: bcOK_def startHistory_def) (simp add: NewBroadcaster_def)
qed (simp_all add: noteSend_def noteReceive_def bcOK_Send bcOK_Subscribe bcOK_Unsubscribe bcOK_Receive)

lemma subseq_snoc: "subseq xs ys \<Longrightarrow> subseq (xs @ [x]) (ys @ [x])" "subseq xs ys \<Longrightarrow> subseq xs (ys @ [y])"
  using list_emb_append_mono [of "(=)" xs ys "[x]" "[x]"] list_emb_append_mono [of "(=)" xs ys "[]" "[y]"] by simp_all

lemma deliveredOK_Send: "bcOK (hi_bc H) \<Longrightarrow> deliveredOK H k \<Longrightarrow> deliveredOK (noteSend ev H) k"
  by (simp add: deliveredOK_def noteSend_def bufferOf_Send subseq_snoc flip: append_assoc)

lemma delivery_deliveredOK: "delivery H \<Longrightarrow> deliveredOK H k"
proof (induction rule: delivery.induct)
  case New
  then show ?case by (simp add: deliveredOK_def startHistory_def)
next
  case (Sent H ev)
  then show ?case by (simp add: deliveredOK_Send delivery_bcOK)
next
  case (Received H i)
  then have "hi_received H i @ [hd (bufferOf (hi_bc H) i)] @ tl (bufferOf (hi_bc H) i)
      = hi_received H i @ bufferOf (hi_bc H) i" by simp
  with Received show ?case by (cases "k = i") (simp_all add: deliveredOK_def noteReceive_def)
qed (simp_all add: deliveredOK_def)



section \<open>Server-sent events\<close>

text \<open>
  The loop of a stream reads the events of its channel, a heartbeat and the end of the request,
  in the order in which they become ready; the answers of the writes are given by their
  position.
\<close>

datatype 'a sse_input =
    SSE_Event 'a
  | SSE_EventsClosed
  | SSE_Heartbeat
  | SSE_RequestDone

definition newline2 :: string where
  "newline2 = [CHR 0x0A, CHR 0x0A]"

definition dataFrame :: "string \<Rightarrow> string" where
  "dataFrame d = ''data: '' @ d @ newline2"

definition pingFrame :: string where
  "pingFrame = '': ping'' @ newline2"

fun FilteredStreamSSE ::
    "('a \<Rightarrow> bool) option \<Rightarrow> ('a \<Rightarrow> string result) \<Rightarrow> (nat \<Rightarrow> bool) \<Rightarrow> nat \<Rightarrow> 'a sse_input list \<Rightarrow> string list" where
  "FilteredStreamSSE keep marshal canWrite n [] = []"
| "FilteredStreamSSE keep marshal canWrite n (SSE_Event e # rest) =
     (if (case keep of None \<Rightarrow> False | Some k \<Rightarrow> \<not> k e) then FilteredStreamSSE keep marshal canWrite n rest
      else case marshal e of
             Inl err \<Rightarrow> FilteredStreamSSE keep marshal canWrite n rest
           | Inr data \<Rightarrow>
               (if canWrite n then dataFrame data # FilteredStreamSSE keep marshal canWrite (Suc n) rest else []))"
| "FilteredStreamSSE keep marshal canWrite n (SSE_EventsClosed # rest) = []"
| "FilteredStreamSSE keep marshal canWrite n (SSE_Heartbeat # rest) =
     (if canWrite n then pingFrame # FilteredStreamSSE keep marshal canWrite (Suc n) rest else [])"
| "FilteredStreamSSE keep marshal canWrite n (SSE_RequestDone # rest) = []"

definition StreamSSE :: "('a \<Rightarrow> string result) \<Rightarrow> (nat \<Rightarrow> bool) \<Rightarrow> 'a sse_input list \<Rightarrow> string list" where
  "StreamSSE marshal canWrite inputs = FilteredStreamSSE None marshal canWrite 0 inputs"

fun framesOf :: "('a \<Rightarrow> bool) \<Rightarrow> ('a \<Rightarrow> string result) \<Rightarrow> 'a sse_input list \<Rightarrow> string list" where
  "framesOf k marshal [] = []"
| "framesOf k marshal (SSE_Event e # rest) =
     (case marshal e of Inl err \<Rightarrow> framesOf k marshal rest
      | Inr d \<Rightarrow> if k e then dataFrame d # framesOf k marshal rest else framesOf k marshal rest)"
| "framesOf k marshal (i # rest) = framesOf k marshal rest"

lemma ping_not_data: "pingFrame \<noteq> dataFrame d"
  by (simp add: pingFrame_def dataFrame_def)

text \<open>
  A filtered stream writes exactly the events it should, in order: the frames it writes,
  heartbeats left out, are a prefix of the frames of the kept events; the filter never lets
  another event through, and a failed write ends the stream.
\<close>

theorem stream_writes_kept_events:
  "prefix (filter (\<lambda>f. f \<noteq> pingFrame) (FilteredStreamSSE (Some k) marshal canWrite n inputs)) (framesOf k marshal inputs)
   \<and> length (FilteredStreamSSE (Some k) marshal canWrite n inputs)
       \<le> length (takeWhile (\<lambda>i. i \<noteq> SSE_EventsClosed \<and> i \<noteq> SSE_RequestDone) inputs)
   \<and> (\<forall>i < length (FilteredStreamSSE (Some k) marshal canWrite n inputs). canWrite (n + i))"
proof (induction inputs arbitrary: n)
  case (Cons i inputs)
  show ?case
  proof (cases i)
    case (SSE_Event e)
    then show ?thesis
      using Cons.IH [of n] Cons.IH [of "Suc n"]
      by (auto simp: ping_not_data [symmetric] less_Suc_eq_0_disj split: sum.split)
  next
    case SSE_Heartbeat
    then show ?thesis
      using Cons.IH [of "Suc n"] by (auto simp: less_Suc_eq_0_disj)
  qed auto
qed simp

end
