(* ===== verification/Resource_API.thy ===== *)
theory Resource_API
  imports Cluster Http Broadcast
begin

text \<open>
  The read-only resources of the API: Projects, Rollouts and VariableSets. The services
  (\<open>src/api/internal/service/project_service.go\<close>, \<open>rollout_service.go\<close>, \<open>variableset_service.go\<close>)
  read the cache of an informer and broadcast its notifications; the handlers
  (\<open>src/api/internal/api/handlers\<close>) turn the answers into responses. The three are written the
  same way, so their common parts are definitions of their own. The informer's cache is a
  parameter; a notification is what the informer calls the registered functions with.
\<close>

datatype watch_event_type = Added | Modified | Deleted

record 'o resource_event =
  re_type :: watch_event_type
  re_object :: 'o

datatype 'o deletion =
    DeletedObject 'o
  | FinalStateUnknown "'o option"
  | UnknownDeletion

datatype 'o notification =
    OnAdd 'o
  | OnUpdate 'o 'o
  | OnDelete "'o deletion"

record 'o lister =
  li_list :: "'o list result"
  li_get :: "string \<Rightarrow> string \<Rightarrow> 'o result"

section \<open>Services\<close>

definition deletedObject :: "'o deletion \<Rightarrow> 'o option" where
  "deletedObject d =
     (case d of
        DeletedObject obj \<Rightarrow> Some obj
      | FinalStateUnknown tombstone \<Rightarrow> tombstone
      | UnknownDeletion \<Rightarrow> None)"

definition eventOf :: "'o notification \<Rightarrow> 'o resource_event option" where
  "eventOf n =
     (case n of
        OnAdd obj \<Rightarrow> Some \<lparr>re_type = Added, re_object = obj\<rparr>
      | OnUpdate old obj \<Rightarrow> Some \<lparr>re_type = Modified, re_object = obj\<rparr>
      | OnDelete d \<Rightarrow> map_option (\<lambda>obj. \<lparr>re_type = Deleted, re_object = obj\<rparr>) (deletedObject d))"

definition notify :: "'o notification \<Rightarrow> 'o resource_event broadcaster \<Rightarrow> 'o resource_event broadcaster" where
  "notify n b = (case eventOf n of None \<Rightarrow> b | Some ev \<Rightarrow> Send ev b)"

text \<open>
  What the constructor of each service registers with its informer: the effect of one
  notification on the service's broadcaster.
\<close>

definition NewProjectService :: "project notification \<Rightarrow> project resource_event broadcaster \<Rightarrow> project resource_event broadcaster" where
  "NewProjectService = notify"

definition NewRolloutService :: "rollout notification \<Rightarrow> rollout resource_event broadcaster \<Rightarrow> rollout resource_event broadcaster" where
  "NewRolloutService = notify"

definition NewVariableSetService ::
    "variable_set notification \<Rightarrow> variable_set resource_event broadcaster \<Rightarrow> variable_set resource_event broadcaster" where
  "NewVariableSetService = notify"

definition NewWorkspaceService ::
    "workspace notification \<Rightarrow> workspace resource_event broadcaster \<Rightarrow> workspace resource_event broadcaster" where
  "NewWorkspaceService = notify"

definition ProjectServiceList :: "project lister \<Rightarrow> project list result" where
  "ProjectServiceList l = (case li_list l of Inl err \<Rightarrow> Inl err | Inr projects \<Rightarrow> Inr projects)"

definition RolloutServiceList :: "rollout lister \<Rightarrow> rollout list result" where
  "RolloutServiceList l = (case li_list l of Inl err \<Rightarrow> Inl err | Inr rollouts \<Rightarrow> Inr rollouts)"

definition VariableSetServiceList :: "variable_set lister \<Rightarrow> variable_set list result" where
  "VariableSetServiceList l = (case li_list l of Inl err \<Rightarrow> Inl err | Inr sets \<Rightarrow> Inr sets)"

definition ProjectServiceGet :: "project lister \<Rightarrow> string \<Rightarrow> string \<Rightarrow> project result" where
  "ProjectServiceGet l ns name = (case li_get l ns name of Inl err \<Rightarrow> Inl err | Inr project \<Rightarrow> Inr project)"

definition RolloutServiceGet :: "rollout lister \<Rightarrow> string \<Rightarrow> string \<Rightarrow> rollout result" where
  "RolloutServiceGet l ns name = (case li_get l ns name of Inl err \<Rightarrow> Inl err | Inr rollout \<Rightarrow> Inr rollout)"

definition VariableSetServiceGet :: "variable_set lister \<Rightarrow> string \<Rightarrow> string \<Rightarrow> variable_set result" where
  "VariableSetServiceGet l ns name = (case li_get l ns name of Inl err \<Rightarrow> Inl err | Inr s \<Rightarrow> Inr s)"

section \<open>Handlers\<close>

definition listResponse :: "string \<Rightarrow> 'o list result \<Rightarrow> 'o list http_response" where
  "listResponse message l = (case l of Inl err \<Rightarrow> writeError 500 message | Inr xs \<Rightarrow> writeJSON 200 xs)"

definition getResponse :: "string \<Rightarrow> http_request \<Rightarrow> (string \<Rightarrow> string \<Rightarrow> 'o result) \<Rightarrow> 'o http_response" where
  "getResponse message r get =
     (if rq_pathValue r ''namespace'' = [] \<or> rq_pathValue r ''name'' = []
      then writeError 400 ''namespace and name are required''
      else case get (rq_pathValue r ''namespace'') (rq_pathValue r ''name'') of
             Inl err \<Rightarrow> writeError 404 message
           | Inr obj \<Rightarrow> writeJSON 200 obj)"

definition ProjectHandlerList :: "project lister \<Rightarrow> project list http_response" where
  "ProjectHandlerList l = listResponse ''failed to list projects'' (ProjectServiceList l)"

definition RolloutHandlerList :: "rollout lister \<Rightarrow> rollout list http_response" where
  "RolloutHandlerList l = listResponse ''failed to list rollouts'' (RolloutServiceList l)"

definition VariableSetHandlerList :: "variable_set lister \<Rightarrow> variable_set list http_response" where
  "VariableSetHandlerList l = listResponse ''failed to list variablesets'' (VariableSetServiceList l)"

definition ProjectHandlerGet :: "project lister \<Rightarrow> http_request \<Rightarrow> project http_response" where
  "ProjectHandlerGet l r = getResponse ''project not found'' r (ProjectServiceGet l)"

definition RolloutHandlerGet :: "rollout lister \<Rightarrow> http_request \<Rightarrow> rollout http_response" where
  "RolloutHandlerGet l r = getResponse ''rollout not found'' r (RolloutServiceGet l)"

definition VariableSetHandlerGet :: "variable_set lister \<Rightarrow> http_request \<Rightarrow> variable_set http_response" where
  "VariableSetHandlerGet l r = getResponse ''variableset not found'' r (VariableSetServiceGet l)"

section \<open>Notifications reach the streams\<close>

lemma bcOK_notify: "bcOK b \<Longrightarrow> bcOK (notify n b)"
  by (auto simp: notify_def bcOK_Send split: option.split)

lemma bufferOf_notify:
  assumes "bcOK b" and "i \<in> bc_subscribers b" and "length (bufferOf b i) < bufferSize"
  shows "bufferOf (notify n b) i = bufferOf b i @ List.map_filter eventOf [n]"
  using assms by (simp add: notify_def bufferOf_Send List.map_filter_simps split: option.split)

lemma subscribers_notify [simp]: "bc_subscribers (notify n b) = bc_subscribers b"
  by (simp add: notify_def split: option.split)

lemma notify_all:
  assumes "bcOK b" and "i \<in> bc_subscribers b" and "length (bufferOf b i) + length ns \<le> bufferSize"
  shows "bufferOf (fold notify ns b) i = bufferOf b i @ List.map_filter eventOf ns"
  using assms
proof (induction ns arbitrary: b)
  case (Cons n ns)
  have "length (bufferOf b i) < bufferSize" using Cons.prems by simp
  note step = bufferOf_notify [OF Cons.prems(1,2) this, of n]
  have "length (bufferOf (notify n b) i) + length ns \<le> bufferSize"
    using Cons.prems(3) step by (cases "eventOf n") (simp_all add: List.map_filter_simps)
  from Cons.IH [OF bcOK_notify [OF Cons.prems(1)] _ this] Cons.prems(2)
  show ?case using step by (cases "eventOf n") (simp_all add: List.map_filter_simps)
qed (simp add: List.map_filter_simps)

text \<open>
  A subscriber that has room sees what the informer saw: after any sequence of notifications
  that fits its buffer, the buffer has their events in order, with the last known object of
  a deletion the informer missed; only a deletion of which nothing is known is left out.
\<close>

theorem informer_events_delivered:
  assumes "bcOK b" and "i \<in> bc_subscribers b" and "bufferOf b i = []" and "length ns \<le> bufferSize"
  shows "bufferOf (fold NewProjectService ns b) i = List.map_filter eventOf ns"
  using notify_all [OF assms(1,2), of ns] assms(3,4) by (simp add: NewProjectService_def)

lemma subscribed_new:
  "bcOK (snd (Subscribe NewBroadcaster))" "0 \<in> bc_subscribers (snd (Subscribe NewBroadcaster))"
  by (simp_all add: bcOK_def bufferSize_def) (simp_all add: Subscribe_def NewBroadcaster_def)

theorem informer_events_delivered_witness:
  "\<forall>p. bufferOf (fold NewProjectService [OnAdd p, OnDelete UnknownDeletion, OnDelete (FinalStateUnknown (Some p))]
       (snd (Subscribe NewBroadcaster))) 0
     = [\<lparr>re_type = Added, re_object = p\<rparr>, \<lparr>re_type = Deleted, re_object = p\<rparr>]"
proof
  fix p :: project
  show "bufferOf (fold NewProjectService [OnAdd p, OnDelete UnknownDeletion, OnDelete (FinalStateUnknown (Some p))]
       (snd (Subscribe NewBroadcaster))) 0
     = [\<lparr>re_type = Added, re_object = p\<rparr>, \<lparr>re_type = Deleted, re_object = p\<rparr>]"
    using informer_events_delivered [OF subscribed_new, of "[OnAdd p, OnDelete UnknownDeletion, OnDelete (FinalStateUnknown (Some p))]"]
    by (simp add: bufferSize_def List.map_filter_simps eventOf_def deletedObject_def)
qed

end
