(* ===== verification/Api_Server.thy ===== *)
theory Api_Server
  imports WS_Handler Auth_Safety Resource_API
begin

text \<open>
  The API server, \<open>src/api/internal/api/server.go\<close>: its table of routes, the order of its
  middleware and the headers for other origins, and the live log endpoint of the workspace
  handler. Of \<open>http.ServeMux\<close> the model has what the table uses: a method (GET serves HEAD too)
  and a path of literal segments and wildcards, each of which takes one nonempty segment; a path
  that is not clean is redirected. The path values of a request are set by the mux, after the
  middleware has run.
\<close>

datatype handler_id =
    HealthCheck | OpenAPISpec | DocsUI | AuthConfig | AuthMe | AdminLogin | AuthLogout | StartOIDC | CompleteOIDC
  | ProjectList | ProjectEvents | ProjectGet
  | WorkspaceList | WorkspaceEvents | WorkspaceGet | WorkspacePatch | ListRuns | GetRunPhaseLog | StreamCurrentRunLog
  | RequestReconcile | ApproveRun | RejectRun | RecordRun | RecordRunPhase
  | RolloutList | RolloutEvents | RolloutGet
  | VariableSetList | VariableSetEvents | VariableSetGet

datatype path_part = Lit string | Wild string

record route =
  rt_method :: string
  rt_parts :: "path_part list"
  rt_handler :: handler_id

definition mkRoute :: "string \<Rightarrow> path_part list \<Rightarrow> handler_id \<Rightarrow> route" where
  "mkRoute method parts h = \<lparr>rt_method = method, rt_parts = parts, rt_handler = h\<rparr>"

definition apiParts :: "string \<Rightarrow> path_part list" where
  "apiParts resource = [Lit ''apis'', Lit ''magosproject.io'', Lit ''v1alpha1'', Lit resource]"

definition named :: "string \<Rightarrow> path_part list" where
  "named resource = apiParts resource @ [Wild ''namespace'', Wild ''name'']"

definition authRoutes :: "route list" where
  "authRoutes =
     [mkRoute ''GET'' [Lit ''auth'', Lit ''config''] AuthConfig,
      mkRoute ''GET'' [Lit ''auth'', Lit ''me''] AuthMe,
      mkRoute ''POST'' [Lit ''auth'', Lit ''admin'', Lit ''login''] AdminLogin,
      mkRoute ''POST'' [Lit ''auth'', Lit ''logout''] AuthLogout,
      mkRoute ''GET'' [Lit ''auth'', Lit ''oidc'', Lit ''login''] StartOIDC,
      mkRoute ''GET'' [Lit ''auth'', Lit ''oidc'', Lit ''callback''] CompleteOIDC]"

definition workspaceRoutes :: "route list" where
  "workspaceRoutes =
     [mkRoute ''GET'' (apiParts ''workspaces'') WorkspaceList,
      mkRoute ''GET'' (apiParts ''workspaces'' @ [Lit ''events'']) WorkspaceEvents,
      mkRoute ''GET'' (named ''workspaces'') WorkspaceGet,
      mkRoute ''PATCH'' (named ''workspaces'') WorkspacePatch,
      mkRoute ''GET'' (named ''workspaces'' @ [Lit ''runs'']) ListRuns,
      mkRoute ''GET'' (named ''workspaces'' @ [Lit ''runs'', Wild ''runID'', Lit ''log'']) GetRunPhaseLog,
      mkRoute ''GET'' (named ''workspaces'' @ [Lit ''runs'', Lit ''current'', Lit ''log'', Lit ''stream'']) StreamCurrentRunLog,
      mkRoute ''POST'' (named ''workspaces'' @ [Lit ''reconcile'']) RequestReconcile,
      mkRoute ''POST'' (named ''workspaces'' @ [Lit ''runs'', Wild ''runID'', Lit ''approve'']) ApproveRun,
      mkRoute ''POST'' (named ''workspaces'' @ [Lit ''runs'', Wild ''runID'', Lit ''reject'']) RejectRun]"

definition internalRoutes :: "route list" where
  "internalRoutes =
     [mkRoute ''PUT'' (Lit ''internal'' # named ''workspaces'' @ [Lit ''runs'', Wild ''runID'']) RecordRun,
      mkRoute ''PUT'' (Lit ''internal'' # named ''workspaces'' @ [Lit ''runs'', Wild ''runID'', Lit ''phases'', Wild ''phase'']) RecordRunPhase]"

definition readRoutes :: "string \<Rightarrow> handler_id \<Rightarrow> handler_id \<Rightarrow> handler_id \<Rightarrow> route list" where
  "readRoutes resource hList hEvents hGet =
     [mkRoute ''GET'' (apiParts resource) hList,
      mkRoute ''GET'' (apiParts resource @ [Lit ''events'']) hEvents,
      mkRoute ''GET'' (named resource) hGet]"

definition routes :: "route list" where
  "routes =
     [mkRoute ''GET'' [Lit ''healthz''] HealthCheck,
      mkRoute ''GET'' [Lit ''readyz''] HealthCheck,
      mkRoute ''GET'' [Lit ''openapi.json''] OpenAPISpec,
      mkRoute ''GET'' [Lit ''docs''] DocsUI]
     @ authRoutes
     @ readRoutes ''projects'' ProjectList ProjectEvents ProjectGet
     @ workspaceRoutes
     @ internalRoutes
     @ readRoutes ''rollouts'' RolloutList RolloutEvents RolloutGet
     @ readRoutes ''variablesets'' VariableSetList VariableSetEvents VariableSetGet"

section \<open>Routing\<close>

fun matchParts :: "path_part list \<Rightarrow> string list \<Rightarrow> (string \<times> string) list option" where
  "matchParts [] [] = Some []"
| "matchParts (Lit l # ps) (s # ss) = (if l = s then matchParts ps ss else None)"
| "matchParts (Wild n # ps) (s # ss) = (if s = [] then None else map_option (Cons (n, s)) (matchParts ps ss))"
| "matchParts ps ss = None"

definition pathParts :: "string \<Rightarrow> string list" where
  "pathParts path = tl (splitOn (CHR ''/'') path)"

definition servesMethod :: "route \<Rightarrow> string \<Rightarrow> bool" where
  "servesMethod rt method \<longleftrightarrow> rt_method rt = method \<or> (rt_method rt = ''GET'' \<and> method = ''HEAD'')"

definition routeFor :: "string \<Rightarrow> string \<Rightarrow> route option" where
  "routeFor method path = find (\<lambda>rt. servesMethod rt method \<and> matchParts (rt_parts rt) (pathParts path) \<noteq> None) routes"

definition cleanPath :: "string \<Rightarrow> string" where
  "cleanPath path =
     (if path = [] then ''/''
      else let rooted = (if hd path = CHR ''/'' then path else CHR ''/'' # path); np = pathClean rooted in
        if last rooted = CHR ''/'' \<and> np \<noteq> ''/'' then np @ ''/'' else np)"

datatype dispatched =
    Routed handler_id "(string \<times> string) list"
  | RedirectTo string
  | MethodNotAllowed
  | NotFound

definition dispatch :: "string \<Rightarrow> string \<Rightarrow> dispatched" where
  "dispatch method path =
     (if cleanPath path \<noteq> path then RedirectTo (cleanPath path)
      else case routeFor method path of
             Some rt \<Rightarrow> Routed (rt_handler rt) (the (matchParts (rt_parts rt) (pathParts path)))
           | None \<Rightarrow>
               (if \<exists>rt \<in> set routes. matchParts (rt_parts rt) (pathParts path) \<noteq> None then MethodNotAllowed else NotFound))"

definition withPathValues :: "(string \<times> string) list \<Rightarrow> http_request \<Rightarrow> http_request" where
  "withPathValues vals r = r\<lparr>rq_pathValue := (\<lambda>k. case map_of vals k of None \<Rightarrow> [] | Some v \<Rightarrow> v)\<rparr>"

section \<open>Middleware\<close>

definition corsHeaders :: "manager option \<Rightarrow> http_request \<Rightarrow> (string \<times> string) list" where
  "corsHeaders p r =
     (let origin = rq_header r ''Origin'' in
      if origin = [] then []
      else if (case p of None \<Rightarrow> True | Some m \<Rightarrow> \<not> ac_enabled (mg_cfg m))
      then [(''Access-Control-Allow-Origin'', ''*'')]
      else if AllowsOrigin p origin
      then [(''Access-Control-Allow-Origin'', origin), (''Access-Control-Allow-Credentials'', ''true''), (''Vary'', ''Origin'')]
      else [])"

definition preflightHeaders :: "(string \<times> string) list" where
  "preflightHeaders =
     [(''Access-Control-Allow-Methods'', ''GET, HEAD, POST, PUT, PATCH, DELETE, OPTIONS''),
      (''Access-Control-Allow-Headers'', ''Content-Type, Authorization, X-CSRF-Token'')]"

definition recoveryMiddleware :: "'b http_response option \<Rightarrow> 'b http_response" where
  \<comment> \<open>the response of the wrapped handler, or \<open>None\<close> when it panics\<close>
  "recoveryMiddleware x = (case x of None \<Rightarrow> writeError 500 ''internal server error'' | Some resp \<Rightarrow> resp)"

datatype served =
    Preflight
  | Refused nat string
  | NoReply
  | Redirected string
  | BadMethod
  | Unknown
  | Handled handler_id http_request "identity option"

definition serve :: "authenv \<Rightarrow> manager option \<Rightarrow> http_request \<Rightarrow> served auth_prog" where
  \<comment> \<open>\<open>Router\<close>: preflight requests end in the CORS middleware; the others pass the authentication and
      reach the mux\<close>
  "serve A p r =
     (if rq_method r = ''OPTIONS'' then ret Preflight
      else do {
        out \<leftarrow> Middleware A p (withPathValues [] r);
        ret (case out of
               Respond status message \<Rightarrow> Refused status message
             | Dropped \<Rightarrow> NoReply
             | Pass i \<Rightarrow>
                 (case dispatch (rq_method r) (rq_path r) of
                    Routed h vals \<Rightarrow> Handled h (withPathValues vals r) i
                  | RedirectTo path \<Rightarrow> Redirected path
                  | MethodNotAllowed \<Rightarrow> BadMethod
                  | NotFound \<Rightarrow> Unknown))
      })"

section \<open>Live logs\<close>

definition HandleStreamCurrentRunLog ::
    "svc \<Rightarrow> nat \<Rightarrow> http_request \<Rightarrow> (unit http_response + unit option) svc_prog" where
  \<comment> \<open>an error response, or the stream, with the fuel of its waiting loops\<close>
  "HandleStreamCurrentRunLog V n r =
     (if rq_pathValue r ''namespace'' = [] \<or> rq_pathValue r ''name'' = []
      then ret (Inl (writeError 400 ''namespace and name are required''))
      else do {
        g \<leftarrow> ServiceGet V (rq_pathValue r ''namespace'') (rq_pathValue r ''name'');
        case g of
          Inl err \<Rightarrow> ret (Inl (writeError 404 ''workspace not found''))
        | Inr ws \<Rightarrow> do {
            s \<leftarrow> StreamCurrentRunLogs V n (rq_pathValue r ''namespace'') (rq_pathValue r ''name'');
            ret (Inr s)
          }
      })"

section \<open>The table of routes\<close>

fun overlap :: "path_part list \<Rightarrow> path_part list \<Rightarrow> bool" where
  "overlap [] [] = True"
| "overlap (Lit l # ps) (Lit m # qs) = (l = m \<and> overlap ps qs)"
| "overlap (p # ps) (q # qs) = overlap ps qs"
| "overlap ps qs = False"

lemma matchParts_overlap: "matchParts ps ss \<noteq> None \<Longrightarrow> matchParts qs ss \<noteq> None \<Longrightarrow> overlap ps qs"
proof (induction ps ss arbitrary: qs rule: matchParts.induct)
  case 1
  then show ?case by (cases qs) auto
next
  case (2 l ps s ss)
  then show ?case by (cases "(qs, s # ss)" rule: matchParts.cases) (auto split: if_splits)
next
  case (3 n ps s ss)
  then show ?case by (cases "(qs, s # ss)" rule: matchParts.cases) (auto split: if_splits)
qed auto

lemmas route_defs = routes_def authRoutes_def workspaceRoutes_def internalRoutes_def readRoutes_def mkRoute_def
  apiParts_def named_def

lemma routes_distinct:
  "list_all (\<lambda>i. list_all (\<lambda>j. i = j \<or> rt_method (routes ! i) \<noteq> rt_method (routes ! j) \<or>
     \<not> overlap (rt_parts (routes ! i)) (rt_parts (routes ! j))) [0..<length routes]) [0..<length routes]"
  by code_simp

text \<open>
  At most one route serves a request, so taking the first one of the table is taking the most
  specific one.
\<close>

lemma route_unique:
  assumes "i < length routes" and "j < length routes"
    and "servesMethod (routes ! i) method" and "matchParts (rt_parts (routes ! i)) ss \<noteq> None"
    and "servesMethod (routes ! j) method" and "matchParts (rt_parts (routes ! j)) ss \<noteq> None"
  shows "i = j"
proof -
  have "list_all (\<lambda>rt. rt_method rt \<noteq> ''HEAD'') routes" by (simp add: route_defs)
  then have "rt_method (routes ! i) = rt_method (routes ! j)"
    using assms(1,2,3,5) by (auto simp: servesMethod_def list_all_length)
  then show ?thesis
    using routes_distinct matchParts_overlap [OF assms(4,6)] assms(1,2) by (force simp: list_all_iff)
qed

lemma joinStrings_char: "joinStrings ((a # x) # xs) sep = a # joinStrings (x # xs) sep"
  by (cases xs) simp_all

lemma splitOn_rejoin: "joinStrings (splitOn c s) [c] = s"
proof (induction s)
  case (Cons a s)
  have "splitOn c s \<noteq> []" by (cases s) (auto split: list.split)
  then obtain x xs where "splitOn c s = x # xs" by (cases "splitOn c s") auto
  then show ?case using Cons by (simp add: joinStrings_char)
qed simp

lemma pathParts_prefix:
  assumes "path = CHR ''/'' # t" and "pathParts path = a # b # rest"
  shows "hasPrefix path (''/'' @ a @ ''/'')"
proof -
  have "splitOn (CHR ''/'') path = [] # a # b # rest" using assms by (simp add: pathParts_def)
  then have "path = joinStrings ([] # a # b # rest) ''/''" using splitOn_rejoin [of "CHR ''/''" path] by simp
  then show ?thesis by (simp add: hasPrefix_iff)
qed

lemma pathParts_prefix2:
  assumes "path = CHR ''/'' # t" and "pathParts path = a # b # x # rest"
  shows "hasPrefix path (''/'' @ a @ ''/'' @ b @ ''/'')"
proof -
  have "splitOn (CHR ''/'') path = [] # a # b # x # rest" using assms by (simp add: pathParts_def)
  then have "path = joinStrings ([] # a # b # x # rest) ''/''" using splitOn_rejoin [of "CHR ''/''" path] by simp
  then show ?thesis by (simp add: hasPrefix_iff)
qed

definition publicHandlers :: "handler_id list" where
  "publicHandlers = [HealthCheck, OpenAPISpec, DocsUI, AuthConfig, AuthMe, AdminLogin, AuthLogout, StartOIDC, CompleteOIDC]"

definition internalHandlers :: "handler_id list" where
  "internalHandlers = [RecordRun, RecordRunPhase]"

fun apiRoute :: "path_part list \<Rightarrow> bool" where
  "apiRoute (Lit a # Lit b # ps) = (a = ''apis'')"
| "apiRoute ps = False"

fun internalRoute :: "path_part list \<Rightarrow> bool" where
  "internalRoute (Lit a # Lit b # Lit c # ps) = (a = ''internal'' \<and> b = ''apis'')"
| "internalRoute ps = False"

lemma routes_classified:
  "list_all (\<lambda>rt. rt_handler rt \<in> set publicHandlers \<or>
     (if rt_handler rt \<in> set internalHandlers then internalRoute (rt_parts rt) else apiRoute (rt_parts rt))) routes"
  by (simp add: route_defs publicHandlers_def internalHandlers_def)

lemma matched_api:
  assumes "apiRoute ps" and "matchParts ps (pathParts path) \<noteq> None" and "path = CHR ''/'' # t"
  shows "hasPrefix path ''/apis/''"
proof -
  obtain b ps' where ps: "ps = Lit ''apis'' # Lit b # ps'" using assms(1) by (cases ps rule: apiRoute.cases) auto
  then obtain rest where "pathParts path = ''apis'' # b # rest"
    using assms(2) by (cases "pathParts path"; cases "tl (pathParts path)") (auto split: if_splits)
  from pathParts_prefix [OF assms(3) this] show ?thesis by simp
qed

lemma matched_internal:
  assumes "internalRoute ps" and "matchParts ps (pathParts path) \<noteq> None" and "path = CHR ''/'' # t"
  shows "hasPrefix path ''/internal/apis/''"
proof -
  obtain c ps' where ps: "ps = Lit ''internal'' # Lit ''apis'' # Lit c # ps'" using assms(1) by (cases ps rule: internalRoute.cases) auto
  then obtain rest where "pathParts path = ''internal'' # ''apis'' # c # rest"
    using assms(2) by (cases "pathParts path"; cases "tl (pathParts path)"; cases "tl (tl (pathParts path))") (auto split: if_splits)
  from pathParts_prefix2 [OF assms(3) this] show ?thesis by simp
qed

lemma cleanPath_rooted: "\<exists>t. cleanPath path = CHR ''/'' # t"
  by (simp add: cleanPath_def pathClean_def Let_def)

lemma routed_class:
  assumes "dispatch method path = Routed h vals"
  shows "h \<in> set publicHandlers \<or>
    (if h \<in> set internalHandlers then hasPrefix path ''/internal/apis/'' else hasPrefix path ''/apis/'')"
proof -
  have clean: "cleanPath path = path" using assms by (auto simp: dispatch_def split: if_splits)
  then obtain t where t: "path = CHR ''/'' # t" using cleanPath_rooted [of path] by auto
  obtain rt where rt: "routeFor method path = Some rt" "h = rt_handler rt"
    using assms by (auto simp: dispatch_def split: if_splits option.splits)
  then have "rt \<in> set routes" and m: "matchParts (rt_parts rt) (pathParts path) \<noteq> None"
    by (auto simp: routeFor_def find_Some_iff)
  then have "rt_handler rt \<in> set publicHandlers \<or>
     (if rt_handler rt \<in> set internalHandlers then internalRoute (rt_parts rt) else apiRoute (rt_parts rt))"
    using routes_classified by (simp add: list_all_iff)
  then show ?thesis using rt(2) matched_api [OF _ m t] matched_internal [OF _ m t] by (auto split: if_splits)
qed

section \<open>Every route is guarded\<close>

lemma serve_handled:
  "wp (serve A (Some m) r) (\<lambda>out h'. \<forall>h rq i. out = Handled h rq i \<longrightarrow>
     A_Next i \<in> set h' \<and> (\<exists>vals. dispatch (rq_method r) (rq_path r) = Routed h vals)) hist"
proof -
  have "wp (Middleware A (Some m) q) (\<lambda>out h'. \<forall>i. out = Pass i \<longrightarrow> A_Next i \<in> set h') hist" for q
    unfolding Middleware_def authenticateInternal_def authenticateUser_def identityFromRequest_def passOn_def
    by (auto simp: wp_simps split: option.splits)
  note pass = this
  show ?thesis
    unfolding serve_def
    by (rule wp_branch, simp add: wp_ret, rule wp_then [OF pass])
       (auto simp: wp_ret split: outcome.splits dispatched.splits)
qed

lemma serve_calls:
  assumes "rq_method r \<noteq> ''OPTIONS''"
  shows "calls_of (serve A p r) [] = calls_of (Middleware A p (withPathValues [] r)) []"
  using assms by (simp add: serve_def calls_of_def ret_def split: prod.splits)

lemma route_guarded:
  assumes "ac_enabled (mg_cfg m)" and "result_of (serve A (Some m) r) [] = Handled h rq i"
  shows "h \<in> set publicHandlers \<or>
    (h \<in> set internalHandlers \<and> i = Some serviceIdentity \<and> ac_internalToken (mg_cfg m) \<noteq> [] \<and>
       bearerToken r = ac_internalToken (mg_cfg m)) \<or>
    (\<exists>ident. i = Some ident \<and> admitted A (mg_cfg m) (withPathValues [] r) ident)"
proof -
  let ?q = "withPathValues [] r"
  have q: "rq_path ?q = rq_path r" "bearerToken ?q = bearerToken r" by (simp_all add: withPathValues_def bearerToken_def)
  have options: "rq_method r \<noteq> ''OPTIONS''" using assms(2) by (auto simp: serve_def)
  have "A_Next i \<in> set (calls_of (serve A (Some m) r) [])" and d: "\<exists>vals. dispatch (rq_method r) (rq_path r) = Routed h vals"
    using serve_handled [of A m r "[]"] assms(2) by (auto simp: wp_def result_of_def calls_of_def split: prod.splits)
  then have reached: "A_Next i \<in> set (calls_of (Middleware A (Some m) ?q) [])" by (simp add: serve_calls [OF options])
  show ?thesis
  proof (cases "h \<in> set publicHandlers")
    case False
    then consider "h \<in> set internalHandlers" "hasPrefix (rq_path ?q) ''/internal/apis/''" | "hasPrefix (rq_path ?q) ''/apis/''"
      using d routed_class [of "rq_method r" "rq_path r" h] q(1) by (auto split: if_splits)
    then show ?thesis
    proof cases
      case 1
      show ?thesis using reached 1(1) unfolding middleware_admits(2) [OF assms(1) 1(2)] q(2) by simp
    next
      case 2
      show ?thesis using reached unfolding middleware_admits(1) [OF assms(1) 2] by simp
    qed
  qed simp
qed

text \<open>
  C2. No route is left open. With authentication enabled, a handler runs only if it is one of the nine
  public ones, or it is one of the two recording endpoints and the request carried the
  internal token, or the request was admitted with the identity of a valid session.
\<close>

theorem every_route_guarded:
  assumes "ac_enabled (mg_cfg m)" and "result_of (serve A (Some m) r) [] = Handled h rq i"
  shows "h \<in> set publicHandlers \<or>
    (h \<in> set internalHandlers \<and> i = Some serviceIdentity \<and> ac_internalToken (mg_cfg m) \<noteq> [] \<and>
       bearerToken r = ac_internalToken (mg_cfg m)) \<or>
    (\<exists>ident. i = Some ident \<and> admitted A (mg_cfg m) (withPathValues [] r) ident)"
  using assms by (rule route_guarded)


text \<open>
  The authorizer never learns which object a request is for. The path values are set by the mux,
  which runs after the middleware, so the operation that is authorized has no namespace and no
  name, and every GET counts as a list.
\<close>

theorem authorizer_sees_no_name:
  assumes "A_Authorize i operation \<in> set (calls_of (serve A p r) [])"
  shows "op_namespace operation = [] \<and> op_name operation = [] \<and>
    (rq_method r = ''GET'' \<longrightarrow> op_verb operation = ''list'')"
proof -
  let ?P = "\<lambda>call. \<forall>i operation. call = A_Authorize i operation \<longrightarrow> op_namespace operation = [] \<and> op_name operation = [] \<and>
    (rq_method r = ''GET'' \<longrightarrow> op_verb operation = ''list'')"
  have "?P (A_Authorize i (operationFromRequest (withPathValues [] r) b))" for i b
    by (simp add: operationFromRequest_def withPathValues_def verbFromRequest_def)
  then have "emits ?P (Middleware A p (withPathValues [] r))"
    unfolding Middleware_def authenticateInternal_def authenticateUser_def identityFromRequest_def passOn_def
    by (auto intro!: emits_intros split: option.split)
  then have "emits ?P (serve A p r)"
    unfolding serve_def by (auto intro!: emits_intros)
  from emits_call [OF this assms] show ?thesis by blast
qed

text \<open>
  Credentials never meet a wildcard: the header that lets a browser send cookies is set only
  for an origin of the configured list, which is then the only origin allowed; the wildcard
  is used only when authentication is off.
\<close>

theorem cors_credentials:
  "((''Access-Control-Allow-Credentials'', v) \<in> set (corsHeaders p r) \<longrightarrow>
      (\<exists>m. p = Some m \<and> ac_enabled (mg_cfg m) \<and> rq_header r ''Origin'' \<in> set (ac_allowedOrigins (mg_cfg m)) \<and>
         map_of (corsHeaders p r) ''Access-Control-Allow-Origin'' = Some (rq_header r ''Origin''))) \<and>
   ((''Access-Control-Allow-Origin'', ''*'') \<in> set (corsHeaders p r) \<longrightarrow>
      rq_header r ''Origin'' = ''*'' \<or> (\<forall>m. p = Some m \<longrightarrow> \<not> ac_enabled (mg_cfg m)))"
  by (auto simp: corsHeaders_def AllowsOrigin_def Let_def split: option.splits if_splits)

section \<open>Instances\<close>

lemma sample_dispatch: "dispatch ''GET'' ''/apis/magosproject.io/v1alpha1/projects/n/p'' = Routed ProjectGet [(''namespace'', ''n''), (''name'', ''p'')]"
  by code_simp

definition namedRequest :: http_request where
  "namedRequest = sampleRequest\<lparr>rq_method := ''GET'', rq_path := ''/apis/magosproject.io/v1alpha1/projects/n/p''\<rparr>"

lemma sample_serve:
  "wp (serve (sampleAuth oidcUser) (Some sampleManager) namedRequest) (\<lambda>out h'.
     out = Handled ProjectGet (withPathValues [(''namespace'', ''n''), (''name'', ''p'')] namedRequest) (Some oidcUser) \<and>
     (\<exists>operation. A_Authorize oidcUser operation \<in> set h')) []"
  by (simp add: serve_def Middleware_def isPublic_def hasPrefix_def authenticateUser_def identityFromRequest_def passOn_def
      namedRequest_def sampleRequest_def withPathValues_def sampleManager_def sampleAuth_def sampleAuthConfig_def
      sessionCookieName_def csrfCookieName_def keyForHS256_def issuerOf_def identityOfClaims_def sampleToken_def oidcUser_def
      AllowAuthenticatedAuthorizer_def unsafeMethod_def wp_simps sample_dispatch exI)

theorem every_route_guarded_witness:
  "\<exists>rq i. result_of (serve (sampleAuth oidcUser) (Some sampleManager) namedRequest) [] = Handled ProjectGet rq i \<and>
     (\<exists>ident. i = Some ident \<and> admitted (sampleAuth oidcUser) sampleAuthConfig (withPathValues [] namedRequest) ident)"
proof -
  have r: "result_of (serve (sampleAuth oidcUser) (Some sampleManager) namedRequest) []
      = Handled ProjectGet (withPathValues [(''namespace'', ''n''), (''name'', ''p'')] namedRequest) (Some oidcUser)"
    by (rule result_ofI) (rule wp_mono [OF sample_serve], simp)
  have "ac_enabled (mg_cfg sampleManager)" by (simp add: sampleManager_def sampleAuthConfig_def)
  from every_route_guarded [OF this r] have "\<exists>ident. Some oidcUser = Some ident \<and>
      admitted (sampleAuth oidcUser) (mg_cfg sampleManager) (withPathValues [] namedRequest) ident"
    by (simp add: publicHandlers_def internalHandlers_def)
  then show ?thesis using r by (auto simp: sampleManager_def)
qed

theorem authorizer_sees_no_name_witness:
  "\<exists>operation. A_Authorize oidcUser operation \<in> set (calls_of (serve (sampleAuth oidcUser) (Some sampleManager) namedRequest) []) \<and>
     op_name operation = [] \<and> op_verb operation = ''list''"
proof -
  obtain operation where op: "A_Authorize oidcUser operation \<in> set (calls_of (serve (sampleAuth oidcUser) (Some sampleManager) namedRequest) [])"
    using sample_serve by (auto simp: wp_def calls_of_def split: prod.splits)
  moreover have "rq_method namedRequest = ''GET''" by (simp add: namedRequest_def)
  ultimately show ?thesis using authorizer_sees_no_name [OF op] by auto
qed

theorem cors_credentials_witness:
  "(''Access-Control-Allow-Credentials'', ''true'') \<in> set (corsHeaders
     (Some (sampleManager\<lparr>mg_cfg := sampleAuthConfig\<lparr>ac_allowedOrigins := [''https://ui'']\<rparr>\<rparr>))
     (sampleRequest\<lparr>rq_header := (\<lambda>k. ''https://ui'')\<rparr>)) \<and>
   map_of (corsHeaders (Some (sampleManager\<lparr>mg_cfg := sampleAuthConfig\<lparr>ac_allowedOrigins := [''https://ui'']\<rparr>\<rparr>))
     (sampleRequest\<lparr>rq_header := (\<lambda>k. ''https://ui'')\<rparr>)) ''Access-Control-Allow-Origin'' = Some ''https://ui''"
proof -
  let ?p = "Some (sampleManager\<lparr>mg_cfg := sampleAuthConfig\<lparr>ac_allowedOrigins := [''https://ui'']\<rparr>\<rparr>)"
  let ?r = "sampleRequest\<lparr>rq_header := (\<lambda>k. ''https://ui'')\<rparr>"
  have c: "(''Access-Control-Allow-Credentials'', ''true'') \<in> set (corsHeaders ?p ?r)"
    by (simp add: corsHeaders_def AllowsOrigin_def sampleAuthConfig_def sampleManager_def)
  have "map_of (corsHeaders ?p ?r) ''Access-Control-Allow-Origin'' = Some (rq_header ?r ''Origin'')"
    using cors_credentials [of "''true''" ?p ?r] c by blast
  with c show ?thesis by simp
qed

end
