(* ===== verification/Api_Boot.thy ===== *)
theory Api_Boot
  imports Api_Server
begin

text \<open>
  The start of the API server: the run store (\<open>LoadConfigFromEnv\<close>, \<open>NewStore\<close> and \<open>init\<close> of
  \<open>src/api/internal/runs/store.go\<close>), the construction of the server (\<open>NewServer\<close> and
  \<open>NewServerWithDefaults\<close> of \<open>src/api/internal/api/server.go\<close>) and the main function of
  \<open>src/api/cmd/api\<close>. The log store and the authentication manager are opened by their own
  programs, run as parts of this one. The server listens only when everything it needs is open
  and well formed.
\<close>

section \<open>The address of the database\<close>

record pg_url =
  pg_host :: string
  pg_path :: string
  pg_user :: "(string \<times> string option) option"
  pg_sslmode :: "string option"

definition envOrDefault :: "'z golib_scheme \<Rightarrow> string \<Rightarrow> string \<Rightarrow> string" where
  "envOrDefault L key fallback = (if osGetenv L key = [] then fallback else osGetenv L key)"

definition joinHostPort :: "string \<Rightarrow> string \<Rightarrow> string" where
  \<comment> \<open>\<open>net.JoinHostPort\<close>: a host with colons is an IPv6 address\<close>
  "joinHostPort host port =
     (if CHR '':'' \<in> set host then ''['' @ host @ '']:'' @ port else host @ '':'' @ port)"

definition postgresURL :: "'z golib_scheme \<Rightarrow> pg_url" where
  "postgresURL L =
     (let host = envOrDefault L ''MAGOS_POSTGRES_HOST'' ''127.0.0.1'';
          port = envOrDefault L ''MAGOS_POSTGRES_PORT'' ''5432'';
          database = envOrDefault L ''MAGOS_POSTGRES_DATABASE'' ''magos'';
          user = envOrDefault L ''MAGOS_POSTGRES_USER'' ''magos'';
          password = osGetenv L ''MAGOS_POSTGRES_PASSWORD'';
          sslMode = envOrDefault L ''MAGOS_POSTGRES_SSLMODE'' ''disable''
      in \<lparr>pg_host = (if port \<noteq> [] then joinHostPort host port else host),
          pg_path = ''/'' @ trimPrefix database ''/'',
          pg_user = (if password \<noteq> [] then Some (user, Some password)
                     else if user \<noteq> [] then Some (user, None) else None),
          pg_sslmode = (if sslMode \<noteq> [] then Some sslMode else None)\<rparr>)"

section \<open>The schema\<close>

text \<open>The three embedded files, and what their statements do to the schema of the database.\<close>

datatype schema_statement = CreateRunsTable | CreateRunsWorkspaceSortIndex | AddRunsApproval

record db_schema =
  ds_runs :: bool
  ds_sortIndex :: bool
  ds_approval :: bool

fun execSchema :: "schema_statement \<Rightarrow> db_schema \<Rightarrow> db_schema option" where
  "execSchema CreateRunsTable d = Some (d\<lparr>ds_runs := True\<rparr>)"
| "execSchema CreateRunsWorkspaceSortIndex d = (if ds_runs d then Some (d\<lparr>ds_sortIndex := True\<rparr>) else None)"
| "execSchema AddRunsApproval d = (if ds_runs d then Some (d\<lparr>ds_approval := True\<rparr>) else None)"

definition schemaStatements :: "schema_statement list" where
  "schemaStatements = [CreateRunsTable, CreateRunsWorkspaceSortIndex, AddRunsApproval]"

fun migrate :: "schema_statement list \<Rightarrow> db_schema \<Rightarrow> db_schema option" where
  "migrate [] d = Some d"
| "migrate (s # ss) d = (case execSchema s d of None \<Rightarrow> None | Some d1 \<Rightarrow> migrate ss d1)"

section \<open>The environment\<close>

datatype boot_call =
    B_InClusterConfig
  | B_Kubeconfig string
  | B_Clientset
  | B_KubeClient
  | B_S3 s3_call
  | B_OpenDB string
  | B_Pool nat nat duration
  | B_Ping
  | B_Exec schema_statement
  | B_CloseDB
  | B_AddHandler string
  | B_Auth auth_call
  | B_StartInformers
  | B_Listen string
  | B_Shutdown

record bootenv =
  be_s3 :: s3env
  be_auth :: authenv
  be_urlString :: "pg_url \<Rightarrow> string"
  be_inCluster :: "boot_call list \<Rightarrow> goerr option"
  be_kubeconfig :: "boot_call list \<Rightarrow> string \<Rightarrow> goerr option"
  be_clientset :: "boot_call list \<Rightarrow> goerr option"
  be_kubeClient :: "boot_call list \<Rightarrow> goerr option"
  be_openDB :: "boot_call list \<Rightarrow> string \<Rightarrow> goerr option"
  be_ping :: "boot_call list \<Rightarrow> goerr option"
  be_exec :: "boot_call list \<Rightarrow> schema_statement \<Rightarrow> goerr option"
  be_addHandler :: "boot_call list \<Rightarrow> string \<Rightarrow> goerr option"
  be_listen :: "boot_call list \<Rightarrow> string \<Rightarrow> goerr option"
    \<comment> \<open>an error of the server, or the signal to stop\<close>
  be_shutdown :: "boot_call list \<Rightarrow> goerr option"

type_synonym 'a boot_prog = "(boot_call, 'a) io"

fun s3Call :: "boot_call \<Rightarrow> s3_call option" where
  "s3Call (B_S3 c) = Some c"
| "s3Call c = None"

fun authCall :: "boot_call \<Rightarrow> auth_call option" where
  "authCall (B_Auth c) = Some c"
| "authCall c = None"

section \<open>The run store\<close>

definition LoadRunsConfigFromEnv :: "bootenv \<Rightarrow> 'z golib_scheme \<Rightarrow> string" where
  "LoadRunsConfigFromEnv B L =
     (if osGetenv L ''MAGOS_DATABASE_URL'' = [] then be_urlString B (postgresURL L)
      else osGetenv L ''MAGOS_DATABASE_URL'')"

fun initStore :: "bootenv \<Rightarrow> schema_statement list \<Rightarrow> goerr option boot_prog" where
  "initStore B [] = ret None"
| "initStore B (s # ss) = do {
     e \<leftarrow> perform (\<lambda>h. be_exec B h s) (B_Exec s);
     case e of
       Some err \<Rightarrow> ret (Some (EWrap ''initialize postgres run store schema'' err))
     | None \<Rightarrow> initStore B ss
   }"

definition CloseStore :: "unit boot_prog" where
  "CloseStore = perform (\<lambda>h. ()) B_CloseDB"

definition NewRunStore :: "bootenv \<Rightarrow> string \<Rightarrow> goerr option boot_prog" where
  "NewRunStore B url = do {
     o1 \<leftarrow> perform (\<lambda>h. be_openDB B h url) (B_OpenDB url);
     case o1 of
       Some err \<Rightarrow> ret (Some (EWrap ''open postgres run store'' err))
     | None \<Rightarrow> do {
         perform (\<lambda>h. ()) (B_Pool 10 5 1800000000000);
         p \<leftarrow> perform (be_ping B) B_Ping;
         case p of
           Some err \<Rightarrow> do { CloseStore; ret (Some (EWrap ''connect postgres run store'' err)) }
         | None \<Rightarrow> do {
             i \<leftarrow> initStore B schemaStatements;
             case i of
               Some err \<Rightarrow> do { CloseStore; ret (Some err) }
             | None \<Rightarrow> ret None
           }
       }
   }"

section \<open>The server\<close>

record api_server =
  as_hasLogs :: bool
  as_manager :: manager

fun registerServices :: "bootenv \<Rightarrow> string list \<Rightarrow> goerr option boot_prog" where
  \<comment> \<open>the constructors of the services, which register their event handlers\<close>
  "registerServices B [] = ret None"
| "registerServices B (name # names) = do {
     e \<leftarrow> perform (\<lambda>h. be_addHandler B h name) (B_AddHandler name);
     case e of
       Some err \<Rightarrow> ret (Some (EWrap (''create '' @ name @ '' service'')
                     (EWrap (''register '' @ name @ '' event handler'') err)))
     | None \<Rightarrow> registerServices B names
   }"

definition NewServer :: "bootenv \<Rightarrow> 'z golib_scheme \<Rightarrow> bool \<Rightarrow> api_server result boot_prog" where
  "NewServer B L hasLogs = do {
     e \<leftarrow> registerServices B [''project'', ''workspace'', ''rollout'', ''variableset''];
     case e of
       Some err \<Rightarrow> ret (Inl err)
     | None \<Rightarrow>
         (case LoadAuthConfigFromEnv L (be_auth B) of
            Inl err \<Rightarrow> ret (Inl (EWrap ''load auth config'' err))
          | Inr cfg \<Rightarrow> do {
              m \<leftarrow> within B_Auth authCall (NewManager (be_auth B) cfg);
              case m of
                Inl err \<Rightarrow> ret (Inl (EWrap ''create auth manager'' err))
              | Inr mg \<Rightarrow> do {
                  perform (\<lambda>h. ()) B_StartInformers;
                  ret (Inr \<lparr>as_hasLogs = hasLogs, as_manager = mg\<rparr>)
                }
            })
   }"

definition kubeconfigPath :: "'z golib_scheme \<Rightarrow> string" where
  "kubeconfigPath L =
     (if osGetenv L ''KUBECONFIG'' \<noteq> [] then osGetenv L ''KUBECONFIG''
      else if osGetenv L ''HOME'' \<noteq> [] then pathJoin [osGetenv L ''HOME'', ''.kube'', ''config'']
      else [])"

definition clusterConfig :: "bootenv \<Rightarrow> 'z golib_scheme \<Rightarrow> goerr option boot_prog" where
  "clusterConfig B L = do {
     e \<leftarrow> perform (be_inCluster B) B_InClusterConfig;
     case e of
       None \<Rightarrow> ret None
     | Some x \<Rightarrow> do {
         k \<leftarrow> perform (\<lambda>h. be_kubeconfig B h (kubeconfigPath L)) (B_Kubeconfig (kubeconfigPath L));
         ret (map_option (EWrap ''failed to get kubeconfig'') k)
       }
   }"

definition openStores :: "bootenv \<Rightarrow> 'z golib_scheme \<Rightarrow> bool result boot_prog" where
  \<comment> \<open>the log store and the run store of \<open>NewServerWithDefaults\<close>; the result says whether logs are kept\<close>
  "openStores B L = do {
     l \<leftarrow> within B_S3 s3Call (NewLogStore (be_s3 B) (LoadLogConfigFromEnv L));
     case l of
       Inl err \<Rightarrow> ret (Inl (EWrap ''failed to create log store'' err))
     | Inr hasLogs \<Rightarrow> do {
         e \<leftarrow> NewRunStore B (LoadRunsConfigFromEnv B L);
         ret (case e of Some err \<Rightarrow> Inl (EWrap ''failed to create run store'' err) | None \<Rightarrow> Inr hasLogs)
       }
   }"

definition NewServerWithDefaults :: "bootenv \<Rightarrow> 'z golib_scheme \<Rightarrow> api_server result boot_prog" where
  "NewServerWithDefaults B L = do {
     c \<leftarrow> clusterConfig B L;
     case c of
       Some err \<Rightarrow> ret (Inl err)
     | None \<Rightarrow> do {
         v \<leftarrow> perform (be_clientset B) B_Clientset;
         case v of
           Some err \<Rightarrow> ret (Inl (EWrap ''failed to create versioned clientset'' err))
         | None \<Rightarrow> do {
             k \<leftarrow> perform (be_kubeClient B) B_KubeClient;
             case k of
               Some err \<Rightarrow> ret (Inl (EWrap ''failed to create kubernetes clientset'' err))
             | None \<Rightarrow> do {
                 s \<leftarrow> openStores B L;
                 case s of
                   Inl err \<Rightarrow> ret (Inl err)
                 | Inr hasLogs \<Rightarrow> NewServer B L hasLogs
               }
           }
       }
   }"

definition listenAddress :: "'z golib_scheme \<Rightarrow> string" where
  "listenAddress L = '':'' @ (if osGetenv L ''PORT'' = [] then ''8080'' else osGetenv L ''PORT'')"

definition apiMain :: "bootenv \<Rightarrow> 'z golib_scheme \<Rightarrow> nat boot_prog" where
  \<comment> \<open>the exit code\<close>
  "apiMain B L = do {
     s \<leftarrow> NewServerWithDefaults B L;
     case s of
       Inl err \<Rightarrow> ret 1
     | Inr server \<Rightarrow> do {
         e \<leftarrow> perform (\<lambda>h. be_listen B h (listenAddress L)) (B_Listen (listenAddress L));
         case e of
           Some err \<Rightarrow> ret 1
         | None \<Rightarrow> do {
             x \<leftarrow> perform (be_shutdown B) B_Shutdown;
             ret (case x of Some err \<Rightarrow> 1 | None \<Rightarrow> 0)
           }
       }
   }"

section \<open>What a started server has\<close>

lemma postgresURL_complete:
  "postgresURL L = \<lparr>pg_host = joinHostPort (envOrDefault L ''MAGOS_POSTGRES_HOST'' ''127.0.0.1'')
       (envOrDefault L ''MAGOS_POSTGRES_PORT'' ''5432''),
     pg_path = ''/'' @ trimPrefix (envOrDefault L ''MAGOS_POSTGRES_DATABASE'' ''magos'') ''/'',
     pg_user = Some (envOrDefault L ''MAGOS_POSTGRES_USER'' ''magos'',
       if osGetenv L ''MAGOS_POSTGRES_PASSWORD'' = [] then None else Some (osGetenv L ''MAGOS_POSTGRES_PASSWORD'')),
     pg_sslmode = Some (envOrDefault L ''MAGOS_POSTGRES_SSLMODE'' ''disable'')\<rparr>"
  by (simp add: postgresURL_def envOrDefault_def Let_def)

lemma migrate_complete: "migrate schemaStatements d = Some \<lparr>ds_runs = True, ds_sortIndex = True, ds_approval = True\<rparr>"
  by (cases d) (simp add: schemaStatements_def)

definition openedDB :: "string \<Rightarrow> boot_call list" where
  "openedDB url = [B_OpenDB url, B_Pool 10 5 1800000000000, B_Ping] @ map B_Exec schemaStatements"

fun isDB :: "boot_call \<Rightarrow> bool" where
  "isDB (B_OpenDB u) = True"
| "isDB (B_Pool a b d) = True"
| "isDB B_Ping = True"
| "isDB (B_Exec s) = True"
| "isDB B_CloseDB = True"
| "isDB c = False"

fun quietBoot :: "boot_call \<Rightarrow> bool" where
  \<comment> \<open>neither a call of the database nor the start of the listener\<close>
  "quietBoot (B_Listen a) = False"
| "quietBoot c = (\<not> isDB c)"

lemma initStore_calls:
  "wp (initStore B ss) (\<lambda>e h'. (e = None \<longrightarrow> h' = h @ map B_Exec ss) \<and> (\<exists>ts. h' = h @ map B_Exec ts)) h"
proof (induction ss arbitrary: h)
  case Nil
  show ?case by (simp add: wp_ret exI [where x = "[]"])
next
  case (Cons s ss)
  show ?case
  proof (cases "be_exec B h s")
    case None
    have "wp (initStore B ss) (\<lambda>e h'. (e = None \<longrightarrow> h' = h @ map B_Exec (s # ss)) \<and>
        (\<exists>ts. h' = h @ map B_Exec ts)) (h @ [B_Exec s])"
      by (rule wp_mono [OF Cons.IH]) (auto intro: exI [where x = "s # ts" for ts])
    then show ?thesis using None by (simp add: wp_simps)
  next
    case (Some err)
    then show ?thesis by (auto simp: wp_simps intro!: exI [where x = "[s]"])
  qed
qed

lemma NewRunStore_calls:
  "wp (NewRunStore B url) (\<lambda>e h'. if e = None then h' = h @ openedDB url
     else h' = h @ [B_OpenDB url] \<or> (\<exists>cs. h' = h @ B_OpenDB url # cs @ [B_CloseDB] \<and> B_CloseDB \<notin> set cs)) h"
proof -
  let ?h = "h @ [B_OpenDB url, B_Pool 10 5 1800000000000, B_Ping]"
  have i: "wp (initStore B schemaStatements) (\<lambda>e h'. (e = None \<longrightarrow> h' = ?h @ map B_Exec schemaStatements) \<and>
     (\<exists>ts. h' = ?h @ map B_Exec ts)) ?h" by (rule initStore_calls)
  show ?thesis
    by (auto simp: NewRunStore_def CloseStore_def wp_simps openedDB_def split: option.splits intro!: wp_mono [OF i])
qed

text \<open>
  The run store is open or closed, never in between: it is returned exactly after the pool was
  set up, the database answered and every statement of the schema was executed in order; a
  failure after the connection was opened closes it.
\<close>

theorem run_store_opens_or_closes:
  "(result_of (NewRunStore B url) [] = None \<longrightarrow> calls_of (NewRunStore B url) [] = openedDB url) \<and>
   (\<forall>err. result_of (NewRunStore B url) [] = Some err \<longrightarrow>
      calls_of (NewRunStore B url) [] = [B_OpenDB url] \<or> last (calls_of (NewRunStore B url) []) = B_CloseDB)"
  using NewRunStore_calls [of B url "[]"]
  by (auto simp: wp_def result_of_def calls_of_def split: prod.splits if_splits)

lemma NewLogStore_valid:
  "wp (NewLogStore S cfg) (\<lambda>x h'. \<forall>b. x = Inr b \<longrightarrow> b = Enabled cfg \<and> (b \<longrightarrow> validateLogConfig cfg = None)) h"
  by (auto simp: NewLogStore_def wp_simps split: option.splits intro: wp_all)

definition readyServer :: "bootenv \<Rightarrow> 'z golib_scheme \<Rightarrow> api_server \<Rightarrow> bool" where
  "readyServer B L srv \<longleftrightarrow> LoadAuthConfigFromEnv L (be_auth B) = Inr (mg_cfg (as_manager srv)) \<and>
     soundAuthConfig (mg_cfg (as_manager srv)) \<and> as_hasLogs srv = Enabled (LoadLogConfigFromEnv L) \<and>
     (as_hasLogs srv \<longrightarrow> validateLogConfig (LoadLogConfigFromEnv L) = None)"

lemma emits_boot:
  "emits quietBoot (registerServices B names)" "emits quietBoot (clusterConfig B L)" "emits quietBoot (NewServer B L b)"
  "emits quietBoot (within B_S3 s3Call (NewLogStore S cfg))"
proof -
  show r: "emits quietBoot (registerServices B names)" for names
    by (induction names) (auto intro!: emits_intros)
  show "emits quietBoot (clusterConfig B L)" by (auto simp: clusterConfig_def intro!: emits_intros)
  show "emits quietBoot (NewServer B L b)"
    unfolding NewServer_def NewManager_def initOIDC_def by (auto intro!: emits_intros r)
  show "emits quietBoot (within B_S3 s3Call (NewLogStore S cfg))"
    unfolding NewLogStore_def ensureBucket_def by (auto intro!: emits_intros)
qed

lemma quiet_filter: "list_all quietBoot cs \<Longrightarrow> filter isDB cs = [] \<and> B_Listen a \<notin> set cs"
proof (induction cs)
  case (Cons c cs)
  then show ?case by (cases c) auto
qed simp

lemma openStores_ready:
  "wp (openStores B L) (\<lambda>x h'. \<forall>b. x = Inr b \<longrightarrow>
     filter isDB h' = filter isDB h @ openedDB (LoadRunsConfigFromEnv B L) \<and> b = Enabled (LoadLogConfigFromEnv L) \<and>
     (b \<longrightarrow> validateLogConfig (LoadLogConfigFromEnv L) = None)) h"
proof -
  let ?log = "within B_S3 s3Call (NewLogStore (be_s3 B) (LoadLogConfigFromEnv L))"
  have "wp ?log (\<lambda>x h'. \<forall>b. x = Inr b \<longrightarrow> b = Enabled (LoadLogConfigFromEnv L) \<and>
      (b \<longrightarrow> validateLogConfig (LoadLogConfigFromEnv L) = None)) h"
    unfolding wp_within by (rule NewLogStore_valid)
  note log = wp_emits [OF emits_boot(4) this]
  have db: "filter isDB (openedDB url) = openedDB url" for url
    by (simp add: openedDB_def schemaStatements_def)
  have run: "wp (NewRunStore B url) (\<lambda>e h'. e = None \<longrightarrow> h' = h1 @ openedDB url) h1" for url h1
    by (rule wp_mono [OF NewRunStore_calls]) (simp split: if_splits)
  show ?thesis
    unfolding openStores_def
    by (rule wp_then [OF log], rule wp_sum, simp add: wp_ret, rule wp_then [OF run])
       (auto simp: wp_ret db quiet_filter split: option.splits)
qed

lemma NewServer_ready:
  "wp (NewServer B L b) (\<lambda>x h'. \<forall>srv. x = Inr srv \<longrightarrow> as_hasLogs srv = b \<and>
     LoadAuthConfigFromEnv L (be_auth B) = Inr (mg_cfg (as_manager srv)) \<and> soundAuthConfig (mg_cfg (as_manager srv))) h"
proof -
  have m: "wp (within B_Auth authCall (NewManager (be_auth B) cfg)) (\<lambda>x h'. \<forall>m. x = Inr m \<longrightarrow>
      mg_cfg m = cfg \<and> soundAuthConfig cfg) h" for cfg h
    unfolding wp_within by (rule NewManager_sound)
  show ?thesis
    unfolding NewServer_def
    by (rule wp_skip, rule wp_option, rule wp_sum, simp add: wp_ret, rule wp_then [OF m], rule wp_sum)
       (simp_all add: wp_ret wp_bind wp_perform)
qed

lemma emits_NewRunStore [emits_intros]:
  assumes "\<And>c. isDB c \<Longrightarrow> P c"
  shows "emits P (NewRunStore B url)"
proof -
  have "emits P (initStore B ss)" for ss by (induction ss) (auto intro!: emits_intros assms)
  then show ?thesis by (auto simp: NewRunStore_def CloseStore_def intro!: emits_intros assms)
qed

lemma server_silent: "emits (\<lambda>c. \<forall>a. c \<noteq> B_Listen a) (NewServerWithDefaults B L)"
proof -
  have quiet: "emits (\<lambda>c. \<forall>a. c \<noteq> B_Listen a) m" if "emits quietBoot m" for m :: "'b boot_prog"
    by (rule emits_mono [OF that]) auto
  show ?thesis
    unfolding NewServerWithDefaults_def openStores_def
    by (auto intro!: emits_intros quiet [OF emits_boot(2)] quiet [OF emits_boot(3)] quiet [OF emits_boot(4)])
qed

lemma server_ready:
  "wp (NewServerWithDefaults B L) (\<lambda>x h'. \<forall>srv. x = Inr srv \<longrightarrow> readyServer B L srv \<and>
     filter isDB h' = openedDB (LoadRunsConfigFromEnv B L)) []"
proof -
  have new: "wp (NewServer B L b) (\<lambda>x h'. \<forall>srv. x = Inr srv \<longrightarrow> readyServer B L srv \<and>
      filter isDB h' = openedDB (LoadRunsConfigFromEnv B L)) h"
    if "filter isDB h = openedDB (LoadRunsConfigFromEnv B L)" "b = Enabled (LoadLogConfigFromEnv L)"
      "b \<longrightarrow> validateLogConfig (LoadLogConfigFromEnv L) = None" for b h
    by (rule wp_mono [OF wp_emits [OF emits_boot(3) NewServer_ready]])
       (use that in \<open>auto simp: readyServer_def quiet_filter\<close>)
  show ?thesis
    unfolding NewServerWithDefaults_def
    by (rule wp_after [OF emits_boot(2)], simp, rule wp_option, rule wp_after [where P = quietBoot],
        simp add: emits_perform, assumption, rule wp_option, rule wp_after [where P = quietBoot],
        simp add: emits_perform, assumption, rule wp_option, rule wp_then [OF openStores_ready], rule wp_sum)
       (simp_all add: wp_ret new quiet_filter)
qed

text \<open>
  The API server listens only when it is ready: its address is that of the environment, the run
  store was opened with the whole schema and is still open, the log store is there exactly when
  it is configured, and the authentication has a well-formed configuration.
\<close>

theorem api_listens_when_ready:
  assumes "B_Listen a \<in> set (calls_of (apiMain B L) [])"
  shows "a = listenAddress L \<and> (\<exists>srv. readyServer B L srv) \<and>
    filter isDB (calls_of (apiMain B L) []) = openedDB (LoadRunsConfigFromEnv B L)"
proof -
  have start: "wp (NewServerWithDefaults B L) (\<lambda>x h'. (\<forall>srv. x = Inr srv \<longrightarrow> readyServer B L srv \<and>
      filter isDB h' = openedDB (LoadRunsConfigFromEnv B L)) \<and>
      (\<exists>cs. h' = [] @ cs \<and> list_all (\<lambda>c. \<forall>a. c \<noteq> B_Listen a) cs)) []"
    by (rule wp_emits [OF server_silent server_ready])
  have "wp (apiMain B L) (\<lambda>x h'. B_Listen a \<in> set h' \<longrightarrow> a = listenAddress L \<and> (\<exists>srv. readyServer B L srv) \<and>
      filter isDB h' = openedDB (LoadRunsConfigFromEnv B L)) []"
    unfolding apiMain_def
    by (rule wp_then [OF start], rule wp_sum)
       (auto simp: wp_simps list_all_iff split: option.splits)
  then show ?thesis using assms by (auto simp: wp_def calls_of_def split: prod.splits)
qed

lemma loaded_switches:
  assumes "LoadAuthConfigFromEnv L A = Inr c"
  shows "ac_enabled c = parseBoolEnv L ''MAGOS_AUTH_ENABLED''"
    and "ac_internalToken c = osGetenv L ''MAGOS_AUTH_INTERNAL_TOKEN''"
proof -
  have "c = envAuthConfig L \<or> (\<exists>ttl. c = (envAuthConfig L)\<lparr>ac_sessionTTL := ttl\<rparr>)"
    using assms by (auto simp: LoadAuthConfigFromEnv_def Let_def split: if_splits option.splits)
  then show "ac_enabled c = parseBoolEnv L ''MAGOS_AUTH_ENABLED''"
    and "ac_internalToken c = osGetenv L ''MAGOS_AUTH_INTERNAL_TOKEN''"
    by (auto simp: envAuthConfig_def)
qed

text \<open>
  A server started with authentication switched on is guarded: whatever the other settings are,
  once it serves, every handler but the public ones runs only for an admitted user or for the
  internal token.
\<close>

theorem started_server_guarded:
  assumes "result_of (NewServerWithDefaults B L) [] = Inr srv" and "parseBoolEnv L ''MAGOS_AUTH_ENABLED''"
    and "result_of (serve A (Some (as_manager srv)) r) [] = Handled h rq i" and "h \<notin> set publicHandlers"
  shows "(i = Some serviceIdentity \<and> bearerToken r = osGetenv L ''MAGOS_AUTH_INTERNAL_TOKEN'') \<or>
    (\<exists>ident. i = Some ident \<and> admitted A (mg_cfg (as_manager srv)) (withPathValues [] r) ident)"
proof -
  let ?c = "mg_cfg (as_manager srv)"
  have "LoadAuthConfigFromEnv L (be_auth B) = Inr ?c"
    using server_ready [of B L] assms(1) by (auto simp: wp_def result_of_def readyServer_def split: prod.splits)
  then have "ac_enabled ?c" and "ac_internalToken ?c = osGetenv L ''MAGOS_AUTH_INTERNAL_TOKEN''"
    using assms(2) by (simp_all add: loaded_switches)
  with route_guarded [OF _ assms(3)] assms(4) show ?thesis by auto
qed

text \<open>
  A switch that is not a Go boolean opens the server: with \<open>yes\<close> or \<open>on\<close> as the value of
  \<open>MAGOS_AUTH_ENABLED\<close> the server starts without an error and passes every request on
  without an identity.
\<close>

theorem misspelt_switch_opens:
  assumes "parseBool (osGetenv L ''MAGOS_AUTH_ENABLED'') = None"
    and "osGetenv L ''MAGOS_AUTH_SESSION_TTL'' = []"
  shows "\<exists>cfg m. LoadAuthConfigFromEnv L A = Inr cfg \<and> result_of (NewManager A cfg) [] = Inr m \<and>
    (\<forall>r. calls_of (Middleware A (Some m) r) [] = [A_Next None])"
proof -
  let ?c = "envAuthConfig L"
  have off: "\<not> ac_enabled ?c" using assms(1) by (simp add: envAuthConfig_def parseBoolEnv_def)
  then have "LoadAuthConfigFromEnv L A = Inr ?c"
    using assms(2) by (simp add: LoadAuthConfigFromEnv_def ValidateAuth_def)
  moreover have "result_of (NewManager A ?c) [] = Inr \<lparr>mg_cfg = ?c, mg_ready = False\<rparr>"
    using off by (intro result_ofI) (simp add: NewManager_def ValidateAuth_def initOIDC_def wp_simps)
  moreover have "calls_of (Middleware A (Some \<lparr>mg_cfg = ?c, mg_ready = False\<rparr>) r) [] = [A_Next None]" for r
    using off by (intro calls_ofI) (simp add: Middleware_def passOn_def wp_simps)
  ultimately show ?thesis by blast
qed

section \<open>Instances\<close>

definition bootGetenv :: "string \<Rightarrow> string" where
  "bootGetenv k = (case map_of
     [(''MAGOS_AUTH_ENABLED'', ''true''), (''MAGOS_AUTH_BASE_URL'', ''https://m/''), (''MAGOS_AUTH_COOKIE_SECURE'', ''1''),
      (''MAGOS_AUTH_SESSION_SIGNING_KEY'', replicate 32 CHR ''k''), (''MAGOS_AUTH_ADMIN_ENABLED'', ''true''),
      (''MAGOS_AUTH_ADMIN_PASSWORD_HASH'', ''hash''), (''MAGOS_AUTH_OIDC_ENABLED'', ''true''),
      (''MAGOS_AUTH_OIDC_ISSUER_URL'', ''https://i''), (''MAGOS_AUTH_OIDC_CLIENT_ID'', ''magos''),
      (''MAGOS_AUTH_INTERNAL_TOKEN'', ''t'')] k of None \<Rightarrow> [] | Some v \<Rightarrow> v)"

definition bootLib :: env where
  "bootLib = sampleEnv\<lparr>osGetenv := bootGetenv\<rparr>"

definition sampleBoot :: bootenv where
  "sampleBoot =
     \<lparr>be_s3 = \<lparr>s3_openClient = (\<lambda>c. None), s3_headBucket = (\<lambda>h. None), s3_createBucket = (\<lambda>h. None),
        s3_putObject = (\<lambda>h k b. None), s3_getObject = (\<lambda>h k. Inr [])\<rparr>,
      be_auth = sampleAuth oidcUser, be_urlString = pg_host, be_inCluster = (\<lambda>h. None), be_kubeconfig = (\<lambda>h p. None),
      be_clientset = (\<lambda>h. None), be_kubeClient = (\<lambda>h. None), be_openDB = (\<lambda>h u. None), be_ping = (\<lambda>h. None),
      be_exec = (\<lambda>h s. None), be_addHandler = (\<lambda>h n. None), be_listen = (\<lambda>h a. None), be_shutdown = (\<lambda>h. None)\<rparr>"

lemma boot_auth: "LoadAuthConfigFromEnv bootLib (sampleAuth i) = Inr sampleAuthConfig"
proof -
  have "envAuthConfig bootLib = sampleAuthConfig"
    by (simp add: envAuthConfig_def bootLib_def bootGetenv_def sampleAuthConfig_def parseBoolEnv_def parseBool_def
        trimRight_def splitCSV_def orDefault_def defaultSessionTTL_def)
  moreover have "ValidateAuth (sampleAuth i) sampleAuthConfig = None"
    by (simp add: ValidateAuth_def sampleAuthConfig_def sampleAuth_def)
  ultimately show ?thesis by (simp add: LoadAuthConfigFromEnv_def bootLib_def bootGetenv_def)
qed

lemma boot_manager: "wp (NewManager (sampleAuth i) sampleAuthConfig) (\<lambda>x h'. x = Inr sampleManager) h"
  by (simp add: NewManager_def initOIDC_def ValidateAuth_def wp_simps sampleAuth_def sampleAuthConfig_def sampleManager_def)

lemma boot_store: "wp (NewRunStore sampleBoot url) (\<lambda>e h'. e = None) h"
  by (simp add: NewRunStore_def schemaStatements_def wp_simps sampleBoot_def)

lemma boot_server:
  "wp (NewServerWithDefaults sampleBoot bootLib) (\<lambda>x h'. x = Inr \<lparr>as_hasLogs = False, as_manager = sampleManager\<rparr>) h"
proof -
  have "osGetenv bootLib ''MAGOS_LOGS_S3_ENDPOINT'' = []" by (simp add: bootLib_def bootGetenv_def)
  then have log: "wp (within B_S3 s3Call (NewLogStore S (LoadLogConfigFromEnv bootLib))) (\<lambda>x h'. x = Inr False) h" for S h
    by (simp add: NewLogStore_def Enabled_def LoadLogConfigFromEnv_def wp_within wp_ret)
  have stores: "wp (openStores sampleBoot bootLib) (\<lambda>x h'. x = Inr False) h" for h
    unfolding openStores_def by (rule wp_then [OF log]) (simp, rule wp_then [OF boot_store], simp add: wp_ret)
  have manager: "wp (within B_Auth authCall (NewManager (sampleAuth oidcUser) sampleAuthConfig)) (\<lambda>x h'. x = Inr sampleManager) h" for h
    unfolding wp_within by (rule boot_manager)
  have auth: "be_auth sampleBoot = sampleAuth oidcUser" by (simp add: sampleBoot_def)
  have services: "wp (registerServices sampleBoot names) (\<lambda>e h'. e = None) h" for names h
    by (induction names arbitrary: h) (simp_all add: wp_simps, simp_all add: sampleBoot_def)
  have new: "wp (NewServer sampleBoot bootLib b) (\<lambda>x h'. x = Inr \<lparr>as_hasLogs = b, as_manager = sampleManager\<rparr>) h" for b h
    unfolding NewServer_def auth
    by (rule wp_then [OF services]) (simp add: boot_auth, rule wp_then [OF manager], simp add: wp_simps)
  have cluster: "wp (clusterConfig sampleBoot bootLib) (\<lambda>e h'. e = None) h" for h
    by (simp add: clusterConfig_def wp_simps sampleBoot_def)
  show ?thesis
    unfolding NewServerWithDefaults_def
  proof (rule wp_then [OF cluster], simp, rule wp_step)
    fix h'
    show "wp (case be_clientset sampleBoot h1 of None \<Rightarrow> do { k \<leftarrow> perform (be_kubeClient sampleBoot) B_KubeClient;
        case k of None \<Rightarrow> do { s \<leftarrow> openStores sampleBoot bootLib;
             case s of Inl err \<Rightarrow> ret (Inl err) | Inr hasLogs \<Rightarrow> NewServer sampleBoot bootLib hasLogs }
        | Some err \<Rightarrow> ret (Inl (EWrap ''failed to create kubernetes clientset'' err)) }
       | Some err \<Rightarrow> ret (Inl (EWrap ''failed to create versioned clientset'' err)))
      (\<lambda>x h'. x = Inr \<lparr>as_hasLogs = False, as_manager = sampleManager\<rparr>) h'" for h1
    proof -
      have k: "be_clientset sampleBoot h1 = None" "be_kubeClient sampleBoot h2 = None" for h2
        by (simp_all add: sampleBoot_def)
      show ?thesis unfolding k option.case
        by (rule wp_step) (simp only: k option.case, rule wp_then [OF stores], simp add: new)
    qed
  qed
qed

theorem run_store_opens_or_closes_witness:
  "calls_of (NewRunStore sampleBoot ''db'') [] = openedDB ''db''"
  using run_store_opens_or_closes [of sampleBoot "''db''"] boot_store [of "''db''" "[]"] by (simp add: wp_result)

theorem api_listens_when_ready_witness:
  "B_Listen '':8080'' \<in> set (calls_of (apiMain sampleBoot bootLib) []) \<and>
   filter isDB (calls_of (apiMain sampleBoot bootLib) []) = openedDB ''127.0.0.1:5432''"
proof -
  have "wp (apiMain sampleBoot bootLib) (\<lambda>x h'. B_Listen (listenAddress bootLib) \<in> set h') []"
    unfolding apiMain_def by (rule wp_then [OF boot_server]) (auto simp: wp_simps split: option.splits)
  then have l: "B_Listen (listenAddress bootLib) \<in> set (calls_of (apiMain sampleBoot bootLib) [])"
    by (auto simp: wp_def calls_of_def split: prod.splits)
  have a: "listenAddress bootLib = '':8080''" by (simp add: listenAddress_def bootLib_def bootGetenv_def)
  have u: "LoadRunsConfigFromEnv sampleBoot bootLib = ''127.0.0.1:5432''"
    by (simp add: LoadRunsConfigFromEnv_def sampleBoot_def postgresURL_complete joinHostPort_def envOrDefault_def
        bootLib_def bootGetenv_def)
  show ?thesis using api_listens_when_ready [OF l] l by (simp add: a u)
qed

theorem started_server_guarded_witness:
  "\<exists>ident. admitted (sampleAuth oidcUser) sampleAuthConfig (withPathValues [] namedRequest) ident"
proof -
  have s: "result_of (NewServerWithDefaults sampleBoot bootLib) [] = Inr \<lparr>as_hasLogs = False, as_manager = sampleManager\<rparr>"
    by (rule result_ofI [OF boot_server])
  have e: "parseBoolEnv bootLib ''MAGOS_AUTH_ENABLED''"
    by (simp add: parseBoolEnv_def bootLib_def bootGetenv_def parseBool_def)
  have r: "result_of (serve (sampleAuth oidcUser) (Some (as_manager \<lparr>as_hasLogs = False, as_manager = sampleManager\<rparr>)) namedRequest) []
      = Handled ProjectGet (withPathValues [(''namespace'', ''n''), (''name'', ''p'')] namedRequest) (Some oidcUser)"
    by simp (rule result_ofI, rule wp_mono [OF sample_serve], simp)
  show ?thesis using started_server_guarded [OF s e r]
    by (auto simp: publicHandlers_def sampleManager_def serviceIdentity_def oidcUser_def)
qed

theorem misspelt_switch_opens_witness:
  "\<exists>cfg m. LoadAuthConfigFromEnv (sampleEnv\<lparr>osGetenv := (\<lambda>k. if k = ''MAGOS_AUTH_ENABLED'' then ''yes'' else [])\<rparr>)
      (sampleAuth oidcUser) = Inr cfg \<and> result_of (NewManager (sampleAuth oidcUser) cfg) [] = Inr m \<and>
    (\<forall>r. calls_of (Middleware (sampleAuth oidcUser) (Some m) r) [] = [A_Next None])"
  by (rule misspelt_switch_opens) (simp_all add: parseBool_def)

end
