(* ===== verification/Run_Recorder.thy ===== *)
theory Run_Recorder
  imports Api_Server
begin

text \<open>
  The client with which the controller records runs in the API,
  \<open>src/internal/controller/workspace/run_recorder.go\<close>, and its meeting with the server: what
  it sends passes the authentication, the routes and the handler. Building a URL, JSON and
  the transport are parameters; the transport answers with a status and a body.
\<close>

record run_recorder =
  rr_baseURL :: string
  rr_internalToken :: string

datatype rec_call = R_Do http_request

record recenv =
  re_joinPath :: "string \<Rightarrow> string list \<Rightarrow> string result"
  re_marshalRun :: "run \<Rightarrow> string result"
  re_newRequest :: "string \<Rightarrow> string result"
  re_do :: "rec_call list \<Rightarrow> http_request \<Rightarrow> (nat \<times> string) result"

definition NewHTTPRunRecorderFromEnv :: "'z golib_scheme \<Rightarrow> run_recorder option result" where
  "NewHTTPRunRecorderFromEnv L =
     (if \<not> Enabled (LoadLogConfigFromEnv L) then Inr None
      else
        let baseURL = trimRight (CHR ''/'') (osGetenv L ''MAGOS_LOGS_API_URL'') in
        if baseURL = [] then Inl (EMsg ''MAGOS_LOGS_API_URL must be set when log storage is enabled'')
        else Inr (Some \<lparr>rr_baseURL = baseURL, rr_internalToken = osGetenv L ''MAGOS_AUTH_INTERNAL_TOKEN''\<rparr>))"

definition setAuthHeader :: "run_recorder \<Rightarrow> (string \<Rightarrow> string) \<Rightarrow> string \<Rightarrow> string" where
  "setAuthHeader R headers =
     (if rr_internalToken R \<noteq> [] then headers(''Authorization'' := ''Bearer '' @ rr_internalToken R) else headers)"

definition putRequest :: "run_recorder \<Rightarrow> string \<Rightarrow> string \<Rightarrow> http_request" where
  \<comment> \<open>a PUT of a JSON body; \<open>path\<close> is the path of the endpoint\<close>
  "putRequest R path body =
     \<lparr>rq_method = ''PUT'', rq_path = path, rq_pathValue = (\<lambda>k. []), rq_query = (\<lambda>k. []),
      rq_header = setAuthHeader R ((\<lambda>k. [])(''Content-Type'' := ''application/json'')),
      rq_cookie = (\<lambda>k. None), rq_body = body, rq_contentLength = int (length body)\<rparr>"

definition sendRecord ::
    "recenv \<Rightarrow> run_recorder \<Rightarrow> string \<Rightarrow> string \<Rightarrow> string result \<Rightarrow> run \<Rightarrow> (rec_call, goerr option) io" where
  \<comment> \<open>the part that the two operations repeat, with the words of their errors\<close>
  "sendRecord C R what doing endpoint r =
     (case endpoint of
        Inl err \<Rightarrow> ret (Some (EWrap (''build '' @ what @ '' endpoint'') err))
      | Inr url \<Rightarrow>
          (case re_marshalRun C r of
             Inl err \<Rightarrow> ret (Some (EWrap (''marshal '' @ what @ '' request'') err))
           | Inr body \<Rightarrow>
               (case re_newRequest C url of
                  Inl err \<Rightarrow> ret (Some (EWrap (''create '' @ what @ '' request'') err))
                | Inr path \<Rightarrow> do {
                    x \<leftarrow> perform (\<lambda>h. re_do C h (putRequest R path body)) (R_Do (putRequest R path body));
                    ret (case x of
                           Inl err \<Rightarrow> Some (EWrap doing err)
                         | Inr (status, response) \<Rightarrow>
                             if 200 \<le> status \<and> status < 300 then None
                             else Some (EMsg (doing @ '': status '' @ natString status @ '': '' @ trimSpace (take 4096 response))))
                  })))"

definition recordParts :: "string \<Rightarrow> string \<Rightarrow> string \<Rightarrow> string list" where
  "recordParts ns ws rid =
     [''internal'', ''apis'', ''magosproject.io'', ''v1alpha1'', ''workspaces'', ns, ws, ''runs'', rid]"

definition RecordRunPhaseHTTP ::
    "recenv \<Rightarrow> run_recorder \<Rightarrow> string \<Rightarrow> string \<Rightarrow> string \<Rightarrow> run_phase \<Rightarrow> run \<Rightarrow> (rec_call, goerr option) io" where
  "RecordRunPhaseHTTP C R ns ws rid ph r =
     sendRecord C R ''run phase record'' ''record run phase summary''
       (re_joinPath C (rr_baseURL R) (recordParts ns ws rid @ [''phases'', runPhaseString ph])) r"

definition RecordRunHTTP :: "recenv \<Rightarrow> run_recorder \<Rightarrow> string \<Rightarrow> string \<Rightarrow> run \<Rightarrow> (rec_call, goerr option) io" where
  "RecordRunHTTP C R ns ws r =
     sendRecord C R ''run record'' ''record run'' (re_joinPath C (rr_baseURL R) (recordParts ns ws (run_id r))) r"

section \<open>The record arrives\<close>

definition absolute :: "string list \<Rightarrow> string" where
  "absolute parts = CHR ''/'' # joinStrings parts ''/''"

lemma last_join: "parts \<noteq> [] \<Longrightarrow> list_all segment parts \<Longrightarrow> last (joinStrings parts ''/'') = last (last parts)"
proof (induction parts "''/''" rule: joinStrings.induct)
  case (3 x y xs)
  then show ?case using join_head [of "y # xs" "''/''"] by simp
qed simp_all

lemma pathParts_absolute:
  assumes "parts \<noteq> []" and "list_all segment parts"
  shows "pathParts (absolute parts) = parts" and "cleanPath (absolute parts) = absolute parts"
proof -
  have clean: "pathClean (absolute parts) = absolute parts"
    using assms by (simp add: absolute_def pathClean_def Let_def splitOn_join cleanSegments_plain)
  have split: "splitOn (CHR ''/'') (joinStrings parts ''/'') = parts" using assms by (simp add: splitOn_join)
  then show "pathParts (absolute parts) = parts" by (simp add: pathParts_def absolute_def)
  have "last (absolute parts) \<noteq> CHR ''/''"
  proof
    assume "last (absolute parts) = CHR ''/''"
    moreover have "joinStrings parts ''/'' \<noteq> []" using join_head [OF assms] by simp
    ultimately have "last (joinStrings parts ''/'') = CHR ''/''" by (simp add: absolute_def)
    moreover have "last (joinStrings parts ''/'') = last (last parts)"
      using assms(1,2) by (rule last_join)
    moreover have "last parts \<noteq> []" "CHR ''/'' \<notin> set (last parts)"
      using assms by (simp_all add: list_all_iff segment_def)
    ultimately show False by (metis last_in_set)
  qed
  then show "cleanPath (absolute parts) = absolute parts"
    using clean by (simp add: cleanPath_def absolute_def)
qed


definition answerRecord ::
    "authenv \<Rightarrow> manager \<Rightarrow> svc \<Rightarrow> weblib \<Rightarrow> table \<Rightarrow> http_request \<Rightarrow> nat \<times> table" where
  \<comment> \<open>what the server makes of a request to record: the status and the table afterwards\<close>
  "answerRecord A m V W tb req =
     (case result_of (serve A (Some m) req) [] of
        Handled h rq i \<Rightarrow>
          (if h = RecordRunPhase then
             let (resp, tb1) = result_of (HandleRecordRunPhase V W tb rq) [] in (rs_status resp, tb1)
           else if h = RecordRun then
             let (resp, tb1) = result_of (HandleRecordRun V W tb rq) [] in (rs_status resp, tb1)
           else (404, tb))
      | Refused status message \<Rightarrow> (status, tb)
      | other \<Rightarrow> (404, tb))"

lemma routed_phase:
  assumes "segment ns" and "segment ws" and "segment rid" and "ph \<in> {RunPhasePlan, RunPhaseApply}"
  shows "dispatch ''PUT'' (absolute (recordParts ns ws rid @ [''phases'', runPhaseString ph])) =
    Routed RecordRunPhase [(''namespace'', ns), (''name'', ws), (''runID'', rid), (''phase'', runPhaseString ph)]"
proof -
  let ?parts = "recordParts ns ws rid @ [''phases'', runPhaseString ph]"
  have segs: "list_all segment ?parts" using assms by (auto simp: recordParts_def segment_def)
  have ne: "ns \<noteq> []" "ws \<noteq> []" "rid \<noteq> []" "runPhaseString ph \<noteq> []" using assms by (auto simp: segment_def)
  have parts: "pathParts (absolute ?parts) = ?parts" "cleanPath (absolute ?parts) = absolute ?parts"
    by (rule pathParts_absolute [OF _ segs], simp)+
  show ?thesis
    unfolding dispatch_def parts routeFor_def
    using ne by (simp add: route_defs servesMethod_def recordParts_def)
qed

lemma internal_request_served:
  assumes "ac_enabled (mg_cfg m)" and "rr_internalToken R = ac_internalToken (mg_cfg m)"
    and "ac_internalToken (mg_cfg m) \<noteq> []" and "trimSpace (ac_internalToken (mg_cfg m)) = ac_internalToken (mg_cfg m)"
    and "\<forall>h i operation. ae_authorize A h i operation = AllowAuthenticatedAuthorizer i operation"
    and "hasPrefix path ''/internal/apis/''" and "dispatch ''PUT'' path = Routed h vals"
  shows "result_of (serve A (Some m) (putRequest R path body)) [] =
    Handled h (withPathValues vals (putRequest R path body)) (Some serviceIdentity)"
proof (rule result_ofI)
  let ?q = "withPathValues [] (putRequest R path body)"
  have "bearerToken ?q = ac_internalToken (mg_cfg m)"
    using assms(2,3,4) by (simp add: bearerToken_def withPathValues_def putRequest_def setAuthHeader_def hasPrefix_def trimPrefix_def)
  moreover have "\<not> isPublic ?q" using assms(6) by (intro internal_not_public) (simp add: withPathValues_def putRequest_def)
  ultimately show "wp (serve A (Some m) (putRequest R path body)) (\<lambda>a h'. a =
      Handled h (withPathValues vals (putRequest R path body)) (Some serviceIdentity)) []"
    using assms
    by (simp add: serve_def Middleware_def authenticateInternal_def passOn_def AllowAuthenticatedAuthorizer_def wp_simps)
       (simp add: withPathValues_def putRequest_def)
qed

text \<open>
  C22. A recorded phase arrives: when the controller and the server share the internal token and the
  transport delivers the request to the server, the record of a finished phase passes the
  authentication and the routes, the handler stores it, and the controller is told of the
  success. URL building, JSON and the database are assumed to do what they document.
\<close>

theorem recorded_phase_arrives:
  assumes "ac_enabled (mg_cfg m)" and "rr_internalToken R = ac_internalToken (mg_cfg m)"
    and "ac_internalToken (mg_cfg m) \<noteq> []" and "trimSpace (ac_internalToken (mg_cfg m)) = ac_internalToken (mg_cfg m)"
    and "\<forall>h i operation. ae_authorize A h i operation = AllowAuthenticatedAuthorizer i operation"
    and "segment ns" and "segment ws" and "isValidRunID (run_id r)" and "phaseSummaryOf ph r = Some s"
    and "re_joinPath C (rr_baseURL R) (recordParts ns ws (run_id r) @ [''phases'', runPhaseString ph]) = Inr url"
    and "re_newRequest C url = Inr (absolute (recordParts ns ws (run_id r) @ [''phases'', runPhaseString ph]))"
    and "re_marshalRun C r = Inr body" and "wl_decodeRun W body = Decoded r"
    and "UpsertRun (sv_db V) (sv_dbErr V [] 0) (sv_now V []) ns ws r tb = (None, tb')"
    and "\<forall>h req. re_do C h req = Inr (fst (answerRecord A m V W tb req), [])"
  shows "result_of (RecordRunPhaseHTTP C R ns ws (run_id r) ph r) [] = None \<and>
    answerRecord A m V W tb (putRequest R (absolute (recordParts ns ws (run_id r) @ [''phases'', runPhaseString ph])) body) = (204, tb')"
proof -
  let ?path = "absolute (recordParts ns ws (run_id r) @ [''phases'', runPhaseString ph])"
  let ?vals = "[(''namespace'', ns), (''name'', ws), (''runID'', run_id r), (''phase'', runPhaseString ph)]"
  have ph: "ph \<in> {RunPhasePlan, RunPhaseApply}" using assms(9) by (cases ph) (auto simp: phaseSummaryOf_def)
  have ne: "ns \<noteq> []" "ws \<noteq> []" "run_id r \<noteq> []"
    using assms(6,7) isValidRunID_segment [OF assms(8)] by (simp_all add: segment_def)
  have "hasPrefix ?path ''/internal/apis/''" by (simp add: absolute_def recordParts_def hasPrefix_def)
  then have served: "result_of (serve A (Some m) (putRequest R ?path body)) [] =
      Handled RecordRunPhase (withPathValues ?vals (putRequest R ?path body)) (Some serviceIdentity)"
    by (rule internal_request_served [OF assms(1-5) _ routed_phase [OF assms(6,7) isValidRunID_segment [OF assms(8)] ph]])
  have "result_of (HandleRecordRunPhase V W tb (withPathValues ?vals (putRequest R ?path body))) [] = (writeHeader 204, tb')"
    using ph ne assms(8,9,13,14)
    by (intro result_ofI) (auto simp: HandleRecordRunPhase_def withPathValues_def putRequest_def Let_def parseRequiredRunPhase_def
        recordPhase_def ServiceRecordRunPhase_def storeUpsert_def phaseSummaryOf_def wp_simps)
  then have answer: "answerRecord A m V W tb (putRequest R ?path body) = (204, tb')"
    by (simp add: answerRecord_def served)
  then have "result_of (RecordRunPhaseHTTP C R ns ws (run_id r) ph r) [] = None"
    using assms(10-12,15) by (intro result_ofI) (simp add: RecordRunPhaseHTTP_def sendRecord_def wp_simps)
  with answer show ?thesis by simp
qed


section \<open>A concrete instance\<close>

definition phaseRun :: run where
  "phaseRun = sampleRecordedRun\<lparr>run_id := ''20260101T000000-deadbeef'', run_plan := Some sampleSummary\<rparr>"

definition runDecoder :: weblib where
  "runDecoder = sampleWeb\<lparr>wl_decodeRun := (\<lambda>b. Decoded phaseRun)\<rparr>"

definition sampleRecorder :: run_recorder where
  "sampleRecorder = \<lparr>rr_baseURL = ''http://api'', rr_internalToken = ''t''\<rparr>"

definition sampleTransport :: recenv where
  "sampleTransport =
     \<lparr>re_joinPath = (\<lambda>base parts. Inr (absolute parts)), re_marshalRun = (\<lambda>r. Inr ''{}''), re_newRequest = Inr,
      re_do = (\<lambda>h req. Inr (fst (answerRecord (sampleAuth oidcUser) sampleManager sampleSvc runDecoder [] req), []))\<rparr>"

theorem recorded_phase_arrives_witness:
  "result_of (RecordRunPhaseHTTP sampleTransport sampleRecorder ''default'' ''ws'' (run_id phaseRun) RunPhasePlan phaseRun) [] = None"
proof -
  have "marshalPhaseSummary (sv_db sampleSvc) (Some sampleSummary) = Inr (Some ''{}'')"
    by (simp add: marshalPhaseSummary_def sampleSvc_def)
  then have "fst (UpsertRun (sv_db sampleSvc) (sv_dbErr sampleSvc [] 0) (sv_now sampleSvc []) ''default'' ''ws'' phaseRun []) = None"
    by (simp add: UpsertRun_def phaseRun_def sampleRecordedRun_def) (simp add: marshalPhaseSummary_def)
  then obtain tb' where tb': "UpsertRun (sv_db sampleSvc) (sv_dbErr sampleSvc [] 0) (sv_now sampleSvc []) ''default'' ''ws'' phaseRun [] = (None, tb')"
    by (metis prod.collapse)
  have valid: "isValidRunID (run_id phaseRun)"
    by (simp add: phaseRun_def isValidRunID_def runIDPattern_def isDigit_def isLowerHex_def numeral_nat)
  have "result_of (RecordRunPhaseHTTP sampleTransport sampleRecorder ''default'' ''ws'' (run_id phaseRun) RunPhasePlan phaseRun) [] = None \<and>
    answerRecord (sampleAuth oidcUser) sampleManager sampleSvc runDecoder [] (putRequest sampleRecorder
      (absolute (recordParts ''default'' ''ws'' (run_id phaseRun) @ [''phases'', runPhaseString RunPhasePlan])) ''{}'') = (204, tb')"
    by (rule recorded_phase_arrives [where s = sampleSummary, OF _ _ _ _ _ _ _ valid _ _ _ _ _ tb'])
       (simp_all add: sampleTransport_def sampleManager_def sampleAuthConfig_def sampleRecorder_def sampleAuth_def segment_def
          phaseSummaryOf_def runDecoder_def phaseRun_def trimSpace_def isSpace_def)
  then show ?thesis by simp
qed

end
