(* ===== verification/Project_Ctrl.thy ===== *)
theory Project_Ctrl
  imports WS_Status Samples
begin

text \<open>
  The project controller, \<open>src/internal/controller/project/project_controller.go\<close>, and the
  workspace index it lists by (\<open>src/internal/controller/index/index.go\<close>). Without a rollout of
  the same name it grants every workspace of the project that has work to do the permission
  to execute; with one it leaves the permissions to the rollout controller.
\<close>

definition workspaceProjectRef :: "workspace \<Rightarrow> string list" where
  "workspaceProjectRef ws =
     (if wsp_projectRef (ws_spec ws) = [] then [] else [wsp_projectRef (ws_spec ws)])"

definition projectMerge :: "phase \<Rightarrow> string \<Rightarrow> string \<Rightarrow> project_status \<Rightarrow> project_status \<times> bool" where
  "projectMerge ph reason message st =
     (if pst_phase st \<noteq> ph \<or> pst_reason st \<noteq> reason \<or> pst_message st \<noteq> message
      then (st\<lparr>pst_phase := ph, pst_reason := reason, pst_message := message\<rparr>, True)
      else (st, False))"

definition updateProjectStatus ::
    "env \<Rightarrow> project \<Rightarrow> phase \<Rightarrow> string \<Rightarrow> string \<Rightarrow> cond_status \<Rightarrow> project prog" where
  "updateProjectStatus E p ph reason message status = do {
     r \<leftarrow> getProject E (meta_key (pr_meta p));
     case r of
       Inl err \<Rightarrow> ret p
     | Inr latest \<Rightarrow> do {
         let (st, upd) = projectMerge ph reason message (pr_status latest);
         t \<leftarrow> now E;
         let (conds, condChanged) =
               setStatusCondition E (pst_conditions st) (readyCondition status reason message t);
         if \<not> upd \<and> \<not> condChanged then ret p
         else do {
           u \<leftarrow> statusUpdateProject E (latest\<lparr>pr_status :=
                  st\<lparr>pst_conditions := conds, pst_lastReconcileTime := Some t\<rparr>\<rparr>);
           case u of
             Inl err \<Rightarrow> ret p
           | Inr written \<Rightarrow> ret (p\<lparr>pr_status := pr_status written,
               pr_meta := (pr_meta p)\<lparr>om_resourceVersion := om_resourceVersion (pr_meta written)\<rparr>\<rparr>)
         }
       }
   }"

text \<open>
  Setting the execution permission on a fresh copy of a workspace; the project and the
  rollout controller contain the same statements. Both ignore a failure.
\<close>

definition setPermission :: "env \<Rightarrow> workspace \<Rightarrow> unit prog" where
  "setPermission E ws = do {
     g \<leftarrow> getWorkspace E (ws_key ws);
     case g of
       Inl err \<Rightarrow> ret ()
     | Inr latest \<Rightarrow> do {
         u \<leftarrow> updateWorkspace E (set_annots
                ((ws_annots latest)(ExecutionAllowedAnnotation \<mapsto> AnnotationValueTrue)) latest);
         ret ()
       }
   }"

definition hasPermission :: "workspace \<Rightarrow> bool" where
  "hasPermission ws \<longleftrightarrow> mget (ws_annots ws) ExecutionAllowedAnnotation = AnnotationValueTrue"

definition hasPendingWork :: "workspace \<Rightarrow> bool" where
  "hasPendingWork ws \<longleftrightarrow>
     ws_phase ws = PhaseEmpty \<or> ws_phase ws = PhasePending
     \<or> mget (ws_annots ws) DetectedRevisionAnnotation \<noteq> []
     \<or> mget (ws_annots ws) ReconcileRequestAnnotation \<noteq> []"

definition grantPending :: "env \<Rightarrow> workspace \<Rightarrow> unit prog" where
  "grantPending E ws =
     (if hasPermission ws then ret ()
      else if hasPendingWork ws then setPermission E ws
      else ret ())"

definition grantParallel :: "env \<Rightarrow> string \<Rightarrow> string \<Rightarrow> goerr option prog" where
  "grantParallel E ns name = do {
     l \<leftarrow> listWorkspaces E ns None (Some name);
     case l of
       Inl err \<Rightarrow> ret (Some err)
     | Inr wss \<Rightarrow> do {
         metric ''project_workspace_count'' [ns, name] (int (length wss));
         for_each (grantPending E) wss;
         ret None
       }
   }"

definition reconcileProject :: "env \<Rightarrow> project \<Rightarrow> (goerr option \<times> project) prog" where
  "reconcileProject E p = do {
     let ns = om_namespace (pr_meta p);
     let name = om_name (pr_meta p);
     g \<leftarrow> getRollout E \<lparr>nn_namespace = ns, nn_name = name\<rparr>;
     case g of
       Inr ro \<Rightarrow> do {
         metric ''project_managed_by_rollout'' [ns, name] 1;
         p1 \<leftarrow> updateProjectStatus E p PhaseReady ''ManagedByRollout''
                 (''Project orchestration is deferred to Rollout '' @ om_name (ro_meta ro)) ConditionTrue;
         ret (None, p1)
       }
     | Inl err \<Rightarrow>
         (if \<not> isNotFound err then ret (Some err, p)
          else do {
            metric ''project_managed_by_rollout'' [ns, name] 0;
            p1 \<leftarrow> updateProjectStatus E p PhaseReady ''DefaultParallel''
                    ''Project is orchestrating workspaces in parallel'' ConditionTrue;
            e \<leftarrow> grantParallel E ns name;
            ret (e, p1)
          })
   }"

definition handleProjectDeletion :: "env \<Rightarrow> project \<Rightarrow> bool result prog" where
  "handleProjectDeletion E p = do {
     p1 \<leftarrow> updateProjectStatus E p PhaseDeleting ''Deleting'' ''Project is being deleted'' ConditionFalse;
     if containsFinalizer E (pr_meta p1) FinalizerName then do {
       u \<leftarrow> updateProject E (p1\<lparr>pr_meta := removeFinalizer E (pr_meta p1) FinalizerName\<rparr>);
       case u of Inl err \<Rightarrow> ret (Inl err) | Inr w \<Rightarrow> ret (Inr True)
     }
     else ret (Inr True)
   }"

definition ReconcileProject :: "env \<Rightarrow> nsname \<Rightarrow> ctrl_result prog" where
  "ReconcileProject E req = do {
     g \<leftarrow> getProject E req;
     case g of
       Inl err \<Rightarrow> if isNotFound err then ret (requeue 0) else ret (failWith (Some err))
     | Inr p \<Rightarrow>
         (case addFinalizer E (pr_meta p) FinalizerName of (m, added) \<Rightarrow>
            if added then do {
              u \<leftarrow> updateProject E (p\<lparr>pr_meta := m\<rparr>);
              case u of Inl err \<Rightarrow> ret (failWith (Some err)) | Inr w \<Rightarrow> ret (requeue 0)
            }
            else if \<not> timeIsZero (om_deletionTimestamp (pr_meta p)) then do {
              f \<leftarrow> handleProjectDeletion E p;
              case f of
                Inl err \<Rightarrow> ret (failWith (Some err))
              | Inr finished \<Rightarrow> ret (requeue (if finished then 0 else 10000000000))
            }
            else do {
              (e, p1) \<leftarrow> reconcileProject E p;
              case e of
                Some err \<Rightarrow> do {
                  metric ''project_reconcile_total'' [nn_namespace req, nn_name req, ''error''] 1;
                  p2 \<leftarrow> updateProjectStatus E p1 PhaseFailed ''ReconcileError'' (err_text err) ConditionFalse;
                  ret (failWith (Some err))
                }
              | None \<Rightarrow> do {
                  metric ''project_reconcile_total'' [nn_namespace req, nn_name req, ''success''] 1;
                  ret (requeue 0)
                }
            })
   }"

definition findProjectsForWorkspace :: "workspace \<Rightarrow> nsname list" where
  "findProjectsForWorkspace ws =
     [\<lparr>nn_namespace = ws_namespace ws, nn_name = wsp_projectRef (ws_spec ws)\<rparr>]"

definition findProjectsForRollout :: "rollout \<Rightarrow> nsname list" where
  "findProjectsForRollout ro = [meta_key (ro_meta ro)]"

text \<open>A call that grants the permission, and one that takes it away, of a fresh copy.\<close>

definition grants :: "call \<Rightarrow> bool" where
  "grants c \<longleftrightarrow> (\<exists>w. c = C_UpdateWorkspace w \<and> hasPermission w)"

definition grantTo :: "env \<Rightarrow> workspace \<Rightarrow> call \<Rightarrow> bool" where
  "grantTo E ws c \<longleftrightarrow> (\<exists>h latest. ev_getWorkspace E h (ws_key ws) = Inr latest
     \<and> c = C_UpdateWorkspace (set_annots
         ((ws_annots latest)(ExecutionAllowedAnnotation \<mapsto> AnnotationValueTrue)) latest))"

lemma grants_other [simp]:
  "\<not> grants C_Now" "\<not> grants (C_GetRollout k)" "\<not> grants (C_GetWorkspace k)" "\<not> grants (C_GetProject k)"
  "\<not> grants (C_StatusUpdateRollout r)" "\<not> grants (C_StatusUpdateProject p)" "\<not> grants (C_Metric n ls v)"
  "\<not> grants (C_ListRollouts x)" "\<not> grants (C_ListWorkspaces y z u)" "\<not> grants (C_UpdateProject p)"
  by (auto simp: grants_def)

lemma emits_setPermission:
  "(\<And>c. \<not> grants c \<Longrightarrow> P c) \<Longrightarrow> (\<And>c. grantTo E ws c \<Longrightarrow> P c) \<Longrightarrow> emits P (setPermission E ws)"
proof -
  assume other: "\<And>c. \<not> grants c \<Longrightarrow> P c" and grant: "\<And>c. grantTo E ws c \<Longrightarrow> P c"
  have "wp (getWorkspace E (ws_key ws)) (\<lambda>g h'. emits P (case g of Inl err \<Rightarrow> ret ()
     | Inr latest \<Rightarrow> do { u \<leftarrow> updateWorkspace E (set_annots
         ((ws_annots latest)(ExecutionAllowedAnnotation \<mapsto> AnnotationValueTrue)) latest); ret () })) h" for h
    by (auto simp: wp_simps call_defs intro!: emits_intros grant split: sum.split) (auto simp: grantTo_def)
  then show ?thesis
    unfolding setPermission_def
    by (intro emits_bind_wp) (auto simp: getWorkspace_def intro!: emits_intros other)
qed

lemma reaches_editFresh:
  assumes "\<And>h. \<exists>latest. ev_getWorkspace E h k = Inr latest"
    and "\<And>h latest. ev_getWorkspace E h k = Inr latest \<Longrightarrow> Q (C_UpdateWorkspace (edit latest))"
  shows "reaches Q (do { g \<leftarrow> getWorkspace E k;
     case g of Inl err \<Rightarrow> ret () | Inr latest \<Rightarrow> do { u \<leftarrow> updateWorkspace E (edit latest); ret () } })"
proof (rule reaches_then)
  show "wp (getWorkspace E k) (\<lambda>g h'. reaches Q
     (case g of Inl err \<Rightarrow> ret () | Inr latest \<Rightarrow> do { u \<leftarrow> updateWorkspace E (edit latest); ret () })) h" for h
    using assms(1) [of h] assms(2)
    by (auto simp: wp_simps call_defs intro!: reaches_first reaches_perform emits_intros)
qed (auto simp: getWorkspace_def intro!: emits_intros)

lemma reaches_setPermission:
  assumes "\<And>h. \<exists>latest. ev_getWorkspace E h (ws_key ws) = Inr latest"
  shows "reaches (grantTo E ws) (setPermission E ws)"
  unfolding setPermission_def using assms by (auto intro!: reaches_editFresh) (auto simp: grantTo_def)

lemma emits_updateProjectStatus:
  "(\<And>c. \<not> grants c \<Longrightarrow> P c) \<Longrightarrow> emits P (updateProjectStatus E p ph reason message status)"
  unfolding updateProjectStatus_def call_defs by (auto intro!: emits_intros)

lemma updateProjectStatus_key:
  "wp (updateProjectStatus E p ph reason message status)
     (\<lambda>q h'. om_namespace (pr_meta q) = om_namespace (pr_meta p) \<and> om_name (pr_meta q) = om_name (pr_meta p)) h"
  unfolding updateProjectStatus_def call_defs
  by (auto simp: wp_simps Let_def split: sum.split prod.split)

definition projectKey :: "project \<Rightarrow> nsname" where
  "projectKey p = \<lparr>nn_namespace = om_namespace (pr_meta p), nn_name = om_name (pr_meta p)\<rparr>"

text \<open>What a grant of the project controller presupposes.\<close>

definition projectGrant :: "env \<Rightarrow> project \<Rightarrow> call \<Rightarrow> bool" where
  "projectGrant E p c \<longleftrightarrow> (grants c \<longrightarrow>
     (\<exists>h err. ev_getRollout E h (projectKey p) = Inl err \<and> isNotFound err)
     \<and> (\<exists>h wss. \<exists>ws \<in> set wss. ev_listWorkspaces E h (om_namespace (pr_meta p)) None
            (Some (om_name (pr_meta p))) = Inr wss
          \<and> hasPendingWork ws \<and> \<not> hasPermission ws \<and> grantTo E ws c))"

lemma emits_projectOps [intro]:
  "emits (\<lambda>c. True) (grantPending E y)" "emits (\<lambda>c. True) (updateProjectStatus E q ph r m st)"
  "emits (\<lambda>c. True) (grantParallel E ns name)"
  unfolding grantParallel_def grantPending_def call_defs
  by (auto intro!: emits_intros emits_setPermission emits_updateProjectStatus)

lemma emits_reconcileProject: "emits (projectGrant E p) (reconcileProject E p)"
proof -
  have other: "\<not> grants c \<Longrightarrow> projectGrant E p c" for c by (simp add: projectGrant_def)
  have grant: "emits (projectGrant E p) (grantPending E ws)"
    if "ev_getRollout E h (projectKey p) = Inl err" "isNotFound err"
      "ev_listWorkspaces E h2 (om_namespace (pr_meta p)) None (Some (om_name (pr_meta p))) = Inr wss"
      "ws \<in> set wss" for h err h2 wss ws
    unfolding grantPending_def using that
    by (auto intro!: emits_intros emits_setPermission [OF other]) (fastforce simp: projectGrant_def)
  show ?thesis
    unfolding reconcileProject_def grantParallel_def Let_def getRollout_def
    by (rule emits_bind_wp)
      (auto simp: wp_simps call_defs projectKey_def intro!: emits_intros other emits_updateProjectStatus
        emits_bind_wp [where m = "perform f c" for f c] grant split: sum.split)
qed

text \<open>
  The project controller grants the permission to execute only in the absence of a
  rollout: whenever a reconcile of a project grants it to a workspace, the server has
  answered that no rollout of that name exists, and the workspace was listed for this project
  with work to do and without the permission.
\<close>

theorem project_grants_only_without_rollout:
  assumes "C_UpdateWorkspace w \<in> set (calls_of (ReconcileProject E req) h)" and "hasPermission w"
  shows "\<exists>p h1 err h2 wss. \<exists>ws \<in> set wss. ev_getProject E h req = Inr p
    \<and> ev_getRollout E h1 (projectKey p) = Inl err \<and> isNotFound err
    \<and> ev_listWorkspaces E h2 (om_namespace (pr_meta p)) None (Some (om_name (pr_meta p))) = Inr wss
    \<and> hasPendingWork ws \<and> \<not> hasPermission ws \<and> grantTo E ws (C_UpdateWorkspace w)"
proof (cases "ev_getProject E h req")
  case (Inl err)
  with assms(1) have "C_UpdateWorkspace w = C_GetProject req \<or> False"
    unfolding ReconcileProject_def getProject_def by (elim first_call) (auto intro!: emits_intros)
  then show ?thesis by simp
next
  case (Inr p)
  have other: "\<not> grants c \<Longrightarrow> projectGrant E p c" for c by (simp add: projectGrant_def)
  have "C_UpdateWorkspace w = C_GetProject req \<or> projectGrant E p (C_UpdateWorkspace w)"
    using assms(1) Inr unfolding ReconcileProject_def getProject_def handleProjectDeletion_def
    by (elim first_call)
      (auto simp: metric_def updateProject_def
        intro!: emits_intros emits_updateProjectStatus emits_reconcileProject other)
  then show ?thesis using Inr assms(2) by (fastforce simp: projectGrant_def grants_def)
qed

text \<open>
  Every workspace with work gets its turn. Without a rollout, a reconcile of a live project
  grants the permission to each workspace the server lists for it that is new, pending, has
  a detected revision or a manual request and lacks the permission, as long as the workspace
  can be read.
\<close>

theorem project_grants_every_pending:
  assumes "ev_getProject E h req = Inr p" and "addFinalizer E (pr_meta p) FinalizerName = (m, False)"
    and "timeIsZero (om_deletionTimestamp (pr_meta p))"
    and "\<And>h'. \<exists>err. ev_getRollout E h' (projectKey p) = Inl err \<and> isNotFound err"
    and "\<And>h'. ev_listWorkspaces E h' (om_namespace (pr_meta p)) None (Some (om_name (pr_meta p))) = Inr wss"
    and "ws \<in> set wss" and "hasPendingWork ws" and "\<not> hasPermission ws"
    and "\<And>h'. \<exists>latest. ev_getWorkspace E h' (ws_key ws) = Inr latest"
  shows "list_ex (grantTo E ws) (calls_of (ReconcileProject E req) h)"
proof -
  have "reaches (grantTo E ws) (for_each (grantPending E) wss)"
    using assms(6-8) reaches_setPermission [OF assms(9)]
    by (intro reaches_for_each [where x = ws]) (auto simp: grantPending_def intro!: emits_intros emits_setPermission)
  then have "reaches (grantTo E ws) (do { metric a b c; for_each (grantPending E) wss; ret d })" for a b c d
    by (intro reaches_after reaches_first) (auto simp: metric_def intro!: emits_intros)
  then have grant: "reaches (grantTo E ws) (grantParallel E (om_namespace (pr_meta p)) (om_name (pr_meta p)))"
    unfolding grantParallel_def
    by (intro reaches_then) (auto simp: call_defs wp_simps assms(5) intro!: emits_intros)
  have rest: "reaches (grantTo E ws) (do { metric a b c; q \<leftarrow> updateProjectStatus E p ph r t st;
      e \<leftarrow> grantParallel E (om_namespace (pr_meta p)) (om_name (pr_meta p)); ret (e, q) })" for a b c ph r t st
    using grant by (intro reaches_after reaches_first) (auto simp: metric_def intro!: emits_intros)
  have nf: "wp (getRollout E (projectKey p)) (\<lambda>g h'. \<exists>err. g = Inl err \<and> isNotFound err) h" for h
    using assms(4) [of h] by (auto simp: getRollout_def wp_simps)
  have rec: "reaches (grantTo E ws) (reconcileProject E p)"
    unfolding reconcileProject_def Let_def projectKey_def [symmetric]
    by (intro reaches_then, simp add: getRollout_def emits_intros, rule wp_mono [OF nf])
      (auto intro!: rest)
  show ?thesis
    unfolding ReconcileProject_def getProject_def
    using assms(1-3) rec
    by (intro first_call_reaches) (auto simp: metric_def intro!: reaches_first emits_intros)
qed

definition sampleProject :: project where
  "sampleProject = \<lparr>pr_meta = sampleMeta ''platform'',
     pr_spec = \<lparr>psp_description = [], psp_variableSetRef = [], psp_validation = None\<rparr>,
     pr_status = \<lparr>pst_phase = PhaseEmpty, pst_reason = [], pst_message = [],
       pst_lastReconcileTime = None, pst_conditions = []\<rparr>\<rparr>"

definition projectEnv :: env where
  "projectEnv = sampleEnv\<lparr>ev_getProject := (\<lambda>h k. if h = [] then Inr sampleProject else Inl (ENotFound ''project'')),
     ev_getWorkspace := (\<lambda>h k. Inr sampleWorkspace),
     ev_listWorkspaces := (\<lambda>h ns sel pref. Inr [sampleWorkspace])\<rparr>"

definition projectRequest :: nsname where
  "projectRequest = \<lparr>nn_namespace = ''default'', nn_name = ''platform''\<rparr>"

lemma projectEnv_simps [simp]:
  "ev_getProject projectEnv = (\<lambda>h k. if h = [] then Inr sampleProject else Inl (ENotFound ''project''))"
  "ev_getWorkspace projectEnv = (\<lambda>h k. Inr sampleWorkspace)"
  "ev_listWorkspaces projectEnv = (\<lambda>h ns sel pref. Inr [sampleWorkspace])"
  "ev_getRollout projectEnv = (\<lambda>h k. Inl (ENotFound ''rollout''))"
  "addFinalizer projectEnv = addFinalizer sampleEnv"
  by (simp_all add: projectEnv_def)

lemma samplePermission [simp]: "\<not> hasPermission sampleWorkspace" "hasPendingWork sampleWorkspace"
  by (simp_all add: hasPermission_def hasPendingWork_def sample_defs)

theorem project_grants_every_pending_witness:
  "list_ex (grantTo projectEnv sampleWorkspace) (calls_of (ReconcileProject projectEnv projectRequest) [])"
  by (rule project_grants_every_pending [where p = sampleProject and m = "sampleMeta ''platform''"
        and wss = "[sampleWorkspace]"])
    (simp_all add: sampleProject_def sampleMeta_def timeIsZero_def)

lemma projectEnv_grants:
  "\<exists>w. C_UpdateWorkspace w \<in> set (calls_of (ReconcileProject projectEnv projectRequest) []) \<and> hasPermission w"
proof -
  have "list_ex (grantTo projectEnv sampleWorkspace) (calls_of (ReconcileProject projectEnv projectRequest) [])"
    by (rule calls_of_start)
      (simp add: ReconcileProject_def reconcileProject_def grantParallel_def grantPending_def updateProjectStatus_def
        setPermission_def call_defs wp_simps Let_def sampleProject_def sampleMeta_def timeIsZero_def grantTo_def)
  then show ?thesis by (fastforce simp: list_ex_iff grantTo_def hasPermission_def)
qed

theorem project_grants_only_without_rollout_witness:
  "\<exists>w p h err. C_UpdateWorkspace w \<in> set (calls_of (ReconcileProject projectEnv projectRequest) []) \<and> hasPermission w
     \<and> ev_getRollout projectEnv h (projectKey p) = Inl err \<and> isNotFound err"
proof -
  obtain w where "C_UpdateWorkspace w \<in> set (calls_of (ReconcileProject projectEnv projectRequest) [])"
    "hasPermission w" using projectEnv_grants by blast
  with project_grants_only_without_rollout [OF this] show ?thesis by blast
qed

definition stampProject :: "condition list \<Rightarrow> time \<Rightarrow> project_status \<Rightarrow> project_status" where
  "stampProject cs t st = st\<lparr>pst_conditions := cs, pst_lastReconcileTime := Some t\<rparr>"

definition mergeProject :: "phase \<times> string \<times> string \<Rightarrow> project_status \<Rightarrow> project_status \<times> bool" where
  "mergeProject = (\<lambda>(ph, reason, message). projectMerge ph reason message)"

definition settledProject :: "phase \<times> string \<times> string \<Rightarrow> project_status \<Rightarrow> bool" where
  "settledProject d st \<longleftrightarrow> d = (pst_phase st, pst_reason st, pst_message st)"

interpretation project_status:
  published_status "\<lambda>d. True" settledProject mergeProject pst_conditions stampProject
  by unfold_locales (auto simp: mergeProject_def projectMerge_def stampProject_def settledProject_def)

lemma updateProjectStatus_writes:
  "emits (\<lambda>c. \<forall>w. c = C_StatusUpdateProject w \<longrightarrow> (\<exists>st t. pr_status w =
      fst (publish E (mergeProject (ph, reason, message)) pst_conditions stampProject
             (readyCondition status reason message) t st)))
     (updateProjectStatus E p ph reason message status)"
  unfolding updateProjectStatus_def call_defs Let_def
  by (auto intro!: emits_intros simp: publish_fst mergeProject_def stampProject_def case_prod_beta) blast+

lemma updateProjectStatus_quiet:
  assumes "ev_getProject E h (meta_key (pr_meta p)) = Inr latest"
    and "\<And>t. \<not> snd (publish E (mergeProject (ph, reason, message)) pst_conditions stampProject
             (readyCondition status reason message) t (pr_status latest))"
  shows "calls_of (updateProjectStatus E p ph reason message status) h = [C_GetProject (meta_key (pr_meta p)), C_Now]"
  by (rule calls_ofI)
    (use assms in \<open>auto simp: updateProjectStatus_def call_defs wp_simps Let_def publish_snd mergeProject_def
       case_prod_beta\<close>)

text \<open>
  The project controller does not trigger itself. After a status write, another write of
  the same phase, reason, message and Ready status to an object that still has the written
  status is skipped: it reads the object and the clock and updates nothing.
\<close>

theorem project_status_settles:
  assumes "conditionStable E"
    and "C_StatusUpdateProject w \<in> set (calls_of (updateProjectStatus E p ph reason message status) h)"
    and "ev_getProject E h' (meta_key (pr_meta q)) = Inr latest" and "pr_status latest = pr_status w"
  shows "calls_of (updateProjectStatus E q ph reason message status) h'
    = [C_GetProject (meta_key (pr_meta q)), C_Now]"
  using emits_call [OF updateProjectStatus_writes assms(2)] assms(4)
  by (intro updateProjectStatus_quiet [OF assms(3)])
    (auto simp: project_status.publish_again [OF assms(1)])

theorem project_status_settles_witness:
  "\<exists>w. C_StatusUpdateProject w \<in> set (calls_of (updateProjectStatus
        (stableEnv\<lparr>ev_getProject := (\<lambda>h k. if h = [] then Inr sampleProject else Inr w)\<rparr>)
        sampleProject PhaseReady ''r'' ''m'' ConditionTrue) [])
     \<and> calls_of (updateProjectStatus (stableEnv\<lparr>ev_getProject := (\<lambda>h k. if h = [] then Inr sampleProject else Inr w)\<rparr>)
        sampleProject PhaseReady ''r'' ''m'' ConditionTrue) [C_Now]
     = [C_GetProject (meta_key (pr_meta sampleProject)), C_Now]"
proof -
  define w where "w = sampleProject\<lparr>pr_status := \<lparr>pst_phase = PhaseReady, pst_reason = ''r'', pst_message = ''m'',
     pst_lastReconcileTime = Some 1000000000000,
     pst_conditions = [readyCondition ConditionTrue ''r'' ''m'' 1000000000000]\<rparr>\<rparr>"
  let ?E = "stableEnv\<lparr>ev_getProject := (\<lambda>h k. if h = [] then Inr sampleProject else Inr w)\<rparr>"
  have s: "conditionStable ?E" by (rule conditionStable_sample) (simp add: stableEnv_def)
  have "C_StatusUpdateProject w \<in> set (calls_of (updateProjectStatus ?E sampleProject PhaseReady ''r'' ''m''
      ConditionTrue) [])"
    by (rule calls_of_start) (simp add: updateProjectStatus_def call_defs wp_simps Let_def projectMerge_def
        stableEnv_def sampleSetCondition_def sampleProject_def w_def)
  with project_status_settles [OF s this, of "[C_Now]" sampleProject w] show ?thesis by (intro exI [of _ w]) simp
qed

end
