(* ===== verification/Rollout_Ctrl.thy ===== *)
theory Rollout_Ctrl
  imports Project_Ctrl
begin

text \<open>
  The rollout controller, \<open>src/internal/controller/rollout/rollout_controller.go\<close>: it merges
  the steps of a strategy into levels, finds the first level with work left, grants the
  workspaces of that level the permission to execute and takes it away from all others. A
  set of workspace UIDs is a HOL set.
\<close>

record level =
  lv_startIdx :: nat
  lv_endIdx :: nat
  lv_names :: string
  lv_workspaces :: "workspace list"
  lv_uids :: "string set"

definition workspaceFullyApplied :: "workspace \<Rightarrow> bool" where
  "workspaceFullyApplied ws \<longleftrightarrow>
     ws_phase ws \<in> {PhaseApplied, PhaseRejected} \<and> ws_annots ws DetectedRevisionAnnotation = None"

definition needsWork :: "workspace \<Rightarrow> bool" where
  "needsWork ws \<longleftrightarrow> \<not> workspaceFullyApplied ws
     \<or> mget (ws_annots ws) ReconcileRequestAnnotation \<noteq> []
     \<or> ws_phase ws = PhaseEmpty \<or> ws_phase ws = PhasePending"

definition hasFailed :: "workspace \<Rightarrow> bool" where
  "hasFailed ws \<longleftrightarrow> ws_phase ws = PhaseFailed \<or> ws_phase ws = PhaseValidationFailed"

section \<open>Levels\<close>

definition sameSet :: "string set \<Rightarrow> string set \<Rightarrow> bool" where
  "sameSet uids prev \<longleftrightarrow> card uids = card prev \<and> (\<forall>u \<in> uids. u \<in> prev)"

definition addStep :: "nat \<Rightarrow> rollout_step \<Rightarrow> workspace list \<Rightarrow> level list \<Rightarrow> string set \<Rightarrow> level list" where
  "addStep i step target levels prev =
     (let uids = set (map (\<lambda>ws. om_uid (ws_meta ws)) target) in
      if sameSet uids prev \<and> levels \<noteq> []
      then butlast levels @ [(last levels)\<lparr>lv_endIdx := i,
             lv_names := lv_names (last levels) @ '', '' @ rs_name step\<rparr>]
      else levels @ [\<lparr>lv_startIdx = i, lv_endIdx = i, lv_names = rs_name step,
             lv_workspaces = target, lv_uids = uids\<rparr>])"

datatype levels_outcome =
    LevelsError goerr
  | StepWithoutWorkspaces nat string
  | Levels "level list"

fun computeLevels ::
    "env \<Rightarrow> string \<Rightarrow> string \<Rightarrow> nat \<Rightarrow> rollout_step list \<Rightarrow> level list \<Rightarrow> string set \<Rightarrow>
     levels_outcome prog" where
  "computeLevels E ns pref i [] levels prev = ret (Levels levels)"
| "computeLevels E ns pref i (step # steps) levels prev =
     (case labelSelectorAsSelector E (rs_selector step) of
        Inl err \<Rightarrow> ret (LevelsError err)
      | Inr selector \<Rightarrow> do {
          l \<leftarrow> listWorkspaces E ns (Some selector) (Some pref);
          case l of
            Inl err \<Rightarrow> ret (LevelsError err)
          | Inr target \<Rightarrow>
              (if target = [] then ret (StepWithoutWorkspaces i (rs_name step))
               else computeLevels E ns pref (Suc i) steps (addStep i step target levels prev)
                      (set (map (\<lambda>ws. om_uid (ws_meta ws)) target)))
        })"

fun firstPending :: "nat \<Rightarrow> level list \<Rightarrow> (nat \<times> level) option" where
  "firstPending li [] = None"
| "firstPending li (lvl # lvls) =
     (if list_ex needsWork (lv_workspaces lvl) then Some (li, lvl) else firstPending (Suc li) lvls)"

section \<open>Status\<close>

definition rolloutMerge ::
    "phase \<Rightarrow> string \<Rightarrow> string \<Rightarrow> int \<Rightarrow> rollout_status \<Rightarrow> rollout_status \<times> bool" where
  "rolloutMerge ph reason message step st0 =
     (let (st1, upd1) =
            (if rst_phase st0 \<noteq> ph \<or> rst_reason st0 \<noteq> reason \<or> rst_message st0 \<noteq> message
             then (st0\<lparr>rst_phase := ph, rst_reason := reason, rst_message := message\<rparr>, True)
             else (st0, False))
      in if rst_currentStep st1 \<noteq> step then (st1\<lparr>rst_currentStep := step\<rparr>, True) else (st1, upd1))"

definition updateRolloutStatusOnce ::
    "env \<Rightarrow> phase \<Rightarrow> string \<Rightarrow> string \<Rightarrow> cond_status \<Rightarrow> rollout \<Rightarrow> (goerr option \<times> rollout) prog" where
  "updateRolloutStatusOnce E ph reason message status ro = do {
     r \<leftarrow> getRollout E (meta_key (ro_meta ro));
     case r of
       Inl err \<Rightarrow> ret (Some err, ro)
     | Inr latest \<Rightarrow> do {
         let (st, upd) = rolloutMerge ph reason message (rst_currentStep (ro_status ro)) (ro_status latest);
         t \<leftarrow> now E;
         let (conds, condChanged) =
               setStatusCondition E (rst_conditions st) (readyCondition status reason message t);
         if \<not> upd \<and> \<not> condChanged then ret (None, ro)
         else do {
           u \<leftarrow> statusUpdateRollout E (latest\<lparr>ro_status :=
                  st\<lparr>rst_conditions := conds, rst_lastReconcileTime := Some t\<rparr>\<rparr>);
           case u of
             Inl err \<Rightarrow> ret (Some err, ro)
           | Inr written \<Rightarrow> ret (None, ro\<lparr>ro_status := ro_status written,
               ro_meta := (ro_meta ro)\<lparr>om_resourceVersion := om_resourceVersion (ro_meta written)\<rparr>\<rparr>)
         }
       }
   }"

definition updateRolloutStatus ::
    "env \<Rightarrow> rollout \<Rightarrow> phase \<Rightarrow> string \<Rightarrow> string \<Rightarrow> cond_status \<Rightarrow> rollout prog" where
  "updateRolloutStatus E ro ph reason message status = do {
     (err, ro') \<leftarrow> retryOnConflict (retrySteps E) (updateRolloutStatusOnce E ph reason message status) ro;
     ret ro'
   }"

definition withCurrentStep :: "int \<Rightarrow> rollout \<Rightarrow> rollout" where
  "withCurrentStep i ro = ro\<lparr>ro_status := (ro_status ro)\<lparr>rst_currentStep := i\<rparr>\<rparr>"

section \<open>Permissions\<close>

definition grantLevel :: "env \<Rightarrow> workspace \<Rightarrow> unit prog" where
  "grantLevel E ws =
     (if hasFailed ws then ret ()
      else if needsWork ws then (if \<not> hasPermission ws then setPermission E ws else ret ())
      else ret ())"

definition revokePermission :: "env \<Rightarrow> workspace \<Rightarrow> unit prog" where
  "revokePermission E ws =
     (if hasPermission ws then do {
        g \<leftarrow> getWorkspace E (ws_key ws);
        case g of
          Inl err \<Rightarrow> ret ()
        | Inr latest \<Rightarrow> do {
            u \<leftarrow> updateWorkspace E (set_annots
                   ((ws_annots latest)(ExecutionAllowedAnnotation := None)) latest);
            ret ()
          }
      } else ret ())"

fun revokeOthers :: "env \<Rightarrow> nat \<Rightarrow> nat \<Rightarrow> level list \<Rightarrow> unit prog" where
  "revokeOthers E current li [] = ret ()"
| "revokeOthers E current li (lvl # lvls) = do {
     (if li = current then ret () else for_each (revokePermission E) (lv_workspaces lvl));
     revokeOthers E current (Suc li) lvls
   }"

definition reportActive :: "env \<Rightarrow> unit prog" where
  \<comment> \<open>the deferred function of \<open>reconcileRollout\<close>\<close>
  "reportActive E = do {
     l \<leftarrow> listRollouts E None;
     case l of
       Inl err \<Rightarrow> ret ()
     | Inr ros \<Rightarrow> metric ''rollout_active_count'' []
         (int (length (filter (\<lambda>ro. rst_phase (ro_status ro) = PhaseReconciling) ros)))
   }"

definition progressLevel ::
    "env \<Rightarrow> rollout \<Rightarrow> level list \<Rightarrow> nat \<Rightarrow> level \<Rightarrow> (goerr option \<times> rollout) prog" where
  "progressLevel E ro0 levels currentIdx current = do {
     let ro = withCurrentStep (int (lv_startIdx current)) ro0;
     metric ''rollout_current_level'' [om_namespace (ro_meta ro), om_name (ro_meta ro)] (int currentIdx);
     (if int (lv_startIdx current) \<noteq> rst_currentStep (ro_status ro0)
      then metric ''rollout_level_transitions_total'' [om_namespace (ro_meta ro), om_name (ro_meta ro)] 1
      else ret ());
     if list_ex hasFailed (lv_workspaces current) then do {
       ro1 \<leftarrow> updateRolloutStatus E ro PhaseFailed ''StepFailed''
                (''One or more workspaces failed in level ['' @ lv_names current @ '']'') ConditionFalse;
       ret (None, ro1)
     }
     else do {
       for_each (grantLevel E) (lv_workspaces current);
       revokeOthers E currentIdx 0 levels;
       ro1 \<leftarrow> updateRolloutStatus E ro PhaseReconciling ''LevelProgressing''
                (''Executing level ['' @ lv_names current @ '']'') ConditionUnknown;
       ret (None, ro1)
     }
   }"

definition actOnLevels :: "env \<Rightarrow> rollout \<Rightarrow> levels_outcome \<Rightarrow> (goerr option \<times> rollout) prog" where
  "actOnLevels E ro c =
     (case c of
        LevelsError err \<Rightarrow> ret (Some err, ro)
      | StepWithoutWorkspaces i name \<Rightarrow> do {
          ro1 \<leftarrow> updateRolloutStatus E (withCurrentStep (int i) ro) PhaseFailed ''NoWorkspacesFound''
                   (''No workspaces found matching selector for step '' @ name
                     @ ''; halting to prevent skipping environments'') ConditionFalse;
          ret (None, ro1)
        }
      | Levels levels \<Rightarrow>
          (case firstPending 0 levels of
             None \<Rightarrow> do {
               ro1 \<leftarrow> updateRolloutStatus E (withCurrentStep (int (length (rsp_steps (ro_spec ro)))) ro)
                        PhaseApplied ''RolloutCompleted'' ''All steps completed successfully'' ConditionTrue;
               ret (None, ro1)
             }
           | Some (idx, lvl) \<Rightarrow> progressLevel E ro levels idx lvl))"

definition orchestrate :: "env \<Rightarrow> rollout \<Rightarrow> (goerr option \<times> rollout) prog" where
  "orchestrate E ro =
     (if rsp_steps (ro_spec ro) = [] then do {
        ro1 \<leftarrow> updateRolloutStatus E ro PhaseReady ''NoSteps'' ''No steps defined in strategy'' ConditionTrue;
        ret (None, ro1)
      }
      else do {
        c \<leftarrow> computeLevels E (om_namespace (ro_meta ro)) (rsp_projectRef (ro_spec ro)) 0
               (rsp_steps (ro_spec ro)) [] {};
        actOnLevels E ro c
      })"

definition reconcileRollout :: "env \<Rightarrow> rollout \<Rightarrow> (goerr option \<times> rollout) prog" where
  "reconcileRollout E ro = do {
     r \<leftarrow> orchestrate E ro;
     reportActive E;
     ret r
   }"

definition ReconcileRollout :: "env \<Rightarrow> nsname \<Rightarrow> ctrl_result prog" where
  "ReconcileRollout E req = do {
     g \<leftarrow> getRollout E req;
     case g of
       Inl err \<Rightarrow> if isNotFound err then ret (requeue 0) else ret (failWith (Some err))
     | Inr ro \<Rightarrow>
         (if \<not> timeIsZero (om_deletionTimestamp (ro_meta ro)) then ret (requeue 0)
          else do {
            (e, ro1) \<leftarrow> reconcileRollout E ro;
            case e of
              Some err \<Rightarrow> do {
                metric ''rollout_reconcile_total'' [nn_namespace req, nn_name req, ''error''] 1;
                ro2 \<leftarrow> updateRolloutStatus E ro1 PhaseFailed ''ReconcileError'' (err_text err) ConditionFalse;
                ret (failWith (Some err))
              }
            | None \<Rightarrow> do {
                metric ''rollout_reconcile_total'' [nn_namespace req, nn_name req, ''success''] 1;
                ret (requeue 0)
              }
          })
   }"

definition findRolloutsForWorkspace :: "env \<Rightarrow> workspace \<Rightarrow> nsname list prog" where
  "findRolloutsForWorkspace E ws = do {
     l \<leftarrow> listRollouts E (Some (ws_namespace ws));
     case l of
       Inl err \<Rightarrow> ret []
     | Inr ros \<Rightarrow> ret (map (\<lambda>ro. meta_key (ro_meta ro))
         (filter (\<lambda>ro. rsp_projectRef (ro_spec ro) = wsp_projectRef (ws_spec ws)) ros))
   }"

section \<open>Levels are the maximal runs of steps with the same workspaces\<close>

definition uidsOf :: "workspace list \<Rightarrow> string set" where
  "uidsOf wss = set (map (\<lambda>ws. om_uid (ws_meta ws)) wss)"

lemma sameSet_iff: "finite a \<Longrightarrow> finite b \<Longrightarrow> sameSet a b \<longleftrightarrow> a = b"
  unfolding sameSet_def by (metis card_subset_eq subset_iff)

lemma finite_uidsOf [simp]: "finite (uidsOf wss)"
  by (simp add: uidsOf_def)

text \<open>
  The invariant of the loop over the steps, of which the first have the workspaces \<open>ts\<close>: the
  levels cover the steps in order and without gap, each step of a level has the level's set
  of workspaces, and neighbouring levels have different sets.
\<close>

definition levelSteps :: "level \<Rightarrow> nat list" where
  "levelSteps l = [lv_startIdx l ..< Suc (lv_endIdx l)]"

definition levelOf :: "workspace list list \<Rightarrow> level \<Rightarrow> bool" where
  "levelOf ts l \<longleftrightarrow> levelSteps l \<noteq> [] \<and> lv_workspaces l = ts ! lv_startIdx l
     \<and> (\<forall>i \<in> set (levelSteps l). i < length ts \<and> uidsOf (ts ! i) = lv_uids l)"

definition levelsOK :: "workspace list list \<Rightarrow> level list \<Rightarrow> bool" where
  "levelsOK ts lvls \<longleftrightarrow> concat (map levelSteps lvls) = [0 ..< length ts]
     \<and> (\<forall>l \<in> set lvls. levelOf ts l) \<and> distinct_adj (map lv_uids lvls)"

lemma levelsOK_Nil [simp]: "levelsOK [] []"
  by (simp add: levelsOK_def)

lemma levelOf_snoc: "levelOf ts l \<Longrightarrow> levelOf (ts @ [t]) l"
  by (auto simp: levelOf_def levelSteps_def nth_append split: if_splits)

lemma levelsOK_last:
  assumes "levelsOK ts lvls" "lvls \<noteq> []"
  shows "lv_endIdx (last lvls) = length ts - 1 \<and> ts \<noteq> [] \<and> lv_uids (last lvls) = uidsOf (last ts)"
proof -
  obtain ls l where ls: "lvls = ls @ [l]" using assms(2) by (metis append_butlast_last_id)
  have ok: "levelOf ts l" and c: "concat (map levelSteps ls) @ levelSteps l = [0 ..< length ts]"
    using assms(1) ls by (auto simp: levelsOK_def)
  have ne: "levelSteps l \<noteq> []" using ok by (simp add: levelOf_def)
  then have "ts \<noteq> []" using c by auto
  then have e: "last (levelSteps l) = length ts - 1" using c ne by (metis last_appendR last_upt length_greater_0_conv)
  then have "lv_endIdx l = length ts - 1" using ne by (auto simp: levelSteps_def split: if_splits)
  moreover have "uidsOf (ts ! (length ts - 1)) = lv_uids l"
    using ok e last_in_set [OF ne] by (simp add: levelOf_def)
  ultimately show ?thesis using \<open>ts \<noteq> []\<close> ls by (simp add: last_conv_nth)
qed

lemma levelsOK_addStep:
  assumes ok: "levelsOK ts lvls" and prev: "prev = (if ts = [] then {} else uidsOf (last ts))"
    and t: "t \<noteq> []"
  shows "levelsOK (ts @ [t]) (addStep (length ts) step t lvls prev)"
proof (cases "sameSet (uidsOf t) prev \<and> lvls \<noteq> []")
  case True
  then obtain ls l where ls: "lvls = ls @ [l]" by (metis append_butlast_last_id)
  have l: "lv_endIdx l = length ts - 1" "ts \<noteq> []" "lv_uids l = uidsOf (last ts)"
    using levelsOK_last [OF ok] ls by auto
  let ?l = "l\<lparr>lv_endIdx := length ts, lv_names := lv_names l @ '', '' @ rs_name step\<rparr>"
  have same: "uidsOf t = lv_uids l" using True prev l by (auto simp: sameSet_iff)
  have lo: "levelOf ts l" using ok ls by (simp add: levelsOK_def)
  then have "lv_startIdx l \<le> length ts - 1" using l by (auto simp: levelOf_def levelSteps_def split: if_splits)
  then have st: "levelSteps ?l = levelSteps l @ [length ts]"
    using l by (simp add: levelSteps_def upt_Suc_append [symmetric])
  have "levelOf (ts @ [t]) ?l"
    using levelOf_snoc [OF lo, of t] same st by (auto simp: levelOf_def)
  moreover have "addStep (length ts) step t lvls prev = ls @ [?l]"
    using True ls by (simp add: addStep_def uidsOf_def Let_def)
  ultimately show ?thesis
    using ok ls st by (auto simp: levelsOK_def levelOf_snoc simp flip: append_assoc)
next
  case False
  let ?l = "\<lparr>lv_startIdx = length ts, lv_endIdx = length ts, lv_names = rs_name step,
     lv_workspaces = t, lv_uids = uidsOf t\<rparr>"
  have add: "addStep (length ts) step t lvls prev = lvls @ [?l]"
    using False by (auto simp: addStep_def uidsOf_def)
  have "lvls \<noteq> [] \<Longrightarrow> lv_uids (last lvls) \<noteq> uidsOf t"
    using levelsOK_last [OF ok] False prev by (auto simp: sameSet_iff)
  then have "distinct_adj (map lv_uids (lvls @ [?l]))"
    using ok by (cases lvls rule: rev_cases) (auto simp: levelsOK_def distinct_adj_append_iff)
  then show ?thesis
    using ok unfolding add by (auto simp: levelsOK_def levelOf_snoc) (auto simp: levelOf_def levelSteps_def)
qed

text \<open>The loop, with the workspaces of each step as the server listed them.\<close>

lemma wp_computeLevels:
  assumes "levelsOK ts lvls" and "prev = (if ts = [] then {} else uidsOf (last ts))"
  shows "wp (computeLevels E ns pref (length ts) steps lvls prev)
    (\<lambda>r h'. \<forall>out. r = Levels out \<longrightarrow> (\<exists>us. length us = length steps \<and> [] \<notin> set us \<and> levelsOK (ts @ us) out)) h"
  using assms
proof (induction steps arbitrary: ts lvls prev h)
  case Nil
  then show ?case by (simp add: wp_simps)
next
  case (Cons step steps)
  have "wp (computeLevels E ns pref (Suc (length ts)) steps (addStep (length ts) step t lvls prev)
      (set (map (\<lambda>ws. om_uid (ws_meta ws)) t)))
    (\<lambda>r h'. \<forall>out. r = Levels out \<longrightarrow> (\<exists>us. length us = Suc (length steps) \<and> [] \<notin> set us \<and> levelsOK (ts @ us) out)) h'"
    if "t \<noteq> []" for t h'
  proof (rule wp_mono)
    show "wp (computeLevels E ns pref (Suc (length ts)) steps (addStep (length ts) step t lvls prev)
        (set (map (\<lambda>ws. om_uid (ws_meta ws)) t)))
      (\<lambda>r h'. \<forall>out. r = Levels out \<longrightarrow> (\<exists>us. length us = length steps \<and> [] \<notin> set us
         \<and> levelsOK ((ts @ [t]) @ us) out)) h'"
      using Cons.IH [of "ts @ [t]"] levelsOK_addStep [OF Cons.prems that] by (simp add: uidsOf_def)
  next
    fix r h'
    assume a: "\<forall>out. r = Levels out \<longrightarrow> (\<exists>us. length us = length steps \<and> [] \<notin> set us
         \<and> levelsOK ((ts @ [t]) @ us) out)"
    show "\<forall>out. r = Levels out \<longrightarrow> (\<exists>us. length us = Suc (length steps) \<and> [] \<notin> set us \<and> levelsOK (ts @ us) out)"
    proof (intro allI impI)
      fix out assume "r = Levels out"
      with a obtain us where "length us = length steps" "[] \<notin> set us" "levelsOK ((ts @ [t]) @ us) out" by blast
      with that show "\<exists>us. length us = Suc (length steps) \<and> [] \<notin> set us \<and> levelsOK (ts @ us) out"
        by (intro exI [of _ "t # us"]) simp
    qed
  qed
  then show ?case by (simp add: wp_simps call_defs split: sum.split)
qed

text \<open>
  The levels of a rollout. When every step has workspaces, the levels list the steps in
  order without gap or overlap, each level is a run of steps that select the same set of
  workspaces, and a new level starts exactly where the set changes.
\<close>

theorem computeLevels_correct:
  assumes "result_of (computeLevels E ns pref 0 steps [] {}) h = Levels lvls"
  shows "\<exists>ts. length ts = length steps \<and> [] \<notin> set ts
    \<and> concat (map levelSteps lvls) = [0 ..< length steps]
    \<and> (\<forall>l \<in> set lvls. lv_workspaces l = ts ! lv_startIdx l
         \<and> (\<forall>i \<in> set (levelSteps l). uidsOf (ts ! i) = lv_uids l))
    \<and> distinct_adj (map lv_uids lvls)"
  using wp_computeLevels [of "[]" "[]" "{}" E ns pref steps h] assms
  by (auto simp: wp_result levelsOK_def levelOf_def)

section \<open>Permissions follow the levels\<close>

lemma firstPending_Some:
  "firstPending li lvls = Some (idx, lvl) \<Longrightarrow>
   \<exists>k < length lvls. idx = li + k \<and> lvl = lvls ! k \<and> list_ex needsWork (lv_workspaces lvl)
     \<and> (\<forall>i < k. \<not> list_ex needsWork (lv_workspaces (lvls ! i)))"
proof (induction lvls arbitrary: li)
  case (Cons l ls)
  show ?case
  proof (cases "list_ex needsWork (lv_workspaces l)")
    case True
    with Cons.prems show ?thesis by (intro exI [of _ 0]) auto
  next
    case False
    with Cons obtain k where "k < length ls" "idx = Suc li + k" "lvl = ls ! k"
      "list_ex needsWork (lv_workspaces lvl)" "\<forall>i < k. \<not> list_ex needsWork (lv_workspaces (ls ! i))"
      by fastforce
    with False show ?thesis by (intro exI [of _ "Suc k"]) (auto simp: nth_Cons split: nat.split)
  qed
qed simp

lemma not_needsWork:
  "\<not> needsWork ws \<longleftrightarrow> workspaceFullyApplied ws \<and> mget (ws_annots ws) ReconcileRequestAnnotation = []"
  by (auto simp: needsWork_def workspaceFullyApplied_def)

lemma emits_revoke:
  assumes "\<And>c. \<not> grants c \<Longrightarrow> P c"
  shows "emits P (revokePermission E ws)" and "emits P (revokeOthers E cur li lvls)"
proof -
  show r: "emits P (revokePermission E ws)" for ws
    unfolding revokePermission_def call_defs
    by (auto intro!: emits_intros assms simp: grants_def hasPermission_def)
  show "emits P (revokeOthers E cur li lvls)"
    by (induction lvls arbitrary: li) (auto intro!: emits_intros r)
qed

lemma emits_updateRolloutStatus:
  "(\<And>c. \<not> grants c \<Longrightarrow> P c) \<Longrightarrow> emits P (updateRolloutStatus E ro ph reason message status)"
  unfolding updateRolloutStatus_def updateRolloutStatusOnce_def call_defs
  by (auto intro!: emits_intros)

lemma emits_computeLevels:
  "(\<And>c. \<not> grants c \<Longrightarrow> P c) \<Longrightarrow> emits P (computeLevels E ns pref i steps lvls prev)"
  by (induction steps arbitrary: i lvls prev) (auto simp: call_defs intro!: emits_intros)

definition levelGrant :: "env \<Rightarrow> level \<Rightarrow> call \<Rightarrow> bool" where
  "levelGrant E lvl c \<longleftrightarrow> (grants c \<longrightarrow> (\<exists>ws \<in> set (lv_workspaces lvl). needsWork ws \<and> \<not> hasPermission ws
     \<and> grantTo E ws c) \<and> \<not> list_ex hasFailed (lv_workspaces lvl))"

lemma emits_progressLevel: "emits (levelGrant E lvl) (progressLevel E ro lvls idx lvl)"
proof -
  have other: "\<not> grants c \<Longrightarrow> levelGrant E lvl c" for c by (simp add: levelGrant_def)
  have "emits (levelGrant E lvl) (grantLevel E ws)"
    if "\<not> list_ex hasFailed (lv_workspaces lvl)" "ws \<in> set (lv_workspaces lvl)" for ws
    unfolding grantLevel_def using that
    by (auto intro!: emits_intros emits_setPermission [OF other] simp: levelGrant_def)
  then show ?thesis
    unfolding progressLevel_def metric_def
    by (auto intro!: emits_intros emits_updateRolloutStatus emits_revoke other)
qed


text \<open>
  C4. Environments are never entered out of order. Whenever a reconcile of a rollout grants a
  workspace the permission to execute, the levels computed in that reconcile have a level
  that contains it, every workspace of every earlier level was listed as fully applied
  (Applied or Rejected, with no newer revision and no manual request waiting), and no workspace
  of the level itself has failed.
\<close>

theorem rollout_grants_in_order:
  assumes "C_UpdateWorkspace w \<in> set (calls_of (ReconcileRollout E req) h)" and "hasPermission w"
  shows "\<exists>ro lvls k. ev_getRollout E h req = Inr ro
    \<and> result_of (computeLevels E (om_namespace (ro_meta ro)) (rsp_projectRef (ro_spec ro)) 0
         (rsp_steps (ro_spec ro)) [] {}) (h @ [C_GetRollout req]) = Levels lvls
    \<and> k < length lvls
    \<and> (\<exists>ws \<in> set (lv_workspaces (lvls ! k)). grantTo E ws (C_UpdateWorkspace w))
    \<and> (\<forall>ws \<in> set (lv_workspaces (lvls ! k)). \<not> hasFailed ws)
    \<and> (\<forall>i < k. \<forall>ws \<in> set (lv_workspaces (lvls ! i)).
         workspaceFullyApplied ws \<and> mget (ws_annots ws) ReconcileRequestAnnotation = [])"
proof (cases "ev_getRollout E h req")
  case (Inl err)
  with assms(1) have "C_UpdateWorkspace w = C_GetRollout req \<or> False"
    unfolding ReconcileRollout_def getRollout_def by (elim first_call) (auto intro!: emits_intros)
  then show ?thesis by simp
next
  case (Inr ro)
  let ?m = "computeLevels E (om_namespace (ro_meta ro)) (rsp_projectRef (ro_spec ro)) 0
         (rsp_steps (ro_spec ro)) [] {}"
  define P where "P c \<longleftrightarrow> (grants c \<longrightarrow> (\<exists>lvls k. result_of ?m (h @ [C_GetRollout req]) = Levels lvls
    \<and> firstPending 0 lvls = Some (k, lvls ! k) \<and> levelGrant E (lvls ! k) c))" for c
  have other: "\<not> grants c \<Longrightarrow> P c" for c by (simp add: P_def)
  note quiet = emits_updateRolloutStatus [of P, OF other]
  have level: "emits P (progressLevel E ro lvls idx lvl)"
    if "result_of ?m (h @ [C_GetRollout req]) = Levels lvls" "firstPending 0 lvls = Some (idx, lvl)" for lvls idx lvl
    using that firstPending_Some [OF that(2)]
    by (intro emits_mono [OF emits_progressLevel]) (auto simp: P_def)
  have "emitsAt P (orchestrate E ro) (h @ [C_GetRollout req])"
  proof (cases "rsp_steps (ro_spec ro) = []")
    case True
    then show ?thesis
      unfolding orchestrate_def by (auto intro!: emitsAt_emits emits_intros quiet)
  next
    case False
    have "emits P (actOnLevels E ro (result_of ?m (h @ [C_GetRollout req])))"
      unfolding actOnLevels_def
      by (auto intro!: emits_intros quiet level split: levels_outcome.split)
    then show ?thesis
      unfolding orchestrate_def using False
      by (auto intro!: emitsAt_bind emitsAt_emits [OF emits_computeLevels] other intro: emitsAt_emits)
  qed
  then have rec: "emitsAt P (reconcileRollout E ro) (h @ [C_GetRollout req])"
    unfolding reconcileRollout_def
    by (rule emitsAt_bind) (auto simp: reportActive_def call_defs intro!: emitsAt_emits emits_intros other)
  have "C_UpdateWorkspace w = C_GetRollout req \<or> P (C_UpdateWorkspace w)"
  proof (cases "timeIsZero (om_deletionTimestamp (ro_meta ro))")
    case True
    show ?thesis
      using assms(1) Inr True unfolding ReconcileRollout_def getRollout_def
      by (elim first_call_at, simp)
        (rule emitsAt_bind [OF rec], auto intro!: emitsAt_emits emits_intros quiet other simp: metric_def)
  next
    case False
    then show ?thesis
      using assms(1) Inr unfolding ReconcileRollout_def getRollout_def
      by (elim first_call_at) (auto intro!: emitsAt_emits emits_intros)
  qed
  then obtain lvls k where r: "result_of ?m (h @ [C_GetRollout req]) = Levels lvls"
    and f: "firstPending 0 lvls = Some (k, lvls ! k)" and g: "levelGrant E (lvls ! k) (C_UpdateWorkspace w)"
    using assms(2) by (auto simp: P_def grants_def)
  have k: "k < length lvls" "\<forall>i < k. \<forall>ws \<in> set (lv_workspaces (lvls ! i)). \<not> needsWork ws"
    using firstPending_Some [OF f] by (auto simp: list_ex_iff)
  have "(\<exists>ws \<in> set (lv_workspaces (lvls ! k)). grantTo E ws (C_UpdateWorkspace w))"
    "\<forall>ws \<in> set (lv_workspaces (lvls ! k)). \<not> hasFailed ws"
    using g assms(2) by (auto simp: levelGrant_def grants_def list_ex_iff)
  with Inr r k show ?thesis by (auto simp: not_needsWork)
qed

definition revokesFrom :: "env \<Rightarrow> workspace \<Rightarrow> call \<Rightarrow> bool" where
  "revokesFrom E ws c \<longleftrightarrow> (\<exists>h latest. ev_getWorkspace E h (ws_key ws) = Inr latest
     \<and> c = C_UpdateWorkspace (set_annots ((ws_annots latest)(ExecutionAllowedAnnotation := None)) latest))"

lemma emits_rolloutOps [intro]:
  "emits (\<lambda>c. True) (revokePermission E y)" "emits (\<lambda>c. True) (revokeOthers E cur li lvls)"
  "emits (\<lambda>c. True) (updateRolloutStatus E ro ph reason message status)"
  "emits (\<lambda>c. True) (computeLevels E ns pref i steps lvls prev)"
  "emits (\<lambda>c. True) (grantLevel E ws)" "emits (\<lambda>c. True) (reportActive E)"
  by (auto intro!: emits_revoke emits_updateRolloutStatus emits_computeLevels emits_setPermission emits_intros
      simp: grantLevel_def reportActive_def call_defs)

lemma reaches_revokePermission:
  assumes "hasPermission ws" and "\<And>h. \<exists>latest. ev_getWorkspace E h (ws_key ws) = Inr latest"
  shows "reaches (revokesFrom E ws) (revokePermission E ws)"
  unfolding revokePermission_def using assms
  by (auto intro!: reaches_editFresh) (auto simp: revokesFrom_def)

lemma reaches_revokeOthers:
  assumes "reaches Q (for_each (revokePermission E) (lv_workspaces (lvls ! i)))" and "i < length lvls"
    and "li + i \<noteq> cur"
  shows "reaches Q (revokeOthers E cur li lvls)"
  using assms
proof (induction lvls arbitrary: i li)
  case (Cons l ls)
  show ?case
  proof (cases i)
    case 0
    with Cons.prems show ?thesis by (auto intro!: reaches_first)
  next
    case (Suc j)
    with Cons have "reaches Q (revokeOthers E cur (Suc li) ls)" by simp
    then show ?thesis by (auto intro!: reaches_after emits_intros)
  qed
qed simp

text \<open>
  Only the current level holds permissions. When a rollout works on level \<open>k\<close> and no
  workspace of that level has failed, the reconcile takes the permission away from every
  workspace that was listed with it in any other level. A workspace that is listed both in
  level \<open>k\<close> and in another level is no exception.
\<close>

theorem rollout_revokes_other_levels:
  assumes "ev_getRollout E h req = Inr ro" and "timeIsZero (om_deletionTimestamp (ro_meta ro))"
    and "rsp_steps (ro_spec ro) \<noteq> []"
    and "result_of (computeLevels E (om_namespace (ro_meta ro)) (rsp_projectRef (ro_spec ro)) 0
           (rsp_steps (ro_spec ro)) [] {}) (h @ [C_GetRollout req]) = Levels lvls"
    and "firstPending 0 lvls = Some (k, lvl)" and "\<not> list_ex hasFailed (lv_workspaces lvl)"
    and "i < length lvls" and "i \<noteq> k" and "ws \<in> set (lv_workspaces (lvls ! i))" and "hasPermission ws"
    and "\<And>h'. \<exists>latest. ev_getWorkspace E h' (ws_key ws) = Inr latest"
  shows "list_ex (revokesFrom E ws) (calls_of (ReconcileRollout E req) h)"
proof -
  have "reaches (revokesFrom E ws) (revokeOthers E k 0 lvls)"
    using assms(7-9) reaches_revokePermission [OF assms(10,11)]
    by (intro reaches_revokeOthers [where i = i] reaches_for_each [where x = ws]) auto
  then have "reaches (revokesFrom E ws) (do { for_each (grantLevel E) x; revokeOthers E k 0 lvls;
      ro1 \<leftarrow> updateRolloutStatus E r ph a b c; ret (None, ro1) })" for x r ph a b c
    by (intro reaches_after reaches_first) (auto intro!: emits_intros)
  then have "reaches (revokesFrom E ws) (progressLevel E ro lvls k lvl)"
    unfolding progressLevel_def metric_def Let_def using assms(6)
    by (intro reaches_after) (auto intro!: emits_intros)
  then have act: "reaches (revokesFrom E ws) (actOnLevels E ro (Levels lvls))"
    using assms(5) by (simp add: actOnLevels_def)
  have "reachesAt (revokesFrom E ws) (orchestrate E ro) (h @ [C_GetRollout req])"
    unfolding orchestrate_def using assms(3,4) reachesAt_reaches [OF act]
    by (auto intro!: reachesAt_then)
  then have "reachesAt (revokesFrom E ws) (reconcileRollout E ro) (h @ [C_GetRollout req])"
    unfolding reconcileRollout_def by (intro reachesAt_first) (auto intro!: emits_intros)
  then show ?thesis
    unfolding ReconcileRollout_def getRollout_def
    using assms(1,2)
    by (intro reachesAt_calls_of reachesAt_perform)
      (auto intro!: reachesAt_first emits_intros simp: metric_def)
qed

definition prodWorkspace :: workspace where
  "prodWorkspace = withAnnot ExecutionAllowedAnnotation AnnotationValueTrue
     (sampleWorkspace\<lparr>ws_meta := sampleMeta ''prod''\<rparr>)"

definition sampleRollout :: rollout where
  "sampleRollout = \<lparr>ro_meta = sampleMeta ''platform'',
     ro_spec = \<lparr>rsp_projectRef = ''platform'',
       rsp_steps = map (\<lambda>n. \<lparr>rs_name = n, rs_selector = \<lparr>ls_matchLabels = [], ls_matchExpressions = []\<rparr>\<rparr>)
         [''dev'', ''test'', ''prod'']\<rparr>,
     ro_status = \<lparr>rst_phase = PhaseEmpty, rst_currentStep = 0, rst_reason = [], rst_message = [],
       rst_lastReconcileTime = None, rst_conditions = []\<rparr>\<rparr>"

text \<open>The first two steps of the sample select one workspace, the third another one.\<close>

definition rolloutEnv :: env where
  "rolloutEnv = sampleEnv\<lparr>
     ev_getRollout := (\<lambda>h k. if h = [] then Inr sampleRollout else Inl (ENotFound ''rollout'')),
     ev_getWorkspace := (\<lambda>h k. Inr sampleWorkspace),
     ev_listWorkspaces := (\<lambda>h ns sel pref. Inr [if length h < 3 then sampleWorkspace else prodWorkspace])\<rparr>"

definition sampleLevels :: "level list" where
  "sampleLevels =
     [\<lparr>lv_startIdx = 0, lv_endIdx = 1, lv_names = ''dev, test'', lv_workspaces = [sampleWorkspace],
       lv_uids = {''ws-uid''}\<rparr>,
      \<lparr>lv_startIdx = 2, lv_endIdx = 2, lv_names = ''prod'', lv_workspaces = [prodWorkspace],
       lv_uids = {''prod-uid''}\<rparr>]"

lemma rolloutEnv_simps [simp]:
  "ev_getRollout rolloutEnv = (\<lambda>h k. if h = [] then Inr sampleRollout else Inl (ENotFound ''rollout''))"
  "ev_getWorkspace rolloutEnv = (\<lambda>h k. Inr sampleWorkspace)"
  "ev_listWorkspaces rolloutEnv = (\<lambda>h ns sel pref. Inr [if length h < 3 then sampleWorkspace else prodWorkspace])"
  "ev_listRollouts rolloutEnv = (\<lambda>h ns. Inr [])" "retrySteps rolloutEnv = 5"
  "labelSelectorAsSelector rolloutEnv = (\<lambda>s. Inr [])"
  by (simp_all add: rolloutEnv_def)

lemma rolloutSample [simp]:
  "needsWork sampleWorkspace" "\<not> hasFailed sampleWorkspace" "hasPermission prodWorkspace"
  "om_uid (ws_meta sampleWorkspace) = ''ws-uid''" "om_uid (ws_meta prodWorkspace) = ''prod-uid''"
  by (simp_all add: needsWork_def hasFailed_def hasPermission_def prodWorkspace_def sample_defs)

lemma sampleRollout_levels:
  "result_of (computeLevels rolloutEnv (om_namespace (ro_meta sampleRollout)) (rsp_projectRef (ro_spec sampleRollout))
     0 (rsp_steps (ro_spec sampleRollout)) [] {}) [C_GetRollout projectRequest] = Levels sampleLevels"
  by (rule result_ofI)
    (simp add: sampleRollout_def wp_simps call_defs addStep_def sameSet_def sampleLevels_def)

lemma sampleLevels_pending: "firstPending 0 sampleLevels = Some (0, hd sampleLevels)"
  by (simp add: sampleLevels_def)

theorem computeLevels_correct_witness:
  "concat (map levelSteps sampleLevels) = [0, 1, 2] \<and> distinct_adj (map lv_uids sampleLevels)"
  using computeLevels_correct [OF sampleRollout_levels] by (auto simp: sampleRollout_def upt_rec numeral_2_eq_2)

theorem rollout_revokes_other_levels_witness:
  "list_ex (revokesFrom rolloutEnv prodWorkspace) (calls_of (ReconcileRollout rolloutEnv projectRequest) [])"
  by (rule rollout_revokes_other_levels [where ro = sampleRollout and lvls = sampleLevels and k = 0
        and lvl = "hd sampleLevels" and i = 1])
    (use sampleRollout_levels sampleLevels_pending in
      \<open>simp_all add: sampleLevels_def, simp_all add: sampleRollout_def sampleMeta_def timeIsZero_def\<close>)

lemma rolloutEnv_grants:
  "\<exists>w. C_UpdateWorkspace w \<in> set (calls_of (ReconcileRollout rolloutEnv projectRequest) []) \<and> hasPermission w"
proof -
  have "list_ex (grantTo rolloutEnv sampleWorkspace) (calls_of (ReconcileRollout rolloutEnv projectRequest) [])"
    by (rule calls_of_start)
      (simp add: ReconcileRollout_def reconcileRollout_def orchestrate_def actOnLevels_def progressLevel_def
        grantLevel_def updateRolloutStatus_def updateRolloutStatusOnce_def retryOnConflict_numeral reportActive_def
        revokePermission_def withCurrentStep_def addStep_def sameSet_def
        setPermission_def call_defs wp_simps Let_def sampleRollout_def sampleMeta_def timeIsZero_def grantTo_def)
  then show ?thesis by (fastforce simp: list_ex_iff grantTo_def hasPermission_def)
qed

theorem rollout_grants_in_order_witness:
  "\<exists>w ro lvls k. C_UpdateWorkspace w \<in> set (calls_of (ReconcileRollout rolloutEnv projectRequest) []) \<and> hasPermission w
     \<and> ev_getRollout rolloutEnv [] projectRequest = Inr ro \<and> k < length (lvls :: level list)"
proof -
  obtain w where "C_UpdateWorkspace w \<in> set (calls_of (ReconcileRollout rolloutEnv projectRequest) [])"
    "hasPermission w" using rolloutEnv_grants by blast
  with rollout_grants_in_order [OF this] show ?thesis by blast
qed

definition stampRollout :: "condition list \<Rightarrow> time \<Rightarrow> rollout_status \<Rightarrow> rollout_status" where
  "stampRollout cs t st = st\<lparr>rst_conditions := cs, rst_lastReconcileTime := Some t\<rparr>"

definition mergeRollout :: "phase \<times> string \<times> string \<times> int \<Rightarrow> rollout_status \<Rightarrow> rollout_status \<times> bool" where
  "mergeRollout = (\<lambda>(ph, reason, message, step). rolloutMerge ph reason message step)"

definition settledRollout :: "phase \<times> string \<times> string \<times> int \<Rightarrow> rollout_status \<Rightarrow> bool" where
  "settledRollout d st \<longleftrightarrow> d = (rst_phase st, rst_reason st, rst_message st, rst_currentStep st)"

interpretation rollout_status:
  published_status "\<lambda>d. True" settledRollout mergeRollout rst_conditions stampRollout
  by unfold_locales (auto simp: mergeRollout_def rolloutMerge_def stampRollout_def settledRollout_def)

lemma updateRolloutStatus_writes:
  "emits (\<lambda>c. \<forall>w. c = C_StatusUpdateRollout w \<longrightarrow> (\<exists>st t. ro_status w =
      fst (publish E (mergeRollout (ph, reason, message, rst_currentStep (ro_status ro)))
             rst_conditions stampRollout (readyCondition status reason message) t st)))
     (updateRolloutStatus E ro ph reason message status)"
proof -
  have once: "emits (\<lambda>c. \<forall>w. c = C_StatusUpdateRollout w \<longrightarrow> (\<exists>st t. ro_status w =
      fst (publish E (mergeRollout (ph, reason, message, rst_currentStep (ro_status ro)))
             rst_conditions stampRollout (readyCondition status reason message) t st)))
     (updateRolloutStatusOnce E ph reason message status ro)"
    unfolding updateRolloutStatusOnce_def call_defs Let_def
    by (auto intro!: emits_intros simp: publish_fst mergeRollout_def stampRollout_def case_prod_beta) blast+
  have "wp (updateRolloutStatusOnce E ph reason message status ro) (\<lambda>(e, s') h'. e \<noteq> None \<longrightarrow> s' = ro) h" for h
    unfolding updateRolloutStatusOnce_def call_defs
    by (auto simp: wp_simps Let_def split: sum.split prod.split)
  then show ?thesis
    unfolding updateRolloutStatus_def
    by (intro emits_bind emits_retryUnchanged once) (auto intro!: emits_intros)
qed

lemma updateRolloutStatus_quiet:
  assumes "ev_getRollout E h (meta_key (ro_meta ro)) = Inr latest" and "retrySteps E \<noteq> 0"
    and "\<And>t. \<not> snd (publish E (mergeRollout (ph, reason, message, rst_currentStep (ro_status ro)))
          rst_conditions stampRollout (readyCondition status reason message) t (ro_status latest))"
  shows "calls_of (updateRolloutStatus E ro ph reason message status) h = [C_GetRollout (meta_key (ro_meta ro)), C_Now]"
proof -
  obtain n where n: "retrySteps E = Suc n" using assms(2) by (cases "retrySteps E") auto
  show ?thesis
    by (rule calls_ofI)
      (use assms in \<open>auto simp: updateRolloutStatus_def updateRolloutStatusOnce_def n call_defs wp_simps Let_def
         publish_snd mergeRollout_def case_prod_beta\<close>)
qed

text \<open>
  The rollout controller does not trigger itself: after a status write, another write of
  the same phase, reason, message, step and Ready status to an object that still has the
  written status updates nothing.
\<close>

theorem rollout_status_settles:
  assumes "conditionStable E" and "retrySteps E \<noteq> 0"
    and "C_StatusUpdateRollout w \<in> set (calls_of (updateRolloutStatus E ro ph reason message status) h)"
    and "ev_getRollout E h' (meta_key (ro_meta ro')) = Inr latest" and "ro_status latest = ro_status w"
    and "rst_currentStep (ro_status ro') = rst_currentStep (ro_status ro)"
  shows "calls_of (updateRolloutStatus E ro' ph reason message status) h'
    = [C_GetRollout (meta_key (ro_meta ro')), C_Now]"
  using emits_call [OF updateRolloutStatus_writes assms(3)] assms(5,6)
  by (intro updateRolloutStatus_quiet [OF assms(4,2)])
    (auto simp: rollout_status.publish_again [OF assms(1)])

theorem rollout_status_settles_witness:
  "\<exists>w. C_StatusUpdateRollout w \<in> set (calls_of (updateRolloutStatus
        (stableEnv\<lparr>ev_getRollout := (\<lambda>h k. if h = [] then Inr sampleRollout else Inr w)\<rparr>)
        sampleRollout PhaseReady ''r'' ''m'' ConditionTrue) [])
     \<and> calls_of (updateRolloutStatus (stableEnv\<lparr>ev_getRollout := (\<lambda>h k. if h = [] then Inr sampleRollout else Inr w)\<rparr>)
        sampleRollout PhaseReady ''r'' ''m'' ConditionTrue) [C_Now]
     = [C_GetRollout (meta_key (ro_meta sampleRollout)), C_Now]"
proof -
  define w where "w = sampleRollout\<lparr>ro_status := \<lparr>rst_phase = PhaseReady, rst_currentStep = 0, rst_reason = ''r'',
     rst_message = ''m'', rst_lastReconcileTime = Some 1000000000000,
     rst_conditions = [readyCondition ConditionTrue ''r'' ''m'' 1000000000000]\<rparr>\<rparr>"
  let ?E = "stableEnv\<lparr>ev_getRollout := (\<lambda>h k. if h = [] then Inr sampleRollout else Inr w)\<rparr>"
  have s: "conditionStable ?E" "retrySteps ?E \<noteq> 0"
    by (rule conditionStable_sample) (simp_all add: stableEnv_def)
  have "C_StatusUpdateRollout w \<in> set (calls_of (updateRolloutStatus ?E sampleRollout PhaseReady ''r'' ''m''
      ConditionTrue) [])"
    by (rule calls_of_start) (simp add: updateRolloutStatus_def updateRolloutStatusOnce_def call_defs wp_simps Let_def
        rolloutMerge_def stableEnv_def sampleSetCondition_def sampleRollout_def w_def retryOnConflict_numeral)
  with rollout_status_settles [OF s this, of "[C_Now]" sampleRollout w] show ?thesis by (intro exI [of _ w]) simp
qed

end
