(* ===== verification/Var_Controller.thy ===== *)
theory Var_Controller
  imports Var_Resolver WS_Status
begin

text \<open>
  The variable set controller, \<open>src/internal/controller/variableset/variableset_controller.go\<close>:
  it resolves a set and publishes the outcome in its status. Removing a gauge is logged as a
  metric call with the prefix \<open>delete\<close>.
\<close>

definition variableSetMerge ::
    "phase \<Rightarrow> string \<Rightarrow> string \<Rightarrow> int \<Rightarrow> unresolved_reference list \<Rightarrow> int \<Rightarrow> variable_set_status \<Rightarrow>
     variable_set_status \<times> bool" where
  "variableSetMerge ph reason message generation unresolved resolved st0 =
     (let (st1, u1) =
            (if vst_phase st0 \<noteq> ph \<or> vst_reason st0 \<noteq> reason \<or> vst_message st0 \<noteq> message
             then (st0\<lparr>vst_phase := ph, vst_reason := reason, vst_message := message\<rparr>, True)
             else (st0, False));
          (st2, u2) =
            (if vst_observedGeneration st1 \<noteq> generation
             then (st1\<lparr>vst_observedGeneration := generation\<rparr>, True) else (st1, u1));
          (st3, u3) =
            (if vst_resolvedVariables st2 \<noteq> resolved
             then (st2\<lparr>vst_resolvedVariables := resolved\<rparr>, True) else (st2, u2))
      in if vst_unresolvedReferences st3 \<noteq> unresolved
         then (st3\<lparr>vst_unresolvedReferences := unresolved\<rparr>, True) else (st3, u3))"

definition updateVariableSetStatus ::
    "env \<Rightarrow> variable_set \<Rightarrow> phase \<Rightarrow> string \<Rightarrow> string \<Rightarrow> cond_status \<Rightarrow>
     unresolved_reference list \<Rightarrow> int \<Rightarrow> variable_set prog" where
  "updateVariableSetStatus E vs ph reason message status unresolved resolved = do {
     r \<leftarrow> getVariableSet E (meta_key (vs_meta vs));
     case r of
       Inl err \<Rightarrow> ret vs
     | Inr latest \<Rightarrow> do {
         let (st, upd) = variableSetMerge ph reason message (om_generation (vs_meta vs)) unresolved
               resolved (vs_status latest);
         t \<leftarrow> now E;
         let (conds, condChanged) =
               setStatusCondition E (vst_conditions st) (readyCondition status reason message t);
         if \<not> upd \<and> \<not> condChanged then ret vs
         else do {
           u \<leftarrow> statusUpdateVariableSet E (latest\<lparr>vs_status :=
                  st\<lparr>vst_conditions := conds, vst_lastReconcileTime := Some t\<rparr>\<rparr>);
           case u of
             Inl err \<Rightarrow> ret vs
           | Inr written \<Rightarrow> ret (vs\<lparr>vs_status := vs_status written,
               vs_meta := (vs_meta vs)\<lparr>om_resourceVersion := om_resourceVersion (vs_meta written)\<rparr>\<rparr>)
         }
       }
   }"

definition countResolved :: "resolved_variable list \<Rightarrow> int" where
  "countResolved vars = int (length (filter (\<lambda>v.
     rv_inline v \<noteq> None \<or> rv_secretRef v \<noteq> None \<or> rv_configMapRef v \<noteq> None) vars))"

definition setOutcome :: "resolution_result \<Rightarrow> phase \<times> string \<times> string \<times> cond_status" where
  "setOutcome res =
     (if rr_unresolved res \<noteq> []
      then (PhaseFailed, ''UnresolvedReferences'',
            natString (length (rr_unresolved res)) @ '' variable reference(s) could not be resolved'',
            ConditionFalse)
      else (PhaseReady, ''AllReferencesResolved'', ''All variable references are resolved'', ConditionTrue))"

definition reconcileVariableSet :: "env \<Rightarrow> variable_set \<Rightarrow> (goerr option \<times> variable_set) prog" where
  "reconcileVariableSet E vs = do {
     r \<leftarrow> Resolve E vs;
     case r of
       Inl err \<Rightarrow> ret (Some (EWrap ''resolve variableset'' err), vs)
     | Inr res \<Rightarrow>
         (case setOutcome res of (ph, reason, message, status) \<Rightarrow> do {
            vs1 \<leftarrow> updateVariableSetStatus E vs ph reason message status (rr_unresolved res)
                     (countResolved (rr_variables res));
            metric ''variableset_unresolved_references''
              [om_namespace (vs_meta vs1), om_name (vs_meta vs1)] (int (length (rr_unresolved res)));
            ret (None, vs1)
          })
   }"

definition handleVariableSetDeletion :: "env \<Rightarrow> variable_set \<Rightarrow> bool result prog" where
  "handleVariableSetDeletion E vs = do {
     vs1 \<leftarrow> updateVariableSetStatus E vs PhaseDeleting ''Deleting'' ''VariableSet is being deleted''
              ConditionFalse [] 0;
     r \<leftarrow> (if containsFinalizer E (vs_meta vs1) FinalizerName then do {
         u \<leftarrow> updateVariableSet E (vs1\<lparr>vs_meta := removeFinalizer E (vs_meta vs1) FinalizerName\<rparr>);
         ret (case u of Inl err \<Rightarrow> Inl err | Inr w \<Rightarrow> Inr ())
       } else ret (Inr ()));
     case r of
       Inl err \<Rightarrow> ret (Inl err)
     | Inr u \<Rightarrow> do {
         metric ''delete variableset_unresolved_references''
           [om_namespace (vs_meta vs1), om_name (vs_meta vs1)] 0;
         ret (Inr True)
       }
   }"

definition ReconcileVariableSet :: "env \<Rightarrow> nsname \<Rightarrow> ctrl_result prog" where
  "ReconcileVariableSet E req = do {
     g \<leftarrow> getVariableSet E req;
     case g of
       Inl err \<Rightarrow>
         (if isNotFound err then do {
            metric ''delete variableset_unresolved_references'' [nn_namespace req, nn_name req] 0;
            ret (requeue 0)
          } else ret (failWith (Some err)))
     | Inr vs \<Rightarrow>
         (case addFinalizer E (vs_meta vs) FinalizerName of (m, added) \<Rightarrow>
            if added then do {
              u \<leftarrow> updateVariableSet E (vs\<lparr>vs_meta := m\<rparr>);
              case u of Inl err \<Rightarrow> ret (failWith (Some err)) | Inr w \<Rightarrow> ret (requeue 0)
            }
            else if \<not> timeIsZero (om_deletionTimestamp (vs_meta vs)) then do {
              f \<leftarrow> handleVariableSetDeletion E vs;
              case f of
                Inl err \<Rightarrow> ret (failWith (Some err))
              | Inr finished \<Rightarrow> ret (requeue (if finished then 0 else 10000000000))
            }
            else do {
              (e, vs1) \<leftarrow> reconcileVariableSet E vs;
              case e of
                Some err \<Rightarrow> do {
                  metric ''variableset_reconcile_total'' [nn_namespace req, nn_name req, ''error''] 1;
                  vs2 \<leftarrow> updateVariableSetStatus E vs1 PhaseFailed ''ReconcileError'' (err_text err)
                           ConditionFalse [] 0;
                  ret (failWith (Some err))
                }
              | None \<Rightarrow> do {
                  metric ''variableset_reconcile_total'' [nn_namespace req, nn_name req, ''success''] 1;
                  ret (requeue 0)
                }
            })
   }"

section \<open>Watches\<close>

definition variableReferences :: "string \<Rightarrow> string \<Rightarrow> variable \<Rightarrow> bool" where
  "variableReferences name kind v =
     (case va_valueFrom v of
        None \<Rightarrow> False
      | Some src \<Rightarrow>
          (if kind = VariableSourceKindSecret then
             (case vsrc_secretKeyRef src of None \<Rightarrow> False | Some s \<Rightarrow> ks_name s = name)
           else if kind = VariableSourceKindConfigMap then
             (case vsrc_configMapKeyRef src of None \<Rightarrow> False | Some s \<Rightarrow> ks_name s = name)
           else False))"

definition variableSetReferences :: "variable_set \<Rightarrow> string \<Rightarrow> string \<Rightarrow> bool" where
  "variableSetReferences vs name kind = list_ex (variableReferences name kind) (vs_variables vs)"

definition findVariableSetsReferencing :: "env \<Rightarrow> string \<Rightarrow> string \<Rightarrow> string \<Rightarrow> nsname list prog" where
  "findVariableSetsReferencing E ns name kind = do {
     l \<leftarrow> listVariableSets E ns;
     case l of
       Inl err \<Rightarrow> ret []
     | Inr sets \<Rightarrow> ret (map (\<lambda>vs. meta_key (vs_meta vs))
         (filter (\<lambda>vs. variableSetReferences vs name kind) sets))
   }"

definition findVariableSetsForSecret :: "env \<Rightarrow> secret \<Rightarrow> nsname list prog" where
  "findVariableSetsForSecret E s =
     findVariableSetsReferencing E (om_namespace (se_meta s)) (om_name (se_meta s)) VariableSourceKindSecret"

definition findVariableSetsForConfigMap :: "env \<Rightarrow> config_map \<Rightarrow> nsname list prog" where
  "findVariableSetsForConfigMap E cm =
     findVariableSetsReferencing E (om_namespace (cm_meta cm)) (om_name (cm_meta cm)) VariableSourceKindConfigMap"

text \<open>The merge as a status publication.\<close>

definition stampVariableSet :: "condition list \<Rightarrow> time \<Rightarrow> variable_set_status \<Rightarrow> variable_set_status" where
  "stampVariableSet cs t st = st\<lparr>vst_conditions := cs, vst_lastReconcileTime := Some t\<rparr>"

type_synonym set_values = "phase \<times> string \<times> string \<times> int \<times> unresolved_reference list \<times> int"

definition mergeVariableSet :: "set_values \<Rightarrow> variable_set_status \<Rightarrow> variable_set_status \<times> bool" where
  "mergeVariableSet = (\<lambda>(ph, reason, message, generation, unresolved, resolved).
     variableSetMerge ph reason message generation unresolved resolved)"

definition settledVariableSet :: "set_values \<Rightarrow> variable_set_status \<Rightarrow> bool" where
  "settledVariableSet d st \<longleftrightarrow> d = (vst_phase st, vst_reason st, vst_message st,
     vst_observedGeneration st, vst_unresolvedReferences st, vst_resolvedVariables st)"

interpretation variable_set_status:
  published_status "\<lambda>d. True" settledVariableSet mergeVariableSet vst_conditions stampVariableSet
  by unfold_locales
    (auto simp: mergeVariableSet_def variableSetMerge_def stampVariableSet_def settledVariableSet_def)

lemma updateVariableSetStatus_writes:
  "emits (\<lambda>c. \<forall>w. c = C_StatusUpdateVariableSet w \<longrightarrow> (\<exists>st t. vs_status w =
      fst (publish E (mergeVariableSet (ph, reason, message, om_generation (vs_meta vs), unresolved, resolved))
             vst_conditions stampVariableSet (readyCondition status reason message) t st)))
     (updateVariableSetStatus E vs ph reason message status unresolved resolved)"
  unfolding updateVariableSetStatus_def call_defs Let_def
  by (auto intro!: emits_intros simp: publish_fst mergeVariableSet_def stampVariableSet_def case_prod_beta) blast+

lemma updateVariableSetStatus_quiet:
  assumes "ev_getVariableSet E h (meta_key (vs_meta vs)) = Inr latest"
    and "\<And>t. \<not> snd (publish E (mergeVariableSet (ph, reason, message, om_generation (vs_meta vs), unresolved,
           resolved)) vst_conditions stampVariableSet (readyCondition status reason message) t (vs_status latest))"
  shows "calls_of (updateVariableSetStatus E vs ph reason message status unresolved resolved) h
    = [C_GetVariableSet (meta_key (vs_meta vs)), C_Now]"
  by (rule calls_ofI)
    (use assms in \<open>auto simp: updateVariableSetStatus_def call_defs wp_simps Let_def publish_snd
       mergeVariableSet_def case_prod_beta\<close>)

text \<open>
  The status of a variable set is a function of its resolution only: after a write, writing
  the outcome of a resolution with the same phase, reason, message, unresolved references and
  number of resolved variables updates nothing, as long as the generation and the stored
  status are the same. In particular a Secret whose value is rotated, all its keys kept,
  leaves no trace in the variable set.
\<close>

theorem variable_set_status_settles:
  assumes "conditionStable E"
    and "C_StatusUpdateVariableSet w \<in>
      set (calls_of (updateVariableSetStatus E vs ph reason message status unresolved resolved) h)"
    and "ev_getVariableSet E h' (meta_key (vs_meta vs')) = Inr latest" and "vs_status latest = vs_status w"
    and "om_generation (vs_meta vs') = om_generation (vs_meta vs)"
  shows "calls_of (updateVariableSetStatus E vs' ph reason message status unresolved resolved) h'
    = [C_GetVariableSet (meta_key (vs_meta vs')), C_Now]"
  using emits_call [OF updateVariableSetStatus_writes assms(2)] assms(4,5)
  by (intro updateVariableSetStatus_quiet [OF assms(3)])
    (auto simp: variable_set_status.publish_again [OF assms(1)])

theorem variable_set_status_settles_witness:
  "\<exists>w. C_StatusUpdateVariableSet w \<in> set (calls_of (updateVariableSetStatus
        (stableEnv\<lparr>ev_getVariableSet := (\<lambda>h k. if h = [] then Inr sampleVariableSet else Inr w)\<rparr>)
        sampleVariableSet PhaseReady ''r'' ''m'' ConditionTrue [] 1) [])
     \<and> calls_of (updateVariableSetStatus
        (stableEnv\<lparr>ev_getVariableSet := (\<lambda>h k. if h = [] then Inr sampleVariableSet else Inr w)\<rparr>)
        sampleVariableSet PhaseReady ''r'' ''m'' ConditionTrue [] 1) [C_Now]
     = [C_GetVariableSet (meta_key (vs_meta sampleVariableSet)), C_Now]"
proof -
  define w where "w = sampleVariableSet\<lparr>vs_status := \<lparr>vst_phase = PhaseReady, vst_reason = ''r'',
     vst_message = ''m'', vst_observedGeneration = 1, vst_resolvedVariables = 1, vst_unresolvedReferences = [],
     vst_lastReconcileTime = Some 1000000000000,
     vst_conditions = [readyCondition ConditionTrue ''r'' ''m'' 1000000000000]\<rparr>\<rparr>"
  let ?E = "stableEnv\<lparr>ev_getVariableSet := (\<lambda>h k. if h = [] then Inr sampleVariableSet else Inr w)\<rparr>"
  have s: "conditionStable ?E" by (rule conditionStable_sample) (simp add: stableEnv_def)
  have "C_StatusUpdateVariableSet w \<in> set (calls_of (updateVariableSetStatus ?E sampleVariableSet PhaseReady
      ''r'' ''m'' ConditionTrue [] 1) [])"
    by (rule calls_of_start) (simp add: updateVariableSetStatus_def call_defs wp_simps Let_def
        variableSetMerge_def stableEnv_def sampleSetCondition_def sampleVariableSet_def sampleMeta_def w_def)
  with variable_set_status_settles [OF s this, of "[C_Now]" sampleVariableSet w] show ?thesis
    by (intro exI [of _ w]) simp
qed

end
