(* ===== verification/Manager_Boot.thy ===== *)
theory Manager_Boot
  imports Api_Boot Run_Recorder Rollout_Ctrl Var_Controller Ref_Watcher
begin

text \<open>
  The controller manager: the watches of the five controllers (\<open>SetupWithManager\<close> of each) and the
  main function of \<open>src/cmd/main.go\<close>, from the parsed flags to the start of the manager. What the
  controller runtime makes of a watch is its documented behaviour: an event on an object of the
  reconciled kind requests that object, one on an owned object its owner, and one on a watched
  kind what the mapping function returns. The manager starts only with exactly the enabled
  controllers registered, and the watches wake those a change concerns.
\<close>

section \<open>Watches\<close>

datatype kind = KWorkspace | KProject | KRollout | KVariableSet | KSecret | KConfigMap | KJob | KPVC

datatype changed =
    ChWorkspace workspace
  | ChProject project
  | ChRollout rollout
  | ChVariableSet variable_set
  | ChSecret secret
  | ChConfigMap config_map
  | ChJob job
  | ChPVC pvc

fun kindOf :: "changed \<Rightarrow> kind" where
  "kindOf (ChWorkspace x) = KWorkspace"
| "kindOf (ChProject x) = KProject"
| "kindOf (ChRollout x) = KRollout"
| "kindOf (ChVariableSet x) = KVariableSet"
| "kindOf (ChSecret x) = KSecret"
| "kindOf (ChConfigMap x) = KConfigMap"
| "kindOf (ChJob x) = KJob"
| "kindOf (ChPVC x) = KPVC"

fun metaOf :: "changed \<Rightarrow> object_meta" where
  "metaOf (ChWorkspace x) = ws_meta x"
| "metaOf (ChProject x) = pr_meta x"
| "metaOf (ChRollout x) = ro_meta x"
| "metaOf (ChVariableSet x) = vs_meta x"
| "metaOf (ChSecret x) = se_meta x"
| "metaOf (ChConfigMap x) = cm_meta x"
| "metaOf (ChJob x) = job_meta x"
| "metaOf (ChPVC x) = pvc_meta x"

datatype mapper =
    FindProjectsForWorkspace
  | FindProjectsForRollout
  | FindRolloutsForWorkspace
  | FindWorkspacesForSecret
  | FindWorkspacesForVariableSet
  | FindVariableSetsForSecret
  | FindVariableSetsForConfigMap

fun runMapper :: "env \<Rightarrow> mapper \<Rightarrow> changed \<Rightarrow> nsname list prog" where
  "runMapper E FindProjectsForWorkspace (ChWorkspace x) = ret (findProjectsForWorkspace x)"
| "runMapper E FindProjectsForRollout (ChRollout x) = ret (findProjectsForRollout x)"
| "runMapper E FindRolloutsForWorkspace (ChWorkspace x) = findRolloutsForWorkspace E x"
| "runMapper E FindWorkspacesForSecret (ChSecret x) = findWorkspacesForSecret E x"
| "runMapper E FindWorkspacesForVariableSet (ChVariableSet x) = findWorkspacesForVariableSet E x"
| "runMapper E FindVariableSetsForSecret (ChSecret x) = findVariableSetsForSecret E x"
| "runMapper E FindVariableSetsForConfigMap (ChConfigMap x) = findVariableSetsForConfigMap E x"
| "runMapper E m x = ret []"

record controller_setup =
  cs_name :: string
  cs_for :: kind
  cs_owns :: "kind list"
  cs_watches :: "(kind \<times> mapper) list"
  cs_workers :: "int option"

definition workspaceSetup :: "int \<Rightarrow> controller_setup" where
  "workspaceSetup n =
     \<lparr>cs_name = ''workspace'', cs_for = KWorkspace, cs_owns = [KJob, KPVC],
      cs_watches = [(KSecret, FindWorkspacesForSecret), (KVariableSet, FindWorkspacesForVariableSet)],
      cs_workers = Some (max 1 n)\<rparr>"

definition projectSetup :: "int \<Rightarrow> controller_setup" where
  "projectSetup n =
     \<lparr>cs_name = ''project'', cs_for = KProject, cs_owns = [],
      cs_watches = [(KWorkspace, FindProjectsForWorkspace), (KRollout, FindProjectsForRollout)],
      cs_workers = Some (max 1 n)\<rparr>"

definition variableSetSetup :: "int \<Rightarrow> controller_setup" where
  "variableSetSetup n =
     \<lparr>cs_name = ''variableset'', cs_for = KVariableSet, cs_owns = [],
      cs_watches = [(KSecret, FindVariableSetsForSecret), (KConfigMap, FindVariableSetsForConfigMap)],
      cs_workers = Some (max 1 n)\<rparr>"

definition rolloutSetup :: "int \<Rightarrow> controller_setup" where
  "rolloutSetup n =
     \<lparr>cs_name = ''rollout'', cs_for = KRollout, cs_owns = [],
      cs_watches = [(KWorkspace, FindRolloutsForWorkspace)], cs_workers = Some (max 1 n)\<rparr>"

definition refWatcherSetup :: controller_setup where
  "refWatcherSetup =
     \<lparr>cs_name = ''refwatcher'', cs_for = KWorkspace, cs_owns = [], cs_watches = [], cs_workers = None\<rparr>"

fun watchRequests :: "env \<Rightarrow> (kind \<times> mapper) list \<Rightarrow> changed \<Rightarrow> nsname list prog" where
  "watchRequests E [] x = ret []"
| "watchRequests E ((k, m) # ws) x = do {
     rs \<leftarrow> (if k = kindOf x then runMapper E m x else ret []);
     rest \<leftarrow> watchRequests E ws x;
     ret (rs @ rest)
   }"

definition requests :: "env \<Rightarrow> (object_meta \<Rightarrow> nsname list) \<Rightarrow> controller_setup \<Rightarrow> changed \<Rightarrow> nsname list prog" where
  \<comment> \<open>the requests a change puts into the queue of a controller; \<open>ownerOf\<close> reads the controller reference\<close>
  "requests E ownerOf cs x = do {
     rs \<leftarrow> watchRequests E (cs_watches cs) x;
     ret ((if cs_for cs = kindOf x then [meta_key (metaOf x)] else [])
          @ (if kindOf x \<in> set (cs_owns cs) then ownerOf (metaOf x) else []) @ rs)
   }"

section \<open>Flags\<close>

record flags =
  fl_metricsAddr :: string
  fl_probeAddr :: string
  fl_leaderElect :: bool
  fl_leaderElectID :: string
  fl_metricsSecure :: bool
  fl_webhookCertPath :: string
  fl_webhookCertName :: string
  fl_webhookCertKey :: string
  fl_metricsCertPath :: string
  fl_metricsCertName :: string
  fl_metricsCertKey :: string
  fl_enableHTTP2 :: bool
  fl_workspace :: bool
  fl_project :: bool
  fl_variableSet :: bool
  fl_rollout :: bool
  fl_refWatcher :: bool
  fl_maxConcurrentReconciles :: int
  fl_defaultPollInterval :: duration
  fl_workerCount :: int
  fl_workQueueSize :: int

definition defaultFlags :: flags where
  "defaultFlags =
     \<lparr>fl_metricsAddr = ''0'', fl_probeAddr = '':8081'', fl_leaderElect = False,
      fl_leaderElectID = ''e859f84e.magosproject.io'', fl_metricsSecure = True,
      fl_webhookCertPath = [], fl_webhookCertName = ''tls.crt'', fl_webhookCertKey = ''tls.key'',
      fl_metricsCertPath = [], fl_metricsCertName = ''tls.crt'', fl_metricsCertKey = ''tls.key'',
      fl_enableHTTP2 = False, fl_workspace = False, fl_project = False, fl_variableSet = False,
      fl_rollout = False, fl_refWatcher = False, fl_maxConcurrentReconciles = 5,
      fl_defaultPollInterval = 30000000000, fl_workerCount = 20, fl_workQueueSize = 200\<rparr>"

record webhook_options =
  who_http1Only :: bool
  who_cert :: "(string \<times> string \<times> string) option"

record server_options =
  so_bindAddress :: string
  so_secure :: bool
  so_authFilter :: bool
  so_http1Only :: bool
  so_cert :: "(string \<times> string \<times> string) option"

definition certOf :: "string \<Rightarrow> string \<Rightarrow> string \<Rightarrow> (string \<times> string \<times> string) option" where
  "certOf path name key = (if 0 < length path then Some (path, name, key) else None)"

definition webhookOptions :: "flags \<Rightarrow> webhook_options" where
  "webhookOptions fl =
     \<lparr>who_http1Only = (\<not> fl_enableHTTP2 fl),
      who_cert = certOf (fl_webhookCertPath fl) (fl_webhookCertName fl) (fl_webhookCertKey fl)\<rparr>"

definition metricsOptions :: "flags \<Rightarrow> server_options" where
  "metricsOptions fl =
     \<lparr>so_bindAddress = fl_metricsAddr fl, so_secure = fl_metricsSecure fl, so_authFilter = fl_metricsSecure fl,
      so_http1Only = (\<not> fl_enableHTTP2 fl),
      so_cert = certOf (fl_metricsCertPath fl) (fl_metricsCertName fl) (fl_metricsCertKey fl)\<rparr>"

record manager_options =
  mo_metrics :: server_options
  mo_webhook :: webhook_options
  mo_probeAddr :: string
  mo_leaderElection :: bool
  mo_leaderElectionID :: string

definition managerOptions :: "flags \<Rightarrow> manager_options" where
  "managerOptions fl =
     \<lparr>mo_metrics = metricsOptions fl, mo_webhook = webhookOptions fl, mo_probeAddr = fl_probeAddr fl,
      mo_leaderElection = fl_leaderElect fl, mo_leaderElectionID = fl_leaderElectID fl\<rparr>"

section \<open>The environment\<close>

datatype mgr_call =
    M_NewManager manager_options
  | M_Index string
  | M_Clientset
  | M_S3 s3_call
  | M_AddRunnable watcher
  | M_Register controller_setup
  | M_Healthz
  | M_Readyz
  | M_Start

record mgrenv =
  me_s3 :: s3env
  me_newManager :: "mgr_call list \<Rightarrow> manager_options \<Rightarrow> goerr option"
  me_index :: "mgr_call list \<Rightarrow> string \<Rightarrow> goerr option"
  me_clientset :: "mgr_call list \<Rightarrow> goerr option"
  me_addRunnable :: "mgr_call list \<Rightarrow> watcher \<Rightarrow> goerr option"
  me_register :: "mgr_call list \<Rightarrow> controller_setup \<Rightarrow> goerr option"
  me_healthz :: "mgr_call list \<Rightarrow> goerr option"
  me_readyz :: "mgr_call list \<Rightarrow> goerr option"
  me_start :: "mgr_call list \<Rightarrow> goerr option"

type_synonym 'a mgr_prog = "(mgr_call, 'a) io"

fun mgrS3Call :: "mgr_call \<Rightarrow> s3_call option" where
  "mgrS3Call (M_S3 c) = Some c"
| "mgrS3Call c = None"

section \<open>The main function\<close>

definition WorkspaceProjectRefField :: string where
  "WorkspaceProjectRefField = ''spec.projectRef.name''"

definition addWorkspaceProjectRef :: "mgrenv \<Rightarrow> goerr option mgr_prog" where
  "addWorkspaceProjectRef M = perform (\<lambda>h. me_index M h WorkspaceProjectRefField) (M_Index WorkspaceProjectRefField)"

definition register :: "mgrenv \<Rightarrow> controller_setup \<Rightarrow> goerr option mgr_prog" where
  "register M cs = perform (\<lambda>h. me_register M h cs) (M_Register cs)"

definition setupWorkspaceController :: "mgrenv \<Rightarrow> 'z golib_scheme \<Rightarrow> flags \<Rightarrow> goerr option mgr_prog" where
  "setupWorkspaceController M L fl =
     (let jobImage = osGetenv L ''MAGOS_JOB_IMAGE'' in
      if jobImage = [] then ret (Some (EMsg ''MAGOS_JOB_IMAGE must be set''))
      else do {
        c \<leftarrow> perform (me_clientset M) M_Clientset;
        case c of
          Some err \<Rightarrow> ret (Some err)
        | None \<Rightarrow> do {
            l \<leftarrow> within M_S3 mgrS3Call (NewLogStore (me_s3 M) (LoadLogConfigFromEnv L));
            case l of
              Inl err \<Rightarrow> ret (Some err)
            | Inr hasLogs \<Rightarrow>
                (case NewHTTPRunRecorderFromEnv L of
                   Inl err \<Rightarrow> ret (Some err)
                 | Inr recorder \<Rightarrow>
                     (case newReconciler L jobImage True hasLogs (recorder \<noteq> None) of
                        Inl err \<Rightarrow> ret (Some err)
                      | Inr reconciler \<Rightarrow> register M (workspaceSetup (fl_maxConcurrentReconciles fl))))
          }
      })"

definition setupRefWatcher :: "mgrenv \<Rightarrow> flags \<Rightarrow> goerr option mgr_prog" where
  "setupRefWatcher M fl =
     (let w = newWatcher (fl_defaultPollInterval fl) (nat (fl_workQueueSize fl)) in do {
        e \<leftarrow> perform (\<lambda>h. me_addRunnable M h w) (M_AddRunnable w);
        case e of Some err \<Rightarrow> ret (Some err) | None \<Rightarrow> register M refWatcherSetup
      })"

definition whenEnabled :: "bool \<Rightarrow> goerr option mgr_prog \<Rightarrow> goerr option mgr_prog" where
  "whenEnabled b m = (if b then m else ret None)"

definition orExit :: "goerr option mgr_prog \<Rightarrow> nat mgr_prog \<Rightarrow> nat mgr_prog" where
  \<comment> \<open>\<open>os.Exit(1)\<close> on an error\<close>
  "orExit m rest = do { e \<leftarrow> m; case e of Some err \<Rightarrow> ret 1 | None \<Rightarrow> rest }"

definition startManager :: "mgrenv \<Rightarrow> nat mgr_prog" where
  "startManager M =
     orExit (perform (me_healthz M) M_Healthz)
     (orExit (perform (me_readyz M) M_Readyz)
     (orExit (perform (me_start M) M_Start) (ret 0)))"

definition managerMain :: "mgrenv \<Rightarrow> 'z golib_scheme \<Rightarrow> flags \<Rightarrow> nat mgr_prog" where
  \<comment> \<open>the exit code; a work queue of negative size panics with code 2\<close>
  "managerMain M L fl =
     (let n = fl_maxConcurrentReconciles fl in
      orExit (perform (\<lambda>h. me_newManager M h (managerOptions fl)) (M_NewManager (managerOptions fl)))
      (orExit (whenEnabled (fl_project fl \<or> fl_rollout fl) (addWorkspaceProjectRef M))
      (orExit (whenEnabled (fl_workspace fl) (setupWorkspaceController M L fl))
      (orExit (whenEnabled (fl_project fl) (register M (projectSetup n)))
      (orExit (whenEnabled (fl_variableSet fl) (register M (variableSetSetup n)))
      (orExit (whenEnabled (fl_rollout fl) (register M (rolloutSetup n)))
      (if fl_refWatcher fl \<and> fl_workQueueSize fl < 0 then ret 2
       else orExit (whenEnabled (fl_refWatcher fl) (setupRefWatcher M fl)) (startManager M))))))))"

section \<open>The manager starts complete\<close>

fun isSetup :: "mgr_call \<Rightarrow> bool" where
  "isSetup (M_Index f) = True"
| "isSetup (M_AddRunnable w) = True"
| "isSetup (M_Register cs) = True"
| "isSetup c = False"

definition enabledSetups :: "flags \<Rightarrow> controller_setup list" where
  "enabledSetups fl =
     (let n = fl_maxConcurrentReconciles fl in
      (if fl_workspace fl then [workspaceSetup n] else []) @ (if fl_project fl then [projectSetup n] else [])
      @ (if fl_variableSet fl then [variableSetSetup n] else []) @ (if fl_rollout fl then [rolloutSetup n] else [])
      @ (if fl_refWatcher fl then [refWatcherSetup] else []))"

definition workspaceReady :: "'z golib_scheme \<Rightarrow> bool" where
  "workspaceReady L \<longleftrightarrow> osGetenv L ''MAGOS_JOB_IMAGE'' \<noteq> [] \<and>
     (Enabled (LoadLogConfigFromEnv L) \<longrightarrow> validateLogConfig (LoadLogConfigFromEnv L) = None \<and>
        trimRight (CHR ''/'') (osGetenv L ''MAGOS_LOGS_API_URL'') \<noteq> [])"

definition adds :: "goerr option mgr_prog \<Rightarrow> mgr_call list \<Rightarrow> bool \<Rightarrow> bool" where
  \<comment> \<open>a step that does not start the manager, and that succeeds only with the given calls for the set-up
      and under the given condition\<close>
  "adds m cs F \<longleftrightarrow> emits (\<lambda>c. c \<noteq> M_Start) m \<and>
     (\<forall>h. wp m (\<lambda>e h'. e = None \<longrightarrow> filter isSetup h' = filter isSetup h @ cs \<and> F) h)"

lemma adds_perform: "c \<noteq> M_Start \<Longrightarrow> adds (perform f c) (filter isSetup [c]) True"
  by (simp add: adds_def wp_perform emits_perform)

lemma adds_fail: "adds (ret (Some err)) cs F"
  by (simp add: adds_def wp_ret emits_ret)

lemma adds_whenEnabled: "adds m cs F \<Longrightarrow> adds (whenEnabled b m) (if b then cs else []) (b \<longrightarrow> F)"
  by (simp add: whenEnabled_def adds_def wp_ret emits_ret)

lemma adds_register: "F \<Longrightarrow> adds (register M cs) [M_Register cs] F"
  by (simp add: adds_def register_def wp_perform emits_perform)

lemma adds_after:
  assumes "emits (\<lambda>c. c \<noteq> M_Start \<and> \<not> isSetup c) m" and "\<And>h. wp m (\<lambda>a h'. R a) h"
    and "\<And>a. R a \<Longrightarrow> adds (g a) cs F"
  shows "adds (State_Monad.bind m g) cs F"
  unfolding adds_def
proof (intro conjI allI)
  show "emits (\<lambda>c. c \<noteq> M_Start) (State_Monad.bind m g)"
    by (rule emits_bind_wp [OF emits_mono [OF assms(1)]])
       (auto intro: wp_mono [OF assms(2)] simp: assms(3) [unfolded adds_def])
  fix h
  show "wp (State_Monad.bind m g) (\<lambda>e h'. e = None \<longrightarrow> filter isSetup h' = filter isSetup h @ cs \<and> F) h"
  proof (rule wp_then [OF wp_emits [OF assms(1,2)]], elim conjE exE)
    fix a h' ds
    assume "R a" and "h' = h @ ds" and "list_all (\<lambda>c. c \<noteq> M_Start \<and> \<not> isSetup c) ds"
    then have "filter isSetup h' = filter isSetup h" by (auto simp: list_all_iff)
    moreover have "wp (g a) (\<lambda>e h''. e = None \<longrightarrow> filter isSetup h'' = filter isSetup h' @ cs \<and> F) h'"
      using assms(3) [OF \<open>R a\<close>] by (simp add: adds_def)
    ultimately show "wp (g a) (\<lambda>e h'. e = None \<longrightarrow> filter isSetup h' = filter isSetup h @ cs \<and> F) h'" by simp
  qed
qed

lemma wp_orExit:
  assumes "adds m cs F" and "M_Start \<notin> set h"
    and "\<And>h'. M_Start \<notin> set h' \<Longrightarrow> filter isSetup h' = filter isSetup h @ cs \<Longrightarrow> F \<Longrightarrow> wp rest Q h'"
    and "\<And>h'. M_Start \<notin> set h' \<Longrightarrow> Q 1 h'"
  shows "wp (orExit m rest) Q h"
proof -
  have step: "wp m (\<lambda>e h'. (e = None \<longrightarrow> filter isSetup h' = filter isSetup h @ cs \<and> F) \<and>
      (\<exists>ds. h' = h @ ds \<and> list_all (\<lambda>c. c \<noteq> M_Start) ds)) h"
    using assms(1) by (intro wp_emits) (simp_all add: adds_def)
  show ?thesis
    unfolding orExit_def
    by (rule wp_then [OF step]) (use assms(2,3,4) in \<open>auto simp: wp_ret list_all_iff split: option.split\<close>)
qed

lemma adds_workspace:
  "adds (setupWorkspaceController M L fl) [M_Register (workspaceSetup (fl_maxConcurrentReconciles fl))] (workspaceReady L)"
proof -
  let ?log = "within M_S3 mgrS3Call (NewLogStore (me_s3 M) (LoadLogConfigFromEnv L))"
  have quiet: "emits (\<lambda>c. c \<noteq> M_Start \<and> \<not> isSetup c) ?log"
    unfolding NewLogStore_def ensureBucket_def by (auto intro!: emits_intros)
  have valid: "wp ?log (\<lambda>x h'. \<forall>b. x = Inr b \<longrightarrow> b = Enabled (LoadLogConfigFromEnv L) \<and>
      (b \<longrightarrow> validateLogConfig (LoadLogConfigFromEnv L) = None)) h" for h
    unfolding wp_within by (rule NewLogStore_valid)
  show ?thesis
  proof (cases "osGetenv L ''MAGOS_JOB_IMAGE'' = []")
    case False
    have after: "adds (case l of Inl err \<Rightarrow> ret (Some err)
        | Inr hasLogs \<Rightarrow>
            (case NewHTTPRunRecorderFromEnv L of
               Inl err \<Rightarrow> ret (Some err)
             | Inr recorder \<Rightarrow>
                 (case newReconciler L (osGetenv L ''MAGOS_JOB_IMAGE'') True hasLogs (recorder \<noteq> None) of
                    Inl err \<Rightarrow> ret (Some err)
                  | Inr reconciler \<Rightarrow> register M (workspaceSetup (fl_maxConcurrentReconciles fl)))))
        [M_Register (workspaceSetup (fl_maxConcurrentReconciles fl))] (workspaceReady L)"
      if "\<forall>b. l = Inr b \<longrightarrow> b = Enabled (LoadLogConfigFromEnv L) \<and>
        (b \<longrightarrow> validateLogConfig (LoadLogConfigFromEnv L) = None)" for l
      using that False
      by (auto simp: adds_fail workspaceReady_def NewHTTPRunRecorderFromEnv_def Let_def
          intro!: adds_register split: sum.split if_splits)
    show ?thesis
      using False unfolding setupWorkspaceController_def Let_def
      by simp (rule adds_after [where R = "\<lambda>c. True"], simp add: emits_perform, rule wp_any,
          auto simp: adds_fail after intro!: adds_after [OF quiet valid] split: option.split)
  qed (simp add: setupWorkspaceController_def adds_fail)
qed

lemma adds_refWatcher:
  "adds (setupRefWatcher M fl)
     [M_AddRunnable (newWatcher (fl_defaultPollInterval fl) (nat (fl_workQueueSize fl))), M_Register refWatcherSetup] True"
  by (auto simp: adds_def setupRefWatcher_def register_def Let_def wp_simps split: option.splits intro!: emits_intros)

text \<open>
  C17. The manager starts complete: when it is started, the set-up calls before are exactly those for
  the enabled controllers, each once and in order, the index the Project and Rollout controllers
  list by is registered before them, no controller runs without a worker, and the Workspace
  controller has an image, a usable log configuration and, with it, an address to record to.
\<close>

theorem manager_starts_complete:
  assumes "M_Start \<in> set (calls_of (managerMain M L fl) [])"
  shows "filter isSetup (calls_of (managerMain M L fl) []) =
      (if fl_project fl \<or> fl_rollout fl then [M_Index WorkspaceProjectRefField] else []) @
      map M_Register (filter (\<lambda>cs. cs \<noteq> refWatcherSetup) (enabledSetups fl)) @
      (if fl_refWatcher fl then [M_AddRunnable (newWatcher (fl_defaultPollInterval fl) (nat (fl_workQueueSize fl))),
         M_Register refWatcherSetup] else []) \<and>
    (fl_workspace fl \<longrightarrow> workspaceReady L) \<and> (fl_refWatcher fl \<longrightarrow> 0 \<le> fl_workQueueSize fl) \<and>
    (\<forall>cs\<in>set (enabledSetups fl). \<forall>n. cs_workers cs = Some n \<longrightarrow> 1 \<le> n)"
proof -
  have other: "workspaceSetup n \<noteq> refWatcherSetup" "projectSetup n \<noteq> refWatcherSetup"
    "variableSetSetup n \<noteq> refWatcherSetup" "rolloutSetup n \<noteq> refWatcherSetup" for n
    by (simp_all add: workspaceSetup_def projectSetup_def variableSetSetup_def rolloutSetup_def refWatcherSetup_def)
  have workers: "\<forall>cs\<in>set (enabledSetups fl). \<forall>n. cs_workers cs = Some n \<longrightarrow> 1 \<le> n"
    by (auto simp: enabledSetups_def Let_def workspaceSetup_def projectSetup_def variableSetSetup_def rolloutSetup_def
        refWatcherSetup_def split: if_splits)
  have index: "adds (addWorkspaceProjectRef M) [M_Index WorkspaceProjectRefField] True"
    by (simp add: adds_def addWorkspaceProjectRef_def wp_perform emits_perform)
  note steps = adds_whenEnabled [OF index] adds_whenEnabled [OF adds_workspace]
    adds_whenEnabled [OF adds_register [OF TrueI]] adds_whenEnabled [OF adds_refWatcher]
  have start: "wp (startManager M) (\<lambda>x h'. M_Start \<in> set h' \<longrightarrow> filter isSetup h' = filter isSetup h) h" for h
    by (simp add: startManager_def orExit_def wp_simps split: option.split)
  have "wp (managerMain M L fl) (\<lambda>x h'. M_Start \<in> set h' \<longrightarrow> filter isSetup h' =
      (if fl_project fl \<or> fl_rollout fl then [M_Index WorkspaceProjectRefField] else []) @
      map M_Register (filter (\<lambda>cs. cs \<noteq> refWatcherSetup) (enabledSetups fl)) @
      (if fl_refWatcher fl then [M_AddRunnable (newWatcher (fl_defaultPollInterval fl) (nat (fl_workQueueSize fl))),
         M_Register refWatcherSetup] else []) \<and>
      (fl_workspace fl \<longrightarrow> workspaceReady L) \<and> (fl_refWatcher fl \<longrightarrow> 0 \<le> fl_workQueueSize fl)) []"
    unfolding managerMain_def Let_def
    by (rule wp_orExit [OF adds_perform], simp, simp, rule wp_orExit [OF steps(1)], assumption,
        rule wp_orExit [OF steps(2)], assumption, rule wp_orExit [OF steps(3)], assumption,
        rule wp_orExit [OF steps(3)], assumption, rule wp_orExit [OF steps(3)], assumption,
        rule wp_branch, simp add: wp_ret, rule wp_orExit [OF steps(4)], assumption, rule wp_mono [OF start])
       (auto simp: enabledSetups_def Let_def other)
  then show ?thesis using assms workers by (auto simp: wp_def calls_of_def split: prod.splits)
qed

section \<open>The watches wake whom a change concerns\<close>

definition allOn :: "flags \<Rightarrow> bool" where
  "allOn fl \<longleftrightarrow> fl_workspace fl \<and> fl_project fl \<and> fl_variableSet fl \<and> fl_rollout fl \<and> fl_refWatcher fl"

definition admittedRollout :: "rollout \<Rightarrow> bool" where
  \<comment> \<open>the validation rule of the custom resource\<close>
  "admittedRollout ro \<longleftrightarrow> om_name (ro_meta ro) = rsp_projectRef (ro_spec ro)"

definition woken :: "env \<Rightarrow> (object_meta \<Rightarrow> nsname list) \<Rightarrow> flags \<Rightarrow> changed \<Rightarrow> hist \<Rightarrow> (string \<times> nsname list) list" where
  "woken E ownerOf fl x h =
     map (\<lambda>cs. (cs_name cs, result_of (requests E ownerOf cs x) h)) (enabledSetups fl)"

lemma result_ret [simp]: "result_of (ret a) h = a"
  by (simp add: result_of_def ret_def)

lemmas setup_defs = workspaceSetup_def projectSetup_def variableSetSetup_def rolloutSetup_def refWatcherSetup_def


text \<open>
  A Secret that only holds values of variables wakes no Workspace: the Workspace controller hears of
  repository credentials alone, so a rotated value reaches a Workspace only if the status of its
  variable set changes.
\<close>

theorem variable_secret_wakes_no_workspace:
  assumes "allOn fl" and "om_labels (se_meta sec) RepoSecretLabelKey \<noteq> Some RepoSecretLabelValue"
    and "ev_listVariableSets E h (om_namespace (se_meta sec)) = Inr sets"
  shows "woken E ownerOf fl (ChSecret sec) h =
      [(''workspace'', []), (''project'', []),
       (''variableset'', map (\<lambda>vs. meta_key (vs_meta vs))
          (filter (\<lambda>vs. variableSetReferences vs (om_name (se_meta sec)) VariableSourceKindSecret) sets)),
       (''rollout'', []), (''refwatcher'', [])]"
proof -
  have v: "result_of (requests E ownerOf (variableSetSetup n) (ChSecret sec)) h = map (\<lambda>vs. meta_key (vs_meta vs))
      (filter (\<lambda>vs. variableSetReferences vs (om_name (se_meta sec)) VariableSourceKindSecret) sets)" for n
    by (rule result_ofI) (simp add: requests_def variableSetSetup_def findVariableSetsForSecret_def
        findVariableSetsReferencing_def listVariableSets_def wp_simps assms(3))
  have o: "result_of (requests E ownerOf (workspaceSetup n) (ChSecret sec)) h = []"
    "result_of (requests E ownerOf (projectSetup n) (ChSecret sec)) h = []"
    "result_of (requests E ownerOf (rolloutSetup n) (ChSecret sec)) h = []"
    "result_of (requests E ownerOf refWatcherSetup (ChSecret sec)) h = []" for n
    by (rule result_ofI, simp add: requests_def setup_defs findWorkspacesForSecret_def assms(2) wp_simps)+
  show ?thesis
    using assms(1) unfolding woken_def enabledSetups_def allOn_def Let_def
    by (simp add: v o) (simp add: setup_defs)
qed

section \<open>Instances\<close>

definition flagsOn :: flags where
  "flagsOn = defaultFlags\<lparr>fl_workspace := True, fl_project := True, fl_variableSet := True, fl_rollout := True,
     fl_refWatcher := True, fl_maxConcurrentReconciles := 0\<rparr>"

definition managerLib :: env where
  "managerLib = sampleEnv\<lparr>osGetenv := (\<lambda>k. if k = ''MAGOS_JOB_IMAGE'' then ''job:1'' else [])\<rparr>"

definition sampleManagerEnv :: mgrenv where
  "sampleManagerEnv =
     \<lparr>me_s3 = be_s3 sampleBoot, me_newManager = (\<lambda>h x. None), me_index = (\<lambda>h x. None), me_clientset = (\<lambda>h. None),
      me_addRunnable = (\<lambda>h w. None), me_register = (\<lambda>h cs. None), me_healthz = (\<lambda>h. None), me_readyz = (\<lambda>h. None),
      me_start = (\<lambda>h. None)\<rparr>"

lemma sample_workspace_setup: "wp (setupWorkspaceController sampleManagerEnv managerLib fl) (\<lambda>e h'. e = None) h"
proof -
  have lib: "NewHTTPRunRecorderFromEnv managerLib = Inr None" "\<not> Enabled (LoadLogConfigFromEnv managerLib)"
    by (simp_all add: NewHTTPRunRecorderFromEnv_def Enabled_def LoadLogConfigFromEnv_def managerLib_def)
  have "\<exists>R. newReconciler managerLib ''job:1'' a b c = Inr R" for a b c
    by (simp add: newReconciler_def loadJobResourcesFromEnv_def loadDefaultPVCSizeFromEnv_def parseResource_def managerLib_def
        sampleEnv_def Let_def)
  then obtain R where "newReconciler managerLib ''job:1'' True False False = Inr R" by blast
  moreover have "osGetenv managerLib ''MAGOS_JOB_IMAGE'' = ''job:1''" by (simp add: managerLib_def)
  ultimately show ?thesis
    by (simp add: setupWorkspaceController_def NewLogStore_def lib wp_within wp_simps register_def sampleManagerEnv_def)
qed

lemma wp_orExit_pass: "wp m (\<lambda>e h'. e = None) h \<Longrightarrow> (\<And>h'. wp rest Q h') \<Longrightarrow> wp (orExit m rest) Q h"
  unfolding orExit_def by (erule wp_then) simp

lemma sample_manager_starts: "M_Start \<in> set (calls_of (managerMain sampleManagerEnv managerLib flagsOn) [])"
proof -
  have on: "whenEnabled True m = m" for m by (simp add: whenEnabled_def)
  have p: "wp (register sampleManagerEnv cs) (\<lambda>e h'. e = None) h" "wp (addWorkspaceProjectRef sampleManagerEnv) (\<lambda>e h'. e = None) h"
    "wp (setupRefWatcher sampleManagerEnv fl) (\<lambda>e h'. e = None) h" for cs h fl
    by (simp_all add: register_def addWorkspaceProjectRef_def setupRefWatcher_def sampleManagerEnv_def wp_simps Let_def)
  have "wp (managerMain sampleManagerEnv managerLib flagsOn) (\<lambda>x h'. M_Start \<in> set h') []"
    unfolding managerMain_def Let_def
    by (rule wp_orExit_pass, simp add: wp_perform sampleManagerEnv_def)
       (simp add: flagsOn_def defaultFlags_def on, intro wp_orExit_pass p sample_workspace_setup,
        simp add: startManager_def orExit_def wp_simps sampleManagerEnv_def)
  then show ?thesis by (auto simp: wp_def calls_of_def split: prod.splits)
qed

theorem manager_starts_complete_witness:
  "filter isSetup (calls_of (managerMain sampleManagerEnv managerLib flagsOn) []) =
     [M_Index WorkspaceProjectRefField, M_Register (workspaceSetup 0), M_Register (projectSetup 0),
      M_Register (variableSetSetup 0), M_Register (rolloutSetup 0),
      M_AddRunnable (newWatcher 30000000000 200), M_Register refWatcherSetup] \<and> workspaceReady managerLib"
  using manager_starts_complete [OF sample_manager_starts]
  by (simp add: flagsOn_def defaultFlags_def enabledSetups_def Let_def) (simp add: setup_defs)

lemma flagsOn_all: "allOn flagsOn"
  by (simp add: allOn_def flagsOn_def)


theorem variable_secret_wakes_no_workspace_witness:
  "woken (sampleEnv\<lparr>ev_listVariableSets := (\<lambda>h ns. Inr [])\<rparr>) (\<lambda>m. []) flagsOn
     (ChSecret \<lparr>se_meta = sampleMeta ''values'', se_data = Map.empty\<rparr>) [] =
   [(''workspace'', []), (''project'', []), (''variableset'', []), (''rollout'', []), (''refwatcher'', [])]"
  using variable_secret_wakes_no_workspace [OF flagsOn_all,
      of "\<lparr>se_meta = sampleMeta ''values'', se_data = Map.empty\<rparr>" "sampleEnv\<lparr>ev_listVariableSets := (\<lambda>h ns. Inr [])\<rparr>" "[]" "[]" "\<lambda>m. []"]
  by (simp add: sampleMeta_def)

end
