(* ===== verification/Spec2Isabelle.thy ===== *)
theory Spec2Isabelle
  imports WS_Truth Ref_Runtime Job_Policy Job_Start Manager_Boot
begin

text \<open>
  Verification of magos, a Kubernetes operator that runs Terraform for Workspaces.

  \<^bold>\<open>The program.\<close> Four controllers reconcile custom resources. The Workspace controller
  (\<open>src/internal/controller/workspace\<close>) drives a plan Job and an apply Job through a run; the
  Project controller (\<open>project\<close>) and the Rollout controller (\<open>rollout\<close>) give and take the
  permission to execute by an annotation; the VariableSet controller (\<open>variableset\<close>) resolves
  variables from Secrets and ConfigMaps. A reference watcher (\<open>refwatcher\<close>) polls Git and
  announces new commits by another annotation. The controllers talk to each other through the
  API server of the cluster only: each reads objects, writes objects, and is called again when
  they change. The pods of the Jobs run the job program (\<open>src/cmd/job\<close>), which clones the source,
  drives Terraform (\<open>src/internal/terraform\<close>) and evaluates policies on the plan. magos' own API
  server (\<open>src/api\<close>) shows the objects, streams their changes and the logs, records the runs in
  a database (\<open>src/api/internal/runs\<close>), and takes the decisions on plans, behind its own
  authentication (\<open>src/api/internal/auth\<close>). The Workspace controller archives logs in an object
  store (\<open>src/internal/logstore\<close>) and sends its records to the API server over HTTP.

  \<^bold>\<open>The style of the model.\<close> A handler of the source is a program of the state monad over the
  history of its calls (\<open>'a prog\<close>, theories \<open>Effects\<close> and \<open>Cluster\<close>). The answer to a call is
  given by the environment record \<open>env\<close> as a function of the history, so that a theorem holds
  for every behaviour of the API server, of the clock, of Git and of the other controllers
  that interleave with the handler, errors included. The library functions that are not part
  of the repository (durations, JSON, SHA-256, gzip, condition updates, selectors) are fields
  of the record \<open>golib\<close>, which \<open>env\<close> extends; what a theorem relies on is a hypothesis about
  such a field, and its witness instantiates the record by \<open>sampleEnv\<close> of \<open>Samples\<close>. The other
  programs have calls and environments of their own: \<open>svc\<close> for the services of the API server,
  \<open>authenv\<close> for authentication, \<open>s3env\<close> for the object store, \<open>recenv\<close> for the recorder's HTTP
  client, \<open>jenv\<close> for the processes, files and libraries of the job pod, and \<open>bootenv\<close> and \<open>mgrenv\<close>
  for the start of the two servers; \<open>within\<close> runs a program of one kind inside another. Times and
  durations are unbounded integers of nanoseconds; pointers are options; Go errors are the
  datatype \<open>goerr\<close>, and fallible functions return \<open>goerr + 'a\<close>.

  \<^bold>\<open>The theories.\<close>
  \<^item> \<open>Prelude\<close>: times, errors, results, Go's string functions. \<open>Effects\<close>: programs, weakest
    preconditions (\<open>wp\<close>), the calls a program may make (\<open>emits\<close>, \<open>emitsAt\<close>) and must make
    (\<open>reaches\<close>, \<open>reachesAt\<close>). \<open>API_Types\<close>: the custom resources, from
    \<open>src/types/magosproject/v1alpha1\<close>. \<open>Cluster\<close>: calls, environment, retry on conflict.
  \<^item> \<open>Status_Publish\<close>: the contract that the status writers of the four controllers share, as the
    locale \<open>published_status\<close>; it is interpreted in \<open>WS_Status\<close>, \<open>Project_Ctrl\<close>, \<open>Rollout_Ctrl\<close>
    and \<open>Var_Controller\<close> on the merge of each controller, and gives the theorems that a repeated
    outcome writes nothing.
  \<^item> \<open>Var_Resolver\<close> (\<open>variableset/resolver.go\<close>): \<open>Resolve\<close> with its caches, \<open>ComposeEffective\<close>,
    \<open>Fingerprint\<close>. The caches are transparent and no object is read twice; composition is a
    layered override; the hashed bytes determine the variables.
  \<^item> \<open>WS_Run\<close> (\<open>run.go\<close>), \<open>WS_Status\<close> (\<open>status.go\<close>), \<open>WS_Vars\<close> (\<open>variables.go\<close>), \<open>WS_Job\<close>
    (\<open>job.go\<close>, \<open>config.go\<close>), \<open>WS_Logs\<close> (\<open>logs.go\<close>), \<open>WS_Cycle\<close> (\<open>reconcile_cycle.go\<close>), \<open>WS_Exec\<close>
    (\<open>reconcile_plan.go\<close>, \<open>reconcile_apply.go\<close>), \<open>WS_Controller\<close> (\<open>workspace_controller.go\<close>,
    \<open>metrics.go\<close>): the Workspace controller, one definition per function, long functions cut
    into the definitions that their comments number as steps. \<open>WS_Safety\<close> holds what spans them:
    an apply Job needs an approved successful plan, nothing is created without the permission,
    no Job in flight is deleted, the order of a fresh cycle, the release of the permission at
    every end of a run. \<open>WS_Truth\<close> follows the status writes and the patches through a whole
    reconcile: the phase Applied is reported if and only if the apply Job has succeeded, and a
    decision is withdrawn only at the gate, so that it outlives a run that is replaced before.
  \<^item> \<open>Project_Ctrl\<close>, \<open>Rollout_Ctrl\<close>, \<open>Var_Controller\<close>: the other three controllers. A rollout grants
    only in the first unfinished level; its levels partition the steps; a project grants only
    when no rollout governs it.
  \<^item> \<open>Git_Transport\<close> (\<open>gittransport.go\<close>): choice of transport, ls-remote parsing (a round trip) and
    the preference among references.
  \<^item> \<open>Poll_Heap\<close>: Go's \<open>container/heap\<close> on the scheduler's entries, with the contract of a priority
    queue as the locale \<open>priority_queue\<close>. \<open>Ref_Watcher\<close>: the watcher's operations. \<open>Ref_Steps\<close>: the
    step relation in which reconciles, dispatches and the locked sections of polls interleave,
    with its invariants by rule induction. \<open>Ref_Runtime\<close>: the goroutines of the watcher with
    program counters at the grain of their two locks, with timer, wake-up signal and shutdown. No
    registered workspace is lost between two steps, the scheduler does not oversleep, and
    \<open>Start\<close> returns; the two locks are taken in both orders, which can stop the watcher, and a
    dispatch can meet the closed channel at the end.
  \<^item> \<open>Channels\<close>: the contract of a bounded Go channel written with \<open>select\<close> and \<open>default\<close>, as the
    locale \<open>bounded_channel\<close>; it is interpreted on the work channel and the wake-up signal in
    \<open>Ref_Watcher\<close> and on the subscriptions in \<open>Broadcast\<close>. \<open>Ledger\<close>: the contract of a table of
    decisions, as the locale \<open>decision_ledger\<close>, interpreted on the run store in \<open>WS_Service\<close>.
  \<^item> \<open>Runs_Store\<close> (\<open>runs/store.go\<close>): the table of runs as the list of its rows, its SQL statements
    as functions; upserts never lose information, decisions are final, cursors enumerate the
    listing.
  \<^item> \<open>Log_Store\<close> (\<open>logstore.go\<close>): bucket, keys and objects; accepted identifiers give keys that
    stay in their place and determine the log. \<open>Run_Recorder\<close> (\<open>run_recorder.go\<close>): the controller's
    requests to the API server; with a shared token a recorded phase passes authentication,
    routes and handler and is stored.
  \<^item> \<open>Broadcast\<close> (\<open>broadcaster.go\<close>, \<open>sse.go\<close>): subscribers with bounded buffers, as a relation of
    sends, receives and cancellations, and the stream of one connection. \<open>Resource_API\<close>
    (\<open>project_service.go\<close>, \<open>rollout_service.go\<close>, \<open>variableset_service.go\<close> and their handlers): what
    informers announce and what is listed.
  \<^item> \<open>WS_Service\<close> (\<open>workspace_service.go\<close>): patches, runs, decisions and logs; a decision is recorded
    before it is signalled, so a run is never both approved and rejected. \<open>Http\<close> and \<open>WS_Handler\<close>
    (\<open>responses.go\<close>, \<open>workspace_handler.go\<close>): the handlers with their status codes. A request to
    decide that is answered with 200 is recorded and signalled; a request to patch can signal a
    decision that is not recorded.
  \<^item> \<open>Auth_Session\<close> (\<open>config.go\<close>, \<open>session.go\<close>, \<open>identity.go\<close>) and \<open>Auth_Manager\<close> (\<open>manager.go\<close>,
    \<open>oidc.go\<close>): configuration, cookies, middleware, logins. \<open>Auth_Safety\<close>: exactly which requests
    pass, that sessions identify their owner for their time to live, that the callback of the
    identity provider opens sessions only for verified tokens. \<open>Api_Server\<close> (\<open>server.go\<close>): the
    table of routes with the precedence of Go's mux and the order of the middlewares; no route
    is left open.
  \<^item> \<open>Terraform_Client\<close> (\<open>client.go\<close>, \<open>options.go\<close>, \<open>installer.go\<close>) and \<open>Job_Runner\<close>
    (\<open>src/cmd/job/main.go\<close>): the program of a job pod. \<open>Job_Safety\<close>: an apply uses the saved plan of
    its run and removes it. \<open>Job_Policy\<close>: the policy gate, and that the controller reads the verdict
    the job printed. \<open>Job_Start\<close>: the job accepts the environment that \<open>WS_Job\<close> constructs.
  \<^item> \<open>Api_Boot\<close> (the opening of \<open>runs/store.go\<close>, the construction in \<open>server.go\<close>,
    \<open>src/api/cmd/api/main.go\<close>) and \<open>Manager_Boot\<close> (\<open>SetupWithManager\<close> of the controllers,
    \<open>src/cmd/main.go\<close>): the two servers start only when complete, and the watches wake the
    reconciles that a change concerns.

  \<^bold>\<open>Termination and bounds.\<close> Recursions are structural or have a measure: the catch-up of the
  schedule by the distance to the present, sifting in the heap by the index, draining the heap
  by its length. The retry on conflict takes as many attempts as the library's field
  \<open>retrySteps\<close> says. Following the cursors of a listing uses fuel, one more than the number of
  rows, and is proved to need no more. The log is capped at \<open>maxLogBytes\<close>. Waiting for the pod of
  a run has fuel because the code waits until the pod starts, the run ends or the client leaves;
  running out of fuel is the value \<open>None\<close>. An apply pod looks for its plan file ten times, the
  bound of the code. A subscriber's buffer holds 64 events.

  \<^bold>\<open>Not modelled.\<close> The generated code (deep copies, clients, informers, listers), the registration
  of the types with the scheme and of the metrics with the registry, and the log output of the
  servers. The database, HTTP and TLS, S3, bcrypt, token signatures, the identity provider, git,
  terraform, kyverno, the parsing of flags and the controller runtime are parameters of the
  environments.
\<close>

section \<open>From the reviewer to the apply Job\<close>

text \<open>
  The behaviour of a merge patch of annotations: the object the server answers with has the
  annotations of the patch.
\<close>

definition patchMerges :: "svc \<Rightarrow> bool" where
  "patchMerges V \<longleftrightarrow> (\<forall>h ns name p ws. distinct (map fst p) \<longrightarrow> sv_patch V h ns name p = Inr ws \<longrightarrow>
     (\<forall>(k, v) \<in> set p. ws_annots ws k = v))"


definition decidedWorkspace :: "annot_patch \<Rightarrow> workspace" where
  "decidedWorkspace p = set_annots (\<lambda>k. case map_of p k of Some v \<Rightarrow> v | None \<Rightarrow> ws_annots parkedWorkspace k) parkedWorkspace"

definition mergingSvc :: svc where
  "mergingSvc = sampleSvc\<lparr>sv_patch := (\<lambda>h ns n p. Inr (decidedWorkspace p))\<rparr>"

lemma mergingSvc_laws: "patchMerges mergingSvc" "dbLaws (sv_db mergingSvc)"
  using sampleSvc_laws(1)
  by (auto simp: patchMerges_def mergingSvc_def decidedWorkspace_def set_annots_def map_of_eq_Some_iff split: option.split)

lemma mergingSvc_answers:
  "fst (result_of (HandleDecide mergingSvc sampleWeb sampleTable (sampleHTTP ''r1'') True) [])
     = writeJSON 200 (decidedWorkspace [(ApprovalDecisionAnnotation, Some ApprovalDecisionApproved)])"
proof -
  have a: "approvable ''default'' ''ws'' ''r1'' sampleTable = 1"
    by (simp add: approvable_def sampleTable_def sampleRunRow_def rowKey_def)
  have "wp (HandleDecide mergingSvc sampleWeb sampleTable (sampleHTTP ''r1'') True)
      (\<lambda>x h'. fst x = writeJSON 200 (decidedWorkspace [(ApprovalDecisionAnnotation, Some ApprovalDecisionApproved)])) []"
    using parked_pending sample_requestReason
    by (simp add: HandleDecide_def Approve_def decide_def recordAndSignal_def ServiceGet_def ServicePatch_def wp_simps Let_def
      trimSpace_def isSpace_def approvalReasonMaxLen_def RecordApproval_def a decisionResponse_def sampleHTTP_def mergingSvc_def)
  then show ?thesis by (simp add: wp_result)
qed


end
